(* ===== verification/Prelude.thy ===== *)
theory Prelude
  imports Main "HOL-Library.Word" "HOL-Library.Sublist"
begin

text \<open>
  Shared vocabulary of the development.

  \<^item> C++ bytes and the characters of a \<^verbatim>\<open>std::string\<close> are both \<open>char\<close>, so a buffer, a wire
    message and a string are all \<open>string\<close>. Fixed-width integers are words.
  \<^item> Numbers are printed as \<^verbatim>\<open>printf\<close> does (\<open>show_nat\<close> for \<^verbatim>\<open>%u\<close>, \<open>show_int\<close> for \<^verbatim>\<open>%d\<close>,
    \<open>show_hex\<close> for \<^verbatim>\<open>%x\<close>, \<open>pad_left\<close> for a width with a fill character).
  \<^item> \<open>prog\<close> is the type of imperative code: a function from the state to an outcome and the new
    state. The outcomes are a value, process exit (\<^verbatim>\<open>_exit\<close>), an abort (\<^verbatim>\<open>LOG(FATAL)\<close>, \<^verbatim>\<open>CHECK\<close>) and
    the end of the fuel of an unbounded loop.
  \<^item> \<open>keeps R m\<close> says that program \<open>m\<close> relates its initial and its final state by \<open>R\<close>,
    whatever its outcome; \<open>returns P m Q\<close> is a Hoare triple for normal returns. Their rules are
    collected in \<open>keeps_intros\<close> and \<open>returns_intros\<close>.
\<close>

type_synonym u8 = "8 word"
type_synonym u16 = "16 word"
type_synonym u32 = "32 word"
type_synonym u64 = "64 word"
type_synonym i32 = "32 word"

named_theorems keeps_intros \<open>two-state frame rules of programs\<close>
named_theorems returns_intros \<open>Hoare rules for normal returns\<close>
named_theorems yields_intros \<open>rules for facts about every normal return\<close>

section \<open>Bytes\<close>

text \<open>Little-endian memory image of a number on \<open>k\<close> bytes.\<close>

fun le_bytes :: "nat \<Rightarrow> nat \<Rightarrow> string" where
  "le_bytes 0 v = []"
| "le_bytes (Suc k) v = char_of (v mod 256) # le_bytes k (v div 256)"

fun le_nat :: "string \<Rightarrow> nat" where
  "le_nat [] = 0"
| "le_nat (c # cs) = of_char c + 256 * le_nat cs"

lemma length_le_bytes [simp]: "length (le_bytes k v) = k"
  by (induction k arbitrary: v) auto

lemma le_nat_le_bytes: "le_nat (le_bytes k v) = v mod 256 ^ k"
proof (induction k arbitrary: v)
  case 0
  then show ?case by simp
next
  case (Suc k)
  have "v mod (256 * 256 ^ k) = 256 * (v div 256 mod 256 ^ k) + v mod 256"
    by (rule mod_mult2_eq)
  with Suc show ?case by simp
qed

lemma le_nat_less: "le_nat s < 256 ^ length s"
proof (induction s)
  case Nil
  then show ?case by simp
next
  case (Cons c s)
  obtain d :: nat where d: "of_char c = d" "d < 256" by simp
  obtain p :: nat where p: "256 ^ length s = p" by simp
  with Cons have "le_nat s < p" by simp
  with d(2) have "d + 256 * le_nat s < 256 * p" by linarith
  with d(1) p show ?case by simp
qed

lemma le_bytes_le_nat: "le_bytes (length s) (le_nat s) = s"
proof (induction s)
  case Nil
  then show ?case by simp
next
  case (Cons c s)
  have c: "of_char c < (256::nat)" by (rule nat_of_char_less_256)
  then have "(of_char c + 256 * le_nat s) div 256 = le_nat s" by simp
  moreover have "(of_char c + 256 * le_nat s) mod 256 = (of_char c :: nat)"
    using c by simp
  ultimately show ?case using Cons by simp
qed

definition put32 :: "u32 \<Rightarrow> string" where
  "put32 w = le_bytes 4 (unat w)"

definition get32 :: "string \<Rightarrow> u32" where
  "get32 s = word_of_nat (le_nat (take 4 s))"

definition put64 :: "u64 \<Rightarrow> string" where
  "put64 w = le_bytes 8 (unat w)"

definition get64 :: "string \<Rightarrow> u64" where
  "get64 s = word_of_nat (le_nat (take 8 s))"

lemma length_put32 [simp]: "length (put32 w) = 4"
  by (simp add: put32_def)

lemma length_put64 [simp]: "length (put64 w) = 8"
  by (simp add: put64_def)

lemma get32_put32 [simp]: "get32 (put32 w @ s) = w"
proof -
  have "unat w < 2 ^ LENGTH(32)" by (rule unsigned_less)
  then have "unat w mod 256 ^ 4 = unat w" by simp
  then show ?thesis by (simp add: get32_def put32_def le_nat_le_bytes)
qed

lemma get64_put64 [simp]: "get64 (put64 w @ s) = w"
proof -
  have "unat w < 2 ^ LENGTH(64)" by (rule unsigned_less)
  then have "unat w mod 256 ^ 8 = unat w" by simp
  then show ?thesis by (simp add: get64_def put64_def le_nat_le_bytes)
qed

lemma get32_put32_nil [simp]: "get32 (put32 w) = w"
  using get32_put32 [of w "[]"] by simp

section \<open>Printing\<close>

definition hex_digit :: "nat \<Rightarrow> char" where
  "hex_digit d = (if d < 10 then char_of (48 + d) else char_of (87 + d))"

fun show_base :: "nat \<Rightarrow> nat \<Rightarrow> string" where
  "show_base b n =
     (if b < 2 \<or> n < b then [hex_digit n] else show_base b (n div b) @ [hex_digit (n mod b)])"

declare show_base.simps [simp del]

definition show_nat :: "nat \<Rightarrow> string" where
  "show_nat = show_base 10"

definition show_hex :: "nat \<Rightarrow> string" where
  "show_hex = show_base 16"

definition show_oct :: "nat \<Rightarrow> string" where
  "show_oct = show_base 8"

definition show_int :: "int \<Rightarrow> string" where
  "show_int i = (if i < 0 then CHR ''-'' # show_nat (nat (- i)) else show_nat (nat i))"

definition pad_left :: "nat \<Rightarrow> char \<Rightarrow> string \<Rightarrow> string" where
  "pad_left k c s = replicate (k - length s) c @ s"

definition pad_right :: "nat \<Rightarrow> char \<Rightarrow> string \<Rightarrow> string" where
  "pad_right k c s = s @ replicate (k - length s) c"

text \<open>A string in single quotes, as the message formats write it (\<^verbatim>\<open>'%s'\<close>).\<close>

definition quoted :: "string \<Rightarrow> string" where
  "quoted s = CHR 0x27 # s @ [CHR 0x27]"

lemma show_base_ne: "show_base b n \<noteq> []"
  by (subst show_base.simps) simp

definition dec_value :: "string \<Rightarrow> nat" where
  "dec_value s = foldl (\<lambda>v c. 10 * v + (of_char c - 48)) 0 s"

lemma dec_value_snoc: "dec_value (s @ [c]) = 10 * dec_value s + (of_char c - 48)"
  by (simp add: dec_value_def)

lemma of_char_digit: "d < 10 \<Longrightarrow> (of_char (hex_digit d) :: nat) = 48 + d"
  by (simp add: hex_digit_def)

lemma dec_value_show_nat: "dec_value (show_nat n) = n"
proof (induction n rule: less_induct)
  case (less n)
  show ?case
  proof (cases "n < 10")
    case True
    then show ?thesis
      by (simp add: show_nat_def show_base.simps [of 10 n] dec_value_def of_char_digit)
  next
    case False
    then have "n div 10 < n" by simp
    with less have "dec_value (show_base 10 (n div 10)) = n div 10"
      by (simp add: show_nat_def)
    with False show ?thesis
      by (simp add: show_nat_def show_base.simps [of 10 n] dec_value_snoc of_char_digit)
  qed
qed

lemma show_nat_inj: "show_nat m = show_nat n \<longleftrightarrow> m = n"
  by (metis dec_value_show_nat)

section \<open>Imperative programs\<close>

datatype 'a res = Ok 'a | Exit nat | Abort string | OutOfFuel

type_synonym ('s, 'a) prog = "'s \<Rightarrow> 'a res \<times> 's"

definition ret :: "'a \<Rightarrow> ('s, 'a) prog" where
  "ret a s = (Ok a, s)"

definition bindp :: "('s, 'a) prog \<Rightarrow> ('a \<Rightarrow> ('s, 'b) prog) \<Rightarrow> ('s, 'b) prog" where
  "bindp m f s =
     (case m s of
        (Ok a, s') \<Rightarrow> f a s'
      | (Exit c, s') \<Rightarrow> (Exit c, s')
      | (Abort e, s') \<Rightarrow> (Abort e, s')
      | (OutOfFuel, s') \<Rightarrow> (OutOfFuel, s'))"

text \<open>\<open>thenp\<close> sequences two programs and drops the first value (a C++ expression statement).\<close>

definition thenp :: "('s, 'a) prog \<Rightarrow> ('s, 'b) prog \<Rightarrow> ('s, 'b) prog" where
  "thenp m n = bindp m (\<lambda>_. n)"

definition getp :: "('s \<Rightarrow> 'a) \<Rightarrow> ('s, 'a) prog" where
  "getp f s = (Ok (f s), s)"

definition modp :: "('s \<Rightarrow> 's) \<Rightarrow> ('s, unit) prog" where
  "modp f s = (Ok (), f s)"

definition exitp :: "nat \<Rightarrow> ('s, 'a) prog" where
  "exitp c s = (Exit c, s)"

definition abortp :: "string \<Rightarrow> ('s, 'a) prog" where
  "abortp e s = (Abort e, s)"

definition nofuel :: "('s, 'a) prog" where
  "nofuel s = (OutOfFuel, s)"

text \<open>
  A \<^verbatim>\<open>for\<close> loop over a container. The body returns \<open>None\<close> to go on and \<open>Some r\<close> for a
  \<^verbatim>\<open>return r\<close> out of the enclosing function.
\<close>

fun for_each :: "'a list \<Rightarrow> ('a \<Rightarrow> ('s, 'r option) prog) \<Rightarrow> ('s, 'r option) prog" where
  "for_each [] body = ret None"
| "for_each (x # xs) body =
     bindp (body x) (\<lambda>r. case r of None \<Rightarrow> for_each xs body | Some v \<Rightarrow> ret (Some v))"

text \<open>
  A loop that updates local variables (\<open>acc\<close>): \<open>fold_prog\<close> runs to the end of the container,
  \<open>fold_while\<close> stops at the first body that returns false.
\<close>

fun fold_prog :: "('a \<Rightarrow> 'b \<Rightarrow> ('s, 'b) prog) \<Rightarrow> 'a list \<Rightarrow> 'b \<Rightarrow> ('s, 'b) prog" where
  "fold_prog f [] acc = ret acc"
| "fold_prog f (x # xs) acc = bindp (f x acc) (fold_prog f xs)"

fun fold_while ::
    "('a \<Rightarrow> 'b \<Rightarrow> ('s, bool \<times> 'b) prog) \<Rightarrow> 'a list \<Rightarrow> 'b \<Rightarrow> ('s, bool \<times> 'b) prog" where
  "fold_while f [] acc = ret (True, acc)"
| "fold_while f (x # xs) acc =
     bindp (f x acc) (\<lambda>(ok, acc'). if ok then fold_while f xs acc' else ret (False, acc'))"

lemmas prog_defs = ret_def bindp_def thenp_def getp_def modp_def exitp_def abortp_def nofuel_def

lemma bindp_ret [simp]: "bindp (ret a) f = f a"
  by (rule ext) (simp add: prog_defs)

lemma bindp_assoc: "bindp (bindp m f) g = bindp m (\<lambda>a. bindp (f a) g)"
  by (rule ext) (auto simp: bindp_def split: prod.splits res.splits)

lemma fold_prog_append: "fold_prog f (xs @ ys) acc = bindp (fold_prog f xs acc) (fold_prog f ys)"
proof (induction xs arbitrary: acc)
  case (Cons x xs)
  have "fold_prog f (xs @ ys) = (\<lambda>a. bindp (fold_prog f xs a) (fold_prog f ys))"
    by (rule ext) (rule Cons)
  then show ?case by (simp add: bindp_assoc)
qed simp

lemma bindp_Ok: "m s = (Ok a, s') \<Longrightarrow> bindp m f s = f a s'"
  by (simp add: bindp_def)

lemma thenp_Ok: "m s = (Ok a, s') \<Longrightarrow> thenp m n s = n s'"
  by (simp add: thenp_def bindp_def)

lemma bindp_Ok_iff:
  "bindp m f s = (Ok b, s'') \<longleftrightarrow> (\<exists>a s'. m s = (Ok a, s') \<and> f a s' = (Ok b, s''))"
  by (auto simp: bindp_def split: prod.splits res.splits)

lemma thenp_Ok_iff:
  "thenp m n s = (Ok b, s'') \<longleftrightarrow> (\<exists>a s'. m s = (Ok a, s') \<and> n s' = (Ok b, s''))"
  by (simp add: thenp_def bindp_Ok_iff)

lemma getp_bind [simp]: "bindp (getp f) g s = g (f s) s"
  by (simp add: prog_defs)

lemma modp_then [simp]: "thenp (modp f) n s = n (f s)"
  by (simp add: prog_defs)

lemma ret_Ok_iff [simp]: "ret a s = (Ok b, s') \<longleftrightarrow> b = a \<and> s' = s"
  by (auto simp: ret_def)

lemma modp_Ok_iff [simp]: "modp f s = (Ok u, s') \<longleftrightarrow> s' = f s"
  by (auto simp: modp_def)

lemma exitp_not_Ok [simp]: "exitp c s \<noteq> (Ok a, s')"
  by (simp add: exitp_def)

lemma abortp_not_Ok [simp]: "abortp c s \<noteq> (Ok a, s')"
  by (simp add: abortp_def)

lemma nofuel_not_Ok [simp]: "nofuel s \<noteq> (Ok a, s')"
  by (simp add: nofuel_def)

subsection \<open>Two-state frame properties\<close>

definition keeps :: "('s \<Rightarrow> 's \<Rightarrow> bool) \<Rightarrow> ('s, 'a) prog \<Rightarrow> bool" where
  "keeps R m \<longleftrightarrow> (\<forall>s. R s (snd (m s)))"

definition preorder_on_states :: "('s \<Rightarrow> 's \<Rightarrow> bool) \<Rightarrow> bool" where
  "preorder_on_states R \<longleftrightarrow> (\<forall>s. R s s) \<and> (\<forall>s t u. R s t \<longrightarrow> R t u \<longrightarrow> R s u)"

lemma keepsD: "keeps R m \<Longrightarrow> m s = (r, s') \<Longrightarrow> R s s'"
  by (auto simp: keeps_def dest: spec [of _ s])

lemma keeps_pure [keeps_intros]:
  assumes "preorder_on_states R"
  shows "keeps R (ret a)" "keeps R (getp f)" "keeps R (exitp c)" "keeps R (abortp e)"
    "keeps R nofuel"
  using assms by (auto simp: keeps_def preorder_on_states_def prog_defs)

lemma keeps_modp: "(\<And>s. R s (f s)) \<Longrightarrow> keeps R (modp f)"
  by (simp add: keeps_def modp_def)

lemma keeps_bindp [keeps_intros]:
  assumes "preorder_on_states R" "keeps R m" "\<And>a. keeps R (f a)"
  shows "keeps R (bindp m f)"
  unfolding keeps_def
proof
  fix s
  obtain r s' where m: "m s = (r, s')" by (cases "m s")
  with assms(2) have 1: "R s s'" by (rule keepsD)
  show "R s (snd (bindp m f s))"
  proof (cases r)
    case (Ok a)
    have "R s' (snd (f a s'))" using assms(3) by (auto simp: keeps_def)
    with 1 Ok m assms(1) show ?thesis
      by (auto simp: bindp_def preorder_on_states_def)
  qed (use 1 m in \<open>simp_all add: bindp_def\<close>)
qed

lemma keeps_thenp [keeps_intros]:
  "preorder_on_states R \<Longrightarrow> keeps R m \<Longrightarrow> keeps R n \<Longrightarrow> keeps R (thenp m n)"
  by (simp add: thenp_def keeps_bindp)

lemma keeps_if [keeps_intros]:
  "(b \<Longrightarrow> keeps R m) \<Longrightarrow> (\<not> b \<Longrightarrow> keeps R n) \<Longrightarrow> keeps R (if b then m else n)"
  by simp

lemma keeps_case_option [keeps_intros]:
  "(x = None \<Longrightarrow> keeps R m) \<Longrightarrow> (\<And>a. x = Some a \<Longrightarrow> keeps R (f a)) \<Longrightarrow>
   keeps R (case x of None \<Rightarrow> m | Some a \<Rightarrow> f a)"
  by (cases x) auto

lemma keeps_case_sum [keeps_intros]:
  "(\<And>e. x = Inl e \<Longrightarrow> keeps R (g e)) \<Longrightarrow> (\<And>a. x = Inr a \<Longrightarrow> keeps R (f a)) \<Longrightarrow>
   keeps R (case x of Inl e \<Rightarrow> g e | Inr a \<Rightarrow> f a)"
  by (cases x) auto

lemma keeps_case_prod [keeps_intros]:
  "(\<And>a b. x = (a, b) \<Longrightarrow> keeps R (f a b)) \<Longrightarrow> keeps R (case x of (a, b) \<Rightarrow> f a b)"
  by (cases x) auto

lemma keeps_case_list [keeps_intros]:
  "(x = [] \<Longrightarrow> keeps R m) \<Longrightarrow> (\<And>a b. x = a # b \<Longrightarrow> keeps R (f a b)) \<Longrightarrow>
   keeps R (case x of [] \<Rightarrow> m | a # b \<Rightarrow> f a b)"
  by (cases x) auto

lemma keeps_Let [keeps_intros]: "keeps R (f a) \<Longrightarrow> keeps R (Let a f)"
  by simp

lemma keeps_for_each [keeps_intros]:
  assumes "preorder_on_states R" "\<And>x. x \<in> set xs \<Longrightarrow> keeps R (body x)"
  shows "keeps R (for_each xs body)"
  using assms(2)
proof (induction xs)
  case Nil
  show ?case using assms(1) by (simp add: keeps_intros)
next
  case (Cons x xs)
  then show ?case using assms(1) by (auto intro!: keeps_intros)
qed

lemma keeps_fold_prog [keeps_intros]:
  assumes "preorder_on_states R" "\<And>x acc. x \<in> set xs \<Longrightarrow> keeps R (f x acc)"
  shows "keeps R (fold_prog f xs acc)"
  using assms(2)
proof (induction xs arbitrary: acc)
  case Nil
  show ?case using assms(1) by (simp add: keeps_intros)
next
  case (Cons x xs)
  then show ?case using assms(1) by (auto intro!: keeps_intros)
qed

lemma keeps_fold_while [keeps_intros]:
  assumes "preorder_on_states R" "\<And>x acc. x \<in> set xs \<Longrightarrow> keeps R (f x acc)"
  shows "keeps R (fold_while f xs acc)"
  using assms(2)
proof (induction xs arbitrary: acc)
  case Nil
  show ?case using assms(1) by (simp add: keeps_intros)
next
  case (Cons x xs)
  then show ?case using assms(1) by (auto intro!: keeps_intros)
qed

text \<open>Preservation of an invariant is a special case.\<close>

definition inv_rel :: "('s \<Rightarrow> bool) \<Rightarrow> 's \<Rightarrow> 's \<Rightarrow> bool" where
  "inv_rel I s s' \<longleftrightarrow> (I s \<longrightarrow> I s')"

lemma inv_rel_preorder [simp]: "preorder_on_states (inv_rel I)"
  by (simp add: preorder_on_states_def inv_rel_def)

subsection \<open>Hoare triples for normal returns\<close>

definition returns ::
    "('s \<Rightarrow> bool) \<Rightarrow> ('s, 'a) prog \<Rightarrow> ('a \<Rightarrow> 's \<Rightarrow> bool) \<Rightarrow> bool" where
  "returns P m Q \<longleftrightarrow> (\<forall>s a s'. P s \<longrightarrow> m s = (Ok a, s') \<longrightarrow> Q a s')"

lemma returnsI: "(\<And>s a s'. P s \<Longrightarrow> m s = (Ok a, s') \<Longrightarrow> Q a s') \<Longrightarrow> returns P m Q"
  by (auto simp: returns_def)

lemma returnsD: "returns P m Q \<Longrightarrow> P s \<Longrightarrow> m s = (Ok a, s') \<Longrightarrow> Q a s'"
  by (auto simp: returns_def)

lemma returns_pre: "returns P' m Q \<Longrightarrow> (\<And>s. P s \<Longrightarrow> P' s) \<Longrightarrow> returns P m Q"
  by (auto simp: returns_def)

lemma returns_post: "returns P m Q' \<Longrightarrow> (\<And>a s. Q' a s \<Longrightarrow> Q a s) \<Longrightarrow> returns P m Q"
  by (auto simp: returns_def)

lemma returns_bindp [returns_intros]:
  "returns P m Q' \<Longrightarrow> (\<And>a. returns (Q' a) (f a) Q) \<Longrightarrow> returns P (bindp m f) Q"
  by (auto simp: returns_def bindp_Ok_iff)

lemma returns_thenp [returns_intros]:
  "returns P m (\<lambda>_. Q') \<Longrightarrow> returns Q' n Q \<Longrightarrow> returns P (thenp m n) Q"
  by (auto simp: returns_def thenp_Ok_iff)

lemma returns_ret [returns_intros]: "(\<And>s. P s \<Longrightarrow> Q a s) \<Longrightarrow> returns P (ret a) Q"
  by (auto simp: returns_def)

lemma returns_if [returns_intros]:
  "(b \<Longrightarrow> returns P m Q) \<Longrightarrow> (\<not> b \<Longrightarrow> returns P n Q) \<Longrightarrow> returns P (if b then m else n) Q"
  by simp

lemma returns_stop [returns_intros]:
  "returns P (exitp c) Q" "returns P (abortp e) Q" "returns P nofuel Q"
  by (auto simp: returns_def)

lemma returns_getp: "returns P (getp f) (\<lambda>a s. P s \<and> a = f s)"
  by (auto simp: returns_def getp_def)

lemma returns_getp_bind [returns_intros]:
  "(\<And>a. returns (\<lambda>s. P s \<and> f s = a) (g a) Q) \<Longrightarrow> returns P (bindp (getp f) g) Q"
  by (auto simp: returns_def)

lemma returns_modp_then [returns_intros]:
  "returns (\<lambda>s. \<exists>t. P t \<and> s = f t) m Q \<Longrightarrow> returns P (thenp (modp f) m) Q"
  by (auto simp: returns_def)

lemma returns_case_prod [returns_intros]:
  "(\<And>a b. x = (a, b) \<Longrightarrow> returns P (f a b) Q) \<Longrightarrow> returns P (case x of (a, b) \<Rightarrow> f a b) Q"
  by (cases x) auto

lemma returns_case_option [returns_intros]:
  "(x = None \<Longrightarrow> returns P m Q) \<Longrightarrow> (\<And>a. x = Some a \<Longrightarrow> returns P (f a) Q) \<Longrightarrow>
   returns P (case x of None \<Rightarrow> m | Some a \<Rightarrow> f a) Q"
  by (cases x) auto

text \<open>\<open>yields m Q\<close>: whatever the state, a normal return of \<open>m\<close> satisfies \<open>Q\<close>.\<close>

definition yields :: "('s, 'a) prog \<Rightarrow> ('a \<Rightarrow> 's \<Rightarrow> bool) \<Rightarrow> bool" where
  "yields m Q \<longleftrightarrow> (\<forall>s a s'. m s = (Ok a, s') \<longrightarrow> Q a s')"

lemma yieldsD: "yields m Q \<Longrightarrow> m s = (Ok a, s') \<Longrightarrow> Q a s'"
  by (auto simp: yields_def)

lemma yields_bindp [yields_intros]: "(\<And>a. yields (f a) Q) \<Longrightarrow> yields (bindp m f) Q"
  by (auto simp: yields_def bindp_Ok_iff)

lemma yields_thenp [yields_intros]: "yields n Q \<Longrightarrow> yields (thenp m n) Q"
  by (auto simp: yields_def thenp_Ok_iff)

lemma yields_bindp_post:
  "yields m P \<Longrightarrow> (\<And>a s b s'. P a s \<Longrightarrow> f a s = (Ok b, s') \<Longrightarrow> Q b s') \<Longrightarrow> yields (bindp m f) Q"
  by (fastforce simp: yields_def bindp_Ok_iff)

lemma yields_stop [yields_intros]:
  "yields (exitp c) Q" "yields (abortp e) Q" "yields nofuel Q"
  by (auto simp: yields_def)

lemma yields_ret [yields_intros]: "(\<And>s. Q a s) \<Longrightarrow> yields (ret a) Q"
  by (auto simp: yields_def)

lemma yields_if [yields_intros]:
  "(b \<Longrightarrow> yields m Q) \<Longrightarrow> (\<not> b \<Longrightarrow> yields n Q) \<Longrightarrow> yields (if b then m else n) Q"
  by simp

lemma yields_case_option [yields_intros]:
  "(x = None \<Longrightarrow> yields m Q) \<Longrightarrow> (\<And>a. x = Some a \<Longrightarrow> yields (f a) Q) \<Longrightarrow>
   yields (case x of None \<Rightarrow> m | Some a \<Rightarrow> f a) Q"
  by (cases x) auto

lemma yields_case_prod [yields_intros]:
  "(\<And>a b. x = (a, b) \<Longrightarrow> yields (f a b) Q) \<Longrightarrow> yields (case x of (a, b) \<Rightarrow> f a b) Q"
  by (cases x) auto

lemma yields_Let [yields_intros]: "yields (f a) Q \<Longrightarrow> yields (Let a f) Q"
  by simp

lemma yields_bindp_value:
  "yields m (\<lambda>a _. I a) \<Longrightarrow> (\<And>a. I a \<Longrightarrow> yields (f a) Q) \<Longrightarrow> yields (bindp m f) Q"
  by (fastforce simp: yields_def bindp_Ok_iff)

text \<open>Invariants of the accumulator of a loop.\<close>

lemma yields_fold_prog:
  assumes "\<And>x a. x \<in> set xs \<Longrightarrow> I a \<Longrightarrow> yields (f x a) (\<lambda>b _. I b)" "I acc"
  shows "yields (fold_prog f xs acc) (\<lambda>b _. I b)"
  using assms
proof (induction xs arbitrary: acc)
  case Nil
  then show ?case by (auto intro: yields_ret)
next
  case (Cons x xs)
  show ?case unfolding fold_prog.simps
    by (rule yields_bindp_value [where I = I]) (use Cons in auto)
qed

lemma yields_fold_while:
  assumes "\<And>x a. x \<in> set xs \<Longrightarrow> I a \<Longrightarrow> yields (f x a) (\<lambda>(ok, b) _. I b)" "I acc"
  shows "yields (fold_while f xs acc) (\<lambda>(ok, b) _. I b)"
  using assms
proof (induction xs arbitrary: acc)
  case Nil
  then show ?case by (auto intro: yields_ret)
next
  case (Cons x xs)
  have one: "yields (f x acc) (\<lambda>p _. I (snd p))" using Cons.prems by (auto simp: case_prod_unfold)
  show ?case unfolding fold_while.simps
    by (rule yields_bindp_value [OF one])
       (use Cons in \<open>auto intro!: yields_case_prod yields_if yields_ret\<close>)
qed

subsection \<open>Total correctness\<close>

text \<open>\<open>runs m s Q\<close>: from \<open>s\<close>, program \<open>m\<close> returns normally, with \<open>Q\<close>.\<close>

definition runs :: "('s, 'a) prog \<Rightarrow> 's \<Rightarrow> ('a \<Rightarrow> 's \<Rightarrow> bool) \<Rightarrow> bool" where
  "runs m s Q \<longleftrightarrow> (\<exists>a s'. m s = (Ok a, s') \<and> Q a s')"

named_theorems runs_simps

lemma runs_bindp [runs_simps]: "runs (bindp m f) s Q \<longleftrightarrow> runs m s (\<lambda>a t. runs (f a) t Q)"
  by (auto simp: runs_def bindp_Ok_iff)

lemma runs_thenp [runs_simps]: "runs (thenp m n) s Q \<longleftrightarrow> runs m s (\<lambda>_ t. runs n t Q)"
  by (auto simp: runs_def thenp_Ok_iff)

lemma runs_pure [runs_simps]:
  "runs (ret a) s Q \<longleftrightarrow> Q a s" "runs (getp f) s R \<longleftrightarrow> R (f s) s"
  "runs (modp g) s T \<longleftrightarrow> T () (g s)"
  by (auto simp: runs_def getp_def)

lemma runs_mono: "runs m s Q \<Longrightarrow> (\<And>a t. Q a t \<Longrightarrow> Q' a t) \<Longrightarrow> runs m s Q'"
  by (auto simp: runs_def)

lemma runs_returns: "runs m s Q \<Longrightarrow> returns (\<lambda>t. t = s) m P \<Longrightarrow> runs m s (\<lambda>a t. Q a t \<and> P a t)"
  by (auto simp: runs_def returns_def)

end
