(* ===== verification/Libbase.thy ===== *)
theory Libbase
  imports Prelude
begin

text \<open>
  The string helpers of \<^verbatim>\<open>android-base\<close> and \<^verbatim>\<open>adb_utils\<close> the program calls. Their sources are in
  a submodule outside the repository, so they are fields of the parameter record \<open>libbase\<close>;
  what their documentation promises is stated by the predicates \<open>Split_doc\<close>, \<open>Join_doc\<close>,
  \<open>Prefix_doc\<close>, \<open>Suffix_doc\<close>, \<open>Path_doc\<close> and \<open>ParseUint_doc\<close>, which theorems name as hypotheses
  when they rest on them. \<open>libbase_ref\<close> is a concrete instance that satisfies all of them.
\<close>

record libbase =
  Split :: "string \<Rightarrow> string \<Rightarrow> string list"
  Join :: "string list \<Rightarrow> string \<Rightarrow> string"
  Trim :: "string \<Rightarrow> string"
  Basename :: "string \<Rightarrow> string"
  Dirname :: "string \<Rightarrow> string"
  StartsWith :: "string \<Rightarrow> string \<Rightarrow> bool"
  EndsWithIgnoreCase :: "string \<Rightarrow> string \<Rightarrow> bool"
  ConsumePrefix :: "string \<Rightarrow> string \<Rightarrow> string option"
  ParseUint :: "string \<Rightarrow> nat option"
  escape_arg :: "string \<Rightarrow> string"

section \<open>Splitting and joining\<close>

fun split_on :: "char \<Rightarrow> string \<Rightarrow> string list" where
  "split_on c [] = [[]]"
| "split_on c (x # xs) =
     (if x = c then [] # split_on c xs
      else case split_on c xs of [] \<Rightarrow> [[x]] | y # ys \<Rightarrow> (x # y) # ys)"

fun join_with :: "string \<Rightarrow> string list \<Rightarrow> string" where
  "join_with d [] = []"
| "join_with d [x] = x"
| "join_with d (x # y # ys) = x @ d @ join_with d (y # ys)"

lemma split_on_ne [simp]: "split_on c s \<noteq> []"
  by (induction s) (auto split: list.splits)

lemma split_on_noc: "c \<notin> set s \<Longrightarrow> split_on c s = [s]"
  by (induction s) auto

lemma split_on_append: "c \<notin> set s \<Longrightarrow> split_on c (s @ c # t) = s # split_on c t"
  by (induction s) auto

lemma split_on_elems: "x \<in> set (split_on c s) \<Longrightarrow> c \<notin> set x"
  by (induction s arbitrary: x) (auto split: list.splits if_splits)

lemma split_on_chars: "x \<in> set (split_on c s) \<Longrightarrow> set x \<subseteq> set s"
proof (induction s arbitrary: x)
  case Nil
  then show ?case by simp
next
  case (Cons a s)
  show ?case
  proof (cases "a = c")
    case True
    with Cons show ?thesis by (auto dest: Cons.IH)
  next
    case False
    obtain y ys where y: "split_on c s = y # ys" by (cases "split_on c s") auto
    with Cons.prems False have "x = a # y \<or> x \<in> set ys" by auto
    moreover have "set y \<subseteq> set s" using Cons.IH [of y] y by simp
    moreover have "x \<in> set ys \<Longrightarrow> set x \<subseteq> set s" using Cons.IH [of x] y by simp
    ultimately show ?thesis by auto
  qed
qed

lemma split_on_join:
  assumes "xs \<noteq> []" "\<forall>x \<in> set xs. c \<notin> set x"
  shows "split_on c (join_with [c] xs) = xs"
  using assms
proof (induction "[c]" xs rule: join_with.induct)
  case 1
  then show ?case by simp
next
  case (2 x)
  then show ?case by (simp add: split_on_noc)
next
  case (3 x y ys)
  then show ?case by (simp add: split_on_append)
qed

lemma join_split_on: "join_with [c] (split_on c s) = s"
proof (induction s)
  case Nil
  then show ?case by simp
next
  case (Cons a s)
  obtain y ys where y: "split_on c s = y # ys" by (cases "split_on c s") auto
  with Cons have s: "join_with [c] (y # ys) = s" by simp
  show ?case
  proof (cases "a = c")
    case True
    with y s show ?thesis by simp
  next
    case False
    with y s show ?thesis by (cases ys) auto
  qed
qed

lemma join_with_eq_Nil:
  "join_with d xs = [] \<longleftrightarrow> xs = [] \<or> xs = [[]] \<or> (d = [] \<and> (\<forall>x \<in> set xs. x = []))"
  by (induction xs rule: join_with.induct [of _ d]) auto

section \<open>Paths, as POSIX \<^verbatim>\<open>basename\<close> and \<^verbatim>\<open>dirname\<close> treat them\<close>

definition strip_slashes :: "string \<Rightarrow> string" where
  "strip_slashes s = rev (dropWhile (\<lambda>c. c = CHR ''/'') (rev s))"

definition basename_ref :: "string \<Rightarrow> string" where
  "basename_ref s =
     (if s = [] then ''.''
      else if strip_slashes s = [] then ''/''
      else rev (takeWhile (\<lambda>c. c \<noteq> CHR ''/'') (rev (strip_slashes s))))"

definition dirname_ref :: "string \<Rightarrow> string" where
  "dirname_ref s =
     (let t = strip_slashes s;
          d = rev (dropWhile (\<lambda>c. c \<noteq> CHR ''/'') (rev t))
      in if t = [] then (if s = [] then ''.'' else ''/'')
         else if d = [] then ''.''
         else if strip_slashes d = [] then ''/''
         else strip_slashes d)"

definition to_lower_ascii :: "char \<Rightarrow> char" where
  "to_lower_ascii c =
     (let n = (of_char c :: nat) in if 65 \<le> n \<and> n \<le> 90 then char_of (n + 32) else c)"

definition ends_with_ci :: "string \<Rightarrow> string \<Rightarrow> bool" where
  "ends_with_ci s e \<longleftrightarrow> suffix (map to_lower_ascii e) (map to_lower_ascii s)"

definition is_digit :: "char \<Rightarrow> bool" where
  "is_digit c \<longleftrightarrow> 48 \<le> (of_char c :: nat) \<and> (of_char c :: nat) \<le> 57"

definition parse_uint_ref :: "string \<Rightarrow> nat option" where
  "parse_uint_ref s = (if s \<noteq> [] \<and> list_all is_digit s then Some (dec_value s) else None)"

definition is_space :: "char \<Rightarrow> bool" where
  "is_space c \<longleftrightarrow> c = CHR '' '' \<or> (9 \<le> (of_char c :: nat) \<and> (of_char c :: nat) \<le> 13)"

definition trim_ref :: "string \<Rightarrow> string" where
  "trim_ref s = rev (dropWhile is_space (rev (dropWhile is_space s)))"

section \<open>The documented behaviour\<close>

definition Split_doc :: "('x) libbase_scheme \<Rightarrow> bool" where
  "Split_doc L \<longleftrightarrow> (\<forall>s c. Split L s [c] = split_on c s)"

definition Join_doc :: "('x) libbase_scheme \<Rightarrow> bool" where
  "Join_doc L \<longleftrightarrow> (\<forall>xs d. Join L xs d = join_with d xs)"

definition Prefix_doc :: "('x) libbase_scheme \<Rightarrow> bool" where
  "Prefix_doc L \<longleftrightarrow>
     (\<forall>s p. StartsWith L s p = prefix p s) \<and>
     (\<forall>s p. ConsumePrefix L s p = (if prefix p s then Some (drop (length p) s) else None))"

definition Suffix_doc :: "('x) libbase_scheme \<Rightarrow> bool" where
  "Suffix_doc L \<longleftrightarrow> (\<forall>s e. EndsWithIgnoreCase L s e = ends_with_ci s e)"

text \<open>POSIX leaves it to the C library whether the directory of a path that begins with two slashes, like
  \<open>//foo\<close>, is \<open>/\<close> or \<open>//\<close>; the code must work with both.\<close>

definition keeps_slashes :: "string \<Rightarrow> bool" where
  "keeps_slashes s \<longleftrightarrow> prefix ''//'' s \<and> dirname_ref s = ''/''"

definition Path_doc :: "('x) libbase_scheme \<Rightarrow> bool" where
  "Path_doc L \<longleftrightarrow> Basename L = basename_ref \<and>
     (\<forall>s. Dirname L s = dirname_ref s \<or> (keeps_slashes s \<and> Dirname L s = ''//''))"

definition ParseUint_doc :: "('x) libbase_scheme \<Rightarrow> bool" where
  "ParseUint_doc L \<longleftrightarrow> (\<forall>n. ParseUint L (show_nat n) = Some n) \<and> ParseUint L [] = None"

definition libbase_ref :: libbase where
  "libbase_ref =
     \<lparr>Split = (\<lambda>s d. split_on (hd (d @ ''x'')) s), Join = (\<lambda>xs d. join_with d xs),
      Trim = trim_ref, Basename = basename_ref, Dirname = dirname_ref,
      StartsWith = (\<lambda>s p. prefix p s), EndsWithIgnoreCase = ends_with_ci,
      ConsumePrefix = (\<lambda>s p. if prefix p s then Some (drop (length p) s) else None),
      ParseUint = parse_uint_ref, escape_arg = (\<lambda>s. quoted s)\<rparr>"

lemma all_digits_show_nat: "list_all is_digit (show_nat n)"
proof (induction n rule: less_induct)
  case (less n)
  have d: "d < 10 \<Longrightarrow> is_digit (hex_digit d)" for d
    by (simp add: is_digit_def of_char_digit)
  show ?case
  proof (cases "n < 10")
    case True
    with d show ?thesis by (simp add: show_nat_def show_base.simps [of 10 n])
  next
    case False
    then have "list_all is_digit (show_nat (n div 10))" by (intro less) simp
    with False d [of "n mod 10"] show ?thesis
      by (simp add: show_nat_def show_base.simps [of 10 n])
  qed
qed

lemma parse_uint_ref_show_nat: "parse_uint_ref (show_nat n) = Some n"
  by (simp add: parse_uint_ref_def all_digits_show_nat dec_value_show_nat)
     (simp add: show_nat_def show_base_ne)

lemma parse_uint_ref_nil: "parse_uint_ref [] = None"
  by (simp add: parse_uint_ref_def)

lemma libbase_ref_doc:
  "Split_doc libbase_ref" "Join_doc libbase_ref" "Prefix_doc libbase_ref"
  "Suffix_doc libbase_ref" "Path_doc libbase_ref" "ParseUint_doc libbase_ref"
  by (auto simp: Split_doc_def Join_doc_def Prefix_doc_def Suffix_doc_def Path_doc_def
      ParseUint_doc_def libbase_ref_def parse_uint_ref_show_nat parse_uint_ref_nil)

section \<open>C strings\<close>

text \<open>What a \<^verbatim>\<open>const char*\<close> reader sees of a buffer: the characters before the first NUL.\<close>

definition c_str :: "string \<Rightarrow> string" where
  "c_str s = takeWhile (\<lambda>c. c \<noteq> CHR 0x00) s"

lemma set_c_str: "set (c_str s) \<subseteq> set s"
  by (auto simp: c_str_def dest: set_takeWhileD)

lemma length_c_str: "length (c_str s) \<le> length s"
  by (simp add: c_str_def length_takeWhile_le)

lemma c_str_idem [simp]: "c_str (c_str s) = c_str s"
  by (auto simp: c_str_def takeWhile_idem)

end
