(* ===== verification/Features.thy ===== *)
theory Features
  imports Libbase
begin

text \<open>
  Feature sets (\<^verbatim>\<open>porting/adb/transport.cpp\<close>): the feature names, the set this host supports,
  the comma-separated wire form and the test every optional protocol path goes through.
  \<^verbatim>\<open>FeatureSet\<close> is a vector of strings. \<^verbatim>\<open>getenv("ADB_DELAYED_ACK")\<close> is an argument.
\<close>

definition kFeatureShell2 :: string where "kFeatureShell2 = ''shell_v2''"
definition kFeatureCmd :: string where "kFeatureCmd = ''cmd''"
definition kFeatureStat2 :: string where "kFeatureStat2 = ''stat_v2''"
definition kFeatureLs2 :: string where "kFeatureLs2 = ''ls_v2''"
definition kFeatureLibusb :: string where "kFeatureLibusb = ''libusb''"
definition kFeaturePushSync :: string where "kFeaturePushSync = ''push_sync''"
definition kFeatureApex :: string where "kFeatureApex = ''apex''"
definition kFeatureFixedPushMkdir :: string where "kFeatureFixedPushMkdir = ''fixed_push_mkdir''"
definition kFeatureAbb :: string where "kFeatureAbb = ''abb''"
definition kFeatureFixedPushSymlinkTimestamp :: string where
  "kFeatureFixedPushSymlinkTimestamp = ''fixed_push_symlink_timestamp''"
definition kFeatureAbbExec :: string where "kFeatureAbbExec = ''abb_exec''"
definition kFeatureRemountShell :: string where "kFeatureRemountShell = ''remount_shell''"
definition kFeatureTrackApp :: string where "kFeatureTrackApp = ''track_app''"
definition kFeatureSendRecv2 :: string where "kFeatureSendRecv2 = ''sendrecv_v2''"
definition kFeatureSendRecv2Brotli :: string where
  "kFeatureSendRecv2Brotli = ''sendrecv_v2_brotli''"
definition kFeatureSendRecv2LZ4 :: string where "kFeatureSendRecv2LZ4 = ''sendrecv_v2_lz4''"
definition kFeatureSendRecv2Zstd :: string where "kFeatureSendRecv2Zstd = ''sendrecv_v2_zstd''"
definition kFeatureSendRecv2DryRunSend :: string where
  "kFeatureSendRecv2DryRunSend = ''sendrecv_v2_dry_run_send''"
definition kFeatureDelayedAck :: string where "kFeatureDelayedAck = ''delayed_ack''"
definition kFeatureOpenscreenMdns :: string where "kFeatureOpenscreenMdns = ''openscreen_mdns''"
definition kFeatureDeviceTrackerProtoFormat :: string where
  "kFeatureDeviceTrackerProtoFormat = ''devicetracker_proto_format''"
definition kFeatureDevRaw :: string where "kFeatureDevRaw = ''devraw''"
definition kFeatureAppInfo :: string where "kFeatureAppInfo = ''app_info''"
definition kFeatureServerStatus :: string where "kFeatureServerStatus = ''server_status''"

lemmas feature_name_defs =
  kFeatureShell2_def kFeatureCmd_def kFeatureStat2_def kFeatureLs2_def kFeatureLibusb_def
  kFeaturePushSync_def kFeatureApex_def kFeatureFixedPushMkdir_def kFeatureAbb_def
  kFeatureFixedPushSymlinkTimestamp_def kFeatureAbbExec_def kFeatureRemountShell_def
  kFeatureTrackApp_def kFeatureSendRecv2_def kFeatureSendRecv2Brotli_def
  kFeatureSendRecv2LZ4_def kFeatureSendRecv2Zstd_def kFeatureSendRecv2DryRunSend_def
  kFeatureDelayedAck_def kFeatureOpenscreenMdns_def kFeatureDeviceTrackerProtoFormat_def
  kFeatureDevRaw_def kFeatureAppInfo_def kFeatureServerStatus_def

type_synonym feature_set = "string list"

definition delayed_ack_enabled :: "string option \<Rightarrow> bool" where
  "delayed_ack_enabled env = (env = Some ''1'')"

definition supported_features :: "string option \<Rightarrow> feature_set" where
  "supported_features env =
     [kFeatureShell2, kFeatureCmd, kFeatureStat2, kFeatureLs2, kFeatureFixedPushMkdir,
      kFeatureApex, kFeatureAbb, kFeatureFixedPushSymlinkTimestamp, kFeatureAbbExec,
      kFeatureRemountShell, kFeatureTrackApp, kFeatureSendRecv2, kFeatureSendRecv2Brotli,
      kFeatureSendRecv2LZ4, kFeatureSendRecv2Zstd, kFeatureSendRecv2DryRunSend,
      kFeatureOpenscreenMdns, kFeatureDeviceTrackerProtoFormat, kFeatureDevRaw, kFeatureAppInfo,
      kFeatureServerStatus]
     @ (if delayed_ack_enabled env then [kFeatureDelayedAck] else [])"

definition FeatureSetToString :: "('x) libbase_scheme \<Rightarrow> feature_set \<Rightarrow> string" where
  "FeatureSetToString L fs = Join L fs '',''"

definition StringToFeatureSet :: "('x) libbase_scheme \<Rightarrow> string \<Rightarrow> feature_set" where
  "StringToFeatureSet L s = (if s = [] then [] else Split L s '','')"

definition contains_value :: "'a list \<Rightarrow> 'a \<Rightarrow> bool" where
  "contains_value r v \<longleftrightarrow> v \<in> set r"

definition CanUseFeature :: "string option \<Rightarrow> feature_set \<Rightarrow> string \<Rightarrow> bool" where
  "CanUseFeature env fs f \<longleftrightarrow> contains_value fs f \<and> contains_value (supported_features env) f"

lemma CanUseFeature_supported: "CanUseFeature env fs f \<Longrightarrow> f \<in> set (supported_features env)"
  by (simp add: CanUseFeature_def contains_value_def)

lemma no_comma_supported: "f \<in> set (supported_features env) \<Longrightarrow> CHR '','' \<notin> set f"
  unfolding supported_features_def feature_name_defs by (auto split: if_splits)

text \<open>The wire form of a feature set is decoded to the same set.\<close>

lemma feature_set_wire_roundtrip:
  assumes "Split_doc L" "Join_doc L" "\<forall>f \<in> set fs. CHR '','' \<notin> set f \<and> f \<noteq> []"
  shows "StringToFeatureSet L (FeatureSetToString L fs) = fs"
proof (cases fs)
  case Nil
  with assms show ?thesis by (simp add: StringToFeatureSet_def FeatureSetToString_def Join_doc_def)
next
  case (Cons a list)
  with assms have "join_with '','' fs \<noteq> []" by (auto simp: join_with_eq_Nil)
  with assms Cons show ?thesis
    by (simp add: StringToFeatureSet_def FeatureSetToString_def Join_doc_def Split_doc_def
        split_on_join)
qed

lemma supported_features_ne: "f \<in> set (supported_features env) \<Longrightarrow> f \<noteq> []"
  unfolding supported_features_def feature_name_defs by (auto split: if_splits)

end
