(* ===== verification/Capture.thy ===== *)
theory Capture
  imports Prelude
begin

text \<open>
  The output buffer of \<^verbatim>\<open>adb_commandline_porting\<close> (\<^verbatim>\<open>client/adb_porting.cpp\<close>): a heap block the
  caller owns and the number of bytes used in it, without the terminating NUL. The heap is the
  allocator's: whether \<^verbatim>\<open>realloc\<close> succeeds and what fresh memory holds are arguments. The text
  \<^verbatim>\<open>vsnprintf\<close> produces is an argument too, \<open>None\<close> when it fails.
\<close>

record capture =
  output_buffer :: "string option"
  output_size :: nat

record heap =
  realloc_ok :: "nat \<Rightarrow> bool"
  fresh_byte :: "nat \<Rightarrow> char"

definition realloc_block :: "('x) heap_scheme \<Rightarrow> string option \<Rightarrow> nat \<Rightarrow> string" where
  "realloc_block H b n =
     (let old = (case b of None \<Rightarrow> [] | Some s \<Rightarrow> s)
      in take n (old @ map (fresh_byte H) [length old..<n]))"

text \<open>\<^verbatim>\<open>vsnprintf(block + off, size, ...)\<close>: at most \<open>size - 1\<close> characters and a NUL.\<close>

definition write_cstring :: "string \<Rightarrow> nat \<Rightarrow> nat \<Rightarrow> string \<Rightarrow> string" where
  "write_cstring block off sz text =
     (let out = take (sz - 1) text @ [CHR 0x00]
      in take off block @ out @ drop (off + length out) block)"

text \<open>\<open>None\<close> for the capture stands for null \<^verbatim>\<open>output_buffer\<close> or \<^verbatim>\<open>output_size\<close> pointers.\<close>

definition capture_printf ::
    "('x) heap_scheme \<Rightarrow> capture option \<Rightarrow> string option \<Rightarrow> int \<times> capture option" where
  "capture_printf H c formatted =
     (case c of
        None \<Rightarrow> (-1, None)
      | Some b \<Rightarrow>
          (case formatted of
             None \<Rightarrow> (-1, Some b)
           | Some text \<Rightarrow>
               let required_size = length text + 1;
                   current_used_size = output_size b
               in if \<not> realloc_ok H (current_used_size + required_size) then (-1, Some b)
                  else let new_buffer =
                             realloc_block H (output_buffer b) (current_used_size + required_size)
                       in (int (length text),
                           Some \<lparr>output_buffer =
                                    Some (write_cstring new_buffer current_used_size
                                            required_size text),
                                 output_size = current_used_size + required_size - 1\<rparr>)))"

text \<open>
  The caller's view: the captured text, and the invariant between block, size and terminator.
  A fresh capture is \<^verbatim>\<open>{NULL, 0}\<close>.
\<close>

definition captured :: "capture \<Rightarrow> string" where
  "captured b = (case output_buffer b of None \<Rightarrow> [] | Some s \<Rightarrow> take (output_size b) s)"

definition capture_wf :: "capture \<Rightarrow> bool" where
  "capture_wf b \<longleftrightarrow>
     (case output_buffer b of
        None \<Rightarrow> output_size b = 0
      | Some s \<Rightarrow> length s = output_size b + 1 \<and> s ! output_size b = CHR 0x00)"

lemma captured_Some: "captured \<lparr>output_buffer = Some s, output_size = n\<rparr> = take n s"
  by (simp add: captured_def)

lemma length_realloc_block [simp]: "length (realloc_block H b n) = n"
  by (auto simp: realloc_block_def Let_def split: option.split)

lemma take_realloc_block:
  "m \<le> length s \<Longrightarrow> m \<le> n \<Longrightarrow> take m (realloc_block H (Some s) n) = take m s"
  by (simp add: realloc_block_def Let_def min_def)

lemma write_cstring_exact:
  assumes "length block = off + length text + 1"
  shows "write_cstring block off (length text + 1) text = take off block @ text @ [CHR 0x00]"
  using assms by (simp add: write_cstring_def Let_def)

text \<open>One successful call appends the formatted text and keeps the buffer a C string.\<close>

lemma capture_printf_append:
  assumes wf: "capture_wf b" and ok: "realloc_ok H (output_size b + (length text + 1))"
  obtains b' where "capture_printf H (Some b) (Some text) = (int (length text), Some b')"
    "capture_wf b'" "captured b' = captured b @ text" "output_size b' = output_size b + length text"
proof
  define u where "u = output_size b"
  define blk where "blk = realloc_block H (output_buffer b) (u + (length text + 1))"
  have len: "length blk = u + length text + 1" by (simp add: blk_def)
  have old: "take u blk = captured b"
  proof (cases "output_buffer b")
    case None
    with wf have "u = 0" by (simp add: capture_wf_def u_def)
    with None show ?thesis by (simp add: captured_def)
  next
    case (Some s)
    with wf have "length s = u + 1" by (simp add: capture_wf_def u_def)
    with Some show ?thesis
      by (simp add: blk_def captured_def u_def take_realloc_block)
  qed
  let ?b = "\<lparr>output_buffer = Some (take u blk @ text @ [CHR 0x00]), output_size = u + length text\<rparr>"
  show "capture_printf H (Some b) (Some text) = (int (length text), Some ?b)"
    using ok write_cstring_exact [OF len] by (simp add: capture_printf_def Let_def u_def blk_def)
  show "capture_wf ?b" using len by (simp add: capture_wf_def nth_append)
  have "length (captured b) = u" using len by (simp flip: old)
  then show "captured ?b = captured b @ text"
    by (simp add: captured_Some old)
  show "output_size ?b = output_size b + length text" by (simp add: u_def)
qed

lemma capture_printf_fail:
  "fst (capture_printf H c f) = -1 \<Longrightarrow> snd (capture_printf H c f) = c"
  by (auto simp: capture_printf_def Let_def split: option.splits if_splits)

lemma capture_printf_wf:
  assumes wf: "capture_wf b"
  shows "\<exists>b'. snd (capture_printf H (Some b) f) = Some b' \<and> capture_wf b' \<and>
     prefix (captured b) (captured b')"
proof (cases f)
  case None
  with wf show ?thesis by (simp add: capture_printf_def)
next
  case (Some msg)
  show ?thesis
  proof (cases "realloc_ok H (output_size b + (length msg + 1))")
    case True
    obtain b' where "capture_printf H (Some b) (Some msg) = (int (length msg), Some b')"
      "capture_wf b'" "captured b' = captured b @ msg"
      by (rule capture_printf_append [OF wf True])
    with Some show ?thesis by simp
  next
    case False
    with wf Some show ?thesis by (simp add: capture_printf_def Let_def)
  qed
qed

end
