(* ===== verification/SyncEnv.thy ===== *)
theory SyncEnv
  imports Features Capture
begin

text \<open>
  The world of the file-sync client (\<^verbatim>\<open>porting/adb/client/file_sync_client.cpp\<close>).

  The protocol header \<^verbatim>\<open>file_sync_protocol.h\<close>, the byte-exact socket helpers of \<^verbatim>\<open>adb_io\<close>, the
  compression classes, the line printer and the operating system are outside the repository.
  They are the fields of the parameter record \<open>sync_env\<close>: message identifiers, sizes and memory
  images of the wire structures, and operations on an abstract world \<open>'w\<close>. \<open>loop_fuel\<close> bounds
  the loops whose length only the peer decides; running out of it is the outcome \<open>OutOfFuel\<close>.

  \<open>conn\<close> is the class \<^verbatim>\<open>SyncConnection\<close> with the process state its methods touch: \<^verbatim>\<open>errno\<close>, the
  calls to the line printer, and the captured output of the porting layer.
\<close>

datatype errno =
    ENOENT | ENOTSUP | ENOPROTOOPT | ENAMETOOLONG | ECONNRESET | EPERM | ETIMEDOUT | EALREADY
  | EAGAIN | EOTHER nat

datatype CompressionType = CompNone | CompAny | Brotli | LZ4 | Zstd

datatype EncodeResult = EncError | EncDone | EncNeedInput | EncMoreOutput

datatype DecodeResult = DecError | DecDone | DecNeedInput | DecMoreOutput

section \<open>POSIX file modes\<close>

unbundle bit_operations_syntax

definition S_IFMT :: u32 where "S_IFMT = 0xF000"
definition S_IFDIR :: u32 where "S_IFDIR = 0x4000"
definition S_IFREG :: u32 where "S_IFREG = 0x8000"
definition S_IFLNK :: u32 where "S_IFLNK = 0xA000"
definition S_IFBLK :: u32 where "S_IFBLK = 0x6000"
definition S_IFCHR :: u32 where "S_IFCHR = 0x2000"

definition S_ISDIR :: "u32 \<Rightarrow> bool" where "S_ISDIR m \<longleftrightarrow> m AND S_IFMT = S_IFDIR"
definition S_ISREG :: "u32 \<Rightarrow> bool" where "S_ISREG m \<longleftrightarrow> m AND S_IFMT = S_IFREG"
definition S_ISLNK :: "u32 \<Rightarrow> bool" where "S_ISLNK m \<longleftrightarrow> m AND S_IFMT = S_IFLNK"
definition S_ISBLK :: "u32 \<Rightarrow> bool" where "S_ISBLK m \<longleftrightarrow> m AND S_IFMT = S_IFBLK"
definition S_ISCHR :: "u32 \<Rightarrow> bool" where "S_ISCHR m \<longleftrightarrow> m AND S_IFMT = S_IFCHR"

lemmas mode_defs = S_IFMT_def S_IFDIR_def S_IFREG_def S_IFLNK_def S_IFBLK_def S_IFCHR_def
  S_ISDIR_def S_ISREG_def S_ISLNK_def S_ISBLK_def S_ISCHR_def

section \<open>Wire structures\<close>

record stat_buf =
  st_dev :: u64
  st_ino :: u64
  st_mode :: u32
  st_nlink :: u32
  st_uid :: u32
  st_gid :: u32
  st_size :: u64
  st_atime :: u64
  st_mtime :: u64
  st_ctime :: u64

definition zero_stat :: stat_buf where
  "zero_stat = \<lparr>st_dev = 0, st_ino = 0, st_mode = 0, st_nlink = 0, st_uid = 0, st_gid = 0,
     st_size = 0, st_atime = 0, st_mtime = 0, st_ctime = 0\<rparr>"

text \<open>\<^verbatim>\<open>msg.stat_v1\<close>, \<^verbatim>\<open>msg.stat_v2\<close>, \<^verbatim>\<open>dent_v1\<close>/\<^verbatim>\<open>dent_v2\<close> as the client reads them.\<close>

record stat_v1_msg =
  s1_id :: u32
  s1_mode :: u32
  s1_size :: u32
  s1_mtime :: u32

record stat_v2_msg =
  s2_id :: u32
  s2_error :: u32
  s2_stat :: stat_buf

record dent_msg =
  d_id :: u32
  d_mode :: u32
  d_size :: u64
  d_mtime :: u64
  d_namelen :: u32

record sync_proto = libbase +
  ID_LSTAT_V1 :: u32
  ID_STAT_V2 :: u32
  ID_LSTAT_V2 :: u32
  ID_LIST_V1 :: u32
  ID_LIST_V2 :: u32
  ID_DENT_V1 :: u32
  ID_DENT_V2 :: u32
  ID_SEND_V1 :: u32
  ID_SEND_V2 :: u32
  ID_RECV_V1 :: u32
  ID_RECV_V2 :: u32
  ID_DONE :: u32
  ID_DATA :: u32
  ID_OKAY :: u32
  ID_FAIL :: u32
  ID_QUIT :: u32
  SYNC_DATA_MAX :: nat
  kSyncFlagBrotli :: u32
  kSyncFlagLZ4 :: u32
  kSyncFlagZstd :: u32
  kSyncFlagDryRun :: u32
  img_request :: "u32 \<Rightarrow> u32 \<Rightarrow> string"
  img_data :: "u32 \<Rightarrow> u32 \<Rightarrow> string"
  img_send_v2_setup :: "u32 \<Rightarrow> u32 \<Rightarrow> u32 \<Rightarrow> string"
  img_recv_v2_setup :: "u32 \<Rightarrow> u32 \<Rightarrow> string"
  sizeof_request :: nat
  sizeof_stat_v1 :: nat
  sizeof_stat_v2 :: nat
  sizeof_dent_v1 :: nat
  sizeof_dent_v2 :: nat
  sizeof_status :: nat
  sizeof_data :: nat
  dec_stat_v1 :: "string \<Rightarrow> stat_v1_msg"
  dec_stat_v2 :: "string \<Rightarrow> stat_v2_msg"
  dec_dent_v1 :: "string \<Rightarrow> dent_msg"
  dec_dent_v2 :: "string \<Rightarrow> dent_msg"
  dec_status :: "string \<Rightarrow> u32 \<times> u32"
  dec_data :: "string \<Rightarrow> u32 \<times> u32"
  errno_from_wire :: "u32 \<Rightarrow> errno"

record 'w sync_env = sync_proto +
  loop_fuel :: nat
  env_heap :: heap
  env_getenv :: "string \<Rightarrow> string option"
  strerror :: "errno \<Rightarrow> string"
  fmt_rate :: "u64 \<Rightarrow> nat \<Rightarrow> string"
  adb_is_separator :: "char \<Rightarrow> bool"
  OS_PATH_SEPARATOR :: char
  os_PATH_MAX :: nat
  os_now :: "'w \<Rightarrow> nat \<times> 'w"
  os_features :: "'w \<Rightarrow> (string + feature_set) \<times> 'w"
  os_connect :: "string \<Rightarrow> 'w \<Rightarrow> (int \<times> string) \<times> 'w"
  os_read_exactly :: "nat \<Rightarrow> 'w \<Rightarrow> (errno + string) \<times> 'w"
  os_write_exactly :: "string \<Rightarrow> 'w \<Rightarrow> (errno + unit) \<times> 'w"
  os_sock_poll :: "'w \<Rightarrow> int \<times> 'w"
  os_sock_read :: "nat \<Rightarrow> 'w \<Rightarrow> (errno + string) \<times> 'w"
  os_read_shutdown :: "'w \<Rightarrow> unit \<times> 'w"
  os_stat :: "string \<Rightarrow> 'w \<Rightarrow> (errno + stat_buf) \<times> 'w"
  os_lstat :: "string \<Rightarrow> 'w \<Rightarrow> (errno + stat_buf) \<times> 'w"
  os_open_read :: "string \<Rightarrow> 'w \<Rightarrow> (errno + nat) \<times> 'w"
  os_read :: "nat \<Rightarrow> nat \<Rightarrow> 'w \<Rightarrow> (errno + string) \<times> 'w"
  os_read_file :: "string \<Rightarrow> 'w \<Rightarrow> (errno + string) \<times> 'w"
  os_readlink :: "string \<Rightarrow> nat \<Rightarrow> 'w \<Rightarrow> (errno + string) \<times> 'w"
  os_read_dir :: "string \<Rightarrow> 'w \<Rightarrow> (errno + string list) \<times> 'w"
  os_unlink :: "string \<Rightarrow> 'w \<Rightarrow> unit \<times> 'w"
  os_creat :: "string \<Rightarrow> 'w \<Rightarrow> (errno + nat) \<times> 'w"
  os_write_file :: "nat \<Rightarrow> string \<Rightarrow> 'w \<Rightarrow> (errno + unit) \<times> 'w"
  os_mkdirs :: "string \<Rightarrow> 'w \<Rightarrow> (errno + unit) \<times> 'w"
  os_utime :: "string \<Rightarrow> u64 \<Rightarrow> 'w \<Rightarrow> (errno + unit) \<times> 'w"
  os_umask :: "'w \<Rightarrow> u32 \<times> 'w"
  os_chmod :: "string \<Rightarrow> u32 \<Rightarrow> 'w \<Rightarrow> (errno + unit) \<times> 'w"
  os_shell_command :: "string \<Rightarrow> 'w \<Rightarrow> int \<times> 'w"
  os_encoder_new :: "CompressionType \<Rightarrow> nat \<Rightarrow> 'w \<Rightarrow> unit \<times> 'w"
  os_encoder_append :: "string \<Rightarrow> 'w \<Rightarrow> unit \<times> 'w"
  os_encoder_finish :: "'w \<Rightarrow> unit \<times> 'w"
  os_encode :: "'w \<Rightarrow> (EncodeResult \<times> string) \<times> 'w"
  os_decoder_new :: "CompressionType \<Rightarrow> nat \<Rightarrow> 'w \<Rightarrow> unit \<times> 'w"
  os_decoder_append :: "string \<Rightarrow> 'w \<Rightarrow> unit \<times> 'w"
  os_decoder_finish :: "'w \<Rightarrow> bool \<times> 'w"
  os_decode :: "'w \<Rightarrow> (DecodeResult \<times> string) \<times> 'w"

section \<open>The connection object\<close>

datatype lp_call = Print string | PrintError string | PrintWarning string | KeepInfoLine | Stdout string

record ledger =
  start_time :: nat
  files_transferred :: u64
  files_skipped :: u64
  bytes_transferred :: u64
  bytes_expected :: u64
  expect_multiple_files :: bool
  last_progress_str :: string
  last_progress_time :: nat

record 'w conn =
  world :: 'w
  errno :: errno
  line_printer :: "lp_call list"
  lp_quiet :: bool
  out_capture :: "capture option"
  fd :: int
  max_size :: nat
  deferred_acknowledgements :: "(string \<times> string) list"
  acknowledgement_buffer :: string
  conn_features :: feature_set
  have_stat_v2 :: bool
  have_ls_v2 :: bool
  have_sendrecv_v2 :: bool
  have_sendrecv_v2_brotli :: bool
  have_sendrecv_v2_lz4 :: bool
  have_sendrecv_v2_zstd :: bool
  have_sendrecv_v2_dry_run_send :: bool
  global_ledger :: ledger
  current_ledger :: ledger

type_synonym ('w, 'a) cprog = "('w conn, 'a) prog"

text \<open>System calls: the world moves on; a failing call sets \<^verbatim>\<open>errno\<close>.\<close>

definition osop :: "('w \<Rightarrow> 'a \<times> 'w) \<Rightarrow> ('w, 'a) cprog" where
  "osop f s = (case f (world s) of (a, w) \<Rightarrow> (Ok a, s\<lparr>world := w\<rparr>))"

definition syscall :: "('w \<Rightarrow> (errno + 'a) \<times> 'w) \<Rightarrow> ('w, 'a option) cprog" where
  "syscall f s =
     (case f (world s) of
        (Inl e, w) \<Rightarrow> (Ok None, s\<lparr>world := w, errno := e\<rparr>)
      | (Inr a, w) \<Rightarrow> (Ok (Some a), s\<lparr>world := w\<rparr>))"

definition set_errno :: "errno \<Rightarrow> ('w, unit) cprog" where
  "set_errno e = modp (\<lambda>s. s\<lparr>errno := e\<rparr>)"

definition lp :: "lp_call \<Rightarrow> ('w, unit) cprog" where
  "lp c = modp (\<lambda>s. s\<lparr>line_printer := line_printer s @ [c]\<rparr>)"

text \<open>\<^verbatim>\<open>capture_printf(output_buffer, output_size, ...)\<close> with the caller's pointers.\<close>

definition capture :: "'w sync_env \<Rightarrow> string \<Rightarrow> ('w, unit) cprog" where
  "capture E msg =
     modp (\<lambda>s. s\<lparr>out_capture := snd (capture_printf (env_heap E) (out_capture s) (Some msg))\<rparr>)"

definition strerror_now :: "'w sync_env \<Rightarrow> ('w, string) cprog" where
  "strerror_now E = getp (\<lambda>s. strerror E (errno s))"

lemma osop_Ok: "osop f s = (Ok a, s') \<longleftrightarrow> (\<exists>w. f (world s) = (a, w) \<and> s' = s\<lparr>world := w\<rparr>)"
  by (auto simp: osop_def split: prod.splits)

lemma syscall_None:
  "syscall f s = (Ok None, s') \<longleftrightarrow> (\<exists>e w. f (world s) = (Inl e, w) \<and> s' = s\<lparr>world := w, errno := e\<rparr>)"
  by (auto simp: syscall_def split: prod.splits sum.splits)

lemma syscall_Some:
  "syscall f s = (Ok (Some a), s') \<longleftrightarrow> (\<exists>w. f (world s) = (Inr a, w) \<and> s' = s\<lparr>world := w\<rparr>)"
  by (auto simp: syscall_def split: prod.splits sum.splits)

text \<open>
  Frame rules: a relation that ignores the world and \<^verbatim>\<open>errno\<close> is kept by every system call, one
  that ignores the printer by printing, one that ignores the capture by capturing.
\<close>

definition ignores_os :: "('w conn \<Rightarrow> 'w conn \<Rightarrow> bool) \<Rightarrow> bool" where
  "ignores_os R \<longleftrightarrow> (\<forall>s w e. R s (s\<lparr>world := w\<rparr>) \<and> R s (s\<lparr>world := w, errno := e\<rparr>) \<and>
     R s (s\<lparr>errno := e\<rparr>))"

definition ignores_output :: "('w conn \<Rightarrow> 'w conn \<Rightarrow> bool) \<Rightarrow> bool" where
  "ignores_output R \<longleftrightarrow> (\<forall>s l c. R s (s\<lparr>line_printer := l\<rparr>) \<and> R s (s\<lparr>out_capture := c\<rparr>))"

lemma keeps_osop [keeps_intros]: "ignores_os R \<Longrightarrow> keeps R (osop f)"
  by (auto simp: keeps_def osop_def ignores_os_def split: prod.splits)

lemma keeps_syscall [keeps_intros]: "ignores_os R \<Longrightarrow> keeps R (syscall f)"
  by (auto simp: keeps_def syscall_def ignores_os_def split: prod.splits sum.splits)

lemma keeps_set_errno [keeps_intros]: "ignores_os R \<Longrightarrow> keeps R (set_errno e)"
  by (simp add: set_errno_def keeps_modp ignores_os_def)

lemma keeps_lp [keeps_intros]: "ignores_output R \<Longrightarrow> keeps R (lp c)"
  by (simp add: lp_def keeps_modp ignores_output_def)

lemma keeps_capture [keeps_intros]: "ignores_output R \<Longrightarrow> keeps R (capture E m)"
  by (simp add: capture_def keeps_modp ignores_output_def)

lemma keeps_strerror [keeps_intros]: "preorder_on_states R \<Longrightarrow> keeps R (strerror_now E)"
  by (simp add: strerror_now_def keeps_intros)

end
