(* ===== verification/SyncConn.thy ===== *)
theory SyncConn
  imports SyncEnv
begin

text \<open>
  \<^verbatim>\<open>class SyncConnection\<close>, first half: transfer ledgers, construction and destruction, the request
  senders, the \<^verbatim>\<open>stat\<close> replies and the directory listing.
\<close>

unbundle bit_operations_syntax

section \<open>Paths and file kinds\<close>

definition ensure_trailing_separators ::
    "('w, 'x) sync_env_scheme \<Rightarrow> string \<Rightarrow> string \<Rightarrow> string \<times> string" where
  "ensure_trailing_separators E local_path remote_path =
     ((if adb_is_separator E (last local_path) then local_path
       else local_path @ [OS_PATH_SEPARATOR E]),
      (if last remote_path = CHR ''/'' then remote_path else remote_path @ ''/''))"

definition should_pull_file :: "u32 \<Rightarrow> bool" where
  "should_pull_file mode \<longleftrightarrow> S_ISREG mode \<or> S_ISBLK mode \<or> S_ISCHR mode"

definition should_push_file :: "u32 \<Rightarrow> bool" where
  "should_push_file mode \<longleftrightarrow> S_ISREG mode \<or> S_ISLNK mode"

record copyinfo =
  lpath :: string
  rpath :: string
  ci_time :: u64
  ci_mode :: u32
  ci_size :: u64
  skip :: bool

definition copyinfo_ctor ::
    "('w, 'x) sync_env_scheme \<Rightarrow> string \<Rightarrow> string \<Rightarrow> string \<Rightarrow> u32 \<Rightarrow> copyinfo" where
  "copyinfo_ctor E local_path remote_path name mode =
     (let (l, r) = ensure_trailing_separators E local_path remote_path;
          l = l @ name;
          r = r @ name;
          (l, r) = (if S_ISDIR mode then ensure_trailing_separators E l r else (l, r))
      in \<lparr>lpath = l, rpath = r, ci_time = 0, ci_mode = mode, ci_size = 0, skip = False\<rparr>)"

datatype TransferDirection = Push | Pull

section \<open>Transfer ledgers\<close>

definition ledger_eq :: "ledger \<Rightarrow> ledger \<Rightarrow> bool" where
  "ledger_eq a b \<longleftrightarrow> files_transferred a = files_transferred b \<and>
     files_skipped a = files_skipped b \<and> bytes_transferred a = bytes_transferred b"

definition ledger_Reset :: "nat \<Rightarrow> ledger \<Rightarrow> ledger" where
  "ledger_Reset now l =
     l\<lparr>start_time := now, files_transferred := 0, files_skipped := 0, bytes_transferred := 0,
       bytes_expected := 0, last_progress_str := [], last_progress_time := 0\<rparr>"

definition TransferRate :: "'w sync_env \<Rightarrow> ledger \<Rightarrow> nat \<Rightarrow> string" where
  "TransferRate E l now =
     (if bytes_transferred l = 0 then []
      else if now = start_time l then []
      else fmt_rate E (bytes_transferred l) (now - start_time l))"

definition to_int32 :: "u64 \<Rightarrow> int" where
  "to_int32 x = sint (ucast x :: i32)"

definition overall_percentage_str :: "ledger \<Rightarrow> string" where
  "overall_percentage_str l =
     (if bytes_expected l \<noteq> 0 \<and> bytes_transferred l \<le> bytes_expected l
      then let overall_percentage = to_int32 (bytes_transferred l * 100 div bytes_expected l)
           in if overall_percentage \<le> 100 then take 4 (show_int overall_percentage @ ''%'') else ''?''
      else ''?'')"

definition kProgressReportInterval :: nat where
  "kProgressReportInterval = 100 * 1000000"

definition progress_output :: "ledger \<Rightarrow> string \<Rightarrow> u64 \<Rightarrow> u64 \<Rightarrow> string" where
  "progress_output l file file_copied_bytes file_total_bytes =
     (let head = ''['' @ pad_left 4 CHR '' '' (overall_percentage_str l) @ ''] '' @ c_str file
      in if file_copied_bytes > file_total_bytes \<or> file_total_bytes = 0
         then head @ '': '' @ show_int (sint file_copied_bytes) @ ''/?''
         else if expect_multiple_files l
              then let file_percentage = to_int32 (file_copied_bytes * 100 div file_total_bytes)
                   in head @ '': '' @ show_int file_percentage @ ''%''
              else head)"

definition ledger_ReportProgress ::
    "nat \<Rightarrow> ledger \<Rightarrow> string \<Rightarrow> u64 \<Rightarrow> u64 \<Rightarrow> lp_call list \<times> ledger" where
  "ledger_ReportProgress now l file file_copied_bytes file_total_bytes =
     (if now < last_progress_time l + kProgressReportInterval then ([], l)
      else let out = progress_output l file file_copied_bytes file_total_bytes
           in if out \<noteq> last_progress_str l
              then ([Print out], l\<lparr>last_progress_str := out, last_progress_time := now\<rparr>)
              else ([], l))"

definition transfer_summary ::
    "'w sync_env \<Rightarrow> ledger \<Rightarrow> nat \<Rightarrow> string \<Rightarrow> TransferDirection \<Rightarrow> string" where
  "transfer_summary E l now name direction =
     (let direction_str = (case direction of Push \<Rightarrow> ''pushed'' | Pull \<Rightarrow> ''pulled'');
          display_name =
            (case env_getenv E ''ANDROID_PRODUCT_OUT'' of
               None \<Rightarrow> name
             | Some out \<Rightarrow> (case ConsumePrefix E name out of None \<Rightarrow> name | Some rest \<Rightarrow> rest));
          head = (if name \<noteq> [] then display_name @ '': '' else [])
      in head @ show_nat (unat (files_transferred l)) @ '' file''
         @ (if files_transferred l = 1 then [] else ''s'') @ '' '' @ direction_str @ '', ''
         @ show_nat (unat (files_skipped l)) @ '' skipped.'' @ TransferRate E l now)"

section \<open>Diagnostics\<close>

definition Error :: "string \<Rightarrow> ('w, unit) cprog" where
  "Error msg = lp (PrintError (''adb: error: '' @ msg))"

definition Warning :: "string \<Rightarrow> ('w, unit) cprog" where
  "Warning msg = lp (PrintWarning (''adb: warning: '' @ msg))"

definition Printf :: "string \<Rightarrow> ('w, unit) cprog" where
  "Printf msg = lp (Print msg)"

definition Println :: "string \<Rightarrow> ('w, unit) cprog" where
  "Println msg = thenp (lp (Print msg)) (lp KeepInfoLine)"

text \<open>\<^verbatim>\<open>Error(...); return false;\<close>\<close>

definition fail_with :: "string \<Rightarrow> ('w, bool) cprog" where
  "fail_with msg = thenp (Error msg) (ret False)"

section \<open>Ledger methods of the connection\<close>

definition NewTransfer :: "'w sync_env \<Rightarrow> ('w, unit) cprog" where
  "NewTransfer E = bindp (osop (os_now E)) (\<lambda>now.
     modp (\<lambda>s. s\<lparr>current_ledger := ledger_Reset now (current_ledger s)\<rparr>))"

definition add_bytes :: "u64 \<Rightarrow> ledger \<Rightarrow> ledger" where
  "add_bytes n l = l\<lparr>bytes_transferred := bytes_transferred l + n\<rparr>"

definition add_files :: "u64 \<Rightarrow> ledger \<Rightarrow> ledger" where
  "add_files n l = l\<lparr>files_transferred := files_transferred l + n\<rparr>"

definition add_skipped :: "u64 \<Rightarrow> ledger \<Rightarrow> ledger" where
  "add_skipped n l = l\<lparr>files_skipped := files_skipped l + n\<rparr>"

definition both_ledgers :: "(ledger \<Rightarrow> ledger) \<Rightarrow> ('w, unit) cprog" where
  "both_ledgers f = modp (\<lambda>s. s\<lparr>current_ledger := f (current_ledger s),
                                global_ledger := f (global_ledger s)\<rparr>)"

definition RecordBytesTransferred :: "nat \<Rightarrow> ('w, unit) cprog" where
  "RecordBytesTransferred bytes = both_ledgers (add_bytes (word_of_nat bytes))"

definition RecordFilesTransferred :: "nat \<Rightarrow> ('w, unit) cprog" where
  "RecordFilesTransferred files = both_ledgers (add_files (word_of_nat files))"

definition RecordFilesSkipped :: "nat \<Rightarrow> ('w, unit) cprog" where
  "RecordFilesSkipped files = both_ledgers (add_skipped (word_of_nat files))"

definition RecordFileSent :: "string \<Rightarrow> string \<Rightarrow> ('w, unit) cprog" where
  "RecordFileSent from to =
     thenp (RecordFilesTransferred 1)
       (modp (\<lambda>s. s\<lparr>deferred_acknowledgements := deferred_acknowledgements s @ [(from, to)]\<rparr>))"

definition ReportProgress :: "'w sync_env \<Rightarrow> string \<Rightarrow> nat \<Rightarrow> u64 \<Rightarrow> ('w, unit) cprog" where
  "ReportProgress E file file_copied_bytes file_total_bytes =
     bindp (osop (os_now E)) (\<lambda>now.
       modp (\<lambda>s. case ledger_ReportProgress now (current_ledger s) file
                        (word_of_nat file_copied_bytes) file_total_bytes of
                   (calls, l) \<Rightarrow> s\<lparr>line_printer := line_printer s @ calls, current_ledger := l\<rparr>))"

text \<open>\<open>cap\<close> says whether the caller passes its capture pointers or null pointers.\<close>

definition ReportTransferRate ::
    "'w sync_env \<Rightarrow> bool \<Rightarrow> (('w conn) \<Rightarrow> ledger) \<Rightarrow> string \<Rightarrow> TransferDirection \<Rightarrow> ('w, unit) cprog" where
  "ReportTransferRate E cap which name direction =
     bindp (osop (os_now E)) (\<lambda>now.
     bindp (getp (\<lambda>s. transfer_summary E (which s) now name direction)) (\<lambda>summary.
     thenp (if cap then capture E (c_str summary) else ret ())
       (thenp (lp (Print summary)) (lp KeepInfoLine))))"

definition ReportOverallTransferRate ::
    "'w sync_env \<Rightarrow> TransferDirection \<Rightarrow> ('w, unit) cprog" where
  "ReportOverallTransferRate E direction =
     bindp (getp (\<lambda>s. ledger_eq (current_ledger s) (global_ledger s))) (\<lambda>eq.
       if eq then ret () else ReportTransferRate E False global_ledger [] direction)"

definition ComputeExpectedTotalBytes :: "copyinfo list \<Rightarrow> ('w, unit) cprog" where
  "ComputeExpectedTotalBytes file_list =
     modp (\<lambda>s. s\<lparr>current_ledger := (current_ledger s)
        \<lparr>bytes_expected := fold (\<lambda>ci n. if skip ci then n else n + ci_size ci) file_list 0,
         expect_multiple_files := True\<rparr>\<rparr>)"

definition SetExpectedTotalBytes :: "u64 \<Rightarrow> ('w, unit) cprog" where
  "SetExpectedTotalBytes n =
     modp (\<lambda>s. s\<lparr>current_ledger := (current_ledger s)
        \<lparr>bytes_expected := n, expect_multiple_files := False\<rparr>\<rparr>)"

section \<open>Requests\<close>

text \<open>\<^verbatim>\<open>ReadFdExactly(fd, ...)\<close> and \<^verbatim>\<open>WriteFdExactly(fd, ...)\<close> on the connection's socket.\<close>

definition read_fd :: "'w sync_env \<Rightarrow> nat \<Rightarrow> ('w, string option) cprog" where
  "read_fd E n = syscall (os_read_exactly E n)"

definition write_fd :: "'w sync_env \<Rightarrow> string \<Rightarrow> ('w, bool) cprog" where
  "write_fd E data = bindp (syscall (os_write_exactly E data)) (\<lambda>r. ret (r \<noteq> None))"

definition path_too_long :: "string \<Rightarrow> nat \<Rightarrow> ('w, bool) cprog" where
  "path_too_long who n =
     thenp (Error (who @ '' failed: path too long: '' @ show_nat n))
       (thenp (set_errno ENAMETOOLONG) (ret False))"

definition SendRequest :: "'w sync_env \<Rightarrow> u32 \<Rightarrow> string \<Rightarrow> ('w, bool) cprog" where
  "SendRequest E rid path =
     (if length path > 1024 then path_too_long ''SendRequest'' (length path)
      else write_fd E (img_request E rid (word_of_nat (length path)) @ path))"

definition unexpected_any :: string where
  "unexpected_any = ''unexpected CompressionType::Any''"

fun compression_flags :: "('x) sync_proto_scheme \<Rightarrow> CompressionType \<Rightarrow> u32 option" where
  "compression_flags E CompNone = Some 0"
| "compression_flags E Brotli = Some (kSyncFlagBrotli E)"
| "compression_flags E LZ4 = Some (kSyncFlagLZ4 E)"
| "compression_flags E Zstd = Some (kSyncFlagZstd E)"
| "compression_flags E CompAny = None"

definition SendSend2 ::
    "'w sync_env \<Rightarrow> string \<Rightarrow> u32 \<Rightarrow> CompressionType \<Rightarrow> bool \<Rightarrow> ('w, bool) cprog" where
  "SendSend2 E path mode compression dry_run =
     (if length path > 1024 then path_too_long ''SendRequest'' (length path)
      else case compression_flags E compression of
             None \<Rightarrow> abortp unexpected_any
           | Some flags \<Rightarrow>
               write_fd E (img_request E (ID_SEND_V2 E) (word_of_nat (length path)) @ path
                 @ img_send_v2_setup E (ID_SEND_V2 E) mode
                     (if dry_run then flags OR kSyncFlagDryRun E else flags)))"

definition SendRecv2 :: "'w sync_env \<Rightarrow> string \<Rightarrow> CompressionType \<Rightarrow> ('w, bool) cprog" where
  "SendRecv2 E path compression =
     (if length path > 1024 then path_too_long ''SendRequest'' (length path)
      else case compression_flags E compression of
             None \<Rightarrow> abortp unexpected_any
           | Some flags \<Rightarrow>
               write_fd E (img_request E (ID_RECV_V2 E) (word_of_nat (length path)) @ path
                 @ img_recv_v2_setup E (ID_RECV_V2 E) flags))"

definition SendStat :: "'w sync_env \<Rightarrow> string \<Rightarrow> ('w, bool) cprog" where
  "SendStat E path =
     bindp (getp have_stat_v2) (\<lambda>v2.
       if \<not> v2 then thenp (set_errno ENOTSUP) (ret False)
       else SendRequest E (ID_STAT_V2 E) path)"

definition SendLstat :: "'w sync_env \<Rightarrow> string \<Rightarrow> ('w, bool) cprog" where
  "SendLstat E path =
     bindp (getp have_stat_v2) (\<lambda>v2.
       if v2 then SendRequest E (ID_LSTAT_V2 E) path else SendRequest E (ID_LSTAT_V1 E) path)"

definition SendLs :: "'w sync_env \<Rightarrow> string \<Rightarrow> ('w, bool) cprog" where
  "SendLs E path =
     bindp (getp have_ls_v2) (\<lambda>v2.
       SendRequest E (if v2 then ID_LIST_V2 E else ID_LIST_V1 E) path)"

definition SendQuit :: "'w sync_env \<Rightarrow> ('w, bool) cprog" where
  "SendQuit E = SendRequest E (ID_QUIT E) []"

text \<open>\<^verbatim>\<open>FinishStat\<close> returns its boolean and the contents of \<^verbatim>\<open>*st\<close>.\<close>

definition FinishStat :: "'w sync_env \<Rightarrow> ('w, bool \<times> stat_buf) cprog" where
  "FinishStat E =
     bindp (getp have_stat_v2) (\<lambda>v2.
       if v2 then
         bindp (read_fd E (sizeof_stat_v2 E)) (\<lambda>r. case r of
             None \<Rightarrow> abortp ''protocol fault: failed to read stat response''
           | Some b \<Rightarrow>
               let m = dec_stat_v2 E b in
               if s2_id m \<noteq> ID_LSTAT_V2 E \<and> s2_id m \<noteq> ID_STAT_V2 E
               then abortp (''protocol fault: stat response has wrong message id: ''
                      @ show_nat (unat (s2_id m)))
               else if s2_error m \<noteq> 0
               then thenp (set_errno (errno_from_wire E (s2_error m))) (ret (False, zero_stat))
               else ret (True, s2_stat m))
       else
         bindp (read_fd E (sizeof_stat_v1 E)) (\<lambda>r. case r of
             None \<Rightarrow> abortp ''protocol fault: failed to read stat response''
           | Some b \<Rightarrow>
               let m = dec_stat_v1 E b in
               if s1_id m \<noteq> ID_LSTAT_V1 E
               then abortp (''protocol fault: stat response has wrong message id: ''
                      @ show_nat (unat (s1_id m)))
               else if s1_mode m = 0 \<and> s1_size m = 0 \<and> s1_mtime m = 0
               then thenp (set_errno ENOPROTOOPT) (ret (False, zero_stat))
               else ret (True, zero_stat\<lparr>st_mode := s1_mode m, st_size := ucast (s1_size m),
                       st_ctime := ucast (s1_mtime m), st_mtime := ucast (s1_mtime m)\<rparr>)))"

section \<open>Directory listing\<close>

text \<open>
  The callback works on an accumulator, which stands for the variables it captures. The fuel
  counts entries.
\<close>

fun FinishLsImpl ::
    "bool \<Rightarrow> 'w sync_env \<Rightarrow> (u32 \<Rightarrow> u64 \<Rightarrow> u64 \<Rightarrow> string \<Rightarrow> 'acc \<Rightarrow> ('w, 'acc) cprog) \<Rightarrow> nat \<Rightarrow> 'acc
     \<Rightarrow> ('w, bool \<times> 'acc) cprog" where
  "FinishLsImpl v2 E callback 0 acc = nofuel"
| "FinishLsImpl v2 E callback (Suc fuel) acc =
     bindp (read_fd E (if v2 then sizeof_dent_v2 E else sizeof_dent_v1 E)) (\<lambda>r. case r of
         None \<Rightarrow> ret (False, acc)
       | Some b \<Rightarrow>
           let dent = (if v2 then dec_dent_v2 E b else dec_dent_v1 E b);
               expected_id = (if v2 then ID_DENT_V2 E else ID_DENT_V1 E);
               len = unat (d_namelen dent)
           in if d_id dent = ID_DONE E then ret (True, acc)
              else if d_id dent \<noteq> expected_id then ret (False, acc)
              else if len > 255 then ret (False, acc)
              else bindp (read_fd E len) (\<lambda>n. case n of
                  None \<Rightarrow> ret (False, acc)
                | Some name \<Rightarrow>
                    let buf = c_str (take len name) in
                    if CHR ''/'' \<in> set buf then ret (False, acc)
                    else bindp (callback (d_mode dent) (d_size dent) (d_mtime dent) buf acc)
                           (\<lambda>acc'. FinishLsImpl v2 E callback fuel acc')))"

definition FinishLs ::
    "'w sync_env \<Rightarrow> (u32 \<Rightarrow> u64 \<Rightarrow> u64 \<Rightarrow> string \<Rightarrow> 'acc \<Rightarrow> ('w, 'acc) cprog) \<Rightarrow> 'acc
     \<Rightarrow> ('w, bool \<times> 'acc) cprog" where
  "FinishLs E callback acc =
     bindp (getp have_ls_v2) (\<lambda>v2. FinishLsImpl v2 E callback (loop_fuel E) acc)"

definition sync_ls ::
    "'w sync_env \<Rightarrow> string \<Rightarrow> (u32 \<Rightarrow> u64 \<Rightarrow> u64 \<Rightarrow> string \<Rightarrow> 'acc \<Rightarrow> ('w, 'acc) cprog) \<Rightarrow> 'acc
     \<Rightarrow> ('w, bool \<times> 'acc) cprog" where
  "sync_ls E path func acc =
     bindp (SendLs E path) (\<lambda>ok. if ok then FinishLs E func acc else ret (False, acc))"

definition sync_stat :: "'w sync_env \<Rightarrow> string \<Rightarrow> ('w, bool \<times> stat_buf) cprog" where
  "sync_stat E path =
     bindp (SendStat E path) (\<lambda>ok. if ok then FinishStat E else ret (False, zero_stat))"

definition sync_lstat :: "'w sync_env \<Rightarrow> string \<Rightarrow> ('w, bool \<times> stat_buf) cprog" where
  "sync_lstat E path =
     bindp (SendLstat E path) (\<lambda>ok. if ok then FinishStat E else ret (False, zero_stat))"

definition sync_stat_fallback :: "'w sync_env \<Rightarrow> string \<Rightarrow> ('w, bool \<times> stat_buf) cprog" where
  "sync_stat_fallback E path =
     bindp (sync_stat E path) (\<lambda>(ok, st).
       if ok then ret (True, st)
       else bindp (getp errno) (\<lambda>e.
         if e \<noteq> ENOTSUP then ret (False, st)
         else bindp (sync_lstat E path) (\<lambda>(lstat_result, st).
           if \<not> lstat_result then ret (False, st)
           else if S_ISLNK (st_mode st) then
             let st = st\<lparr>st_size := 0\<rparr>;
                 st = st\<lparr>st_mode := st_mode st AND NOT S_IFMT\<rparr>
             in bindp (sync_lstat E (path @ ''/'')) (\<lambda>(ok, tmp_st).
                  if ok then ret (True, st\<lparr>st_mode := st_mode st OR S_IFDIR\<rparr>)
                  else ret (True, st\<lparr>st_mode := st_mode st OR S_IFREG\<rparr>))
           else ret (True, st))))"

section \<open>Construction and destruction\<close>

definition IsValid :: "('w, bool) cprog" where
  "IsValid = getp (\<lambda>s. fd s \<ge> 0)"

definition SetQuiet :: "bool \<Rightarrow> ('w, unit) cprog" where
  "SetQuiet q = modp (\<lambda>s. s\<lparr>lp_quiet := q\<rparr>)"

text \<open>
  Members before the constructor runs. \<^verbatim>\<open>fd\<close> is \<open>-1\<close> (\<^verbatim>\<open>unique_fd\<close>); the \<^verbatim>\<open>have_*\<close> flags are
  uninitialised (\<open>junk\<close>) until the feature set is known, and no code reads them while \<^verbatim>\<open>fd\<close> is
  negative.
\<close>

definition fresh_ledger :: "nat \<Rightarrow> bool \<Rightarrow> ledger" where
  "fresh_ledger now junk =
     \<lparr>start_time = now, files_transferred = 0, files_skipped = 0, bytes_transferred = 0,
      bytes_expected = 0, expect_multiple_files = junk, last_progress_str = [],
      last_progress_time = 0\<rparr>"

definition fresh_conn ::
    "'w sync_env \<Rightarrow> bool \<Rightarrow> errno \<Rightarrow> capture option \<Rightarrow> 'w \<Rightarrow> 'w conn" where
  "fresh_conn E junk e cap w =
     (let (now1, w1) = os_now E w; (now2, w2) = os_now E w1
      in \<lparr>world = w2, errno = e, line_printer = [], lp_quiet = False, out_capture = cap, fd = -1,
          max_size = 0, deferred_acknowledgements = [], acknowledgement_buffer = [],
          conn_features = [], have_stat_v2 = junk, have_ls_v2 = junk, have_sendrecv_v2 = junk,
          have_sendrecv_v2_brotli = junk, have_sendrecv_v2_lz4 = junk,
          have_sendrecv_v2_zstd = junk, have_sendrecv_v2_dry_run_send = junk,
          global_ledger = fresh_ledger now1 junk, current_ledger = fresh_ledger now2 junk\<rparr>)"

definition can_use :: "'w sync_env \<Rightarrow> feature_set \<Rightarrow> string \<Rightarrow> bool" where
  "can_use E fs f = CanUseFeature (env_getenv E ''ADB_DELAYED_ACK'') fs f"

definition SyncConnection_ctor :: "'w sync_env \<Rightarrow> ('w, unit) cprog" where
  "SyncConnection_ctor E =
     thenp (modp (\<lambda>s. s\<lparr>acknowledgement_buffer := [], max_size := SYNC_DATA_MAX E\<rparr>))
     (bindp (osop (os_features E)) (\<lambda>r. case r of
         Inl err \<Rightarrow>
           thenp (capture E (''failed to get feature set: '' @ c_str err))
             (Error (''failed to get feature set: '' @ c_str err))
       | Inr features \<Rightarrow>
           thenp (modp (\<lambda>s. s\<lparr>conn_features := features,
              have_stat_v2 := can_use E features kFeatureStat2,
              have_ls_v2 := can_use E features kFeatureLs2,
              have_sendrecv_v2 := can_use E features kFeatureSendRecv2,
              have_sendrecv_v2_brotli := can_use E features kFeatureSendRecv2Brotli,
              have_sendrecv_v2_lz4 := can_use E features kFeatureSendRecv2LZ4,
              have_sendrecv_v2_zstd := can_use E features kFeatureSendRecv2Zstd,
              have_sendrecv_v2_dry_run_send :=
                can_use E features kFeatureSendRecv2DryRunSend\<rparr>))
           (bindp (osop (os_connect E ''sync:'')) (\<lambda>(new_fd, err).
              thenp (modp (\<lambda>s. s\<lparr>fd := new_fd\<rparr>))
                (if new_fd < 0
                 then thenp (capture E (''connect failed: '' @ c_str err))
                        (Error (''connect failed: '' @ c_str err))
                 else ret ())))))"

definition SyncConnection_dtor :: "'w sync_env \<Rightarrow> ('w, unit) cprog" where
  "SyncConnection_dtor E =
     bindp IsValid (\<lambda>valid.
       if \<not> valid then ret ()
       else bindp (SendQuit E) (\<lambda>ok.
         thenp (if ok then osop (os_read_shutdown E) else ret ()) (lp KeepInfoLine)))"

text \<open>
  \<^verbatim>\<open>SyncConnection sc(...); if (!sc.IsValid()) return false; body\<close>, with the destructor at the end
  of the scope.
\<close>

definition with_connection :: "'w sync_env \<Rightarrow> ('w, bool) cprog \<Rightarrow> ('w, bool) cprog" where
  "with_connection E body =
     thenp (SyncConnection_ctor E)
     (bindp (bindp IsValid (\<lambda>valid. if valid then body else ret False)) (\<lambda>r.
        thenp (SyncConnection_dtor E) (ret r)))"

text \<open>Compression is resolved in the order Zstd, LZ4, Brotli.\<close>

definition ResolveCompressionType :: "'w conn \<Rightarrow> CompressionType \<Rightarrow> CompressionType" where
  "ResolveCompressionType s compression =
     (if compression = CompAny
      then if have_sendrecv_v2_zstd s then Zstd
           else if have_sendrecv_v2_lz4 s then LZ4
           else if have_sendrecv_v2_brotli s then Brotli
           else CompNone
      else compression)"

end
