(* ===== verification/SyncTransfer.thy ===== *)
theory SyncTransfer
  imports SyncConn
begin

text \<open>
  \<^verbatim>\<open>class SyncConnection\<close>, second half: sending files, the deferred acknowledgements, and the
  per-file transfers \<^verbatim>\<open>sync_send\<close> and \<^verbatim>\<open>sync_recv\<close>. A loop over data of unknown length takes
  \<open>loop_fuel\<close>.
\<close>

section \<open>Failure reports\<close>

definition failed_to_copy :: "string \<Rightarrow> string \<Rightarrow> string" where
  "failed_to_copy from to =
     ''failed to copy '' @ quoted (c_str from) @ '' to '' @ quoted (c_str to)"

text \<open>
  \<^verbatim>\<open>std::vector<char> buf(msg.status.msglen + 1)\<close>: 32-bit arithmetic. When it wraps to zero the
  read that follows writes past an empty vector, which is the abort below.
\<close>

definition failure_buffer_size :: "u32 \<Rightarrow> u32" where
  "failure_buffer_size msglen = msglen + 1"

definition ReportCopyFailure ::
    "'w sync_env \<Rightarrow> string \<Rightarrow> string \<Rightarrow> u32 \<Rightarrow> ('w, bool) cprog" where
  "ReportCopyFailure E from to msglen =
     (if unat (failure_buffer_size msglen) \<le> unat msglen
      then abortp ''heap buffer overflow''
      else bindp (read_fd E (unat msglen)) (\<lambda>r. case r of
          None \<Rightarrow> bindp (strerror_now E) (\<lambda>e.
            fail_with (failed_to_copy from to @ ''; failed to read reason (!): '' @ e))
        | Some b \<Rightarrow> fail_with (failed_to_copy from to @ '': remote '' @ c_str b)))"

definition WriteOrDie :: "'w sync_env \<Rightarrow> string \<Rightarrow> string \<Rightarrow> string \<Rightarrow> ('w, bool) cprog" where
  "WriteOrDie E from to data =
     bindp (write_fd E data) (\<lambda>ok.
       if ok then ret True
       else bindp (getp errno) (\<lambda>e.
         if e = ECONNRESET then
           bindp (read_fd E (sizeof_status E)) (\<lambda>r. case r of
               None \<Rightarrow> bindp (strerror_now E) (\<lambda>m.
                 thenp (Error (failed_to_copy from to @ '': no response: '' @ m)) (exitp 1))
             | Some b \<Rightarrow>
                 (case dec_status E b of (mid, msglen) \<Rightarrow>
                    if mid \<noteq> ID_FAIL E
                    then thenp (Error (failed_to_copy from to @ '': not ID_FAIL: ''
                           @ show_int (sint mid))) (exitp 1)
                    else thenp (ReportCopyFailure E from to msglen) (exitp 1)))
         else thenp (Error (show_nat (length data) @ ''-byte write failed: '' @ strerror E e))
                (exitp 1)))"

section \<open>Sending a file\<close>

definition path_and_mode :: "string \<Rightarrow> u32 \<Rightarrow> string" where
  "path_and_mode path mode = c_str path @ '','' @ show_int (sint mode)"

text \<open>The first \<^verbatim>\<open>sizeof(SyncRequest) + n\<close> bytes of a \<^verbatim>\<open>syncsendbuf\<close> that holds \<open>n\<close> bytes.\<close>

definition syncsendbuf_image :: "('x) sync_proto_scheme \<Rightarrow> string \<Rightarrow> string" where
  "syncsendbuf_image E data =
     take (sizeof_request E + length data)
       (put32 (ID_DATA E) @ put32 (word_of_nat (length data)) @ data)"

text \<open>\<^verbatim>\<open>Encode\<close> until the encoder wants input or is done: \<open>Some sending\<close>, or \<open>None\<close> for \<^verbatim>\<open>return false\<close>.\<close>

fun encode_loop ::
    "'w sync_env \<Rightarrow> string \<Rightarrow> string \<Rightarrow> nat \<Rightarrow> ('w, bool option) cprog" where
  "encode_loop E lp' rp 0 = nofuel"
| "encode_loop E lp' rp (Suc fuel) =
     bindp (osop (os_encode E)) (\<lambda>(result, out).
       if result = EncError
       then thenp (Error (''compressing '' @ quoted (c_str lp') @ '' locally failed'')) (ret None)
       else thenp (if out \<noteq> [] then WriteOrDie E lp' rp (syncsendbuf_image E out) else ret True)
         (case result of
            EncDone \<Rightarrow> ret (Some False)
          | EncNeedInput \<Rightarrow> ret (Some True)
          | _ \<Rightarrow> encode_loop E lp' rp fuel))"

fun send_blocks ::
    "'w sync_env \<Rightarrow> nat \<Rightarrow> string \<Rightarrow> string \<Rightarrow> u64 \<Rightarrow> nat \<Rightarrow> nat \<Rightarrow> ('w, bool) cprog" where
  "send_blocks E lfd lp' rp total_size bytes_copied 0 = nofuel"
| "send_blocks E lfd lp' rp total_size bytes_copied (Suc fuel) =
     bindp (syscall (os_read E lfd (SYNC_DATA_MAX E))) (\<lambda>r. case r of
         None \<Rightarrow> bindp (strerror_now E) (\<lambda>e.
           fail_with (''reading '' @ quoted (c_str lp') @ '' locally failed: '' @ e))
       | Some b \<Rightarrow>
           thenp
             (if b = [] then osop (os_encoder_finish E)
              else thenp (osop (os_encoder_append E b))
                   (thenp (RecordBytesTransferred (length b))
                          (ReportProgress E rp (bytes_copied + length b) total_size)))
             (bindp (encode_loop E lp' rp (loop_fuel E)) (\<lambda>k. case k of
                 None \<Rightarrow> ret False
               | Some sending \<Rightarrow>
                   if sending
                   then send_blocks E lfd lp' rp total_size (bytes_copied + length b) fuel
                   else ret True)))"

text \<open>The closing \<^verbatim>\<open>ID_DONE\<close> message with the modification time, and the deferred acknowledgement.\<close>

definition send_done :: "'w sync_env \<Rightarrow> string \<Rightarrow> string \<Rightarrow> u32 \<Rightarrow> ('w, bool) cprog" where
  "send_done E lp' rp mtime =
     thenp (RecordFileSent lp' rp) (WriteOrDie E lp' rp (img_data E (ID_DONE E) mtime))"

text \<open>\<^verbatim>\<open>stat\<close> and \<^verbatim>\<open>open\<close> of the local file, with their error branches, then \<open>k\<close> on size and file.\<close>

definition stat_and_open ::
    "'w sync_env \<Rightarrow> string \<Rightarrow> (u64 \<Rightarrow> nat \<Rightarrow> ('w, bool) cprog) \<Rightarrow> ('w, bool) cprog" where
  "stat_and_open E lp' k =
     bindp (syscall (os_stat E (c_str lp'))) (\<lambda>st. case st of
         None \<Rightarrow> bindp (strerror_now E) (\<lambda>e.
           fail_with (''cannot stat '' @ quoted (c_str lp') @ '': '' @ e))
       | Some st \<Rightarrow>
           bindp (syscall (os_open_read E (c_str lp'))) (\<lambda>lfd. case lfd of
               None \<Rightarrow> bindp (strerror_now E) (\<lambda>e.
                 fail_with (''opening '' @ quoted (c_str lp') @ '' locally failed: '' @ e))
             | Some lfd \<Rightarrow> k (st_size st) lfd))"

fun send_blocks_legacy ::
    "'w sync_env \<Rightarrow> nat \<Rightarrow> string \<Rightarrow> string \<Rightarrow> u64 \<Rightarrow> nat \<Rightarrow> nat \<Rightarrow> ('w, bool) cprog" where
  "send_blocks_legacy E lfd lp' rp total_size bytes_copied 0 = nofuel"
| "send_blocks_legacy E lfd lp' rp total_size bytes_copied (Suc fuel) =
     bindp (getp max_size) (\<lambda>mx.
     bindp (syscall (os_read E lfd mx)) (\<lambda>r. case r of
         None \<Rightarrow> bindp (strerror_now E) (\<lambda>e.
           fail_with (''reading '' @ quoted (c_str lp') @ '' locally failed: '' @ e))
       | Some b \<Rightarrow>
           if b = [] then ret True
           else thenp (WriteOrDie E lp' rp (syncsendbuf_image E b))
             (thenp (RecordBytesTransferred (length b))
             (thenp (ReportProgress E rp (bytes_copied + length b) total_size)
                (send_blocks_legacy E lfd lp' rp total_size (bytes_copied + length b) fuel)))))"

definition SendLargeFileLegacy ::
    "'w sync_env \<Rightarrow> string \<Rightarrow> u32 \<Rightarrow> string \<Rightarrow> string \<Rightarrow> u32 \<Rightarrow> ('w, bool) cprog" where
  "SendLargeFileLegacy E path mode lp' rp mtime =
     bindp (SendRequest E (ID_SEND_V1 E) (path_and_mode path mode)) (\<lambda>ok.
       if \<not> ok then bindp (strerror_now E) (\<lambda>e.
         fail_with (''failed to send ID_SEND_V1 message '' @ quoted (path_and_mode path mode)
           @ '': '' @ e))
       else stat_and_open E lp' (\<lambda>total_size lfd.
         bindp (send_blocks_legacy E lfd lp' rp total_size 0 (loop_fuel E)) (\<lambda>ok.
           if ok then send_done E lp' rp mtime else ret False)))"

definition SendLargeFile ::
    "'w sync_env \<Rightarrow> string \<Rightarrow> u32 \<Rightarrow> string \<Rightarrow> string \<Rightarrow> u32 \<Rightarrow> CompressionType \<Rightarrow> bool
     \<Rightarrow> ('w, bool) cprog" where
  "SendLargeFile E path mode lp' rp mtime compression dry_run =
     bindp (getp have_sendrecv_v2_dry_run_send) (\<lambda>have_dry_run.
     bindp (getp have_sendrecv_v2) (\<lambda>have_v2.
     bindp (getp (\<lambda>s. ResolveCompressionType s compression)) (\<lambda>compression.
       if dry_run \<and> \<not> have_dry_run then fail_with ''dry-run not supported by the device''
       else if \<not> have_v2 then SendLargeFileLegacy E path mode lp' rp mtime
       else bindp (SendSend2 E path mode compression dry_run) (\<lambda>ok.
         if \<not> ok then bindp (strerror_now E) (\<lambda>e.
           fail_with (''failed to send ID_SEND_V2 message '' @ quoted (c_str path) @ '': '' @ e))
         else stat_and_open E lp' (\<lambda>total_size lfd.
           if compression = CompAny then abortp unexpected_any
           else thenp (osop (os_encoder_new E compression (SYNC_DATA_MAX E)))
             (bindp (send_blocks E lfd lp' rp total_size 0 (loop_fuel E)) (\<lambda>ok.
                if ok then send_done E lp' rp mtime else ret False)))))))"

text \<open>A small file goes out as header, payload and footer in one write.\<close>

definition small_file_image ::
    "('x) sync_proto_scheme \<Rightarrow> string \<Rightarrow> string \<Rightarrow> u32 \<Rightarrow> string" where
  "small_file_image E pm data mtime =
     img_request E (ID_SEND_V1 E) (word_of_nat (length pm)) @ pm
     @ img_request E (ID_DATA E) (word_of_nat (length data)) @ data
     @ img_request E (ID_DONE E) mtime"

definition SendSmallFile ::
    "'w sync_env \<Rightarrow> string \<Rightarrow> u32 \<Rightarrow> string \<Rightarrow> string \<Rightarrow> u32 \<Rightarrow> string \<Rightarrow> bool \<Rightarrow> ('w, bool) cprog" where
  "SendSmallFile E path mode lp' rp mtime data dry_run =
     (if dry_run then SendLargeFile E path mode lp' rp mtime CompNone dry_run
      else if length (path_and_mode path mode) > 1024
      then path_too_long ''SendSmallFile'' (length (path_and_mode path mode))
      else thenp (WriteOrDie E lp' rp (small_file_image E (path_and_mode path mode) data mtime))
        (thenp (RecordFileSent lp' rp)
        (thenp (RecordBytesTransferred (length data))
        (thenp (ReportProgress E rp (length data) (word_of_nat (length data)))
           (ret True)))))"

section \<open>Deferred acknowledgements\<close>

definition CopyDone :: "('w, unit) cprog" where
  "CopyDone = modp (\<lambda>s. s\<lparr>deferred_acknowledgements := tl (deferred_acknowledgements s)\<rparr>)"

definition ReportDeferredCopyFailure :: "string \<Rightarrow> ('w, unit) cprog" where
  "ReportDeferredCopyFailure msg =
     bindp (getp (\<lambda>s. hd (deferred_acknowledgements s))) (\<lambda>(from, to).
       thenp (Error (failed_to_copy from to @ '': remote '' @ c_str msg))
         (modp (\<lambda>s. s\<lparr>deferred_acknowledgements := tl (deferred_acknowledgements s)\<rparr>)))"

datatype ReadStatus = RSuccess | RFailure | RTryLater

definition max_deferred_acks :: nat where
  "max_deferred_acks = 128"

definition clear_ack_buffer :: "('w, unit) cprog" where
  "clear_ack_buffer = modp (\<lambda>s. s\<lparr>acknowledgement_buffer := []\<rparr>)"

fun read_until_amount ::
    "'w sync_env \<Rightarrow> bool \<Rightarrow> nat \<Rightarrow> nat \<Rightarrow> ('w, ReadStatus) cprog" where
  "read_until_amount E should_block amount 0 = nofuel"
| "read_until_amount E should_block amount (Suc fuel) =
     bindp (getp acknowledgement_buffer) (\<lambda>buf.
       if length buf < amount then
         bindp (if should_block then ret 1 else osop (os_sock_poll E)) (\<lambda>rc.
           if \<not> should_block \<and> rc = 0 then ret RTryLater
           else bindp (syscall (os_sock_read E (amount - length buf))) (\<lambda>r. case r of
               None \<Rightarrow> thenp (Error ''failed to read copy response'') (ret RFailure)
             | Some b \<Rightarrow>
                 if b = [] then thenp (Error ''failed to read copy response'') (ret RFailure)
                 else let buf' = buf @ take (amount - length buf) b in
                   thenp (modp (\<lambda>s. s\<lparr>acknowledgement_buffer := buf'\<rparr>))
                     (if \<not> should_block \<and> length buf' < amount then ret RTryLater
                      else read_until_amount E should_block amount fuel)))
       else ret RSuccess)"

fun ack_loop :: "'w sync_env \<Rightarrow> bool \<Rightarrow> nat \<Rightarrow> ('w, bool) cprog" where
  "ack_loop E read_all 0 = nofuel"
| "ack_loop E read_all (Suc fuel) =
     bindp (getp deferred_acknowledgements) (\<lambda>deferred.
       if deferred = [] then ret True
       else let should_block = (read_all \<or> length deferred \<ge> max_deferred_acks) in
         bindp (read_until_amount E should_block (sizeof_status E) (loop_fuel E)) (\<lambda>st. case st of
             RTryLater \<Rightarrow> ret True
           | RFailure \<Rightarrow> ret False
           | RSuccess \<Rightarrow>
               bindp (getp (\<lambda>s. dec_status E (take (sizeof_status E) (acknowledgement_buffer s))))
                 (\<lambda>(hid, msglen).
                 if hid = ID_OKAY E then
                   thenp clear_ack_buffer
                     (if msglen \<noteq> 0
                      then fail_with (''received ID_OKAY with msg_len ('' @ show_nat (unat msglen)
                             @ '' != 0'')
                      else thenp CopyDone (ack_loop E read_all fuel))
                 else if hid \<noteq> ID_FAIL E
                 then fail_with (''unexpected response from daemon: id = ''
                        @ (if hid = 0 then ''0'' else ''0x'' @ show_hex (unat hid)))
                 else if unat msglen > SYNC_DATA_MAX E
                 then fail_with (''too-long message length from daemon: msglen = ''
                        @ show_nat (unat msglen))
                 else bindp (read_until_amount E should_block (sizeof_status E + unat msglen)
                               (loop_fuel E)) (\<lambda>st. case st of
                     RTryLater \<Rightarrow> ret True
                   | RFailure \<Rightarrow> ret False
                   | RSuccess \<Rightarrow>
                       bindp (getp (\<lambda>s. drop (sizeof_status E) (acknowledgement_buffer s)))
                         (\<lambda>msg. thenp (ReportDeferredCopyFailure msg)
                                  (thenp clear_ack_buffer (ret False)))))))"

definition ReadAcknowledgements :: "'w sync_env \<Rightarrow> bool \<Rightarrow> ('w, bool) cprog" where
  "ReadAcknowledgements E read_all = ack_loop E read_all (loop_fuel E)"

section \<open>Transfers of one file\<close>

definition sync_send ::
    "'w sync_env \<Rightarrow> string \<Rightarrow> string \<Rightarrow> u32 \<Rightarrow> u32 \<Rightarrow> bool \<Rightarrow> CompressionType \<Rightarrow> bool
     \<Rightarrow> ('w, bool) cprog" where
  "sync_send E lp' rp mtime mode sync compression dry_run =
     bindp (if sync then sync_lstat E rp else ret (False, zero_stat)) (\<lambda>(ok, st).
       if ok \<and> st_mtime st = ucast mtime
       then thenp (RecordFilesSkipped 1) (ret True)
       else if S_ISLNK mode then
         bindp (syscall (os_readlink E (c_str lp') (os_PATH_MAX E - 1))) (\<lambda>r. case r of
             None \<Rightarrow> bindp (strerror_now E) (\<lambda>e.
               fail_with (''readlink '' @ quoted (c_str lp') @ '' failed: '' @ e))
           | Some b \<Rightarrow>
               bindp (SendSmallFile E rp mode lp' rp mtime (b @ [CHR 0x00]) dry_run) (\<lambda>ok.
                 if \<not> ok then ret False else ReadAcknowledgements E sync))
       else
         bindp (syscall (os_stat E (c_str lp'))) (\<lambda>r. case r of
             None \<Rightarrow> bindp (strerror_now E) (\<lambda>e.
               fail_with (''failed to stat local file '' @ quoted (c_str lp') @ '': '' @ e))
           | Some st \<Rightarrow>
               if sint (st_size st) < int (SYNC_DATA_MAX E) then
                 bindp (syscall (os_read_file E lp')) (\<lambda>d. case d of
                     None \<Rightarrow> bindp (strerror_now E) (\<lambda>e.
                       fail_with (''failed to read all of '' @ quoted (c_str lp') @ '': '' @ e))
                   | Some data \<Rightarrow>
                       bindp (SendSmallFile E rp mode lp' rp mtime data dry_run) (\<lambda>ok.
                         if \<not> ok then ret False else ReadAcknowledgements E sync))
               else
                 bindp (SendLargeFile E rp mode lp' rp mtime compression dry_run) (\<lambda>ok.
                   if \<not> ok then ret False else ReadAcknowledgements E sync)))"

text \<open>\<^verbatim>\<open>adb_unlink(lpath); return false;\<close> and \<^verbatim>\<open>name != nullptr ? name : rpath\<close>.\<close>

definition unlink_and_fail :: "'w sync_env \<Rightarrow> string \<Rightarrow> ('w, bool) cprog" where
  "unlink_and_fail E lp' = thenp (osop (os_unlink E lp')) (ret False)"

definition display_name :: "string option \<Rightarrow> string \<Rightarrow> string" where
  "display_name name rp = (case name of Some n \<Rightarrow> n | None \<Rightarrow> rp)"

definition create_local :: "'w sync_env \<Rightarrow> string \<Rightarrow> (nat \<Rightarrow> ('w, bool) cprog) \<Rightarrow> ('w, bool) cprog" where
  "create_local E lp' k =
     thenp (osop (os_unlink E lp'))
     (bindp (syscall (os_creat E lp')) (\<lambda>lfd. case lfd of
         None \<Rightarrow> bindp (strerror_now E) (\<lambda>e.
           fail_with (''cannot create '' @ quoted lp' @ '': '' @ e))
       | Some lfd \<Rightarrow> k lfd))"

definition size_too_large :: "'w sync_env \<Rightarrow> string \<Rightarrow> u32 \<Rightarrow> nat \<Rightarrow> ('w, bool) cprog" where
  "size_too_large E lp' n mx =
     thenp (Error (''msg.data.size too large: '' @ show_nat (unat n) @ '' (max '' @ show_nat mx
              @ '')'')) (unlink_and_fail E lp')"

definition cannot_write :: "'w sync_env \<Rightarrow> string \<Rightarrow> ('w, bool) cprog" where
  "cannot_write E lp' =
     bindp (strerror_now E) (\<lambda>e.
       thenp (Error (''cannot write '' @ quoted lp' @ '': '' @ e)) (unlink_and_fail E lp'))"

fun recv_v1_loop ::
    "'w sync_env \<Rightarrow> nat \<Rightarrow> string \<Rightarrow> string \<Rightarrow> string option \<Rightarrow> u64 \<Rightarrow> nat \<Rightarrow> nat \<Rightarrow> ('w, bool) cprog" where
  "recv_v1_loop E lfd rp lp' name expected_size bytes_copied 0 = nofuel"
| "recv_v1_loop E lfd rp lp' name expected_size bytes_copied (Suc fuel) =
     bindp (read_fd E (sizeof_data E)) (\<lambda>r. case r of
         None \<Rightarrow> unlink_and_fail E lp'
       | Some b \<Rightarrow>
           (case dec_data E b of (did, dsize) \<Rightarrow>
              if did = ID_DONE E then thenp (RecordFilesTransferred 1) (ret True)
              else if did \<noteq> ID_DATA E
              then thenp (osop (os_unlink E lp'))
                     (thenp (ReportCopyFailure E rp lp' dsize) (ret False))
              else bindp (getp max_size) (\<lambda>mx.
                if unat dsize > mx then size_too_large E lp' dsize mx
                else bindp (read_fd E (unat dsize)) (\<lambda>c. case c of
                    None \<Rightarrow> unlink_and_fail E lp'
                  | Some buffer \<Rightarrow>
                      bindp (syscall (os_write_file E lfd buffer)) (\<lambda>w. case w of
                          None \<Rightarrow> cannot_write E lp'
                        | Some _ \<Rightarrow>
                            thenp (RecordBytesTransferred (unat dsize))
                            (thenp (ReportProgress E (display_name name rp)
                                      (bytes_copied + unat dsize) expected_size)
                              (recv_v1_loop E lfd rp lp' name expected_size
                                 (bytes_copied + unat dsize) fuel)))))))"

definition sync_recv_v1 ::
    "'w sync_env \<Rightarrow> string \<Rightarrow> string \<Rightarrow> string option \<Rightarrow> u64 \<Rightarrow> ('w, bool) cprog" where
  "sync_recv_v1 E rp lp' name expected_size =
     bindp (SendRequest E (ID_RECV_V1 E) rp) (\<lambda>ok.
       if \<not> ok then ret False
       else create_local E lp' (\<lambda>lfd.
         recv_v1_loop E lfd rp lp' name expected_size 0 (loop_fuel E)))"

text \<open>
  \<^verbatim>\<open>Decode\<close> until the decoder wants input or is done: \<open>Inl b\<close> for \<^verbatim>\<open>return b\<close>, \<open>Inr bytes_copied\<close>
  to read the next message.
\<close>

fun decode_loop ::
    "'w sync_env \<Rightarrow> nat \<Rightarrow> string \<Rightarrow> string \<Rightarrow> string option \<Rightarrow> u64 \<Rightarrow> nat \<Rightarrow> nat
     \<Rightarrow> ('w, bool + nat) cprog" where
  "decode_loop E lfd rp lp' name expected_size bytes_copied 0 = nofuel"
| "decode_loop E lfd rp lp' name expected_size bytes_copied (Suc fuel) =
     bindp (osop (os_decode E)) (\<lambda>(result, out).
       if result = DecError
       then thenp (Error ''decompress failed'')
              (bindp (unlink_and_fail E lp') (\<lambda>b. ret (Inl b)))
       else bindp (if out \<noteq> [] then syscall (os_write_file E lfd out) else ret (Some ()))
         (\<lambda>w. case w of
            None \<Rightarrow> bindp (cannot_write E lp') (\<lambda>b. ret (Inl b))
          | Some _ \<Rightarrow>
              thenp (RecordBytesTransferred (length out))
              (thenp (ReportProgress E (display_name name rp) (bytes_copied + length out)
                        expected_size)
                (case result of
                   DecNeedInput \<Rightarrow> ret (Inr (bytes_copied + length out))
                 | DecDone \<Rightarrow> thenp (RecordFilesTransferred 1) (ret (Inl True))
                 | _ \<Rightarrow> decode_loop E lfd rp lp' name expected_size (bytes_copied + length out)
                          fuel))))"

fun recv_v2_loop ::
    "'w sync_env \<Rightarrow> nat \<Rightarrow> string \<Rightarrow> string \<Rightarrow> string option \<Rightarrow> u64 \<Rightarrow> nat \<Rightarrow> nat \<Rightarrow> ('w, bool) cprog" where
  "recv_v2_loop E lfd rp lp' name expected_size bytes_copied 0 = nofuel"
| "recv_v2_loop E lfd rp lp' name expected_size bytes_copied (Suc fuel) =
     (let decode =
        bindp (decode_loop E lfd rp lp' name expected_size bytes_copied (loop_fuel E)) (\<lambda>k.
          case k of
            Inl b \<Rightarrow> ret b
          | Inr n \<Rightarrow> recv_v2_loop E lfd rp lp' name expected_size n fuel)
      in bindp (read_fd E (sizeof_data E)) (\<lambda>r. case r of
         None \<Rightarrow> unlink_and_fail E lp'
       | Some b \<Rightarrow>
           (case dec_data E b of (did, dsize) \<Rightarrow>
              if did = ID_DONE E
              then bindp (osop (os_decoder_finish E)) (\<lambda>ok.
                     if ok then decode else fail_with ''unexpected ID_DONE'')
              else if did \<noteq> ID_DATA E
              then thenp (osop (os_unlink E lp'))
                     (thenp (ReportCopyFailure E rp lp' dsize) (ret False))
              else bindp (getp max_size) (\<lambda>mx.
                if unat dsize > mx then size_too_large E lp' dsize mx
                else bindp (read_fd E (unat dsize)) (\<lambda>c. case c of
                    None \<Rightarrow> unlink_and_fail E lp'
                  | Some block \<Rightarrow> thenp (osop (os_decoder_append E block)) decode)))))"

definition sync_recv_v2 ::
    "'w sync_env \<Rightarrow> string \<Rightarrow> string \<Rightarrow> string option \<Rightarrow> u64 \<Rightarrow> CompressionType \<Rightarrow> ('w, bool) cprog" where
  "sync_recv_v2 E rp lp' name expected_size compression =
     bindp (getp (\<lambda>s. ResolveCompressionType s compression)) (\<lambda>compression.
     bindp (SendRecv2 E rp compression) (\<lambda>ok.
       if \<not> ok then ret False
       else create_local E lp' (\<lambda>lfd.
         if compression = CompAny then abortp unexpected_any
         else thenp (osop (os_decoder_new E compression (SYNC_DATA_MAX E)))
           (recv_v2_loop E lfd rp lp' name expected_size 0 (loop_fuel E)))))"

definition sync_recv ::
    "'w sync_env \<Rightarrow> string \<Rightarrow> string \<Rightarrow> string option \<Rightarrow> u64 \<Rightarrow> CompressionType \<Rightarrow> ('w, bool) cprog" where
  "sync_recv E rp lp' name expected_size compression =
     bindp (getp have_sendrecv_v2) (\<lambda>v2.
       if v2 then sync_recv_v2 E rp lp' name expected_size compression
       else sync_recv_v1 E rp lp' name expected_size)"

end
