(* ===== verification/SyncCopy.thy ===== *)
theory SyncCopy
  imports SyncTransfer
begin

text \<open>
  The commands of the file-sync client: building the list of files to copy on either side, and
  \<^verbatim>\<open>do_sync_ls\<close>, \<^verbatim>\<open>do_sync_push\<close>, \<^verbatim>\<open>do_sync_pull\<close>, \<^verbatim>\<open>do_sync_sync\<close>. Vectors that the C++ code fills
  through references are accumulators. The fuel of the recursive list builders is the depth of
  the directory tree.
\<close>

unbundle bit_operations_syntax

definition newline :: string where
  "newline = [CHR 0x0A]"

section \<open>ls\<close>

definition ls_line :: "u32 \<Rightarrow> u64 \<Rightarrow> u64 \<Rightarrow> string \<Rightarrow> string" where
  "ls_line mode file_size time name =
     pad_left 8 CHR ''0'' (show_hex (unat mode)) @ '' ''
     @ pad_left 8 CHR ''0'' (show_hex (unat file_size)) @ '' ''
     @ pad_left 8 CHR ''0'' (show_hex (unat time)) @ '' '' @ name @ newline"

definition do_sync_ls :: "'w sync_env \<Rightarrow> string \<Rightarrow> ('w, bool) cprog" where
  "do_sync_ls E path =
     with_connection E
       (bindp (sync_ls E path
           (\<lambda>mode file_size time name _.
              thenp (capture E (ls_line mode file_size time name))
                (lp (Stdout (ls_line mode file_size time name)))) ())
         (\<lambda>(ok, _). ret ok))"

section \<open>Listing a local directory\<close>

definition IsDotOrDotDot :: "string \<Rightarrow> bool" where
  "IsDotOrDotDot name \<longleftrightarrow> name = ''.'' \<or> name = ''..''"

definition special_file_warning :: "string \<Rightarrow> u32 \<Rightarrow> string" where
  "special_file_warning path mode =
     ''skipping special file '' @ quoted (c_str path) @ '' (mode = 0o''
     @ show_oct (unat mode) @ '')''"

text \<open>One directory entry: \<open>file_list\<close> and \<open>dirlist\<close> are the accumulators.\<close>

definition local_entry ::
    "'w sync_env \<Rightarrow> string \<Rightarrow> string \<Rightarrow> string \<Rightarrow> copyinfo list \<times> copyinfo list
     \<Rightarrow> ('w, copyinfo list \<times> copyinfo list) cprog" where
  "local_entry E lp' rp name acc =
     (case acc of (file_list, dirlist) \<Rightarrow>
        if IsDotOrDotDot name then ret (file_list, dirlist)
        else bindp (syscall (os_lstat E (c_str (lp' @ name)))) (\<lambda>r. case r of
            None \<Rightarrow> bindp (strerror_now E) (\<lambda>e.
              thenp (Error (''cannot lstat '' @ quoted (c_str (lp' @ name)) @ '': '' @ e))
                (ret (file_list, dirlist)))
          | Some st \<Rightarrow>
              let ci = copyinfo_ctor E lp' rp name (st_mode st) in
              if S_ISDIR (st_mode st) then ret (file_list, dirlist @ [ci])
              else let skipped = \<not> should_push_file (st_mode st) in
                thenp (if skipped then Warning (special_file_warning lp' (st_mode st)) else ret ())
                  (ret (file_list @ [ci\<lparr>skip := skipped, ci_time := st_mtime st,
                                          ci_size := st_size st\<rparr>], dirlist))))"

fun local_build_list ::
    "'w sync_env \<Rightarrow> nat \<Rightarrow> string \<Rightarrow> string \<Rightarrow> copyinfo list \<times> string list
     \<Rightarrow> ('w, bool \<times> copyinfo list \<times> string list) cprog" where
  "local_build_list E 0 lp' rp acc = nofuel"
| "local_build_list E (Suc fuel) lp' rp acc =
     (case acc of (file_list, directory_list) \<Rightarrow>
        bindp (syscall (os_read_dir E (c_str lp'))) (\<lambda>r. case r of
            None \<Rightarrow> bindp (strerror_now E) (\<lambda>e.
              thenp (Error (''cannot open '' @ quoted (c_str lp') @ '': '' @ e))
                (ret (False, file_list, directory_list)))
          | Some names \<Rightarrow>
              bindp (fold_prog (local_entry E lp' rp) names (file_list, [])) (\<lambda>(file_list, dirlist).
              bindp (fold_prog (\<lambda>ci (fl, dl).
                        bindp (local_build_list E fuel (lpath ci) (rpath ci) (fl, dl @ [rpath ci]))
                          (\<lambda>(_, acc'). ret acc')) dirlist (file_list, directory_list))
                (\<lambda>acc'. ret (True, acc')))))"

section \<open>push and sync\<close>

definition is_root_dir :: "string \<Rightarrow> bool" where
  "is_root_dir path = list_all (\<lambda>c. c = CHR ''/'') path"

text \<open>\<^verbatim>\<open>for (path = rpath; !is_root_dir(path); path = Dirname(path)) directory_list.push_back(path)\<close>\<close>

fun parent_dirs :: "('x) libbase_scheme \<Rightarrow> nat \<Rightarrow> string \<Rightarrow> string list option" where
  "parent_dirs L 0 path = None"
| "parent_dirs L (Suc fuel) path =
     (if is_root_dir path then Some []
      else map_option (\<lambda>ds. path # ds) (parent_dirs L fuel (Dirname L path)))"

text \<open>The \<^verbatim>\<open>mkdir\<close> commands: one shell command line per 32 KiB of escaped paths.\<close>

fun mkdir_loop :: "'w sync_env \<Rightarrow> string list \<Rightarrow> string \<Rightarrow> ('w, bool) cprog" where
  "mkdir_loop E [] cmd =
     thenp (if cmd \<noteq> ''mkdir'' then thenp (osop (os_shell_command E cmd)) (ret ()) else ret ())
       (ret True)"
| "mkdir_loop E (dir # dirs) cmd =
     (let escaped_path = escape_arg E dir in
      if length escaped_path > 16384 then
        thenp (capture E (''path too long: '' @ c_str escaped_path @ newline))
          (fail_with (''path too long: '' @ c_str escaped_path))
      else if length cmd + length escaped_path > 32768 then
        thenp (osop (os_shell_command E cmd))
          (mkdir_loop E dirs (''mkdir'' @ '' '' @ escaped_path))
      else mkdir_loop E dirs (cmd @ '' '' @ escaped_path))"

definition mkdir_workaround :: "'w sync_env \<Rightarrow> string list \<Rightarrow> ('w, bool) cprog" where
  "mkdir_workaround E directory_list =
     bindp (getp conn_features) (\<lambda>fs.
       if \<not> can_use E fs kFeatureFixedPushMkdir \<and> can_use E fs kFeatureShell2
       then mkdir_loop E directory_list ''mkdir''
       else ret True)"

text \<open>All \<^verbatim>\<open>lstat\<close> requests are sent before the first reply is read.\<close>

definition send_lstats :: "'w sync_env \<Rightarrow> copyinfo list \<Rightarrow> ('w, bool \<times> unit) cprog" where
  "send_lstats E file_list =
     fold_while (\<lambda>ci _. bindp (SendLstat E (rpath ci)) (\<lambda>ok.
        if ok then ret (True, ())
        else thenp (capture E (''failed to send lstat'' @ newline))
               (bindp (fail_with ''failed to send lstat'') (\<lambda>b. ret (b, ())))))
       file_list ()"

definition unchanged :: "stat_buf \<Rightarrow> copyinfo \<Rightarrow> bool" where
  "unchanged st ci \<longleftrightarrow> st_size st = ci_size ci \<and> st_mtime st = ci_time ci"

definition read_lstats :: "'w sync_env \<Rightarrow> copyinfo list \<Rightarrow> ('w, copyinfo list) cprog" where
  "read_lstats E file_list =
     fold_prog (\<lambda>ci acc. bindp (FinishStat E) (\<lambda>(ok, st).
        ret (acc @ [if ok \<and> unchanged st ci then ci\<lparr>skip := True\<rparr> else ci]))) file_list []"

definition check_remote_timestamps ::
    "'w sync_env \<Rightarrow> copyinfo list \<Rightarrow> ('w, bool \<times> copyinfo list) cprog" where
  "check_remote_timestamps E file_list =
     bindp (send_lstats E file_list) (\<lambda>(ok, _).
       if ok then bindp (read_lstats E file_list) (\<lambda>fl. ret (True, fl))
       else ret (False, file_list))"

text \<open>The accumulator counts the skipped files.\<close>

definition push_files ::
    "'w sync_env \<Rightarrow> bool \<Rightarrow> CompressionType \<Rightarrow> bool \<Rightarrow> copyinfo list \<Rightarrow> ('w, bool \<times> nat) cprog" where
  "push_files E list_only compression dry_run file_list =
     fold_while (\<lambda>ci skipped.
        if \<not> skip ci then
          if list_only then
            let m = ''would push: '' @ c_str (lpath ci) @ '' -> '' @ c_str (rpath ci)
            in thenp (capture E m) (thenp (Println m) (ret (True, skipped)))
          else bindp (sync_send E (lpath ci) (rpath ci) (ucast (ci_time ci)) (ci_mode ci) False
                        compression dry_run) (\<lambda>ok. ret (ok, skipped))
        else ret (True, Suc skipped)) file_list 0"

definition copy_local_dir_remote ::
    "'w sync_env \<Rightarrow> string \<Rightarrow> string \<Rightarrow> bool \<Rightarrow> bool \<Rightarrow> CompressionType \<Rightarrow> bool \<Rightarrow> ('w, bool) cprog" where
  "copy_local_dir_remote E lp0 rp0 check_timestamps list_only compression dry_run =
     thenp (NewTransfer E)
     (case ensure_trailing_separators E lp0 rp0 of (lp', rp) \<Rightarrow>
      case parent_dirs E (loop_fuel E) rp of
        None \<Rightarrow> nofuel
      | Some parents \<Rightarrow>
        bindp (local_build_list E (loop_fuel E) lp' rp ([], rev parents))
          (\<lambda>(ok, file_list, directory_list).
          if \<not> ok then ret False
          else bindp (mkdir_workaround E directory_list) (\<lambda>ok.
          if \<not> ok then ret False
          else bindp (if check_timestamps then check_remote_timestamps E file_list
                      else ret (True, file_list)) (\<lambda>(ok, file_list).
          if \<not> ok then ret False
          else thenp (ComputeExpectedTotalBytes file_list)
            (bindp (push_files E list_only compression dry_run file_list) (\<lambda>(ok, skipped).
             if \<not> ok then ret False
             else thenp (RecordFilesSkipped skipped)
               (bindp (ReadAcknowledgements E True) (\<lambda>success.
                  thenp (ReportTransferRate E False current_ledger lp' Push)
                    (ret success)))))))))"

text \<open>\<^verbatim>\<open>capture_printf(...); sc.Error(...); return false;\<close> with the same text.\<close>

definition capture_and_fail :: "'w sync_env \<Rightarrow> string \<Rightarrow> ('w, bool) cprog" where
  "capture_and_fail E msg = thenp (capture E msg) (fail_with msg)"

definition not_a_directory :: "string \<Rightarrow> string" where
  "not_a_directory dst = ''target '' @ quoted dst @ '' is not a directory''"

definition failed_to_access :: "string \<Rightarrow> string" where
  "failed_to_access dst = ''failed to access '' @ quoted dst @ '': Not a directory''"

definition with_slash :: "string \<Rightarrow> string" where
  "with_slash s = (if last s = CHR ''/'' then s else s @ ''/'')"

text \<open>One source of \<^verbatim>\<open>do_sync_push\<close>: \<open>None\<close> for \<^verbatim>\<open>return false\<close>, otherwise its success.\<close>

definition push_source ::
    "'w sync_env \<Rightarrow> string \<Rightarrow> bool \<Rightarrow> bool \<Rightarrow> bool \<Rightarrow> CompressionType \<Rightarrow> bool \<Rightarrow> string
     \<Rightarrow> ('w, bool option) cprog" where
  "push_source E dst dst_exists dst_isdir sync compression dry_run src_path =
     bindp (syscall (os_stat E src_path)) (\<lambda>r. case r of
         None \<Rightarrow> bindp (strerror_now E) (\<lambda>e.
           bindp (capture_and_fail E (''cannot stat '' @ quoted src_path @ '': '' @ e))
             (\<lambda>b. ret (Some b)))
       | Some st \<Rightarrow>
           if S_ISDIR (st_mode st) then
             if dst_exists \<and> \<not> dst_isdir
             then thenp (capture_and_fail E (not_a_directory dst)) (ret None)
             else bindp (copy_local_dir_remote E src_path
                           (if dst_exists then with_slash dst @ Basename E src_path else dst)
                           sync False compression dry_run) (\<lambda>b. ret (Some b))
           else if \<not> should_push_file (st_mode st)
           then thenp (Warning (special_file_warning src_path (st_mode st))) (ret (Some True))
           else let dst_path = c_str (if dst_isdir then with_slash dst @ Basename E src_path else dst)
             in thenp (NewTransfer E)
                (thenp (SetExpectedTotalBytes (st_size st))
                (bindp (sync_send E src_path dst_path (ucast (st_mtime st)) (st_mode st) sync
                          compression dry_run) (\<lambda>b.
                   thenp (ReportTransferRate E True current_ledger src_path Push)
                     (ret (Some b))))))"

fun push_sources ::
    "(string \<Rightarrow> ('w, bool option) cprog) \<Rightarrow> string list \<Rightarrow> bool \<Rightarrow> ('w, bool option) cprog" where
  "push_sources one [] success = ret (Some success)"
| "push_sources one (src # srcs) success =
     bindp (one src) (\<lambda>r. case r of
         None \<Rightarrow> ret None
       | Some b \<Rightarrow> push_sources one srcs (success \<and> b))"

definition push_body ::
    "'w sync_env \<Rightarrow> string list \<Rightarrow> string \<Rightarrow> bool \<Rightarrow> CompressionType \<Rightarrow> bool \<Rightarrow> bool \<Rightarrow> bool
     \<Rightarrow> ('w, bool) cprog" where
  "push_body E srcs dst sync compression dry_run dst_exists dst_isdir =
     (if \<not> dst_isdir \<and> length srcs > 1 then capture_and_fail E (not_a_directory dst)
      else if \<not> dst_isdir \<and> last dst = CHR ''/'' \<and> dst_exists
      then capture_and_fail E (failed_to_access dst)
      else bindp (push_sources (push_source E dst dst_exists dst_isdir sync compression dry_run)
                    srcs True) (\<lambda>r. case r of
          None \<Rightarrow> ret False
        | Some success \<Rightarrow>
            bindp (ReadAcknowledgements E True) (\<lambda>acked.
              thenp (ReportOverallTransferRate E Push) (ret (success \<and> acked)))))"

definition do_sync_push ::
    "'w sync_env \<Rightarrow> string list \<Rightarrow> string \<Rightarrow> bool \<Rightarrow> CompressionType \<Rightarrow> bool \<Rightarrow> bool
     \<Rightarrow> ('w, bool) cprog" where
  "do_sync_push E srcs dst sync compression dry_run quiet =
     with_connection E
       (thenp (SetQuiet quiet)
       (bindp (sync_stat_fallback E dst) (\<lambda>(ok, st).
          if ok then push_body E srcs dst sync compression dry_run True (S_ISDIR (st_mode st))
          else bindp (getp errno) (\<lambda>e.
            if e = ENOENT \<or> e = ENOPROTOOPT
            then push_body E srcs dst sync compression dry_run False False
            else capture_and_fail E (''stat failed when trying to push to '' @ dst @ '': ''
                   @ strerror E e)))))"

definition do_sync_sync ::
    "'w sync_env \<Rightarrow> string \<Rightarrow> string \<Rightarrow> bool \<Rightarrow> CompressionType \<Rightarrow> bool \<Rightarrow> bool \<Rightarrow> ('w, bool) cprog" where
  "do_sync_sync E lp' rp list_only compression dry_run quiet =
     with_connection E
       (thenp (SetQuiet quiet)
       (bindp (copy_local_dir_remote E lp' rp True list_only compression dry_run) (\<lambda>success.
          thenp (if \<not> list_only then ReportOverallTransferRate E Push else ret ())
            (ret success))))"

section \<open>Listing a remote directory\<close>

type_synonym remote_lists = "copyinfo list \<times> copyinfo list \<times> copyinfo list"

text \<open>The callback; its accumulator is \<open>(file_list, dirlist, linklist)\<close>.\<close>

definition remote_entry ::
    "'w sync_env \<Rightarrow> string \<Rightarrow> string \<Rightarrow> u32 \<Rightarrow> u64 \<Rightarrow> u64 \<Rightarrow> string \<Rightarrow> remote_lists
     \<Rightarrow> ('w, remote_lists) cprog" where
  "remote_entry E rp lp' mode file_size time name acc =
     (case acc of (file_list, dirlist, linklist) \<Rightarrow>
        if IsDotOrDotDot name then ret (file_list, dirlist, linklist)
        else let ci = copyinfo_ctor E lp' rp name mode in
          if S_ISDIR mode then ret (file_list, dirlist @ [ci], linklist)
          else if S_ISLNK mode then ret (file_list, dirlist, linklist @ [ci])
          else let skipped = \<not> should_pull_file (ci_mode ci) in
            thenp (if skipped then Warning (special_file_warning (rpath ci) (ci_mode ci)) else ret ())
              (ret (file_list @ [ci\<lparr>skip := skipped, ci_time := time, ci_size := file_size\<rparr>],
                    dirlist, linklist)))"

text \<open>Each symlink is followed to see whether it names a directory.\<close>

definition remote_link ::
    "'w sync_env \<Rightarrow> copyinfo \<Rightarrow> copyinfo list \<times> copyinfo list
     \<Rightarrow> ('w, copyinfo list \<times> copyinfo list) cprog" where
  "remote_link E link_ci acc =
     (case acc of (file_list, dirlist) \<Rightarrow>
        bindp (sync_stat_fallback E (rpath link_ci)) (\<lambda>(ok, st).
          if \<not> ok then bindp (strerror_now E) (\<lambda>e.
            thenp (Warning (''stat failed for path '' @ c_str (rpath link_ci) @ '': '' @ e))
              (ret (file_list, dirlist)))
          else if S_ISDIR (st_mode st) then ret (file_list, dirlist @ [link_ci])
          else ret (file_list @ [link_ci], dirlist)))"

fun remote_build_list ::
    "'w sync_env \<Rightarrow> nat \<Rightarrow> string \<Rightarrow> string \<Rightarrow> copyinfo list \<Rightarrow> ('w, bool \<times> copyinfo list) cprog" where
  "remote_build_list E 0 rp lp' file_list = nofuel"
| "remote_build_list E (Suc fuel) rp lp' file_list =
     (let ci = copyinfo_ctor E (Dirname E lp') (Dirname E rp) (Basename E lp') S_IFDIR in
      bindp (sync_ls E rp (remote_entry E rp lp') (file_list @ [ci], [], []))
        (\<lambda>(ok, file_list, dirlist, linklist).
        if \<not> ok then ret (False, file_list)
        else bindp (fold_prog (remote_link E) linklist (file_list, dirlist))
          (\<lambda>(file_list, dirlist).
             fold_while (\<lambda>current fl. remote_build_list E fuel (rpath current) (lpath current) fl)
               (rev dirlist) file_list)))"

section \<open>pull\<close>

definition set_time_and_mode :: "'w sync_env \<Rightarrow> string \<Rightarrow> u64 \<Rightarrow> u32 \<Rightarrow> ('w, bool) cprog" where
  "set_time_and_mode E lp' time mode =
     bindp (syscall (os_utime E (c_str lp') time)) (\<lambda>r1.
     bindp (osop (os_umask E)) (\<lambda>mask.
     bindp (syscall (os_chmod E (c_str lp') (mode AND NOT mask))) (\<lambda>r2.
       ret (r1 \<noteq> None \<and> r2 \<noteq> None))))"

definition pull_files ::
    "'w sync_env \<Rightarrow> bool \<Rightarrow> CompressionType \<Rightarrow> copyinfo list \<Rightarrow> ('w, bool \<times> nat) cprog" where
  "pull_files E copy_attrs compression file_list =
     fold_while (\<lambda>ci skipped.
        if skip ci then ret (True, Suc skipped)
        else if S_ISDIR (ci_mode ci) then
          bindp (syscall (os_mkdirs E (lpath ci))) (\<lambda>r.
            if r = None
            then bindp (strerror_now E) (\<lambda>e.
                   bindp (capture_and_fail E (''failed to create directory ''
                            @ quoted (c_str (lpath ci)) @ '': '' @ e)) (\<lambda>b. ret (b, skipped)))
            else ret (True, skipped))
        else bindp (sync_recv E (c_str (rpath ci)) (c_str (lpath ci)) None (ci_size ci) compression)
          (\<lambda>ok.
            if \<not> ok then ret (False, skipped)
            else if copy_attrs
            then bindp (set_time_and_mode E (lpath ci) (ci_time ci) (ci_mode ci)) (\<lambda>done.
                   ret (done, skipped))
            else ret (True, skipped))) file_list 0"

definition copy_remote_dir_local ::
    "'w sync_env \<Rightarrow> string \<Rightarrow> string \<Rightarrow> bool \<Rightarrow> CompressionType \<Rightarrow> ('w, bool) cprog" where
  "copy_remote_dir_local E rp0 lp0 copy_attrs compression =
     thenp (NewTransfer E)
     (case ensure_trailing_separators E lp0 rp0 of (lp', rp) \<Rightarrow>
        thenp (capture E ''pull: building file list...'')
        (thenp (Printf ''pull: building file list...'')
        (bindp (remote_build_list E (loop_fuel E) rp lp' []) (\<lambda>(ok, file_list).
           if \<not> ok then ret False
           else thenp (ComputeExpectedTotalBytes file_list)
             (bindp (pull_files E copy_attrs compression file_list) (\<lambda>(ok, skipped).
                if \<not> ok then ret False
                else thenp (RecordFilesSkipped skipped)
                  (thenp (ReportTransferRate E True current_ledger rp Pull) (ret True))))))))"

definition with_separator :: "'w sync_env \<Rightarrow> string \<Rightarrow> string" where
  "with_separator E s =
     (if adb_is_separator E (last s) then s else s @ [OS_PATH_SEPARATOR E])"

definition pull_source ::
    "'w sync_env \<Rightarrow> string \<Rightarrow> bool \<Rightarrow> bool \<Rightarrow> bool \<Rightarrow> CompressionType \<Rightarrow> string option \<Rightarrow> string
     \<Rightarrow> ('w, bool option) cprog" where
  "pull_source E dst dst_exists dst_isdir copy_attrs compression name src_path =
     bindp (sync_stat_fallback E src_path) (\<lambda>(ok, src_st).
       if \<not> ok then bindp (getp errno) (\<lambda>e.
         let m = (if e = ENOPROTOOPT
                  then ''remote object '' @ quoted src_path @ '' does not exist''
                  else ''failed to stat remote object '' @ quoted src_path @ '': '' @ strerror E e)
         in thenp (capture E (m @ newline)) (bindp (fail_with m) (\<lambda>b. ret (Some b))))
       else if S_ISDIR (st_mode src_st) then
         if dst_exists \<and> \<not> dst_isdir
         then thenp (capture E (not_a_directory dst @ newline))
                (thenp (fail_with (not_a_directory dst)) (ret None))
         else bindp (copy_remote_dir_local E src_path
                       (if dst_exists then with_separator E dst @ Basename E src_path else dst)
                       copy_attrs compression) (\<lambda>b. ret (Some b))
       else if \<not> should_pull_file (st_mode src_st)
       then thenp (Warning (special_file_warning src_path (st_mode src_st))) (ret (Some True))
       else let dst_path = (if dst_isdir
                            then c_str (dst @ [OS_PATH_SEPARATOR E] @ c_str (Basename E src_path))
                            else dst)
         in thenp (NewTransfer E)
            (thenp (SetExpectedTotalBytes (st_size src_st))
            (bindp (sync_recv E src_path dst_path name (st_size src_st) compression) (\<lambda>ok.
               if \<not> ok then ret (Some False)
               else bindp (if copy_attrs
                           then set_time_and_mode E dst_path (st_mtime src_st) (st_mode src_st)
                           else ret True) (\<lambda>done.
                 if \<not> done then ret (Some False)
                 else thenp (ReportTransferRate E True current_ledger src_path Pull)
                        (ret (Some True)))))))"

definition pull_body ::
    "'w sync_env \<Rightarrow> string list \<Rightarrow> string \<Rightarrow> bool \<Rightarrow> CompressionType \<Rightarrow> string option \<Rightarrow> bool \<Rightarrow> bool
     \<Rightarrow> ('w, bool) cprog" where
  "pull_body E srcs dst copy_attrs compression name dst_exists dst_isdir =
     (if \<not> dst_isdir \<and> length srcs > 1 then capture_and_fail E (not_a_directory dst)
      else if \<not> dst_isdir \<and> adb_is_separator E (last dst) \<and> dst_exists
      then capture_and_fail E (failed_to_access dst)
      else bindp (push_sources (pull_source E dst dst_exists dst_isdir copy_attrs compression name)
                    srcs True) (\<lambda>r. case r of
          None \<Rightarrow> ret False
        | Some success \<Rightarrow> thenp (ReportOverallTransferRate E Pull) (ret success)))"

definition do_sync_pull ::
    "'w sync_env \<Rightarrow> string list \<Rightarrow> string \<Rightarrow> bool \<Rightarrow> CompressionType \<Rightarrow> string option \<Rightarrow> bool
     \<Rightarrow> ('w, bool) cprog" where
  "do_sync_pull E srcs dst copy_attrs compression name quiet =
     with_connection E
       (thenp (SetQuiet quiet)
       (bindp (syscall (os_stat E dst)) (\<lambda>r. case r of
            Some st \<Rightarrow>
              pull_body E srcs dst copy_attrs compression name True (S_ISDIR (st_mode st))
          | None \<Rightarrow> bindp (getp errno) (\<lambda>e.
              if length srcs = 1 \<and> e = ENOENT then
                bindp (syscall (os_stat E (c_str (Dirname E dst)))) (\<lambda>p.
                  if p = None then bindp (strerror_now E) (\<lambda>m.
                    capture_and_fail E (''cannot create file/directory '' @ quoted dst @ '': '' @ m))
                  else pull_body E srcs dst copy_attrs compression name False False)
              else capture_and_fail E (''failed to access '' @ quoted dst @ '': ''
                     @ strerror E e)))))"

end
