(* ===== verification/SyncFrame.thy ===== *)
theory SyncFrame
  imports SyncCopy
begin

text \<open>
  What the operations of a connection leave alone. Three locales, each extending the one before,
  describe relations between the states before and after: \<open>conn_frame\<close> for operations that only
  use the socket and print, \<open>ledger_frame\<close> for those that also count, \<open>transfer_frame\<close> for those
  that also queue and consume acknowledgements. A relation that satisfies the laws is kept by
  every operation of its level. The interpretations at the end give the configuration of a
  connection, the balance of its two ledgers and the printed history as instances.
\<close>

locale conn_frame =
  fixes R :: "'w conn \<Rightarrow> 'w conn \<Rightarrow> bool"
  assumes preorder: "preorder_on_states R"
    and os: "ignores_os R"
    and printing: "ignores_output R"
begin

lemmas base_laws = preorder os printing

lemma print_frame:
  "keeps R (Error m)" "keeps R (Warning m)" "keeps R (Printf m)" "keeps R (Println m)"
  "keeps R (fail_with m)" "keeps R (path_too_long w n)" "keeps R (capture_and_fail E m)"
  by (auto simp: Error_def Warning_def Printf_def Println_def fail_with_def path_too_long_def
      capture_and_fail_def intro!: keeps_intros base_laws)

lemma fd_frame: "keeps R (read_fd E n)" "keeps R (write_fd E d)"
  by (auto simp: read_fd_def write_fd_def intro!: keeps_intros base_laws)

lemmas io_frame = print_frame fd_frame

lemma request_frame: "keeps R (SendRequest E i p)"
  by (auto simp: SendRequest_def intro!: keeps_intros io_frame)

lemma send2_frame: "keeps R (SendSend2 E p m c d)" "keeps R (SendRecv2 E p c)"
  by (auto simp: SendSend2_def SendRecv2_def intro!: keeps_intros io_frame base_laws)

lemma stat_request_frame:
  "keeps R (SendStat E p)" "keeps R (SendLstat E p)" "keeps R (SendLs E p)" "keeps R (SendQuit E)"
  by (auto simp: SendStat_def SendLstat_def SendLs_def SendQuit_def
      intro!: keeps_intros base_laws request_frame)

lemma FinishStat_frame: "keeps R (FinishStat E)"
  unfolding FinishStat_def by (intro keeps_intros base_laws io_frame)

lemma stat_frame: "keeps R (sync_stat E p)" "keeps R (sync_lstat E p)"
  by (auto simp: sync_stat_def sync_lstat_def
      intro!: keeps_intros base_laws stat_request_frame FinishStat_frame)

lemma stat_fallback_frame: "keeps R (sync_stat_fallback E p)"
  unfolding sync_stat_fallback_def by (intro keeps_intros base_laws stat_frame)

lemma FinishLsImpl_frame:
  assumes "\<And>m z t n acc. keeps R (cb m z t n acc)"
  shows "keeps R (FinishLsImpl v2 E cb fuel acc)"
proof (induction fuel arbitrary: acc)
  case 0
  then show ?case by (simp add: keeps_intros base_laws)
next
  case (Suc fuel)
  show ?case unfolding FinishLsImpl.simps
    by (intro keeps_intros base_laws io_frame assms Suc)
qed

lemma sync_ls_frame:
  assumes "\<And>m z t n acc. keeps R (cb m z t n acc)"
  shows "keeps R (sync_ls E p cb acc)"
  unfolding sync_ls_def FinishLs_def
  by (intro keeps_intros base_laws stat_request_frame FinishLsImpl_frame assms)

lemma remote_entry_frame: "keeps R (remote_entry E rp lp' m z t n acc)"
  unfolding remote_entry_def by (intro keeps_intros base_laws print_frame)

lemma remote_link_frame: "keeps R (remote_link E ci acc)"
  unfolding remote_link_def
  by (intro keeps_intros base_laws print_frame stat_fallback_frame)

lemma remote_build_list_frame: "keeps R (remote_build_list E fuel rp lp' fl)"
proof (induction fuel arbitrary: rp lp' fl)
  case 0
  then show ?case by (simp add: keeps_intros base_laws)
next
  case (Suc fuel)
  show ?case unfolding remote_build_list.simps
    by (intro keeps_intros base_laws sync_ls_frame remote_entry_frame remote_link_frame Suc)
qed

lemma local_entry_frame: "keeps R (local_entry E lp' rp n acc)"
  unfolding local_entry_def by (intro keeps_intros base_laws print_frame)

lemma local_build_list_frame: "keeps R (local_build_list E fuel lp' rp acc)"
proof (induction fuel arbitrary: rp lp' acc)
  case 0
  then show ?case by (simp add: keeps_intros base_laws)
next
  case (Suc fuel)
  show ?case unfolding local_build_list.simps
    by (intro keeps_intros base_laws print_frame local_entry_frame Suc)
qed

lemma mkdir_loop_frame: "keeps R (mkdir_loop E dirs cmd)"
proof (induction dirs arbitrary: cmd)
  case Nil
  then show ?case by (auto intro!: keeps_intros base_laws)
next
  case (Cons d dirs)
  show ?case unfolding mkdir_loop.simps
    by (intro keeps_intros base_laws print_frame Cons)
qed

lemma mkdir_workaround_frame: "keeps R (mkdir_workaround E dirs)"
  unfolding mkdir_workaround_def by (intro keeps_intros base_laws mkdir_loop_frame)

lemma timestamps_frame: "keeps R (check_remote_timestamps E fl)"
  unfolding check_remote_timestamps_def send_lstats_def read_lstats_def
  by (intro keeps_intros base_laws print_frame stat_request_frame FinishStat_frame)

lemma report_failure_frame: "keeps R (ReportCopyFailure E f t n)"
  unfolding ReportCopyFailure_def by (intro keeps_intros base_laws io_frame)

lemma WriteOrDie_frame: "keeps R (WriteOrDie E f t d)"
  unfolding WriteOrDie_def by (intro keeps_intros base_laws io_frame report_failure_frame)

lemma encode_loop_frame: "keeps R (encode_loop E l r fuel)"
proof (induction fuel)
  case 0
  then show ?case by (simp add: keeps_intros base_laws)
next
  case (Suc fuel)
  have "keeps R (case res of EncDone \<Rightarrow> ret (Some False) | EncNeedInput \<Rightarrow> ret (Some True)
          | _ \<Rightarrow> encode_loop E l r fuel)" for res
    by (cases res) (auto intro!: keeps_intros base_laws Suc)
  then show ?case unfolding encode_loop.simps
    by (intro keeps_intros base_laws io_frame WriteOrDie_frame)
qed

lemma stat_and_open_frame: "(\<And>z f. keeps R (k z f)) \<Longrightarrow> keeps R (stat_and_open E l k)"
  unfolding stat_and_open_def by (intro keeps_intros base_laws print_frame)

lemma local_file_frame:
  "keeps R (unlink_and_fail E l)" "keeps R (size_too_large E l n mx)" "keeps R (cannot_write E l)"
  "keeps R (set_time_and_mode E l t m)"
  unfolding unlink_and_fail_def size_too_large_def cannot_write_def set_time_and_mode_def
  by (intro keeps_intros base_laws print_frame)+

lemma create_local_frame: "(\<And>f. keeps R (k f)) \<Longrightarrow> keeps R (create_local E l k)"
  unfolding create_local_def by (intro keeps_intros base_laws print_frame)

end

locale ledger_frame = conn_frame +
  assumes count_bytes: "\<And>s n. R s (s\<lparr>current_ledger := add_bytes n (current_ledger s), global_ledger := add_bytes n (global_ledger s)\<rparr>)"
    and count_files: "\<And>s n. R s (s\<lparr>current_ledger := add_files n (current_ledger s), global_ledger := add_files n (global_ledger s)\<rparr>)"
    and count_skipped: "\<And>s n. R s (s\<lparr>current_ledger := add_skipped n (current_ledger s), global_ledger := add_skipped n (global_ledger s)\<rparr>)"
    and progress: "\<And>s l p t. R s (s\<lparr>line_printer := l,
      current_ledger := (current_ledger s)\<lparr>last_progress_str := p, last_progress_time := t\<rparr>\<rparr>)"
begin

lemma count_frame:
  "keeps R (RecordBytesTransferred n)" "keeps R (RecordFilesTransferred n)"
  "keeps R (RecordFilesSkipped n)"
  unfolding RecordBytesTransferred_def RecordFilesTransferred_def RecordFilesSkipped_def
    both_ledgers_def
  by (intro keeps_modp count_bytes count_files count_skipped)+

lemma ReportProgress_frame: "keeps R (ReportProgress E f c n)"
proof -
  have "R s (case ledger_ReportProgress now (current_ledger s) f (word_of_nat c) n of
      (calls, l) \<Rightarrow> s\<lparr>line_printer := line_printer s @ calls, current_ledger := l\<rparr>)" for s now
    using progress [where s = s and l = "line_printer s" and p = "last_progress_str (current_ledger s)"
        and t = "last_progress_time (current_ledger s)"]
      progress [where s = s and t = now
        and l = "line_printer s @ [Print (progress_output (current_ledger s) f (word_of_nat c) n)]"
        and p = "progress_output (current_ledger s) f (word_of_nat c) n"]
    by (simp add: ledger_ReportProgress_def Let_def)
  then show ?thesis unfolding ReportProgress_def
    by (intro keeps_intros keeps_modp base_laws)
qed

lemma ReportTransferRate_frame: "keeps R (ReportTransferRate E c w n d)"
  unfolding ReportTransferRate_def by (intro keeps_intros base_laws)

lemma recv_v1_loop_frame: "keeps R (recv_v1_loop E lfd rp l nm ex c fuel)"
proof (induction fuel arbitrary: c)
  case 0
  then show ?case by (simp add: keeps_intros base_laws)
next
  case (Suc fuel)
  show ?case unfolding recv_v1_loop.simps
    by (intro keeps_intros base_laws io_frame local_file_frame report_failure_frame count_frame
        ReportProgress_frame Suc)
qed

lemma decode_loop_frame: "keeps R (decode_loop E lfd rp l nm ex c fuel)"
proof (induction fuel arbitrary: c)
  case 0
  then show ?case by (simp add: keeps_intros base_laws)
next
  case (Suc fuel)
  have "keeps R (case res of DecNeedInput \<Rightarrow> ret (Inr n)
      | DecDone \<Rightarrow> thenp (RecordFilesTransferred 1) (ret (Inl True))
      | _ \<Rightarrow> decode_loop E lfd rp l nm ex n fuel)" for res n
    by (cases res) (auto intro!: keeps_intros base_laws count_frame Suc)
  then show ?case unfolding decode_loop.simps
    by (intro keeps_intros base_laws io_frame local_file_frame count_frame ReportProgress_frame)
qed

lemma recv_v2_loop_frame: "keeps R (recv_v2_loop E lfd rp l nm ex c fuel)"
proof (induction fuel arbitrary: c)
  case 0
  then show ?case by (simp add: keeps_intros base_laws)
next
  case (Suc fuel)
  show ?case unfolding recv_v2_loop.simps Let_def
    by (intro keeps_intros base_laws io_frame local_file_frame report_failure_frame
        decode_loop_frame Suc)
qed

lemma sync_recv_frame: "keeps R (sync_recv E rp l nm ex c)"
  unfolding sync_recv_def sync_recv_v1_def sync_recv_v2_def
  by (intro keeps_intros base_laws request_frame send2_frame create_local_frame
      recv_v1_loop_frame recv_v2_loop_frame)

lemma send_blocks_frame: "keeps R (send_blocks E lfd l r n c fuel)"
proof (induction fuel arbitrary: c)
  case 0
  then show ?case by (simp add: keeps_intros base_laws)
next
  case (Suc fuel)
  show ?case unfolding send_blocks.simps
    by (intro keeps_intros base_laws print_frame count_frame ReportProgress_frame
        encode_loop_frame Suc)
qed

lemma send_blocks_legacy_frame: "keeps R (send_blocks_legacy E lfd l r n c fuel)"
proof (induction fuel arbitrary: c)
  case 0
  then show ?case by (simp add: keeps_intros base_laws)
next
  case (Suc fuel)
  show ?case unfolding send_blocks_legacy.simps
    by (intro keeps_intros base_laws print_frame count_frame ReportProgress_frame
        WriteOrDie_frame Suc)
qed

lemma pull_files_frame: "keeps R (pull_files E a c fl)"
  unfolding pull_files_def
  by (intro keeps_intros base_laws print_frame local_file_frame sync_recv_frame)

end

locale transfer_frame = ledger_frame +
  fixes E :: "'a sync_env"
  assumes sent: "\<And>s d. R s (s\<lparr>deferred_acknowledgements := deferred_acknowledgements s @ [d]\<rparr>)"
    and acks: "\<And>a. keeps R (ReadAcknowledgements E a)"
begin

lemma RecordFileSent_frame: "keeps R (RecordFileSent f t)"
  unfolding RecordFileSent_def by (intro keeps_intros keeps_modp base_laws count_frame sent)

lemma send_done_frame: "keeps R (send_done E l r m)"
  unfolding send_done_def by (intro keeps_intros base_laws RecordFileSent_frame WriteOrDie_frame)

lemma SendLargeFile_frame: "keeps R (SendLargeFile E p m l r t c d)"
  unfolding SendLargeFile_def SendLargeFileLegacy_def
  by (intro keeps_intros base_laws print_frame request_frame send2_frame stat_and_open_frame
      send_done_frame send_blocks_frame send_blocks_legacy_frame)

lemma SendSmallFile_frame: "keeps R (SendSmallFile E p m l r t x d)"
  unfolding SendSmallFile_def
  by (intro keeps_intros base_laws print_frame SendLargeFile_frame WriteOrDie_frame
      RecordFileSent_frame count_frame ReportProgress_frame)

lemma sync_send_frame: "keeps R (sync_send E l r t m y c d)"
  unfolding sync_send_def
  by (intro keeps_intros base_laws print_frame stat_frame count_frame SendSmallFile_frame
      SendLargeFile_frame acks)

lemma push_files_frame: "keeps R (push_files E lo c d fl)"
  unfolding push_files_def Let_def
  by (intro keeps_intros base_laws print_frame sync_send_frame)

end

text \<open>
  A relation indifferent to the queue and the acknowledgement buffer satisfies the laws of
  \<open>transfer_frame\<close> for every environment.
\<close>

locale ack_frame = ledger_frame +
  assumes queue: "\<And>s d. R s (s\<lparr>deferred_acknowledgements := d\<rparr>)"
    and ack: "\<And>s b. R s (s\<lparr>acknowledgement_buffer := b\<rparr>)"
begin

lemma queue_frame:
  "keeps R CopyDone" "keeps R (ReportDeferredCopyFailure m)"
  "keeps R clear_ack_buffer"
  unfolding CopyDone_def ReportDeferredCopyFailure_def clear_ack_buffer_def
  by (intro keeps_intros keeps_modp base_laws count_frame print_frame queue ack)+

lemma read_until_amount_frame: "keeps R (read_until_amount E b n fuel)"
proof (induction fuel)
  case 0
  then show ?case by (simp add: keeps_intros base_laws)
next
  case (Suc fuel)
  show ?case unfolding read_until_amount.simps
    by (intro keeps_intros keeps_modp base_laws print_frame ack Suc)
qed

lemma ReadAcknowledgements_frame: "keeps R (ReadAcknowledgements E a)"
proof -
  have "keeps R (ack_loop E a fuel)" for fuel
  proof (induction fuel)
    case 0
    then show ?case by (simp add: keeps_intros base_laws)
  next
    case (Suc fuel)
    have st: "keeps R (case st of RTryLater \<Rightarrow> m | RFailure \<Rightarrow> n | RSuccess \<Rightarrow> k)"
      if "keeps R m" "keeps R n" "keeps R k" for st and m n k :: "('a conn, bool) prog"
      using that by (cases st) auto
    show ?case unfolding ack_loop.simps
      by (intro keeps_intros base_laws st read_until_amount_frame print_frame queue_frame Suc)
  qed
  then show ?thesis by (simp add: ReadAcknowledgements_def)
qed

end

sublocale ack_frame \<subseteq> transfer: transfer_frame R E for E
  by unfold_locales (rule queue, rule ReadAcknowledgements_frame)

section \<open>Instances\<close>

text \<open>The configuration of a connection: what the constructor fixes.\<close>

definition same_config :: "'w conn \<Rightarrow> 'w conn \<Rightarrow> bool" where
  "same_config s s' \<longleftrightarrow> fd s' = fd s \<and> max_size s' = max_size s \<and> lp_quiet s' = lp_quiet s \<and>
     conn_features s' = conn_features s \<and>
     have_stat_v2 s' = have_stat_v2 s \<and> have_ls_v2 s' = have_ls_v2 s \<and>
     have_sendrecv_v2 s' = have_sendrecv_v2 s \<and>
     have_sendrecv_v2_brotli s' = have_sendrecv_v2_brotli s \<and>
     have_sendrecv_v2_lz4 s' = have_sendrecv_v2_lz4 s \<and>
     have_sendrecv_v2_zstd s' = have_sendrecv_v2_zstd s \<and>
     have_sendrecv_v2_dry_run_send s' = have_sendrecv_v2_dry_run_send s"

interpretation config: ack_frame "same_config :: 'w conn \<Rightarrow> 'w conn \<Rightarrow> bool"
  by unfold_locales
     (auto simp: same_config_def preorder_on_states_def ignores_os_def ignores_output_def)

text \<open>
  The two ledgers move in step: what the current transfer counts, the global ledger counts.
\<close>

definition balanced :: "'w conn \<Rightarrow> 'w conn \<Rightarrow> bool" where
  "balanced s s' \<longleftrightarrow>
     bytes_transferred (global_ledger s') - bytes_transferred (global_ledger s) =
       bytes_transferred (current_ledger s') - bytes_transferred (current_ledger s) \<and>
     files_transferred (global_ledger s') - files_transferred (global_ledger s) =
       files_transferred (current_ledger s') - files_transferred (current_ledger s) \<and>
     files_skipped (global_ledger s') - files_skipped (global_ledger s) =
       files_skipped (current_ledger s') - files_skipped (current_ledger s)"

lemma word_diff_trans:
  fixes a b c x y z :: "'a::len word"
  shows "b - a = y - x \<Longrightarrow> c - b = z - y \<Longrightarrow> c - a = z - x"
  by (metis add_diff_eq diff_add_cancel)

lemma balanced_trans: "balanced s t \<Longrightarrow> balanced t u \<Longrightarrow> balanced s u"
  unfolding balanced_def using word_diff_trans by blast

interpretation balance: ack_frame "balanced :: 'w conn \<Rightarrow> 'w conn \<Rightarrow> bool"
proof
  show "preorder_on_states (balanced :: 'w conn \<Rightarrow> 'w conn \<Rightarrow> bool)"
    unfolding preorder_on_states_def using balanced_trans by (auto simp: balanced_def)
qed (auto simp: balanced_def ignores_os_def ignores_output_def add_bytes_def add_files_def
      add_skipped_def)

end
