(* ===== verification/SyncAcks.thy ===== *)
theory SyncAcks
  imports SyncFrame
begin

text \<open>
  The deferred acknowledgements: memory bound of the receive buffer, flow control (fewer than 128
  files are unacknowledged after every successful send), first-in first-out consumption, and the effect of
  a well-formed reply stream.
\<close>

section \<open>The receive buffer\<close>

text \<open>\<^verbatim>\<open>acknowledgement_buffer_\<close> is allocated with \<^verbatim>\<open>sizeof(sync_status) + SYNC_DATA_MAX\<close> bytes.\<close>

definition ack_capacity :: "('x) sync_proto_scheme \<Rightarrow> nat" where
  "ack_capacity E = sizeof_status E + SYNC_DATA_MAX E"

definition ack_bounded :: "'w sync_env \<Rightarrow> 'w conn \<Rightarrow> bool" where
  "ack_bounded E s \<longleftrightarrow> length (acknowledgement_buffer s) \<le> ack_capacity E"

interpretation ackbuf: ledger_frame "inv_rel (ack_bounded E)" for E :: "'w sync_env"
  by unfold_locales
     (auto simp: inv_rel_def ack_bounded_def preorder_on_states_def ignores_os_def
       ignores_output_def)

lemma read_until_amount_bounded:
  assumes "amount \<le> ack_capacity E"
  shows "keeps (inv_rel (ack_bounded E)) (read_until_amount E b amount fuel)"
proof (induction fuel)
  case 0
  then show ?case by (simp add: keeps_intros)
next
  case (Suc fuel)
  have "inv_rel (ack_bounded E) s (s\<lparr>acknowledgement_buffer := buf @ take (amount - length buf) r\<rparr>)"
    if "length buf < amount" for s :: "'a conn" and buf r
    using assms that by (auto simp: inv_rel_def ack_bounded_def)
  then show ?case unfolding read_until_amount.simps Let_def
    by (intro keeps_intros keeps_modp ackbuf.base_laws ackbuf.print_frame Suc) auto
qed

lemma ack_queue_bounded:
  "keeps (inv_rel (ack_bounded E)) clear_ack_buffer"
  "keeps (inv_rel (ack_bounded E)) CopyDone"
  "keeps (inv_rel (ack_bounded E)) (ReportDeferredCopyFailure m)"
  unfolding clear_ack_buffer_def CopyDone_def ReportDeferredCopyFailure_def
  by (intro keeps_intros keeps_modp ackbuf.base_laws ackbuf.print_frame;
      simp add: inv_rel_def ack_bounded_def)+

lemma keeps_case_status:
  "keeps R m \<Longrightarrow> keeps R n \<Longrightarrow> keeps R k \<Longrightarrow>
   keeps R (case st of RTryLater \<Rightarrow> m | RFailure \<Rightarrow> n | RSuccess \<Rightarrow> k)"
  by (cases st) auto

lemma ack_loop_bounded: "keeps (inv_rel (ack_bounded E)) (ack_loop E ra fuel)"
proof (induction fuel)
  case 0
  then show ?case by (simp add: keeps_intros)
next
  case (Suc fuel)
  show ?case unfolding ack_loop.simps Let_def
    by (intro keeps_intros keeps_case_status ackbuf.base_laws ackbuf.print_frame
        read_until_amount_bounded ack_queue_bounded Suc)
       (auto simp: ack_capacity_def)
qed

lemma ReadAcknowledgements_bounded:
  "keeps (inv_rel (ack_bounded E)) (ReadAcknowledgements E ra)"
  by (simp add: ReadAcknowledgements_def ack_loop_bounded)

interpretation ackbuf: transfer_frame "inv_rel (ack_bounded E)" E for E :: "'w sync_env"
  by unfold_locales
     (auto simp: inv_rel_def ack_bounded_def intro: ReadAcknowledgements_bounded)

section \<open>The queue\<close>

text \<open>Acknowledgements leave the queue from its front.\<close>

definition consumes :: "'w conn \<Rightarrow> 'w conn \<Rightarrow> bool" where
  "consumes s s' \<longleftrightarrow> suffix (deferred_acknowledgements s') (deferred_acknowledgements s)"

definition same_queue :: "'w conn \<Rightarrow> 'w conn \<Rightarrow> bool" where
  "same_queue s s' \<longleftrightarrow> deferred_acknowledgements s' = deferred_acknowledgements s"

interpretation consume: conn_frame "consumes :: 'w conn \<Rightarrow> 'w conn \<Rightarrow> bool"
  by unfold_locales
     (auto simp: consumes_def preorder_on_states_def ignores_os_def ignores_output_def
       intro: suffix_order.trans)

interpretation queue: ledger_frame "same_queue :: 'w conn \<Rightarrow> 'w conn \<Rightarrow> bool"
  by unfold_locales
     (auto simp: same_queue_def preorder_on_states_def ignores_os_def ignores_output_def)

lemma read_until_amount_queue: "keeps same_queue (read_until_amount E b amount fuel)"
proof (induction fuel)
  case 0
  then show ?case by (simp add: keeps_intros queue.base_laws)
next
  case (Suc fuel)
  show ?case unfolding read_until_amount.simps Let_def
    by (intro keeps_intros keeps_modp queue.base_laws queue.print_frame Suc)
       (simp add: same_queue_def)
qed

lemma keeps_mono: "keeps R m \<Longrightarrow> (\<And>s s'. R s s' \<Longrightarrow> R' s s') \<Longrightarrow> keeps R' m"
  by (simp add: keeps_def)

lemma ReadAcknowledgements_consumes: "keeps consumes (ReadAcknowledgements E ra)"
proof -
  have ru: "keeps consumes (read_until_amount E b n f)" for b n f
    by (rule keeps_mono [OF read_until_amount_queue]) (simp add: same_queue_def consumes_def)
  have pop: "keeps consumes CopyDone" "keeps consumes clear_ack_buffer"
    "keeps consumes (ReportDeferredCopyFailure m)" for m
    unfolding CopyDone_def clear_ack_buffer_def ReportDeferredCopyFailure_def
    by (intro keeps_intros keeps_modp consume.base_laws consume.print_frame;
        simp add: consumes_def suffix_tl)+
  have "keeps consumes (ack_loop E ra fuel)" for fuel
  proof (induction fuel)
    case 0
    then show ?case by (simp add: keeps_intros consume.base_laws)
  next
    case (Suc fuel)
    show ?case unfolding ack_loop.simps Let_def
      by (intro keeps_intros keeps_case_status consume.base_laws consume.print_frame ru pop Suc)
  qed
  then show ?thesis by (simp add: ReadAcknowledgements_def)
qed

lemma read_until_amount_blocking:
  "yields (read_until_amount E True n fuel) (\<lambda>st s. st \<noteq> RTryLater)"
proof (induction fuel)
  case 0
  then show ?case by (simp add: yields_intros)
next
  case (Suc fuel)
  show ?case unfolding read_until_amount.simps Let_def
    by (intro yields_intros Suc) simp_all
qed

definition acks_settled :: "bool \<Rightarrow> 'w conn \<Rightarrow> bool" where
  "acks_settled read_all s \<longleftrightarrow>
     deferred_acknowledgements s = [] \<or>
     (\<not> read_all \<and> length (deferred_acknowledgements s) < max_deferred_acks)"

lemma returns_case_status:
  "(st = RSuccess \<Longrightarrow> returns P m Q) \<Longrightarrow> (st = RFailure \<Longrightarrow> returns P n Q) \<Longrightarrow>
   (st = RTryLater \<Longrightarrow> returns P k Q) \<Longrightarrow>
   returns P (case st of RSuccess \<Rightarrow> m | RFailure \<Rightarrow> n | RTryLater \<Rightarrow> k) Q"
  by (cases st) auto

lemma read_until_amount_returns:
  "returns (\<lambda>s. deferred_acknowledgements s = d) (read_until_amount E block n fuel)
     (\<lambda>st s. deferred_acknowledgements s = d \<and> (block \<longrightarrow> st \<noteq> RTryLater))"
proof (rule returnsI)
  fix s st s'
  assume d: "deferred_acknowledgements s = d"
    and r: "read_until_amount E block n fuel s = (Ok st, s')"
  have "same_queue s s'" by (rule keepsD [OF read_until_amount_queue r])
  moreover have "st \<noteq> RTryLater" if block
    using r that yieldsD [OF read_until_amount_blocking] by fastforce
  ultimately show "deferred_acknowledgements s' = d \<and> (block \<longrightarrow> st \<noteq> RTryLater)"
    using d by (simp add: same_queue_def)
qed

lemma fail_with_False: "returns P (fail_with m) (\<lambda>ok s. \<not> ok)"
  by (auto simp: returns_def fail_with_def thenp_Ok_iff)

lemma ack_loop_settles:
  "returns (\<lambda>_. True) (ack_loop E ra fuel) (\<lambda>ok s. ok \<longrightarrow> acks_settled ra s)"
proof (induction fuel)
  case 0
  then show ?case by (simp add: returns_intros)
next
  case (Suc fuel)
  have IH: "returns P (ack_loop E ra fuel) (\<lambda>ok s. ok \<longrightarrow> acks_settled ra s)" for P
    by (rule returns_pre [OF Suc]) simp
  have no: "returns P (fail_with m) (\<lambda>ok s. ok \<longrightarrow> acks_settled ra s)" for P m
    by (rule returns_post [OF fail_with_False]) simp
  have after: "returns P m (\<lambda>_ _. True)" for P and m :: "('a, unit) cprog"
    by (simp add: returns_def)
  show ?case unfolding ack_loop.simps Let_def
    by (intro returns_getp_bind returns_if returns_ret returns_case_status returns_case_prod
        returns_bindp [OF returns_pre [OF read_until_amount_returns]] returns_thenp [OF after] IH no)
      (auto simp: acks_settled_def)
qed

lemma ReadAcknowledgements_returns:
  "returns P (ReadAcknowledgements E ra) (\<lambda>ok s. ok \<longrightarrow> acks_settled ra s)"
  unfolding ReadAcknowledgements_def by (rule returns_pre [OF ack_loop_settles]) simp

lemma ReadAcknowledgements_settles:
  assumes "ReadAcknowledgements E ra s = (Ok True, s')"
  shows "acks_settled ra s'"
  using returnsD [OF ReadAcknowledgements_returns [of "\<lambda>_. True"] _ assms] by simp

section \<open>Flow control\<close>

text \<open>\<open>queues n m\<close>: program \<open>m\<close> leaves at most \<open>n\<close> more files unacknowledged.\<close>

definition queues :: "nat \<Rightarrow> ('w, 'a) cprog \<Rightarrow> bool" where
  "queues n m \<longleftrightarrow> keeps (\<lambda>s s'. length (deferred_acknowledgements s')
     \<le> length (deferred_acknowledgements s) + n) m"

lemma queues_quiet: "keeps same_queue m \<Longrightarrow> queues n m"
  unfolding queues_def by (erule keeps_mono) (simp add: same_queue_def)

lemma queues_bind_quiet:
  assumes "keeps same_queue m" "\<And>a. queues n (f a)"
  shows "queues n (bindp m f)"
  unfolding queues_def keeps_def
proof
  fix s
  obtain r s1 where m: "m s = (r, s1)" by (cases "m s")
  have q: "same_queue s s1" by (rule keepsD [OF assms(1) m])
  show "length (deferred_acknowledgements (snd (bindp m f s)))
      \<le> length (deferred_acknowledgements s) + n"
  proof (cases r)
    case (Ok a)
    have "length (deferred_acknowledgements (snd (f a s1)))
        \<le> length (deferred_acknowledgements s1) + n"
      using assms(2) [of a] by (simp add: queues_def keeps_def)
    with m q Ok show ?thesis
      by (simp add: bindp_def same_queue_def)
  qed (use m q in \<open>simp_all add: bindp_def same_queue_def\<close>)
qed

lemma queues_then_quiet:
  assumes "queues n m" "keeps same_queue k"
  shows "queues n (thenp m k)"
  unfolding queues_def keeps_def
proof
  fix s
  obtain r s1 where m: "m s = (r, s1)" by (cases "m s")
  have q: "length (deferred_acknowledgements s1) \<le> length (deferred_acknowledgements s) + n"
    using keepsD [OF assms(1) [unfolded queues_def] m] .
  obtain r2 s2 where k: "k s1 = (r2, s2)" by (cases "k s1")
  have "same_queue s1 s2" by (rule keepsD [OF assms(2) k])
  with m q k show "length (deferred_acknowledgements (snd (thenp m k s)))
      \<le> length (deferred_acknowledgements s) + n"
    by (cases r) (simp_all add: thenp_def bindp_def same_queue_def)
qed

lemma queues_if: "(b \<Longrightarrow> queues n m) \<Longrightarrow> (\<not> b \<Longrightarrow> queues n k) \<Longrightarrow> queues n (if b then m else k)"
  by simp

lemma queues_case_prod: "(\<And>a b. queues n (f a b)) \<Longrightarrow> queues n (case p of (a, b) \<Rightarrow> f a b)"
  by (cases p) simp

lemma queues_option:
  "queues n m \<Longrightarrow> (\<And>a. queues n (f a)) \<Longrightarrow> queues n (case x of None \<Rightarrow> m | Some a \<Rightarrow> f a)"
  by (cases x) auto

lemma queues_then_quiet': "keeps same_queue m \<Longrightarrow> queues n k \<Longrightarrow> queues n (thenp m k)"
  by (simp add: thenp_def queues_bind_quiet)

lemma RecordFileSent_queues: "queues 1 (RecordFileSent f t)"
  unfolding RecordFileSent_def
  by (intro queues_then_quiet' queue.count_frame)
     (simp add: queues_def keeps_modp)

lemma send_done_queues: "queues 1 (send_done E l r m)"
  unfolding send_done_def
  by (intro queues_then_quiet RecordFileSent_queues queue.WriteOrDie_frame)

lemma SendLargeFile_queues: "queues 1 (SendLargeFile E p m l r t c d)"
proof -
  have so: "queues 1 (stat_and_open E l k)" if "\<And>z f. queues 1 (k z f)" for k
    unfolding stat_and_open_def
    by (intro queues_bind_quiet queues_option queues_quiet keeps_intros queue.base_laws
        queue.print_frame that)
  have legacy: "queues 1 (SendLargeFileLegacy E p m l r t)"
    unfolding SendLargeFileLegacy_def
    by (intro queues_bind_quiet queues_if so send_done_queues queue.send_blocks_legacy_frame
        queue.request_frame; intro queues_quiet keeps_intros queue.base_laws queue.print_frame)
  show ?thesis
    unfolding SendLargeFile_def
    by (intro queues_bind_quiet queues_if so send_done_queues queue.send_blocks_frame legacy
        queues_then_quiet' queue.send2_frame keeps_intros queue.base_laws;
        intro queues_quiet keeps_intros queue.base_laws queue.print_frame)
qed

lemma SendSmallFile_queues: "queues 1 (SendSmallFile E p m l r t x d)"
proof -
  have rest: "keeps same_queue (thenp (RecordBytesTransferred (length x))
      (thenp (ReportProgress E r (length x) (word_of_nat (length x))) (ret True)))"
    by (intro keeps_intros queue.base_laws queue.count_frame queue.ReportProgress_frame)
  show ?thesis unfolding SendSmallFile_def
    by (intro queues_if SendLargeFile_queues queues_then_quiet' queues_then_quiet
        RecordFileSent_queues rest queue.WriteOrDie_frame;
        intro queues_quiet queue.print_frame)
qed

text \<open>While one file is sent the queue grows by one at most; a successful transfer restores the window.\<close>

definition window_closed :: "'w conn \<Rightarrow> bool" where
  "window_closed s \<longleftrightarrow> length (deferred_acknowledgements s) < max_deferred_acks"

lemma acks_settled_window: "acks_settled ra s \<Longrightarrow> window_closed s"
  by (auto simp: acks_settled_def window_closed_def max_deferred_acks_def)

lemma queues_bind_shrinks:
  assumes "queues n m" "\<And>a. keeps consumes (f a)"
  shows "queues n (bindp m f)"
  unfolding queues_def keeps_def
proof
  fix s
  obtain r s1 where m: "m s = (r, s1)" by (cases "m s")
  have q: "length (deferred_acknowledgements s1) \<le> length (deferred_acknowledgements s) + n"
    using keepsD [OF assms(1) [unfolded queues_def] m] .
  show "length (deferred_acknowledgements (snd (bindp m f s))) \<le> length (deferred_acknowledgements s) + n"
  proof (cases r)
    case (Ok a)
    obtain r2 s2 where k: "f a s1 = (r2, s2)" by (cases "f a s1")
    from keepsD [OF assms(2) k] have "length (deferred_acknowledgements s2) \<le> length (deferred_acknowledgements s1)"
      by (simp add: consumes_def suffix_length_le)
    with m q k Ok show ?thesis by (simp add: bindp_def)
  qed (use m q in \<open>simp_all add: bindp_def\<close>)
qed

lemma sync_send_queues: "queues 1 (sync_send E l r t m y c d)"
proof -
  have acks: "keeps consumes (if \<not> ok then ret False else ReadAcknowledgements E y)" for ok
    by (intro keeps_intros consume.base_laws ReadAcknowledgements_consumes)
  have quiet: "keeps same_queue (bindp (strerror_now E) (\<lambda>e. fail_with (f e)))" for f
    by (intro keeps_intros queue.base_laws queue.print_frame)
  have skip: "keeps same_queue (thenp (RecordFilesSkipped 1) (ret True))"
    by (intro keeps_intros queue.base_laws queue.count_frame)
  show ?thesis
    unfolding sync_send_def
    by (intro queues_bind_quiet queues_case_prod queues_if queues_option queues_bind_shrinks SendSmallFile_queues
        SendLargeFile_queues acks queues_quiet [OF quiet] queues_quiet [OF skip] keeps_intros queue.base_laws
        queue.stat_frame)
qed

lemma sync_send_window:
  "returns (\<lambda>s. deferred_acknowledgements s = q) (sync_send E l r t m y c d)
     (\<lambda>ok s. ok \<longrightarrow> window_closed s \<or> deferred_acknowledgements s = q)"
proof -
  let ?P = "\<lambda>s. deferred_acknowledgements s = q"
  let ?Q = "\<lambda>ok s. ok \<longrightarrow> window_closed s \<or> deferred_acknowledgements s = q"
  have ack: "returns P (ReadAcknowledgements E y) ?Q" for P
    by (rule returns_post [OF ReadAcknowledgements_returns]) (auto intro: acks_settled_window)
  have any: "returns P m' (\<lambda>_ _. True)" for P and m' :: "('a, 'b) cprog"
    by (simp add: returns_def)
  have no: "returns P (fail_with e) ?Q" for P e
    by (rule returns_post [OF fail_with_False]) simp
  have skip: "returns ?P (thenp (RecordFilesSkipped 1) (ret True)) ?Q"
    by (rule returnsI)
       (auto simp: thenp_Ok_iff same_queue_def dest!: keepsD [OF queue.count_frame(3)])
  have first: "returns ?P (if y then sync_lstat E r else ret (False, zero_stat)) (\<lambda>_. ?P)"
  proof (rule returnsI)
    fix s a s'
    assume w: "?P s" and r: "(if y then sync_lstat E r else ret (False, zero_stat)) s = (Ok a, s')"
    have "keeps same_queue (if y then sync_lstat E r else ret (False, zero_stat))"
      by (intro keeps_intros queue.base_laws queue.stat_frame)
    from keepsD [OF this r] w show "?P s'" by (simp add: same_queue_def)
  qed
  show ?thesis unfolding sync_send_def
    by (rule returns_bindp [OF first])
       (auto intro!: returns_case_prod returns_if skip returns_bindp [OF any]
         returns_case_option no ack returns_ret)
qed

end
