(* ===== verification/SyncRef.thy ===== *)
theory SyncRef
  imports SyncCopy "HOL-Library.AList"
begin

text \<open>
  A concrete world for the file-sync client, on which hypotheses about the outside are shown to be
  satisfiable and properties are evaluated: a socket made of an inbox and an outbox, a flat file
  store, and codecs that copy. \<open>wire_doc\<close>, \<open>socket_doc\<close> and \<open>store_doc\<close> state what
  \<^verbatim>\<open>file_sync_protocol.h\<close>, \<^verbatim>\<open>adb_io\<close> and the file system promise.
\<close>

section \<open>Documented behaviour\<close>

text \<open>The wire structures are packed, little-endian sequences of 32-bit fields.\<close>

definition wire_doc :: "('x) sync_proto_scheme \<Rightarrow> bool" where
  "wire_doc E \<longleftrightarrow>
     sizeof_request E = 8 \<and> sizeof_status E = 8 \<and> sizeof_data E = 8 \<and>
     (\<forall>i n. img_request E i n = put32 i @ put32 n) \<and>
     (\<forall>i n. img_data E i n = put32 i @ put32 n) \<and>
     (\<forall>i n. dec_status E (put32 i @ put32 n) = (i, n)) \<and>
     (\<forall>i n. dec_data E (put32 i @ put32 n) = (i, n)) \<and>
     distinct [ID_SEND_V1 E, ID_DATA E, ID_DONE E, ID_OKAY E, ID_FAIL E] \<and>
     0 < SYNC_DATA_MAX E \<and> SYNC_DATA_MAX E < 2 ^ 31"

text \<open>
  A socket whose unread bytes are \<open>inb w\<close> and whose written bytes are \<open>outb w\<close>: an exact read takes
  the prefix or fails, a blocking read returns a non-empty prefix while there is one, an exact
  write appends.
\<close>

definition socket_doc :: "'w sync_env \<Rightarrow> ('w \<Rightarrow> string) \<Rightarrow> ('w \<Rightarrow> string) \<Rightarrow> bool" where
  "socket_doc E inb outb \<longleftrightarrow>
     (\<forall>n w. n \<le> length (inb w) \<longrightarrow>
        (\<exists>w'. os_read_exactly E n w = (Inr (take n (inb w)), w') \<and> inb w' = drop n (inb w)
              \<and> outb w' = outb w)) \<and>
     (\<forall>n w. inb w \<noteq> [] \<longrightarrow> 0 < n \<longrightarrow>
        (\<exists>k w'. 0 < k \<and> k \<le> n \<and> os_sock_read E n w = (Inr (take k (inb w)), w')
              \<and> inb w' = drop k (inb w) \<and> outb w' = outb w)) \<and>
     (\<forall>w. \<exists>rc w'. os_sock_poll E w = (rc, w') \<and> inb w' = inb w \<and> outb w' = outb w \<and>
              (rc = 0 \<longrightarrow> inb w = [])) \<and>
     (\<forall>d w. \<exists>w'. os_write_exactly E d w = (Inr (), w') \<and> inb w' = inb w \<and> outb w' = outb w @ d)"

text \<open>A store of regular files: \<open>file w p\<close> is what the path \<open>p\<close> holds.\<close>

definition store_doc :: "'w sync_env \<Rightarrow> ('w \<Rightarrow> string \<Rightarrow> string option) \<Rightarrow> bool" where
  "store_doc E file \<longleftrightarrow>
     (\<forall>p w. file (snd (os_unlink E p w)) = (file w)(p := None)) \<and>
     (\<forall>p w e w'. os_creat E p w = (Inl e, w') \<longrightarrow> file w' = file w) \<and>
     (\<forall>n w. file (snd (os_read_exactly E n w)) = file w) \<and>
     (\<forall>d w. file (snd (os_write_exactly E d w)) = file w) \<and>
     (\<forall>w. file (snd (os_now E w)) = file w)"

section \<open>The instance\<close>

record rworld =
  inbox :: string
  outbox :: string
  rfiles :: "(string \<times> string) list"
  rdirs :: "(string \<times> string list) list"
  rlinks :: "(string \<times> string) list"
  rhandles :: "(string \<times> string) list"
  rcodec :: string
  rfinished :: bool
  rclock :: nat
  rcommands :: "string list"

definition rworld0 :: rworld where
  "rworld0 = \<lparr>inbox = [], outbox = [], rfiles = [], rdirs = [], rlinks = [], rhandles = [],
     rcodec = [], rfinished = False, rclock = 0, rcommands = []\<rparr>"

definition stat_v1_ref :: "string \<Rightarrow> stat_v1_msg" where
  "stat_v1_ref s = \<lparr>s1_id = get32 s, s1_mode = get32 (drop 4 s), s1_size = get32 (drop 8 s),
     s1_mtime = get32 (drop 12 s)\<rparr>"

definition stat_v2_ref :: "string \<Rightarrow> stat_v2_msg" where
  "stat_v2_ref s = \<lparr>s2_id = get32 s, s2_error = get32 (drop 4 s), s2_stat =
     \<lparr>st_dev = get64 (drop 8 s), st_ino = get64 (drop 16 s), st_mode = get32 (drop 24 s),
      st_nlink = get32 (drop 28 s), st_uid = get32 (drop 32 s), st_gid = get32 (drop 36 s),
      st_size = get64 (drop 40 s), st_atime = get64 (drop 48 s), st_mtime = get64 (drop 56 s),
      st_ctime = get64 (drop 64 s)\<rparr>\<rparr>"

definition dent_v1_ref :: "string \<Rightarrow> dent_msg" where
  "dent_v1_ref s = \<lparr>d_id = get32 s, d_mode = get32 (drop 4 s), d_size = ucast (get32 (drop 8 s)),
     d_mtime = ucast (get32 (drop 12 s)), d_namelen = get32 (drop 16 s)\<rparr>"

definition dent_v2_ref :: "string \<Rightarrow> dent_msg" where
  "dent_v2_ref s = \<lparr>d_id = get32 s, d_mode = get32 (drop 24 s), d_size = get64 (drop 40 s),
     d_mtime = get64 (drop 56 s), d_namelen = get32 (drop 72 s)\<rparr>"

definition word_pair :: "string \<Rightarrow> u32 \<times> u32" where
  "word_pair s = (get32 s, get32 (drop 4 s))"

definition sync_proto_ref :: sync_proto where
  "sync_proto_ref = libbase.extend libbase_ref (sync_proto.fields
     0x54415453 0x32415453 0x3254534C 0x5453494C 0x3253494C
     0x544E4544 0x32544E44 0x444E4553 0x32444E53 0x56434552
     0x32564352 0x454E4F44 0x41544144 0x59414B4F 0x4C494146
     0x54495551 65536 1 2 4 0x80000000
     (\<lambda>i n. put32 i @ put32 n) (\<lambda>i n. put32 i @ put32 n)
     (\<lambda>i m f. put32 i @ put32 m @ put32 f) (\<lambda>i f. put32 i @ put32 f)
     8 16 72 20 76 8 8 stat_v1_ref stat_v2_ref dent_v1_ref dent_v2_ref word_pair word_pair
     (\<lambda>e. if e = 2 then ENOENT else EOTHER (unat e)))"

definition reg_stat :: "string \<Rightarrow> stat_buf" where
  "reg_stat content = zero_stat\<lparr>st_mode := 0x81A4, st_size := word_of_nat (length content),
     st_mtime := 1000\<rparr>"

definition ref_stat :: "bool \<Rightarrow> string \<Rightarrow> rworld \<Rightarrow> (errno + stat_buf) \<times> rworld" where
  "ref_stat follow p w =
     ((case map_of (rfiles w) p of
         Some c \<Rightarrow> Inr (reg_stat c)
       | None \<Rightarrow> (case map_of (rdirs w) p of
           Some _ \<Rightarrow> Inr (zero_stat\<lparr>st_mode := 0x41ED\<rparr>)
         | None \<Rightarrow> (if \<not> follow \<and> map_of (rlinks w) p \<noteq> None
                    then Inr (zero_stat\<lparr>st_mode := 0xA1FF\<rparr>) else Inl ENOENT))), w)"

definition ref_take :: "nat \<Rightarrow> rworld \<Rightarrow> (errno + string) \<times> rworld" where
  "ref_take n w = (Inr (take n (inbox w)), w\<lparr>inbox := drop n (inbox w)\<rparr>)"

definition ref_open :: "string \<Rightarrow> rworld \<Rightarrow> (errno + nat) \<times> rworld" where
  "ref_open p w = (case map_of (rfiles w) p of
      None \<Rightarrow> (Inl ENOENT, w)
    | Some c \<Rightarrow> (Inr (length (rhandles w)), w\<lparr>rhandles := rhandles w @ [(p, c)]\<rparr>))"

text \<open>The bytes left in an open file, and its path.\<close>

definition ref_pending :: "rworld \<Rightarrow> nat \<Rightarrow> string" where
  "ref_pending w h = (if h < length (rhandles w) then snd (rhandles w ! h) else [])"

definition ref_target :: "rworld \<Rightarrow> nat \<Rightarrow> string" where
  "ref_target w h = (if h < length (rhandles w) then fst (rhandles w ! h) else [])"

definition ref_read :: "nat \<Rightarrow> nat \<Rightarrow> rworld \<Rightarrow> (errno + string) \<times> rworld" where
  "ref_read h n w = (Inr (take n (ref_pending w h)),
     w\<lparr>rhandles := (rhandles w)[h := (ref_target w h, drop n (ref_pending w h))]\<rparr>)"

definition ref_creat :: "string \<Rightarrow> rworld \<Rightarrow> (errno + nat) \<times> rworld" where
  "ref_creat p w = (Inr (length (rhandles w)),
     w\<lparr>rhandles := rhandles w @ [(p, [])], rfiles := AList.update p [] (rfiles w)\<rparr>)"

definition ref_append :: "nat \<Rightarrow> string \<Rightarrow> rworld \<Rightarrow> (errno + unit) \<times> rworld" where
  "ref_append h d w =
     (let p = ref_target w h; old = (case map_of (rfiles w) p of Some c \<Rightarrow> c | None \<Rightarrow> [])
      in (Inr (), w\<lparr>rfiles := AList.update p (old @ d) (rfiles w)\<rparr>))"

definition ref_lookup :: "('k \<times> 'v) list \<Rightarrow> 'k \<Rightarrow> rworld \<Rightarrow> (errno + 'v) \<times> rworld" where
  "ref_lookup m k w = ((case map_of m k of None \<Rightarrow> Inl ENOENT | Some v \<Rightarrow> Inr v), w)"

definition ref_code :: "'r \<Rightarrow> 'r \<Rightarrow> 'r \<Rightarrow> rworld \<Rightarrow> ('r \<times> string) \<times> rworld" where
  "ref_code fin wanted again w =
     ((if length (rcodec w) \<le> 65536 then (if rfinished w then fin else wanted) else again,
       take 65536 (rcodec w)), w\<lparr>rcodec := drop 65536 (rcodec w)\<rparr>)"

definition sync_env_ref :: "nat \<Rightarrow> feature_set \<Rightarrow> rworld sync_env" where
  "sync_env_ref fuel features = sync_proto.extend sync_proto_ref (sync_env.fields
     fuel \<lparr>realloc_ok = \<lambda>_. True, fresh_byte = \<lambda>_. CHR 0x00\<rparr> (\<lambda>_. None) (\<lambda>_. ''error'') (\<lambda>_ _. '' rate'')
     (\<lambda>c. c = CHR ''/'') (CHR ''/'') 4096
     (\<lambda>w. (rclock w, w\<lparr>rclock := Suc (rclock w)\<rparr>))
     (\<lambda>w. (Inr features, w))
     (\<lambda>_ w. ((3, []), w))
     (\<lambda>n w. if n \<le> length (inbox w) then ref_take n w else (Inl ECONNRESET, w))
     (\<lambda>d w. (Inr (), w\<lparr>outbox := outbox w @ d\<rparr>))
     (\<lambda>w. (if inbox w = [] then 0 else 1, w))
     ref_take
     (\<lambda>w. ((), w))
     (ref_stat True)
     (ref_stat False)
     ref_open
     ref_read
     (\<lambda>p w. ref_lookup (rfiles w) p w)
     (\<lambda>p n w. ref_lookup (rlinks w) p w)
     (\<lambda>p w. ref_lookup (rdirs w) p w)
     (\<lambda>p w. ((), w\<lparr>rfiles := AList.delete p (rfiles w)\<rparr>))
     ref_creat
     ref_append
     (\<lambda>p w. (Inr (), w\<lparr>rdirs := (p, []) # rdirs w\<rparr>))
     (\<lambda>_ _ w. (Inr (), w))
     (\<lambda>w. (0x12, w))
     (\<lambda>_ _ w. (Inr (), w))
     (\<lambda>c w. (0, w\<lparr>rcommands := rcommands w @ [c]\<rparr>))
     (\<lambda>_ _ w. ((), w\<lparr>rcodec := [], rfinished := False\<rparr>))
     (\<lambda>d w. ((), w\<lparr>rcodec := rcodec w @ d\<rparr>))
     (\<lambda>w. ((), w\<lparr>rfinished := True\<rparr>))
     (ref_code EncDone EncNeedInput EncMoreOutput)
     (\<lambda>_ _ w. ((), w\<lparr>rcodec := [], rfinished := False\<rparr>))
     (\<lambda>d w. ((), w\<lparr>rcodec := rcodec w @ d\<rparr>))
     (\<lambda>w. (True, w\<lparr>rfinished := True\<rparr>))
     (ref_code DecDone DecNeedInput DecMoreOutput))"

lemmas env_ref_defs = sync_env_ref_def sync_proto_ref_def libbase_ref_def sync_proto.defs
  sync_env.defs libbase.defs

lemma sync_env_ref_simps [simp]:
  "Split (sync_env_ref fuel features) = (\<lambda>s d. split_on (hd (d @ ''x'')) s)"
  "Join (sync_env_ref fuel features) = (\<lambda>xs d. join_with d xs)"
  "Trim (sync_env_ref fuel features) = trim_ref"
  "Basename (sync_env_ref fuel features) = basename_ref"
  "Dirname (sync_env_ref fuel features) = dirname_ref"
  "StartsWith (sync_env_ref fuel features) = (\<lambda>s p. prefix p s)"
  "EndsWithIgnoreCase (sync_env_ref fuel features) = ends_with_ci"
  "ConsumePrefix (sync_env_ref fuel features) =
     (\<lambda>s p. if prefix p s then Some (drop (length p) s) else None)"
  "ParseUint (sync_env_ref fuel features) = parse_uint_ref"
  "escape_arg (sync_env_ref fuel features) = quoted"
  "ID_LSTAT_V1 (sync_env_ref fuel features) = 0x54415453"
  "ID_STAT_V2 (sync_env_ref fuel features) = 0x32415453"
  "ID_LSTAT_V2 (sync_env_ref fuel features) = 0x3254534C"
  "ID_LIST_V1 (sync_env_ref fuel features) = 0x5453494C"
  "ID_LIST_V2 (sync_env_ref fuel features) = 0x3253494C"
  "ID_DENT_V1 (sync_env_ref fuel features) = 0x544E4544"
  "ID_DENT_V2 (sync_env_ref fuel features) = 0x32544E44"
  "ID_SEND_V1 (sync_env_ref fuel features) = 0x444E4553"
  "ID_SEND_V2 (sync_env_ref fuel features) = 0x32444E53"
  "ID_RECV_V1 (sync_env_ref fuel features) = 0x56434552"
  "ID_RECV_V2 (sync_env_ref fuel features) = 0x32564352"
  "ID_DONE (sync_env_ref fuel features) = 0x454E4F44"
  "ID_DATA (sync_env_ref fuel features) = 0x41544144"
  "ID_OKAY (sync_env_ref fuel features) = 0x59414B4F"
  "ID_FAIL (sync_env_ref fuel features) = 0x4C494146"
  "ID_QUIT (sync_env_ref fuel features) = 0x54495551"
  "SYNC_DATA_MAX (sync_env_ref fuel features) = 65536"
  "kSyncFlagBrotli (sync_env_ref fuel features) = 1"
  "kSyncFlagLZ4 (sync_env_ref fuel features) = 2"
  "kSyncFlagZstd (sync_env_ref fuel features) = 4"
  "kSyncFlagDryRun (sync_env_ref fuel features) = 0x80000000"
  "img_request (sync_env_ref fuel features) = (\<lambda>i n. put32 i @ put32 n)"
  "img_data (sync_env_ref fuel features) = (\<lambda>i n. put32 i @ put32 n)"
  "img_send_v2_setup (sync_env_ref fuel features) = (\<lambda>i m f. put32 i @ put32 m @ put32 f)"
  "img_recv_v2_setup (sync_env_ref fuel features) = (\<lambda>i f. put32 i @ put32 f)"
  "sizeof_request (sync_env_ref fuel features) = 8"
  "sizeof_stat_v1 (sync_env_ref fuel features) = 16"
  "sizeof_stat_v2 (sync_env_ref fuel features) = 72"
  "sizeof_dent_v1 (sync_env_ref fuel features) = 20"
  "sizeof_dent_v2 (sync_env_ref fuel features) = 76"
  "sizeof_status (sync_env_ref fuel features) = 8"
  "sizeof_data (sync_env_ref fuel features) = 8"
  "dec_stat_v1 (sync_env_ref fuel features) = stat_v1_ref"
  "dec_stat_v2 (sync_env_ref fuel features) = stat_v2_ref"
  "dec_dent_v1 (sync_env_ref fuel features) = dent_v1_ref"
  "dec_dent_v2 (sync_env_ref fuel features) = dent_v2_ref"
  "dec_status (sync_env_ref fuel features) = word_pair"
  "dec_data (sync_env_ref fuel features) = word_pair"
  "errno_from_wire (sync_env_ref fuel features) =
     (\<lambda>e. if e = 2 then ENOENT else EOTHER (unat e))"
  "loop_fuel (sync_env_ref fuel features) = fuel"
  "env_heap (sync_env_ref fuel features) =
     \<lparr>realloc_ok = \<lambda>_. True, fresh_byte = \<lambda>_. CHR 0x00\<rparr>"
  "env_getenv (sync_env_ref fuel features) = (\<lambda>_. None)"
  "strerror (sync_env_ref fuel features) = (\<lambda>_. ''error'')"
  "fmt_rate (sync_env_ref fuel features) = (\<lambda>_ _. '' rate'')"
  "adb_is_separator (sync_env_ref fuel features) = (\<lambda>c. c = CHR ''/'')"
  "OS_PATH_SEPARATOR (sync_env_ref fuel features) = (CHR ''/'')"
  "os_PATH_MAX (sync_env_ref fuel features) = 4096"
  "os_now (sync_env_ref fuel features) =
     (\<lambda>w. (rclock w, w\<lparr>rclock := Suc (rclock w)\<rparr>))"
  "os_features (sync_env_ref fuel features) = (\<lambda>w. (Inr features, w))"
  "os_connect (sync_env_ref fuel features) = (\<lambda>_ w. ((3, []), w))"
  "os_read_exactly (sync_env_ref fuel features) =
     (\<lambda>n w. if n \<le> length (inbox w) then ref_take n w else (Inl ECONNRESET, w))"
  "os_write_exactly (sync_env_ref fuel features) =
     (\<lambda>d w. (Inr (), w\<lparr>outbox := outbox w @ d\<rparr>))"
  "os_sock_poll (sync_env_ref fuel features) = (\<lambda>w. (if inbox w = [] then 0 else 1, w))"
  "os_sock_read (sync_env_ref fuel features) = ref_take"
  "os_read_shutdown (sync_env_ref fuel features) = (\<lambda>w. ((), w))"
  "os_stat (sync_env_ref fuel features) = (ref_stat True)"
  "os_lstat (sync_env_ref fuel features) = (ref_stat False)"
  "os_open_read (sync_env_ref fuel features) = ref_open"
  "os_read (sync_env_ref fuel features) = ref_read"
  "os_read_file (sync_env_ref fuel features) = (\<lambda>p w. ref_lookup (rfiles w) p w)"
  "os_readlink (sync_env_ref fuel features) = (\<lambda>p n w. ref_lookup (rlinks w) p w)"
  "os_read_dir (sync_env_ref fuel features) = (\<lambda>p w. ref_lookup (rdirs w) p w)"
  "os_unlink (sync_env_ref fuel features) =
     (\<lambda>p w. ((), w\<lparr>rfiles := AList.delete p (rfiles w)\<rparr>))"
  "os_creat (sync_env_ref fuel features) = ref_creat"
  "os_write_file (sync_env_ref fuel features) = ref_append"
  "os_mkdirs (sync_env_ref fuel features) =
     (\<lambda>p w. (Inr (), w\<lparr>rdirs := (p, []) # rdirs w\<rparr>))"
  "os_utime (sync_env_ref fuel features) = (\<lambda>_ _ w. (Inr (), w))"
  "os_umask (sync_env_ref fuel features) = (\<lambda>w. (0x12, w))"
  "os_chmod (sync_env_ref fuel features) = (\<lambda>_ _ w. (Inr (), w))"
  "os_shell_command (sync_env_ref fuel features) =
     (\<lambda>c w. (0, w\<lparr>rcommands := rcommands w @ [c]\<rparr>))"
  "os_encoder_new (sync_env_ref fuel features) =
     (\<lambda>_ _ w. ((), w\<lparr>rcodec := [], rfinished := False\<rparr>))"
  "os_encoder_append (sync_env_ref fuel features) =
     (\<lambda>d w. ((), w\<lparr>rcodec := rcodec w @ d\<rparr>))"
  "os_encoder_finish (sync_env_ref fuel features) =
     (\<lambda>w. ((), w\<lparr>rfinished := True\<rparr>))"
  "os_encode (sync_env_ref fuel features) = (ref_code EncDone EncNeedInput EncMoreOutput)"
  "os_decoder_new (sync_env_ref fuel features) =
     (\<lambda>_ _ w. ((), w\<lparr>rcodec := [], rfinished := False\<rparr>))"
  "os_decoder_append (sync_env_ref fuel features) =
     (\<lambda>d w. ((), w\<lparr>rcodec := rcodec w @ d\<rparr>))"
  "os_decoder_finish (sync_env_ref fuel features) =
     (\<lambda>w. (True, w\<lparr>rfinished := True\<rparr>))"
  "os_decode (sync_env_ref fuel features) = (ref_code DecDone DecNeedInput DecMoreOutput)"
  by (simp_all add: env_ref_defs)

text \<open>A connection as the constructor leaves it; \<open>v2\<close> says whether the device has the v2 protocol.\<close>

definition ready_conn :: "bool \<Rightarrow> rworld \<Rightarrow> rworld conn" where
  "ready_conn v2 w =
     \<lparr>world = w, errno = EPERM, line_printer = [], lp_quiet = False, out_capture = None, fd = 3,
      max_size = 65536, deferred_acknowledgements = [], acknowledgement_buffer = [],
      conn_features = [], have_stat_v2 = v2, have_ls_v2 = v2, have_sendrecv_v2 = v2,
      have_sendrecv_v2_brotli = v2, have_sendrecv_v2_lz4 = v2, have_sendrecv_v2_zstd = v2,
      have_sendrecv_v2_dry_run_send = v2, global_ledger = fresh_ledger 0 False,
      current_ledger = fresh_ledger 0 False\<rparr>"

lemma sync_env_ref_wire: "wire_doc (sync_env_ref fuel features)"
  by (simp add: wire_doc_def word_pair_def)

lemma sync_env_ref_socket: "socket_doc (sync_env_ref fuel features) inbox outbox"
  unfolding socket_doc_def
proof (intro conjI allI impI)
  fix n and w :: rworld
  assume "inbox w \<noteq> []" "0 < (n::nat)"
  then show "\<exists>k w'. 0 < k \<and> k \<le> n \<and>
      os_sock_read (sync_env_ref fuel features) n w = (Inr (take k (inbox w)), w')
      \<and> inbox w' = drop k (inbox w) \<and> outbox w' = outbox w"
    by (intro exI [of _ n]) (simp add: ref_take_def)
qed (simp_all add: ref_take_def)

lemma sync_env_ref_store: "store_doc (sync_env_ref fuel features) (map_of \<circ> rfiles)"
  by (simp add: store_doc_def ref_take_def ref_creat_def delete_conv' fun_eq_iff)

section \<open>Running a listing on the instance\<close>

definition dent_ref :: "u32 \<Rightarrow> u32 \<Rightarrow> u32 \<Rightarrow> string \<Rightarrow> string" where
  "dent_ref mode file_size mtime name = put32 0x544E4544 @ put32 mode @ put32 file_size
     @ put32 mtime @ put32 (word_of_nat (length name)) @ name"

definition dent_done_ref :: string where
  "dent_done_ref = put32 0x454E4F44 @ put32 0 @ put32 0 @ put32 0 @ put32 0"

definition set_inbox :: "string \<Rightarrow> rworld conn \<Rightarrow> rworld conn" where
  "set_inbox r s = s\<lparr>world := (world s)\<lparr>inbox := r\<rparr>\<rparr>"

lemma inbox_set_inbox [simp]:
  "inbox (world (set_inbox r s)) = r" "set_inbox r (set_inbox q s) = set_inbox r s"
  by (simp_all add: set_inbox_def)

lemma read_fd_ref:
  "inbox (world s) = x @ r \<Longrightarrow> length x = n \<Longrightarrow>
   read_fd (sync_env_ref fuel features) n s = (Ok (Some x), set_inbox r s)"
  by (auto simp: read_fd_def syscall_def ref_take_def set_inbox_def)

lemma listing_entry:
  assumes "inbox (world s) = dent_ref m z t name @ r" "length name \<le> 255"
    and ok: "CHR ''/'' \<notin> set name" "CHR 0x00 \<notin> set name"
  shows "FinishLsImpl False (sync_env_ref fuel features) callback (Suc k) acc s =
    bindp (callback m (ucast z) (ucast t) name acc)
      (FinishLsImpl False (sync_env_ref fuel features) callback k) (set_inbox r s)"
proof -
  let ?head = "put32 0x544E4544 @ put32 m @ put32 z @ put32 t @ put32 (word_of_nat (length name))"
  have len: "unat (word_of_nat (length name) :: u32) = length name"
    using assms(2) by (simp add: unsigned_of_nat take_bit_nat_eq_self)
  have c: "c_str name = name" using ok by (auto simp: c_str_def takeWhile_eq_all_conv)
  have "read_fd (sync_env_ref fuel features) 20 s = (Ok (Some ?head), set_inbox (name @ r) s)"
    by (rule read_fd_ref) (simp_all add: assms(1) dent_ref_def)
  moreover have "read_fd (sync_env_ref fuel features) (length name) (set_inbox (name @ r) s)
      = (Ok (Some name), set_inbox r s)"
    by (subst read_fd_ref [where x = name and r = r]) simp_all
  ultimately show ?thesis
    using assms(2) ok by (simp add: bindp_Ok dent_v1_ref_def len c Let_def)
qed

lemma listing_done:
  assumes "inbox (world s) = dent_done_ref @ r"
  shows "FinishLsImpl False (sync_env_ref fuel features) callback (Suc k) acc s
    = (Ok (True, acc), set_inbox r s)"
proof -
  have "read_fd (sync_env_ref fuel features) 20 s = (Ok (Some dent_done_ref), set_inbox r s)"
    by (rule read_fd_ref) (simp_all add: assms dent_done_ref_def)
  then show ?thesis by (simp add: bindp_Ok dent_v1_ref_def dent_done_ref_def ret_def)
qed

lemma SendLs_ref:
  assumes "\<not> have_ls_v2 s" "length p \<le> 1024"
  shows "SendLs (sync_env_ref fuel features) p s = (Ok True, s\<lparr>world := (world s)\<lparr>outbox :=
    outbox (world s) @ put32 0x5453494C @ put32 (word_of_nat (length p)) @ p\<rparr>\<rparr>)"
  using assms by (simp add: SendLs_def SendRequest_def write_fd_def syscall_def prog_defs)

end
