(* ===== verification/SyncPaths.thy ===== *)
theory SyncPaths
  imports SyncRef
begin

text \<open>
  The lists of files: what a listing hands to its callback, where the entries of a remote tree go
  on the local disk, which local files are offered for a push, and the \<^verbatim>\<open>stat\<close> fallback.
\<close>

section \<open>Names in a listing\<close>

definition listed_name :: "string \<Rightarrow> bool" where
  "listed_name n \<longleftrightarrow> CHR ''/'' \<notin> set n \<and> CHR 0x00 \<notin> set n \<and> length n \<le> 255"

lemma FinishLsImpl_yields:
  assumes step: "\<And>m z t n a. listed_name n \<Longrightarrow> I a \<Longrightarrow> yields (callback m z t n a) (\<lambda>b _. I b)"
    and "I acc"
  shows "yields (FinishLsImpl v2 E callback fuel acc) (\<lambda>(ok, b) _. I b)"
  using \<open>I acc\<close>
proof (induction fuel arbitrary: acc)
  case 0
  then show ?case by (simp add: yields_stop)
next
  case (Suc fuel)
  have stop: "yields (ret (False, acc)) (\<lambda>(ok, b) _. I b)" by (auto intro: yields_ret simp: Suc)
  have name: "listed_name (c_str (take len x))" if "\<not> 255 < len" "CHR ''/'' \<notin> set (c_str (take len x))"
    for len and x :: string
    using that length_c_str [of "take len x"]
    by (auto simp: listed_name_def c_str_def dest: set_takeWhileD)
  show ?case unfolding FinishLsImpl.simps Let_def
    by (intro yields_bindp [where m = "read_fd E n" for n] yields_case_option yields_if stop
          yields_bindp_value [where I = I])
       (auto intro!: yields_ret step name Suc.IH Suc.prems)
qed

lemma sync_ls_yields:
  assumes "\<And>m z t n a. listed_name n \<Longrightarrow> I a \<Longrightarrow> yields (callback m z t n a) (\<lambda>b _. I b)" "I acc"
  shows "yields (sync_ls E p callback acc) (\<lambda>(ok, b) _. I b)"
  unfolding sync_ls_def FinishLs_def
  by (intro yields_bindp yields_if FinishLsImpl_yields) (auto intro: assms yields_ret)

section \<open>Paths below a root\<close>

text \<open>\<open>dir_under root cs\<close> is \<open>root/c1/.../cn/\<close>, for \<open>root\<close> with its trailing slash.\<close>

definition dir_under :: "string \<Rightarrow> string list \<Rightarrow> string" where
  "dir_under root cs = root @ concat (map (\<lambda>c. c @ ''/'') cs)"

definition plain_name :: "string \<Rightarrow> bool" where
  "plain_name c \<longleftrightarrow> CHR ''/'' \<notin> set c \<and> c \<noteq> ''.'' \<and> c \<noteq> ''..''"

definition dir_name :: "string \<Rightarrow> bool" where
  "dir_name c \<longleftrightarrow> plain_name c \<and> c \<noteq> []"

definition root_path :: "string \<Rightarrow> bool" where
  "root_path r \<longleftrightarrow> r = ''/'' \<or> (\<exists>d x. r = d @ [x] @ ''/'' \<and> x \<noteq> CHR ''/'')"

text \<open>\<open>below root p\<close>: component by component, \<open>p\<close> stays inside \<open>root\<close>.\<close>

definition below :: "string \<Rightarrow> string \<Rightarrow> bool" where
  "below root p \<longleftrightarrow> (\<exists>cs c. p = dir_under root cs @ c \<and> list_all dir_name cs \<and> plain_name c)"

lemma dir_under_snoc: "dir_under root (cs @ [c]) = dir_under root cs @ c @ ''/''"
  by (simp add: dir_under_def)

lemma dir_name_last: "dir_name c \<Longrightarrow> \<exists>d x. c = d @ [x] \<and> x \<noteq> CHR ''/''"
  by (cases c rule: rev_cases) (auto simp: dir_name_def plain_name_def)

lemma root_path_dir_under:
  assumes "root_path root" "list_all dir_name cs"
  shows "root_path (dir_under root cs)"
proof (cases cs rule: rev_cases)
  case Nil
  with assms show ?thesis by (simp add: dir_under_def)
next
  case (snoc ds c)
  with assms obtain d x where "c = d @ [x]" "x \<noteq> CHR ''/''"
    using dir_name_last [of c] by auto
  with snoc have "dir_under root cs = (dir_under root ds @ d) @ [x] @ ''/'' \<and> x \<noteq> CHR ''/''"
    by (simp add: dir_under_snoc)
  then show ?thesis unfolding root_path_def by blast
qed

lemma root_path_last: "root_path r \<Longrightarrow> last r = CHR ''/'' \<and> r \<noteq> []"
  by (auto simp: root_path_def)

lemma strip_slashes_snoc [simp]:
  "strip_slashes (s @ ''/'') = strip_slashes s"
  "x \<noteq> CHR ''/'' \<Longrightarrow> strip_slashes (s @ [x]) = s @ [x]"
  by (simp_all add: strip_slashes_def)

lemma split_last_component:
  assumes "root_path r" "dir_name c" "s = r @ c \<or> s = r @ c @ ''/''"
  shows "basename_ref s = c"
    and "dirname_ref s = (if r = ''/'' then ''/'' else butlast r)"
proof -
  obtain d x where c: "c = d @ [x]" "x \<noteq> CHR ''/''" using dir_name_last assms(2) by blast
  have noslash: "\<And>a. a \<in> set (rev c) \<Longrightarrow> a \<noteq> CHR ''/''"
    using assms(2) by (auto simp: dir_name_def plain_name_def)
  have s: "strip_slashes s = r @ c"
    using assms(3) c strip_slashes_snoc(1) [of "r @ c"] strip_slashes_snoc(2) [of x "r @ d"] by auto
  obtain p where p: "r = p @ ''/''" using root_path_last [OF assms(1)]
    by (metis append_butlast_last_id)
  have t: "takeWhile (\<lambda>a. a \<noteq> CHR ''/'') (rev (r @ c)) = rev c"
    unfolding p by (simp add: takeWhile_tail) (use noslash in \<open>simp add: takeWhile_eq_all_conv\<close>)
  have u: "dropWhile (\<lambda>a. a \<noteq> CHR ''/'') (rev (r @ c)) = rev r"
    unfolding p using dropWhile_append2 [of "rev c", OF noslash] by simp
  have ne: "s \<noteq> []" using s c by (auto simp: strip_slashes_def)
  show "basename_ref s = c" using s t c ne by (simp add: basename_ref_def)
  have "strip_slashes r = (if r = ''/'' then [] else butlast r)"
    using assms(1) by (auto simp: root_path_def butlast_append strip_slashes_def)
  then show "dirname_ref s = (if r = ''/'' then ''/'' else butlast r)"
    using s u p c assms(1) by (auto simp: dirname_ref_def Let_def root_path_def butlast_append)
qed

section \<open>The remote tree\<close>

definition unix_paths :: "'w sync_env \<Rightarrow> bool" where
  "unix_paths E \<longleftrightarrow> Path_doc E \<and> OS_PATH_SEPARATOR E = CHR ''/'' \<and>
     adb_is_separator E = (\<lambda>c. c = CHR ''/'')"

definition slashed :: "string \<Rightarrow> string" where
  "slashed s = (if last s = CHR ''/'' then s else s @ ''/'')"

definition dir_slash :: "u32 \<Rightarrow> string \<Rightarrow> string" where
  "dir_slash m n = (if S_ISDIR m \<and> n \<noteq> [] then n @ ''/'' else n)"

lemma last_slashed [simp]: "last (slashed s) = CHR ''/''"
  by (simp add: slashed_def)

lemma copyinfo_ctor_lpath:
  assumes "unix_paths E" "CHR ''/'' \<notin> set n"
  shows "lpath (copyinfo_ctor E l r n m) = slashed l @ dir_slash m n"
    and "ci_mode (copyinfo_ctor E l r n m) = m"
proof -
  have n: "n \<noteq> [] \<Longrightarrow> last n \<noteq> CHR ''/''" using assms(2) by (metis last_in_set)
  have e: "fst (ensure_trailing_separators E s t) = slashed s" for s t
    using assms(1) by (simp add: ensure_trailing_separators_def unix_paths_def slashed_def)
  have d: "slashed (slashed l @ n) = slashed l @ dir_slash m n" if "S_ISDIR m"
    using n that by (cases "n = []") (auto simp: slashed_def dir_slash_def)
  show "lpath (copyinfo_ctor E l r n m) = slashed l @ dir_slash m n"
    and "ci_mode (copyinfo_ctor E l r n m) = m"
    using e d by (auto simp: copyinfo_ctor_def case_prod_unfold Let_def dir_slash_def)
qed

text \<open>
  \<open>dir_form root l\<close>: the directory \<open>l\<close> is a descendant of \<open>root\<close>, with its trailing slash or, for
  a symlink to a directory, without.
\<close>

definition dir_form :: "string \<Rightarrow> string \<Rightarrow> bool" where
  "dir_form root l \<longleftrightarrow> l = root \<or>
     (\<exists>cs c. list_all dir_name cs \<and> dir_name c \<and>
        (l = dir_under root cs @ c \<or> l = dir_under root cs @ c @ ''/''))"

lemma dir_form_slashed:
  assumes "root_path root" "dir_form root l"
  shows "\<exists>cs. list_all dir_name cs \<and> slashed l = dir_under root cs"
  using assms(2) unfolding dir_form_def
proof (elim disjE exE conjE)
  assume "l = root"
  then have "slashed l = dir_under root []"
    using root_path_last [OF assms(1)] by (simp add: slashed_def dir_under_def)
  then show ?thesis by (intro exI [of _ "[]"]) simp
next
  fix cs c
  assume c: "list_all dir_name cs" "dir_name c" "l = dir_under root cs @ c"
  then have "slashed l = dir_under root (cs @ [c])"
    using dir_name_last [of c] by (auto simp: slashed_def dir_under_snoc)
  with c show ?thesis by (intro exI [of _ "cs @ [c]"]) simp
next
  fix cs c
  assume c: "list_all dir_name cs" "dir_name c" "l = dir_under root cs @ c @ ''/''"
  then have "slashed l = dir_under root (cs @ [c])" by (auto simp: slashed_def dir_under_snoc)
  with c show ?thesis by (intro exI [of _ "cs @ [c]"]) simp
qed

lemma dir_form_child:
  assumes "root_path root" "dir_form root l" "plain_name n"
  shows "dir_form root (slashed l @ n)" "dir_form root (slashed l @ dir_slash m n)"
    "below root (slashed l @ n)"
proof -
  obtain cs where cs: "list_all dir_name cs" "slashed l = dir_under root cs"
    using dir_form_slashed [OF assms(1,2)] by blast
  have self: "dir_form root (dir_under root cs)"
  proof (cases cs rule: rev_cases)
    case (snoc ds c)
    with cs show ?thesis unfolding dir_form_def dir_under_snoc snoc by auto
  qed (simp add: dir_form_def dir_under_def)
  show "dir_form root (slashed l @ n)" "dir_form root (slashed l @ dir_slash m n)"
    using cs self assms(3)
    by (cases "n = []"; auto simp: dir_form_def dir_name_def dir_slash_def)+
  show "below root (slashed l @ n)" using cs assms(3) by (auto simp: below_def)
qed

text \<open>The entry of a directory itself.\<close>

definition root_marker :: "'w sync_env \<Rightarrow> string \<Rightarrow> string" where
  "root_marker E root = lpath (copyinfo_ctor E (Dirname E root) [] (Basename E root) S_IFDIR)"

definition pulled_inside :: "'w sync_env \<Rightarrow> string \<Rightarrow> copyinfo \<Rightarrow> bool" where
  "pulled_inside E root e \<longleftrightarrow>
     below root (lpath e) \<or> (S_ISDIR (ci_mode e) \<and> lpath e = root_marker E root)"

text \<open>Below a root with one slash at most in front, the C library has no choice.\<close>

lemma not_keeps_slashes:
  assumes "root_path r" "dir_name c" "s = r @ c \<or> s = r @ c @ ''/''"
  shows "\<not> keeps_slashes s"
proof
  assume k: "keeps_slashes s"
  then have "(if r = ''/'' then ''/'' else butlast r) = ''/''"
    using split_last_component(2) [OF assms] by (simp add: keeps_slashes_def)
  then have "r = ''/''" using assms(1) by (auto simp: root_path_def butlast_append split: if_splits)
  with k assms(2,3) show False
    by (cases c) (auto simp: keeps_slashes_def dir_name_def plain_name_def)
qed

lemma Dirname_inside:
  assumes "unix_paths E" "root_path r" "dir_name c" "s = r @ c \<or> s = r @ c @ ''/''"
  shows "Dirname E s = dirname_ref s"
  using assms(1) not_keeps_slashes [OF assms(2-4)] by (auto simp: unix_paths_def Path_doc_def)

lemma copyinfo_ctor_lpath_rpath: "lpath (copyinfo_ctor E l r n m) = lpath (copyinfo_ctor E l [] n m)"
  by (simp add: copyinfo_ctor_def ensure_trailing_separators_def Let_def)

lemma marker_inside:
  assumes E: "unix_paths E" and r: "root_path root" and l: "dir_form root l"
  shows "pulled_inside E root (copyinfo_ctor E (Dirname E l) rp (Basename E l) S_IFDIR)"
proof -
  have dir: "S_ISDIR S_IFDIR" by (simp add: mode_defs)
  have ctor: "lpath (copyinfo_ctor E (Dirname E l) rp (Basename E l) S_IFDIR) = root_marker E l"
    "ci_mode (copyinfo_ctor E (Dirname E l) rp (Basename E l) S_IFDIR) = S_IFDIR"
    by (simp add: root_marker_def copyinfo_ctor_lpath_rpath [of E _ rp])
       (simp add: copyinfo_ctor_def case_prod_unfold Let_def)
  show ?thesis
  proof (cases "l = root")
    case True
    with ctor dir show ?thesis by (simp add: pulled_inside_def)
  next
    case False
    with l obtain cs c where c: "list_all dir_name cs" "dir_name c"
      "l = dir_under root cs @ c \<or> l = dir_under root cs @ c @ ''/''"
      unfolding dir_form_def by blast
    have up: "root_path (dir_under root cs)" using r c(1) by (rule root_path_dir_under)
    have "slashed (dirname_ref l) = dir_under root cs"
      using split_last_component(2) [OF up c(2,3)] up
      by (auto simp: slashed_def root_path_def butlast_append)
    moreover have b: "Basename E l = c" "Dirname E l = dirname_ref l"
      using split_last_component(1) [OF up c(2,3)] Dirname_inside [OF E up c(2,3)] E
      by (simp_all add: unix_paths_def Path_doc_def)
    moreover have "CHR ''/'' \<notin> set c" "c \<noteq> []"
      using c(2) by (simp_all add: dir_name_def plain_name_def)
    ultimately have "root_marker E l = dir_under root (cs @ [c])"
      using copyinfo_ctor_lpath(1) [OF E, of c] dir
      by (simp add: root_marker_def dir_slash_def dir_under_snoc)
    with c have "below root (root_marker E l)"
      unfolding below_def by (intro exI [of _ "cs @ [c]"] exI [of _ "[]"]) (simp add: plain_name_def)
    with ctor show ?thesis by (simp add: pulled_inside_def)
  qed
qed

lemma listed_plain: "listed_name n \<Longrightarrow> \<not> IsDotOrDotDot n \<Longrightarrow> plain_name n"
  by (simp add: listed_name_def IsDotOrDotDot_def plain_name_def)

definition tree_ok :: "'w sync_env \<Rightarrow> string \<Rightarrow> copyinfo list \<Rightarrow> copyinfo list \<Rightarrow> bool" where
  "tree_ok E root files dirs \<longleftrightarrow>
     (\<forall>e \<in> set files. pulled_inside E root e) \<and> (\<forall>d \<in> set dirs. dir_form root (lpath d))"

definition lists_ok :: "'w sync_env \<Rightarrow> string \<Rightarrow> remote_lists \<Rightarrow> bool" where
  "lists_ok E root acc \<longleftrightarrow> (case acc of (files, dirs, links) \<Rightarrow>
     tree_ok E root files dirs \<and>
     (\<forall>l \<in> set links. dir_form root (lpath l) \<and> pulled_inside E root l))"

lemma remote_entry_inside:
  assumes "unix_paths E" "root_path root" "dir_form root l" "listed_name n" "lists_ok E root acc"
  shows "yields (remote_entry E rp l m z t n acc) (\<lambda>b _. lists_ok E root b)"
proof (cases "IsDotOrDotDot n")
  case True
  with assms(5) show ?thesis by (cases acc) (simp add: remote_entry_def yields_ret)
next
  case False
  note plain = listed_plain [OF assms(4) False]
  have ns: "CHR ''/'' \<notin> set n" using assms(4) by (simp add: listed_name_def)
  note child = dir_form_child [OF assms(2,3) plain]
  obtain f d k where acc: "acc = (f, d, k)" by (cases acc)
  define ci where "ci = copyinfo_ctor E l rp n m"
  have ci: "lpath ci = slashed l @ dir_slash m n" "ci_mode ci = m"
    using copyinfo_ctor_lpath [OF assms(1) ns] by (simp_all add: ci_def)
  have "lists_ok E root (f, d @ [ci], k)" if "S_ISDIR m"
    using that child(2) [of m] assms(5) ci by (auto simp: acc lists_ok_def tree_ok_def)
  moreover have "lists_ok E root (f, d, k @ [ci])" if "\<not> S_ISDIR m"
    using that child assms(5) ci by (auto simp: acc lists_ok_def pulled_inside_def dir_slash_def)
  moreover have "lists_ok E root (f @ [ci\<lparr>skip := b, ci_time := t, ci_size := z\<rparr>], d, k)"
    if "\<not> S_ISDIR m" for b
    using that child assms(5) ci
    by (auto simp: acc lists_ok_def tree_ok_def pulled_inside_def dir_slash_def)
  ultimately show ?thesis
    using False by (auto simp: remote_entry_def acc ci_def [symmetric] Let_def
        intro!: yields_ret yields_thenp)
qed

lemma remote_link_inside:
  assumes "dir_form root (lpath ci)" "pulled_inside E root ci" "tree_ok E root (fst acc) (snd acc)"
  shows "yields (remote_link E ci acc) (\<lambda>p _. tree_ok E root (fst p) (snd p))"
  using assms
  by (cases acc)
     (auto simp: remote_link_def tree_ok_def
       intro!: yields_bindp yields_case_prod yields_if yields_ret yields_thenp)

lemma remote_build_list_inside:
  assumes "unix_paths E" "root_path root" "dir_form root l"
    and "\<forall>e \<in> set fl. pulled_inside E root e"
  shows "yields (remote_build_list E fuel rp l fl) (\<lambda>(ok, fl) _. \<forall>e \<in> set fl. pulled_inside E root e)"
  using assms(3,4)
proof (induction fuel arbitrary: rp l fl)
  case 0
  then show ?case by (simp add: yields_stop)
next
  case (Suc fuel)
  define ci where "ci = copyinfo_ctor E (Dirname E l) (Dirname E rp) (Basename E l) S_IFDIR"
  have start: "lists_ok E root (fl @ [ci], [], [])"
    using Suc.prems marker_inside [OF assms(1,2) Suc.prems(1)]
    by (simp add: lists_ok_def tree_ok_def ci_def)
  have list: "yields (sync_ls E rp (remote_entry E rp l) (fl @ [ci], [], []))
      (\<lambda>p _. lists_ok E root (snd p))"
    using sync_ls_yields [where I = "lists_ok E root", OF remote_entry_inside
        [OF assms(1,2) Suc.prems(1)] start] by (simp add: case_prod_unfold)
  have links: "yields (fold_prog (remote_link E) k (f, d)) (\<lambda>p _. tree_ok E root (fst p) (snd p))"
    if "lists_ok E root (f, d, k)" for f d k
    using that by (intro yields_fold_prog remote_link_inside) (auto simp: lists_ok_def)
  have dirs: "yields (fold_while (\<lambda>c fl. remote_build_list E fuel (rpath c) (lpath c) fl) (rev d) f)
      (\<lambda>(ok, fl) _. \<forall>e \<in> set fl. pulled_inside E root e)" if "tree_ok E root f d" for f d
    using that by (intro yields_fold_while Suc.IH) (auto simp: tree_ok_def)
  show ?case unfolding remote_build_list.simps Let_def ci_def [symmetric]
    by (rule yields_bindp_value [OF list])
       (auto intro!: yields_ret yields_bindp_value [OF links] dirs simp: lists_ok_def tree_ok_def)
qed

end
