(* ===== verification/SyncLocal.thy ===== *)
theory SyncLocal
  imports SyncPaths
begin

text \<open>
  The local side of a push (which files are offered, the parent directories, the \<^verbatim>\<open>mkdir\<close>
  commands) and the \<^verbatim>\<open>stat\<close> fallback for old devices.
\<close>

unbundle bit_operations_syntax

section \<open>Files offered for a push\<close>

definition pushable :: "copyinfo \<Rightarrow> bool" where
  "pushable ci \<longleftrightarrow> \<not> S_ISDIR (ci_mode ci) \<and> (skip ci \<longleftrightarrow> \<not> should_push_file (ci_mode ci))"

lemma copyinfo_ctor_mode [simp]: "ci_mode (copyinfo_ctor E l r n m) = m"
  by (simp add: copyinfo_ctor_def case_prod_unfold Let_def)

lemma local_entry_pushable:
  assumes "\<forall>ci \<in> set (fst acc). pushable ci"
  shows "yields (local_entry E l r n acc) (\<lambda>b _. \<forall>ci \<in> set (fst b). pushable ci)"
  using assms
  by (cases acc)
     (auto simp: local_entry_def pushable_def Let_def
       intro!: yields_bindp yields_if yields_case_option yields_thenp yields_ret)

lemma local_build_list_pushable:
  assumes "\<forall>ci \<in> set (fst acc). pushable ci"
  shows "yields (local_build_list E fuel l r acc) (\<lambda>b _. \<forall>ci \<in> set (fst (snd b)). pushable ci)"
  using assms
proof (induction fuel arbitrary: l r acc)
  case 0
  then show ?case by (simp add: yields_stop)
next
  case (Suc fuel)
  obtain fl dl where acc: "acc = (fl, dl)" by (cases acc)
  let ?I = "\<lambda>b. \<forall>ci \<in> set (fst b). pushable ci"
  have entries: "yields (fold_prog (local_entry E l r) names (fl, [])) (\<lambda>b _. ?I b)" for names
    using Suc.prems by (intro yields_fold_prog local_entry_pushable) (auto simp: acc)
  have dirs: "yields (fold_prog (\<lambda>ci (fl, dl). bindp (local_build_list E fuel (lpath ci) (rpath ci)
      (fl, dl @ [rpath ci])) (\<lambda>(_, acc'). ret acc')) ds (f, dl)) (\<lambda>b _. ?I b)"
    if "\<forall>ci \<in> set f. pushable ci" for f ds
  proof (rule yields_fold_prog)
    fix ci and a :: "copyinfo list \<times> string list"
    assume "?I a"
    then have "yields (local_build_list E fuel (lpath ci) (rpath ci) (fst a, snd a @ [rpath ci]))
        (\<lambda>b _. ?I (snd b))" by (intro Suc.IH) simp
    then show "yields (case a of (fl, dl) \<Rightarrow> bindp (local_build_list E fuel (lpath ci) (rpath ci)
        (fl, dl @ [rpath ci])) (\<lambda>(_, acc'). ret acc')) (\<lambda>b _. ?I b)"
      by (cases a) (auto intro!: yields_bindp_value yields_ret split: prod.splits)
  qed (use that in simp)
  show ?case unfolding local_build_list.simps acc prod.case
    using Suc.prems acc
    by (intro yields_bindp [where m = "syscall x" for x] yields_case_option)
       (auto intro!: yields_bindp [where m = "strerror_now E"] yields_thenp yields_ret
          yields_bindp_value [OF entries] yields_bindp_value [OF dirs])
qed

section \<open>Parent directories of the destination\<close>

lemma rev_split: "s = rev (dropWhile P (rev s)) @ rev (takeWhile P (rev s))"
proof -
  have "rev s = takeWhile P (rev s) @ dropWhile P (rev s)" by simp
  then show ?thesis by (metis rev_append rev_rev_ident)
qed

lemma last_rev_dropWhile:
  "rev (dropWhile P (rev s)) \<noteq> [] \<Longrightarrow> \<not> P (last (rev (dropWhile P (rev s))))"
  using hd_dropWhile [of P "rev s"] by (simp add: last_rev)

lemma strip_slashes_prefix: "\<exists>t. s = strip_slashes s @ t \<and> set t \<subseteq> {CHR ''/''}"
  using rev_split [of s "\<lambda>c. c = CHR ''/''"]
  by (intro exI [of _ "rev (takeWhile (\<lambda>c. c = CHR ''/'') (rev s))"])
     (auto simp: strip_slashes_def dest!: set_takeWhileD)

lemma strip_slashes_root: "strip_slashes s = [] \<longleftrightarrow> is_root_dir s"
  by (simp add: strip_slashes_def is_root_dir_def dropWhile_eq_Nil_conv list_all_iff)

lemma dirname_absolute:
  assumes "hd p = CHR ''/''" "\<not> is_root_dir p"
  shows "hd (dirname_ref p) = CHR ''/''" "length (dirname_ref p) < length p"
proof -
  define t where "t = strip_slashes p"
  define d where "d = rev (dropWhile (\<lambda>c. c \<noteq> CHR ''/'') (rev t))"
  have t: "t \<noteq> []" using assms(2) by (simp add: t_def strip_slashes_root)
  obtain u where u: "p = t @ u" using strip_slashes_prefix [of p] t_def by blast
  with t assms(1) have ht: "hd t = CHR ''/''" by simp
  then have "CHR ''/'' \<in> set t" using t by (metis hd_in_set)
  then have d: "d \<noteq> []" by (auto simp: d_def dropWhile_eq_Nil_conv)
  obtain v where v: "t = d @ v" using rev_split [of t "\<lambda>c. c \<noteq> CHR ''/''"] d_def by blast
  have last: "last t \<noteq> CHR ''/''"
    using t last_rev_dropWhile [of "\<lambda>c. c = CHR ''/''" p] by (simp add: t_def strip_slashes_def)
  have hd: "hd d = CHR ''/''" using ht v d by simp
  have "last d = CHR ''/''"
    using d last_rev_dropWhile [of "\<lambda>c. c \<noteq> CHR ''/''" t] by (simp add: d_def)
  with v last have "v \<noteq> []" by (metis append_Nil2)
  with v have len: "length d < length t" by simp
  have s: "dirname_ref p = (if strip_slashes d = [] then ''/'' else strip_slashes d)"
    using t d by (simp add: dirname_ref_def Let_def t_def [symmetric] d_def [symmetric])
  obtain w where w: "d = strip_slashes d @ w" using strip_slashes_prefix [of d] by blast
  show "hd (dirname_ref p) = CHR ''/''" using s w hd by (metis hd_append2 list.sel(1))
  have "length (strip_slashes d) \<le> length d" using w by (metis le_add1 length_append)
  moreover have "1 \<le> length d" using d by (cases d) auto
  ultimately show "length (dirname_ref p) < length p"
    using s len u by (auto split: if_splits)
qed

lemma dirname_relative:
  assumes "hd p \<noteq> CHR ''/''" "p \<noteq> []"
  shows "hd (dirname_ref p) \<noteq> CHR ''/'' \<and> dirname_ref p \<noteq> []"
proof -
  define t where "t = strip_slashes p"
  define d where "d = rev (dropWhile (\<lambda>c. c \<noteq> CHR ''/'') (rev t))"
  obtain u where u: "p = t @ u" "set u \<subseteq> {CHR ''/''}"
    using strip_slashes_prefix [of p] t_def by blast
  with assms have t: "t \<noteq> []" by (cases t; cases u) auto
  obtain v where v: "t = d @ v" using rev_split [of t "\<lambda>c. c \<noteq> CHR ''/''"] d_def by blast
  obtain w where w: "d = strip_slashes d @ w" "set w \<subseteq> {CHR ''/''}"
    using strip_slashes_prefix [of d] by blast
  have "hd d \<noteq> CHR ''/''" if "d \<noteq> []" using that v u(1) assms by auto
  then have "strip_slashes d \<noteq> [] \<and> hd (strip_slashes d) \<noteq> CHR ''/''" if "d \<noteq> []"
    using that w by (cases "strip_slashes d"; cases w) auto
  then show ?thesis
    using t assms by (auto simp: dirname_ref_def Let_def t_def [symmetric] d_def [symmetric])
qed

lemma Dirname_absolute:
  assumes "Path_doc L" "hd p = CHR ''/''" "\<not> is_root_dir p"
  shows "hd (Dirname L p) = CHR ''/''" "length (Dirname L p) < length p"
proof -
  consider "Dirname L p = dirname_ref p" | "prefix ''//'' p" "Dirname L p = ''//''"
    using assms(1) by (auto simp: Path_doc_def keeps_slashes_def)
  then have "hd (Dirname L p) = CHR ''/'' \<and> length (Dirname L p) < length p"
  proof cases
    case 2
    then obtain q where q: "p = ''//'' @ q" by (auto simp: prefix_def)
    with assms(3) have "q \<noteq> []" by (auto simp: is_root_dir_def)
    with 2 q show ?thesis by simp
  qed (use dirname_absolute [OF assms(2,3)] in simp)
  then show "hd (Dirname L p) = CHR ''/''" "length (Dirname L p) < length p" by simp_all
qed

lemma Dirname_relative:
  assumes "Path_doc L" "hd p \<noteq> CHR ''/''" "p \<noteq> []"
  shows "hd (Dirname L p) \<noteq> CHR ''/'' \<and> Dirname L p \<noteq> []"
proof -
  have "\<not> prefix ''//'' p" using assms(2) by (auto simp: prefix_def)
  then have "Dirname L p = dirname_ref p" using assms(1) by (auto simp: Path_doc_def keeps_slashes_def)
  with dirname_relative [OF assms(2,3)] show ?thesis by simp
qed

lemma parent_dirs_absolute:
  assumes "Path_doc L" "hd p = CHR ''/''" "length p < fuel"
  shows "parent_dirs L fuel p \<noteq> None"
  using assms(2,3)
proof (induction fuel arbitrary: p)
  case 0
  then show ?case by simp
next
  case (Suc fuel)
  show ?case
  proof (cases "is_root_dir p")
    case False
    have "parent_dirs L fuel (Dirname L p) \<noteq> None"
      using Dirname_absolute [OF assms(1) Suc.prems(1) False] Suc.prems(2) by (intro Suc.IH) simp_all
    with False show ?thesis by simp
  qed simp
qed

lemma parent_dirs_relative:
  assumes "Path_doc L" "hd p \<noteq> CHR ''/''" "p \<noteq> []"
  shows "parent_dirs L fuel p = None"
  using assms(2,3)
proof (induction fuel arbitrary: p)
  case 0
  then show ?case by simp
next
  case (Suc fuel)
  have "\<not> is_root_dir p" using Suc.prems by (cases p) (auto simp: is_root_dir_def)
  moreover have "parent_dirs L fuel (Dirname L p) = None"
    using Dirname_relative [OF assms(1) Suc.prems] by (intro Suc.IH) simp_all
  ultimately show ?case by simp
qed

text \<open>The directory \<open>/c1/.../cn\<close>, and the walk up from it.\<close>

definition dir_path :: "string list \<Rightarrow> string" where
  "dir_path cs = butlast (dir_under ''/'' cs)"

lemma dir_path_snoc: "dir_path (cs @ [c]) = dir_under ''/'' cs @ c"
  by (simp add: dir_path_def dir_under_snoc butlast_append)

lemma length_dir_path:
  assumes "list_all dir_name (cs @ [c])"
  shows "length cs < length (dir_path (cs @ [c]))"
proof -
  have "length cs \<le> length (concat (map (\<lambda>c. c @ ''/'') cs))" by (induction cs) auto
  then show ?thesis by (simp add: dir_path_snoc dir_under_def)
qed

lemma dir_not_root: "list_all dir_name (cs @ [c]) \<Longrightarrow> \<not> is_root_dir (dir_path (cs @ [c]) @ t)"
  by (cases c) (auto simp: dir_path_snoc is_root_dir_def dir_name_def plain_name_def)

lemma Dirname_path:
  assumes "Path_doc L" "list_all dir_name (cs @ [c])" "t = [] \<or> t = ''/''"
  shows "Dirname L (dir_path (cs @ [c]) @ t) = (if cs = [] then ''/'' else dir_path cs)"
proof -
  have root: "root_path (dir_under ''/'' cs)"
    using assms(2) by (intro root_path_dir_under) (simp_all add: root_path_def)
  have c: "dir_name c" using assms(2) by simp
  let ?p = "dir_under ''/'' cs @ c @ t"
  have d: "dirname_ref ?p = (if dir_under ''/'' cs = ''/'' then ''/'' else butlast (dir_under ''/'' cs))"
    using assms(3) by (intro split_last_component(2) [OF root c]) auto
  have nil: "dir_under ''/'' cs = ''/'' \<longleftrightarrow> cs = []"
    by (cases cs rule: rev_cases) (simp_all add: dir_under_def)
  have "\<not> keeps_slashes ?p"
    using assms(3) by (intro not_keeps_slashes [OF root c]) auto
  with assms(1) have "Dirname L ?p = dirname_ref ?p" by (auto simp: Path_doc_def)
  with d nil show ?thesis by (simp add: dir_path_snoc) (simp add: dir_path_def)
qed

lemma parent_dirs_path:
  assumes "Path_doc L"
  shows "list_all dir_name (cs @ [c]) \<Longrightarrow> t = [] \<or> t = ''/'' \<Longrightarrow> length cs + 1 < fuel \<Longrightarrow>
    parent_dirs L fuel (dir_path (cs @ [c]) @ t)
      = Some ((dir_path (cs @ [c]) @ t) # rev (map (\<lambda>k. dir_path (take k cs)) [1..<Suc (length cs)]))"
proof (induction cs arbitrary: c t fuel rule: rev_induct)
  case Nil
  then obtain f where f: "fuel = Suc (Suc f)" by (cases fuel; cases "fuel - 1") auto
  then show ?case using dir_not_root [OF Nil(1), of t] Dirname_path [OF assms Nil(1,2)] by (simp add: f is_root_dir_def)
next
  case (snoc d ds)
  then obtain f where f: "fuel = Suc f" "length ds + 1 < f" by (cases fuel) auto
  note dir_not_root [OF snoc.prems(1), of t]
  moreover have "parent_dirs L f (dir_path (ds @ [d]))
      = Some (dir_path (ds @ [d]) # rev (map (\<lambda>k. dir_path (take k ds)) [1..<Suc (length ds)]))"
    using snoc.IH [of d "[]" f] snoc.prems(1) f(2) by simp
  moreover have "map (\<lambda>k. dir_path (take k ds)) [1..<Suc (length ds)]
      = map (\<lambda>k. dir_path (take k (ds @ [d]))) [1..<Suc (length ds)]"
    by (rule map_cong) auto
  moreover have "[1..<Suc (length (ds @ [d]))] = [1..<Suc (length ds)] @ [Suc (length ds)]" by simp
  ultimately show ?case
    using Dirname_path [OF assms snoc.prems(1,2)] by (simp add: f(1) del: append_assoc upt_Suc)
qed

section \<open>The \<^verbatim>\<open>stat\<close> fallback\<close>

lemma S_ISLNK_replaced:
  "\<not> S_ISLNK ((m AND NOT S_IFMT) OR S_IFDIR)" "\<not> S_ISLNK ((m AND NOT S_IFMT) OR S_IFREG)"
proof -
  have "((m AND NOT S_IFMT) OR k) AND S_IFMT = k" if "k AND S_IFMT = k" for k
    using that by (simp add: bit.conj_disj_distrib2 and.assoc)
  from this [of S_IFDIR] this [of S_IFREG]
  show "\<not> S_ISLNK ((m AND NOT S_IFMT) OR S_IFDIR)" "\<not> S_ISLNK ((m AND NOT S_IFMT) OR S_IFREG)"
    by (simp_all add: mode_defs)
qed

lemma sync_stat_no_v2:
  "\<not> have_stat_v2 s \<Longrightarrow> sync_stat E p s = (Ok (False, zero_stat), s\<lparr>errno := ENOTSUP\<rparr>)"
  by (simp add: sync_stat_def SendStat_def set_errno_def bindp_def thenp_def getp_def modp_def
      ret_def)

lemma stat_fallback_resolves:
  assumes "\<not> have_stat_v2 s" "sync_stat_fallback E p s = (Ok (True, st), s')"
  shows "\<not> S_ISLNK (st_mode st)"
proof -
  have link: "\<not> S_ISLNK (st_mode c)"
    if "bindp (sync_lstat E (p @ ''/'')) (\<lambda>(ok, tmp_st). if ok then ret (True, a) else ret (True, b))
          s1 = (Ok (True, c), s2)" "\<not> S_ISLNK (st_mode a)" "\<not> S_ISLNK (st_mode b)" for a b c s1 s2
    using that by (auto simp: bindp_Ok_iff split: if_splits)
  show ?thesis
    using assms
    by (auto simp: sync_stat_fallback_def bindp_Ok_iff [where m = "sync_stat E p"]
        bindp_Ok_iff [where m = "sync_lstat E p"] bindp_Ok_iff [where m = "getp errno"]
        sync_stat_no_v2 getp_def Let_def S_ISLNK_replaced dest!: link split: if_splits)
qed

section \<open>The \<^verbatim>\<open>mkdir\<close> commands\<close>

text \<open>A world that records the shell commands.\<close>

definition logging_shell :: "string list sync_env \<Rightarrow> string list sync_env" where
  "logging_shell E = E\<lparr>os_shell_command := \<lambda>c w. (0, w @ [c])\<rparr>"

text \<open>\<open>splits_args args cmds\<close>: the commands pass exactly \<open>args\<close>, in order, in bounded lines.\<close>

definition splits_args :: "string \<Rightarrow> string list \<Rightarrow> bool" where
  "splits_args args cmds \<longleftrightarrow>
     concat (map (drop 5) cmds) = args \<and> list_all (\<lambda>c. prefix ''mkdir '' c \<and> length c \<le> 32769) cmds"

lemma splits_args_Cons:
  assumes "splits_args rest cmds" "length a \<le> 32764" "a = CHR '' '' # b"
  shows "splits_args (a @ rest) ((''mkdir'' @ a) # cmds)"
  using assms by (simp add: splits_args_def)

definition all_args :: "('x) libbase_scheme \<Rightarrow> string list \<Rightarrow> string" where
  "all_args L dirs = concat (map (\<lambda>d. '' '' @ escape_arg L d) dirs)"

lemma mkdir_loop_splits:
  assumes "\<forall>d \<in> set dirs. length (escape_arg E d) \<le> 16384"
    and "length a \<le> 32764" "a = [] \<or> (\<exists>b. a = CHR '' '' # b)"
  shows "\<exists>cmds. mkdir_loop (logging_shell E) dirs (''mkdir'' @ a) s
           = (Ok True, s\<lparr>world := world s @ cmds\<rparr>) \<and> splits_args (a @ all_args E dirs) cmds"
  using assms
proof (induction dirs arbitrary: a s)
  case Nil
  show ?case
  proof (cases "a = []")
    case True
    have "mkdir_loop (logging_shell E) [] (''mkdir'' @ a) s = (Ok True, s\<lparr>world := world s @ []\<rparr>)"
      using True by (simp add: thenp_def ret_def)
    then show ?thesis using True by (intro exI [of _ "[]"]) (simp add: splits_args_def all_args_def)
  next
    case False
    have "mkdir_loop (logging_shell E) [] (''mkdir'' @ a) s
        = (Ok True, s\<lparr>world := world s @ [''mkdir'' @ a]\<rparr>)"
      using False by (simp add: thenp_def bindp_def osop_def logging_shell_def ret_def)
    moreover have "splits_args (a @ all_args E []) [''mkdir'' @ a]"
      using Nil False by (auto simp: splits_args_def all_args_def)
    ultimately show ?thesis by blast
  qed
next
  case (Cons d dirs)
  let ?e = "escape_arg E d"
  have e: "escape_arg (logging_shell E) d = ?e" "\<not> 16384 < length ?e"
    using Cons.prems(1) by (auto simp: logging_shell_def)
  show ?case
  proof (cases "length (''mkdir'' @ a) + length ?e > 32768")
    case True
    then obtain b where a: "a = CHR '' '' # b" using Cons.prems e(2) by fastforce
    obtain cmds where c: "mkdir_loop (logging_shell E) dirs (''mkdir'' @ '' '' @ ?e)
          (s\<lparr>world := world s @ [''mkdir'' @ a]\<rparr>)
        = (Ok True, s\<lparr>world := (world s @ [''mkdir'' @ a]) @ cmds\<rparr>)"
      "splits_args (('' '' @ ?e) @ all_args E dirs) cmds"
      using Cons.IH [of "'' '' @ ?e" "s\<lparr>world := world s @ [''mkdir'' @ a]\<rparr>"] Cons.prems e(2)
      by auto
    have "mkdir_loop (logging_shell E) (d # dirs) (''mkdir'' @ a) s
        = (Ok True, s\<lparr>world := world s @ (''mkdir'' @ a) # cmds\<rparr>)"
      using True e c(1) by (simp add: thenp_def bindp_def osop_def logging_shell_def Let_def)
    moreover have "splits_args (a @ all_args E (d # dirs)) ((''mkdir'' @ a) # cmds)"
      using splits_args_Cons [OF c(2) _ a] Cons.prems(2) by (simp add: all_args_def)
    ultimately show ?thesis by blast
  next
    case False
    then obtain cmds where c: "mkdir_loop (logging_shell E) dirs (''mkdir'' @ (a @ '' '' @ ?e)) s
        = (Ok True, s\<lparr>world := world s @ cmds\<rparr>)"
      "splits_args ((a @ '' '' @ ?e) @ all_args E dirs) cmds"
      using Cons.IH [of "a @ '' '' @ ?e" s] Cons.prems by auto
    have "mkdir_loop (logging_shell E) (d # dirs) (''mkdir'' @ a) s
        = (Ok True, s\<lparr>world := world s @ cmds\<rparr>)"
      using False e c(1) by (simp add: Let_def)
    moreover have "splits_args (a @ all_args E (d # dirs)) cmds"
      using c(2) by (simp add: all_args_def)
    ultimately show ?thesis by blast
  qed
qed

lemma mkdir_loop_too_long:
  assumes "d \<in> set dirs" "16384 < length (escape_arg E d)"
  shows "yields (mkdir_loop E dirs cmd) (\<lambda>ok _. \<not> ok)"
  using assms(1)
proof (induction dirs arbitrary: cmd)
  case (Cons x dirs)
  show ?case
  proof (cases "16384 < length (escape_arg E x)")
    case True
    then show ?thesis by (simp add: Let_def fail_with_def yields_thenp yields_ret)
  next
    case False
    with Cons assms(2) have "d \<in> set dirs" by auto
    with Cons.IH False show ?thesis by (auto simp: Let_def intro!: yields_thenp yields_if)
  qed
qed simp

end
