(* ===== verification/SyncReplies.thy ===== *)
theory SyncReplies
  imports SyncAcks SyncLocal
begin

text \<open>
  What a device that follows the protocol makes the client do: the replies are a stream of
  \<^verbatim>\<open>OKAY\<close> and \<^verbatim>\<open>FAIL\<close> messages, in the order the files were sent.
\<close>

definition okay_reply :: "('x) sync_proto_scheme \<Rightarrow> string" where
  "okay_reply E = put32 (ID_OKAY E) @ put32 0"

definition fail_reply :: "('x) sync_proto_scheme \<Rightarrow> string \<Rightarrow> string" where
  "fail_reply E msg = put32 (ID_FAIL E) @ put32 (word_of_nat (length msg)) @ msg"

definition okays :: "('x) sync_proto_scheme \<Rightarrow> nat \<Rightarrow> string" where
  "okays E k = concat (replicate k (okay_reply E))"

definition blame :: "string \<times> string \<Rightarrow> string \<Rightarrow> lp_call" where
  "blame file msg =
     PrintError (''adb: error: '' @ failed_to_copy (fst file) (snd file) @ '': remote '' @ c_str msg)"

lemma read_until_amount_exact:
  assumes "socket_doc E inb outb"
  shows "length x < fuel \<Longrightarrow> inb (world s) = x @ r \<Longrightarrow> acknowledgement_buffer s = b \<Longrightarrow>
    length b + length x = n \<Longrightarrow>
    \<exists>w. read_until_amount E True n fuel s
          = (Ok RSuccess, s\<lparr>acknowledgement_buffer := b @ x, world := w\<rparr>) \<and>
        inb w = r \<and> outb w = outb (world s)"
proof (induction fuel arbitrary: x b s)
  case 0
  then show ?case by simp
next
  case (Suc fuel)
  show ?case
  proof (cases "x = []")
    case True
    with Suc.prems show ?thesis by (intro exI [of _ "world s"]) (simp add: ret_def)
  next
    case False
    with Suc.prems have "inb (world s) \<noteq> []" "0 < n - length b" by auto
    then obtain k w1 where k: "0 < k" "k \<le> length x"
      "os_sock_read E (n - length b) (world s) = (Inr (take k x), w1)"
      "inb w1 = drop k x @ r" "outb w1 = outb (world s)"
      using assms Suc.prems(2,4) unfolding socket_doc_def
      by (smt (verit, best) add_diff_cancel_left' drop_append drop0 diff_is_0_eq take_append take0
          append_Nil2)
    let ?s = "s\<lparr>world := w1, acknowledgement_buffer := b @ take k x\<rparr>"
    have step: "read_until_amount E True n (Suc fuel) s = read_until_amount E True n fuel ?s"
      using Suc.prems False k
      by (simp add: bindp_def syscall_def thenp_def ret_def modp_def Let_def getp_def min_def)
    have "\<exists>w. read_until_amount E True n fuel ?s
          = (Ok RSuccess, ?s\<lparr>acknowledgement_buffer := (b @ take k x) @ drop k x, world := w\<rparr>) \<and>
        inb w = r \<and> outb w = outb (world ?s)"
      using Suc.prems k(1,2,4) by (intro Suc.IH) (auto simp: min_def)
    with step k(5) show ?thesis by simp
  qed
qed

text \<open>The state after the client has consumed acknowledgements.\<close>

definition acked :: "(string \<times> string) list \<Rightarrow> lp_call list \<Rightarrow> 'w \<Rightarrow> 'w conn \<Rightarrow> 'w conn" where
  "acked q out w s = s\<lparr>acknowledgement_buffer := [], deferred_acknowledgements := q, world := w,
     line_printer := line_printer s @ out\<rparr>"

lemma acked_same:
  "deferred_acknowledgements s = q \<Longrightarrow> acknowledgement_buffer s = [] \<Longrightarrow> acked q [] (world s) s = s"
  by (cases s) (simp add: acked_def)

lemma acked_steps:
  "s\<lparr>world := w, acknowledgement_buffer := [], deferred_acknowledgements := q\<rparr> = acked q [] w s"
  by (cases s) (simp add: acked_def)

lemma ack_loop_okay:
  assumes sock: "socket_doc E inb outb" and wire: "wire_doc E" and fuel: "8 < loop_fuel E"
    and q: "deferred_acknowledgements s = f # q" "acknowledgement_buffer s = []"
    and i: "inb (world s) = okay_reply E @ r"
  shows "\<exists>w. ack_loop E True (Suc n) s = ack_loop E True n (acked q [] w s) \<and>
    inb w = r \<and> outb w = outb (world s)"
proof -
  have sz: "sizeof_status E = 8" using wire by (simp add: wire_doc_def)
  obtain w where w: "read_until_amount E True 8 (loop_fuel E) s
      = (Ok RSuccess, s\<lparr>acknowledgement_buffer := okay_reply E, world := w\<rparr>)"
    "inb w = r" "outb w = outb (world s)"
    using read_until_amount_exact [OF sock, of "okay_reply E" "loop_fuel E" s r "[]" 8] fuel q i
    by (auto simp: okay_reply_def)
  have d: "dec_status E (take 8 (okay_reply E)) = (ID_OKAY E, 0)"
    using wire by (simp add: wire_doc_def okay_reply_def)
  have "ack_loop E True (Suc n) s = ack_loop E True n (acked q [] w s)"
    using q w(1) d sz
    by (simp add: bindp_def getp_def thenp_def modp_def CopyDone_def clear_ack_buffer_def
        acked_steps Let_def)
  with w show ?thesis by blast
qed

lemma okays_Suc: "okays E (Suc k) = okay_reply E @ okays E k"
  by (simp add: okays_def)

lemma ack_loop_okays:
  assumes sock: "socket_doc E inb outb" and wire: "wire_doc E" and fuel: "8 < loop_fuel E"
  shows "deferred_acknowledgements s = fs @ q \<Longrightarrow> acknowledgement_buffer s = [] \<Longrightarrow>
    inb (world s) = okays E (length fs) @ r \<Longrightarrow>
    \<exists>w. ack_loop E True (length fs + n) s = ack_loop E True n (acked q [] w s) \<and>
      inb w = r \<and> outb w = outb (world s)"
proof (induction fs arbitrary: s)
  case Nil
  then show ?case by (intro exI [of _ "world s"]) (simp add: acked_same okays_def)
next
  case (Cons f fs)
  obtain w where w: "ack_loop E True (Suc (length fs + n)) s
      = ack_loop E True (length fs + n) (acked (fs @ q) [] w s)"
    "inb w = okays E (length fs) @ r" "outb w = outb (world s)"
    using ack_loop_okay [OF assms, of s f "fs @ q" "okays E (length fs) @ r"] Cons.prems
    by (auto simp: okays_Suc)
  show ?case
    using Cons.IH [of "acked (fs @ q) [] w s"] w by (simp add: acked_def)
qed

lemma ReadAcknowledgements_okays:
  assumes "socket_doc E inb outb" "wire_doc E" "8 < loop_fuel E" "length q < loop_fuel E"
    and "deferred_acknowledgements s = q" "acknowledgement_buffer s = []"
    and "inb (world s) = okays E (length q) @ r"
  shows "\<exists>w. ReadAcknowledgements E True s = (Ok True, acked [] [] w s) \<and> inb w = r \<and>
    outb w = outb (world s)"
proof -
  obtain n where n: "loop_fuel E = length q + Suc n"
    using assms(4) by (metis add_Suc_right less_iff_Suc_add)
  obtain w where w: "ack_loop E True (length q + Suc n) s
      = ack_loop E True (Suc n) (acked [] [] w s)" "inb w = r" "outb w = outb (world s)"
    using ack_loop_okays [OF assms(1-3), of s q "[]" r "Suc n"] assms(5-7) by auto
  have "ack_loop E True (Suc n) (acked [] [] w s) = (Ok True, acked [] [] w s)"
    by (simp add: getp_def bindp_def acked_def ret_def)
  with w n show ?thesis by (auto simp: ReadAcknowledgements_def)
qed

text \<open>A failure reply: its message is printed with the names of the file at the front.\<close>

lemma ack_loop_fail:
  assumes sock: "socket_doc E inb outb" and wire: "wire_doc E"
    and fuel: "8 < loop_fuel E" "length msg < loop_fuel E" and len: "length msg \<le> SYNC_DATA_MAX E"
    and q: "deferred_acknowledgements s = f # q" "acknowledgement_buffer s = []"
    and i: "inb (world s) = fail_reply E msg @ r"
  shows "\<exists>w. ack_loop E True (Suc n) s = (Ok False, acked q [blame f msg] w s) \<and>
    inb w = r \<and> outb w = outb (world s)"
proof -
  let ?head = "put32 (ID_FAIL E) @ put32 (word_of_nat (length msg))"
  have sz: "sizeof_status E = 8" using wire by (simp add: wire_doc_def)
  obtain w1 where w1: "read_until_amount E True 8 (loop_fuel E) s
      = (Ok RSuccess, s\<lparr>acknowledgement_buffer := ?head, world := w1\<rparr>)"
    "inb w1 = msg @ r" "outb w1 = outb (world s)"
    using read_until_amount_exact [OF sock, of ?head "loop_fuel E" s "msg @ r" "[]" 8] fuel q i
    by (auto simp: fail_reply_def)
  let ?s1 = "s\<lparr>acknowledgement_buffer := ?head, world := w1\<rparr>"
  obtain w2 where w2: "read_until_amount E True (8 + length msg) (loop_fuel E) ?s1
      = (Ok RSuccess, ?s1\<lparr>acknowledgement_buffer := ?head @ msg, world := w2\<rparr>)"
    "inb w2 = r" "outb w2 = outb (world s)"
    using read_until_amount_exact [OF sock, of msg "loop_fuel E" ?s1 r ?head "8 + length msg"]
      fuel w1 by auto
  have small: "length msg < 2 ^ 32" using len wire by (simp add: wire_doc_def)
  then have n: "unat (word_of_nat (length msg) :: u32) = length msg" by (simp add: unsigned_of_nat take_bit_nat_eq_self)
  have d: "dec_status E (take 8 ?head) = (ID_FAIL E, word_of_nat (length msg))"
    "ID_FAIL E \<noteq> ID_OKAY E"
    using wire by (auto simp: wire_doc_def)
  have "ack_loop E True (Suc n) s = (Ok False, acked q [blame f msg] w2 s)"
    using q w1(1) w2(1) d sz n len
    by (cases f; cases s)
       (simp add: bindp_def getp_def thenp_def modp_def clear_ack_buffer_def acked_def Let_def
        ReportDeferredCopyFailure_def Error_def lp_def ret_def blame_def)
  with w2 show ?thesis by blast
qed

lemma ReadAcknowledgements_blames:
  assumes "socket_doc E inb outb" "wire_doc E" "8 < loop_fuel E" "length fs < loop_fuel E"
    and "length msg < loop_fuel E" "length msg \<le> SYNC_DATA_MAX E"
    and "deferred_acknowledgements s = fs @ f # q" "acknowledgement_buffer s = []"
    and "inb (world s) = okays E (length fs) @ fail_reply E msg @ r"
  shows "\<exists>w. ReadAcknowledgements E True s = (Ok False, acked q [blame f msg] w s) \<and> inb w = r \<and>
    outb w = outb (world s)"
proof -
  obtain n where n: "loop_fuel E = length fs + Suc n"
    using assms(4) by (metis add_Suc_right less_iff_Suc_add)
  obtain w where w: "ack_loop E True (length fs + Suc n) s
      = ack_loop E True (Suc n) (acked (f # q) [] w s)" "inb w = fail_reply E msg @ r"
    "outb w = outb (world s)"
    using ack_loop_okays [OF assms(1-3), of s fs "f # q" "fail_reply E msg @ r" "Suc n"] assms(7-9)
    by auto
  obtain w2 where w2: "ack_loop E True (Suc n) (acked (f # q) [] w s)
      = (Ok False, acked q [blame f msg] w2 (acked (f # q) [] w s))" "inb w2 = r"
    "outb w2 = outb w"
    using ack_loop_fail [OF assms(1-3,5,6), of "acked (f # q) [] w s" f q r n] w(2)
    by (auto simp: acked_def)
  moreover have "acked q [blame f msg] w2 (acked (f # q) [] w s) = acked q [blame f msg] w2 s"
    by (cases s) (simp add: acked_def)
  ultimately show ?thesis using w n by (auto simp: ReadAcknowledgements_def)
qed

end
