(* ===== verification/SyncUpload.thy ===== *)
theory SyncUpload
  imports SyncReplies
begin

text \<open>
  What the device receives: \<open>parse_upload\<close> is the receiver of the \<^verbatim>\<open>SEND\<close> protocol as its
  documentation describes it, and the streams the client writes decode to the file it read, for
  a small file (one write) and for a large one (a chunk per read).
\<close>

section \<open>The receiver\<close>

function parse_chunks :: "('x) sync_proto_scheme \<Rightarrow> string \<Rightarrow> (string \<times> u32 \<times> string) option" where
  "parse_chunks E s =
     (if length s < 8 then None
      else let (i, n) = dec_data E (take 8 s); rest = drop 8 s in
        if i = ID_DATA E then
          if length rest < unat n then None
          else map_option (\<lambda>(d, m, r). (take (unat n) rest @ d, m, r))
                 (parse_chunks E (drop (unat n) rest))
        else if i = ID_DONE E then Some ([], n, rest)
        else None)"
  by pat_completeness auto
termination by (relation "measure (\<lambda>(E, s). length s)") auto

declare parse_chunks.simps [simp del]

text \<open>Path and mode, contents, modification time, unread bytes.\<close>

definition parse_upload ::
    "('x) sync_proto_scheme \<Rightarrow> string \<Rightarrow> (string \<times> string \<times> u32 \<times> string) option" where
  "parse_upload E s =
     (if length s < 8 then None
      else let (i, n) = dec_data E (take 8 s); rest = drop 8 s in
        if i = ID_SEND_V1 E \<and> unat n \<le> length rest
        then map_option (\<lambda>p. (take (unat n) rest, p)) (parse_chunks E (drop (unat n) rest))
        else None)"

lemma unat_small: "n < 2 ^ 32 \<Longrightarrow> unat (word_of_nat n :: u32) = n"
  by (simp add: unsigned_of_nat take_bit_nat_eq_self)

lemma parse_data:
  assumes "wire_doc E" "length d < 2 ^ 32"
  shows "parse_chunks E (put32 (ID_DATA E) @ put32 (word_of_nat (length d)) @ d @ s)
    = map_option (\<lambda>(x, m, r). (d @ x, m, r)) (parse_chunks E s)"
  using assms by (subst parse_chunks.simps) (simp add: wire_doc_def unat_small Let_def)

lemma parse_done:
  assumes "wire_doc E"
  shows "parse_chunks E (put32 (ID_DONE E) @ put32 m @ s) = Some ([], m, s)"
  using assms by (subst parse_chunks.simps) (auto simp: wire_doc_def)

lemma parse_head:
  assumes "wire_doc E" "length p < 2 ^ 32"
  shows "parse_upload E (put32 (ID_SEND_V1 E) @ put32 (word_of_nat (length p)) @ p @ s)
    = map_option (\<lambda>x. (p, x)) (parse_chunks E s)"
  using assms by (simp add: parse_upload_def wire_doc_def unat_small)

lemma syncsendbuf_image_wire:
  "wire_doc E \<Longrightarrow>
   syncsendbuf_image E d = put32 (ID_DATA E) @ put32 (word_of_nat (length d)) @ d"
  by (simp add: syncsendbuf_image_def wire_doc_def)

lemma parse_small_file:
  assumes "wire_doc E" "length pm < 2 ^ 32" "length data < 2 ^ 32"
  shows "parse_upload E (small_file_image E pm data mtime @ s) = Some (pm, data, mtime, s)"
proof -
  have i: "img_request E = (\<lambda>i n. put32 i @ put32 n)"
    using assms(1) by (auto simp: wire_doc_def fun_eq_iff)
  have "parse_upload E (small_file_image E pm data mtime @ s)
      = parse_upload E (put32 (ID_SEND_V1 E) @ put32 (word_of_nat (length pm)) @ pm @
          (put32 (ID_DATA E) @ put32 (word_of_nat (length data)) @ data @
            (put32 (ID_DONE E) @ put32 mtime @ s)))"
    by (simp add: small_file_image_def i)
  then show ?thesis by (simp add: parse_head [OF assms(1,2)] parse_data [OF assms(1,3)]
      parse_done [OF assms(1)] del: append_assoc)
qed

section \<open>A local file\<close>

text \<open>
  \<open>pend w h\<close> are the bytes still to be read from the open file \<open>h\<close>: a read returns a prefix,
  empty only at the end of the file. Writing to the socket, the clock and \<^verbatim>\<open>stat\<close> do not
  touch it, and nothing but a write adds to the bytes on the socket.
\<close>

definition reader_doc ::
    "'w sync_env \<Rightarrow> ('w \<Rightarrow> string) \<Rightarrow> ('w \<Rightarrow> nat \<Rightarrow> string) \<Rightarrow> ('w \<Rightarrow> string \<Rightarrow> string option) \<Rightarrow> bool" where
  "reader_doc E outb pend file \<longleftrightarrow>
     (\<forall>h n w. 0 < n \<longrightarrow> (\<exists>k w'. os_read E h n w = (Inr (take k (pend w h)), w') \<and> k \<le> n \<and>
        (pend w h \<noteq> [] \<longrightarrow> 0 < k) \<and> pend w' h = drop k (pend w h) \<and> outb w' = outb w)) \<and>
     (\<forall>d w w' r. os_write_exactly E d w = (r, w') \<longrightarrow>
        r = Inr () \<and> pend w' = pend w \<and> file w' = file w \<and> outb w' = outb w @ d) \<and>
     (\<forall>w. pend (snd (os_now E w)) = pend w \<and> outb (snd (os_now E w)) = outb w) \<and>
     (\<forall>p w c. file w p = Some c \<longrightarrow>
        (\<exists>st w'. os_stat E p w = (Inr st, w') \<and> file w' = file w \<and> outb w' = outb w)) \<and>
     (\<forall>p w c. file w p = Some c \<longrightarrow>
        (\<exists>h w'. os_open_read E p w = (Inr h, w') \<and> pend w' h = c \<and> outb w' = outb w))"

lemma runs_osop [runs_simps]:
  "runs (osop f) s Q \<longleftrightarrow> Q (fst (f (world s))) (s\<lparr>world := snd (f (world s))\<rparr>)"
  by (auto simp: runs_def osop_def split: prod.splits)

lemma runs_write:
  assumes "reader_doc E outb pend file"
    and "\<And>w. pend w = pend (world s) \<Longrightarrow> outb w = outb (world s) @ d \<Longrightarrow>
      file w = file (world s) \<Longrightarrow> Q True (s\<lparr>world := w\<rparr>)"
  shows "runs (write_fd E d) s Q"
proof -
  obtain r w where w: "os_write_exactly E d (world s) = (r, w)" by (cases "os_write_exactly E d (world s)")
  with assms(1) have "r = Inr ()" "pend w = pend (world s)" "file w = file (world s)"
    "outb w = outb (world s) @ d" unfolding reader_doc_def by blast+
  with w assms(2) show ?thesis
    by (simp add: write_fd_def runs_simps) (simp add: runs_def syscall_def)
qed

lemma runs_WriteOrDie:
  assumes "reader_doc E outb pend file"
    and "\<And>w. pend w = pend (world s) \<Longrightarrow> outb w = outb (world s) @ d \<Longrightarrow>
      file w = file (world s) \<Longrightarrow> Q True (s\<lparr>world := w\<rparr>)"
  shows "runs (WriteOrDie E l r d) s Q"
  unfolding WriteOrDie_def runs_bindp
  by (rule runs_write [OF assms(1)]) (simp add: runs_simps assms(2))

text \<open>Progress reports change the clock, the printer and the current ledger.\<close>

lemma runs_ReportProgress:
  assumes "reader_doc E outb pend file"
    and "\<And>t. pend (world t) = pend (world s) \<Longrightarrow> outb (world t) = outb (world s) \<Longrightarrow>
      max_size t = max_size s \<Longrightarrow> Q () t"
  shows "runs (ReportProgress E f c n) s Q"
  using assms(1) unfolding ReportProgress_def
  by (auto simp: runs_simps reader_doc_def split: prod.splits intro!: assms(2))

lemma runs_RecordBytes:
  "Q () (s\<lparr>current_ledger := add_bytes (word_of_nat n) (current_ledger s),
     global_ledger := add_bytes (word_of_nat n) (global_ledger s)\<rparr>) \<Longrightarrow>
   runs (RecordBytesTransferred n) s Q"
  by (simp add: RecordBytesTransferred_def both_ledgers_def runs_simps)

lemma take_drop_append: "take k xs @ drop k xs @ ys = xs @ ys"
  by (metis append_assoc append_take_drop_id)

lemma send_blocks_legacy_sends:
  assumes R: "reader_doc E outb pend file" and W: "wire_doc E"
  shows "0 < max_size s \<Longrightarrow> max_size s < 2 ^ 31 \<Longrightarrow> length (pend (world s) h) < fuel \<Longrightarrow>
    runs (send_blocks_legacy E h l r n c fuel) s (\<lambda>ok t. ok \<and>
      (\<exists>img. outb (world t) = outb (world s) @ img \<and>
        (\<forall>x. parse_chunks E (img @ x)
          = map_option (\<lambda>(d, y). (pend (world s) h @ d, y)) (parse_chunks E x))))"
proof (induction fuel arbitrary: s c)
  case 0
  then show ?case by simp
next
  case (Suc fuel)
  obtain k w where k: "os_read E h (max_size s) (world s) = (Inr (take k (pend (world s) h)), w)"
    "k \<le> max_size s" "pend (world s) h \<noteq> [] \<longrightarrow> 0 < k" "pend w h = drop k (pend (world s) h)"
    "outb w = outb (world s)"
    using R Suc.prems(1) unfolding reader_doc_def by blast
  let ?b = "take k (pend (world s) h)"
  have read: "runs (syscall (os_read E h (max_size s))) s Q \<longleftrightarrow> Q (Some ?b) (s\<lparr>world := w\<rparr>)" for Q
    using k(1) by (auto simp: runs_def syscall_def)
  show ?case
  proof (cases "?b = []")
    case True
    with k have "pend (world s) h = []" by auto
    with True k(5) show ?thesis
      by (simp add: runs_simps read case_prod_unfold option.map_ident del: getp_bind)
  next
    case False
    have small: "length ?b < 2 ^ 32" using k(2) Suc.prems(2) by simp
    have img: "syncsendbuf_image E ?b = put32 (ID_DATA E) @ put32 (word_of_nat (length ?b)) @ ?b"
      by (rule syncsendbuf_image_wire [OF W])
    have less: "length (drop k (pend (world s) h)) < fuel"
      using Suc.prems(3) k(3) False by (cases "pend (world s) h") auto
    have rest: "runs (send_blocks_legacy E h l r n c' fuel) t (\<lambda>ok u. ok \<and>
        (\<exists>img. outb (world u) = outb (world s) @ img \<and>
          (\<forall>x. parse_chunks E (img @ x)
            = map_option (\<lambda>(d, y). (pend (world s) h @ d, y)) (parse_chunks E x))))"
      if t: "pend (world t) h = drop k (pend (world s) h)" "max_size t = max_size s"
        "outb (world t) = outb (world s) @ syncsendbuf_image E ?b" for t c'
    proof (rule runs_mono [OF Suc.IH [of t]])
      fix ok u
      assume ok: "ok \<and> (\<exists>img. outb (world u) = outb (world t) @ img \<and>
        (\<forall>x. parse_chunks E (img @ x)
          = map_option (\<lambda>(d, y). (pend (world t) h @ d, y)) (parse_chunks E x)))"
      then obtain img where i: "outb (world u) = outb (world t) @ img"
        "\<And>x. parse_chunks E (img @ x)
          = map_option (\<lambda>(d, y). (drop k (pend (world s) h) @ d, y)) (parse_chunks E x)"
        using t(1) by auto
      have "parse_chunks E ((syncsendbuf_image E ?b @ img) @ x)
          = map_option (\<lambda>(d, y). (pend (world s) h @ d, y)) (parse_chunks E x)" for x
        using parse_data [OF W small, of "img @ x"] i(2) [of x]
          take_drop_append [of k "pend (world s) h"]
        by (cases "parse_chunks E x") (auto simp: img split: prod.splits)
      with ok i(1) t(3) show "ok \<and> (\<exists>img. outb (world u) = outb (world s) @ img \<and>
        (\<forall>x. parse_chunks E (img @ x)
          = map_option (\<lambda>(d, y). (pend (world s) h @ d, y)) (parse_chunks E x)))"
        by (intro conjI exI [of _ "syncsendbuf_image E ?b @ img"]) auto
    qed (use t Suc.prems less in auto)
    show ?thesis
      using False
      by (simp add: runs_simps read del: getp_bind)
         (intro runs_WriteOrDie [OF R] runs_RecordBytes runs_ReportProgress [OF R] rest;
          use k(4,5) in simp)
  qed
qed

section \<open>Whole files\<close>

lemma runs_SendRequest:
  assumes "reader_doc E outb pend file" "length p \<le> 1024"
    and "\<And>w. outb w = outb (world s) @ img_request E i (word_of_nat (length p)) @ p \<Longrightarrow>
      file w = file (world s) \<Longrightarrow> Q True (s\<lparr>world := w\<rparr>)"
  shows "runs (SendRequest E i p) s Q"
  using assms(2) by (auto simp: SendRequest_def intro!: runs_write [OF assms(1)] assms(3))

lemma runs_stat_and_open:
  assumes "reader_doc E outb pend file" "file (world s) (c_str l) = Some c"
    and "\<And>z h w. pend w h = c \<Longrightarrow> outb w = outb (world s) \<Longrightarrow> runs (k z h) (s\<lparr>world := w\<rparr>) Q"
  shows "runs (stat_and_open E l k) s Q"
proof -
  obtain st w1 where 1: "os_stat E (c_str l) (world s) = (Inr st, w1)" "file w1 = file (world s)"
    "outb w1 = outb (world s)"
    using assms(1,2) unfolding reader_doc_def by blast
  then obtain h w2 where 2: "os_open_read E (c_str l) w1 = (Inr h, w2)" "pend w2 h = c"
    "outb w2 = outb w1"
    using assms(1,2) unfolding reader_doc_def by metis
  have "syscall (os_stat E (c_str l)) s = (Ok (Some st), s\<lparr>world := w1\<rparr>)"
    "syscall (os_open_read E (c_str l)) (s\<lparr>world := w1\<rparr>) = (Ok (Some h), s\<lparr>world := w2\<rparr>)"
    using 1(1) 2(1) by (simp_all add: syscall_def)
  with assms(3) [OF 2(2)] 2(3) 1(3) show ?thesis
    by (simp add: stat_and_open_def runs_def bindp_Ok)
qed

lemma runs_send_done:
  assumes "reader_doc E outb pend file"
    and "\<And>t. outb (world t) = outb (world s) @ img_data E (ID_DONE E) m \<Longrightarrow>
      deferred_acknowledgements t = deferred_acknowledgements s @ [(l, r)] \<Longrightarrow> Q True t"
  shows "runs (send_done E l r m) s Q"
  by (auto simp: send_done_def RecordFileSent_def RecordFilesTransferred_def both_ledgers_def
      runs_simps intro!: runs_WriteOrDie [OF assms(1)] assms(2) simp del: modp_then)

lemma send_large_legacy_uploads:
  assumes R: "reader_doc E outb pend file" and W: "wire_doc E"
    and m: "0 < max_size s" "max_size s < 2 ^ 31"
    and f: "file (world s) (c_str l) = Some c" "length c < loop_fuel E"
    and p: "length (path_and_mode path mode) \<le> 1024"
  shows "runs (SendLargeFileLegacy E path mode l r mtime) s (\<lambda>ok t. ok \<and>
    (\<exists>img. outb (world t) = outb (world s) @ img \<and>
      (\<forall>x. parse_upload E (img @ x) = Some (path_and_mode path mode, c, mtime, x))))"
proof -
  let ?pm = "path_and_mode path mode"
  let ?req = "img_request E (ID_SEND_V1 E) (word_of_nat (length ?pm)) @ ?pm"
  have blocks: "runs (send_blocks_legacy E h l r z 0 (loop_fuel E)) (s\<lparr>world := w\<rparr>) (\<lambda>ok t. ok \<and>
      (\<exists>img. outb (world t) = outb w @ img \<and>
        (\<forall>x. parse_chunks E (img @ x)
          = map_option (\<lambda>(d, y). (c @ d, y)) (parse_chunks E x))))"
    if "pend w h = c" for h z w
    using send_blocks_legacy_sends [OF R W, of "s\<lparr>world := w\<rparr>" h "loop_fuel E"] m f that by simp
  have parse: "parse_upload E (?req @ img @ img_data E (ID_DONE E) mtime @ x) = Some (?pm, c, mtime, x)"
    if "\<And>x. parse_chunks E (img @ x) = map_option (\<lambda>(d, y). (c @ d, y)) (parse_chunks E x)"
    for img x
  proof -
    have "img_request E (ID_SEND_V1 E) n = put32 (ID_SEND_V1 E) @ put32 n"
      "img_data E (ID_DONE E) n = put32 (ID_DONE E) @ put32 n" for n
      using W by (simp_all add: wire_doc_def)
    then show ?thesis
      using parse_head [OF W, of ?pm "img @ img_data E (ID_DONE E) mtime @ x"] p
      by (simp add: that parse_done [OF W])
  qed
  show ?thesis unfolding SendLargeFileLegacy_def runs_bindp
  proof (rule runs_SendRequest [OF R p])
    fix w
    assume w: "outb w = outb (world s) @ ?req" "file w = file (world s)"
    let ?Q = "\<lambda>ok t. ok \<and> (\<exists>img. outb (world t) = outb (world s) @ img \<and>
      (\<forall>x. parse_upload E (img @ x) = Some (?pm, c, mtime, x)))"
    have body: "runs (bindp (send_blocks_legacy E h l r z 0 (loop_fuel E))
        (\<lambda>ok. if ok then send_done E l r mtime else ret False)) (s\<lparr>world := w'\<rparr>) ?Q"
      if "pend w' h = c" "outb w' = outb w" for z h w'
      unfolding runs_bindp
    proof (rule runs_mono [OF blocks [OF that(1)]])
      fix ok and t :: "'a conn"
      assume "ok \<and> (\<exists>img. outb (world t) = outb w' @ img \<and>
        (\<forall>x. parse_chunks E (img @ x) = map_option (\<lambda>(d, y). (c @ d, y)) (parse_chunks E x)))"
      then obtain img where img: "ok" "outb (world t) = outb w' @ img"
        "\<And>x. parse_chunks E (img @ x) = map_option (\<lambda>(d, y). (c @ d, y)) (parse_chunks E x)"
        by blast
      have "runs (send_done E l r mtime) t ?Q"
        by (rule runs_send_done [OF R])
           (use img(2) that(2) w(1) parse [OF img(3)] in
             \<open>auto intro!: exI [of _ "?req @ img @ img_data E (ID_DONE E) mtime"]\<close>)
      then show "runs (if ok then send_done E l r mtime else ret False) t ?Q" by (simp add: img(1))
    qed
    have "runs (stat_and_open E l (\<lambda>z h. bindp (send_blocks_legacy E h l r z 0 (loop_fuel E))
        (\<lambda>ok. if ok then send_done E l r mtime else ret False))) (s\<lparr>world := w\<rparr>) ?Q"
      by (rule runs_stat_and_open [OF R]) (use w f body in simp_all)
    then show "runs (if \<not> True then bindp (strerror_now E) (\<lambda>e. fail_with
          (''failed to send ID_SEND_V1 message '' @ quoted ?pm @ '': '' @ e))
        else stat_and_open E l (\<lambda>total_size lfd.
          bindp (send_blocks_legacy E lfd l r total_size 0 (loop_fuel E))
            (\<lambda>ok. if ok then send_done E l r mtime else ret False))) (s\<lparr>world := w\<rparr>) ?Q"
      by simp
  qed
qed

lemma sync_env_ref_reader:
  "reader_doc (sync_env_ref fuel features) outbox ref_pending (map_of \<circ> rfiles)"
  unfolding reader_doc_def
proof (intro conjI allI impI)
  fix h n and w :: rworld
  assume "0 < (n :: nat)"
  then show "\<exists>k w'. os_read (sync_env_ref fuel features) h n w = (Inr (take k (ref_pending w h)), w')
      \<and> k \<le> n \<and> (ref_pending w h \<noteq> [] \<longrightarrow> 0 < k) \<and> ref_pending w' h = drop k (ref_pending w h)
      \<and> outbox w' = outbox w"
    by (intro exI [of _ n]) (simp add: ref_read_def ref_pending_def)
qed (auto simp: fun_eq_iff ref_pending_def ref_stat_def ref_open_def)

end
