(* ===== verification/SyncDownload.thy ===== *)
theory SyncDownload
  imports SyncUpload
begin

text \<open>
  Downloads with \<^verbatim>\<open>RECV_V1\<close>: a well-formed stream ends up in the local file byte for byte, and a
  failed download leaves no partial file behind.
\<close>

section \<open>A failed download\<close>

definition same_files :: "('w \<Rightarrow> string \<Rightarrow> string option) \<Rightarrow> 'w conn \<Rightarrow> 'w conn \<Rightarrow> bool" where
  "same_files file s t \<longleftrightarrow> file (world t) = file (world s)"

lemma same_files_preorder: "preorder_on_states (same_files file)"
  by (auto simp: preorder_on_states_def same_files_def)

lemma same_files_frame:
  assumes "store_doc E file"
  shows "keeps (same_files file) (lp c)" "keeps (same_files file) (strerror_now E)"
    "keeps (same_files file) (read_fd E n)" "keeps (same_files file) (write_fd E d)"
    "keeps (same_files file) (set_errno e)"
proof -
  note pre = same_files_preorder [of "file"]
  show "keeps (same_files file) (lp c)" "keeps (same_files file) (strerror_now E)"
    "keeps (same_files file) (set_errno e)"
    using pre by (auto simp: lp_def strerror_now_def set_errno_def same_files_def
        intro!: keeps_intros keeps_modp)
  show r: "keeps (same_files file) (read_fd E n)"
    using assms unfolding store_doc_def keeps_def read_fd_def syscall_def same_files_def
    by (auto split: prod.splits sum.splits) (metis snd_conv)+
  have "keeps (same_files file) (syscall (os_write_exactly E d))"
    using assms unfolding store_doc_def keeps_def syscall_def same_files_def
    by (auto split: prod.splits sum.splits) (metis snd_conv)+
  then show "keeps (same_files file) (write_fd E d)"
    unfolding write_fd_def by (rule keeps_bindp [OF pre]) (rule keeps_pure [OF pre])
qed

lemma ReportCopyFailure_files:
  "store_doc E file \<Longrightarrow> keeps (same_files file) (ReportCopyFailure E f t n)"
  unfolding ReportCopyFailure_def fail_with_def Error_def
  by (intro keeps_intros same_files_frame same_files_preorder)

lemma SendRequest_files: "store_doc E file \<Longrightarrow> keeps (same_files file) (SendRequest E i p)"
  unfolding SendRequest_def path_too_long_def Error_def
  by (intro keeps_intros same_files_frame same_files_preorder)

definition gone :: "('w \<Rightarrow> string \<Rightarrow> string option) \<Rightarrow> string \<Rightarrow> bool \<Rightarrow> 'w conn \<Rightarrow> bool" where
  "gone file p ok s \<longleftrightarrow> (\<not> ok \<longrightarrow> file (world s) p = None)"

lemma unlink_gone: "store_doc E file \<Longrightarrow> returns P (osop (os_unlink E p)) (\<lambda>_ s. file (world s) p = None)"
  by (auto simp: returns_def osop_def store_doc_def split: prod.splits) (metis fun_upd_same snd_conv)

lemma unlink_and_fail_gone: "store_doc E file \<Longrightarrow> returns P (unlink_and_fail E p) (gone file p)"
  unfolding unlink_and_fail_def
  by (rule returns_thenp [OF unlink_gone]) (auto intro: returns_ret simp: gone_def)

lemma keeps_gone:
  assumes "keeps (same_files file) m"
  shows "returns (\<lambda>s. file (world s) p = None) m (\<lambda>_ s. file (world s) p = None)"
  using keepsD [OF assms] by (auto simp: returns_def same_files_def)

lemma recv_v1_loop_gone:
  assumes "store_doc E file"
  shows "returns P (recv_v1_loop E lfd rp l nm ex c fuel) (gone file l)"
proof (induction fuel arbitrary: P c)
  case 0
  then show ?case by (simp add: returns_stop)
next
  case (Suc fuel)
  have any: "returns Q m (\<lambda>_ _. True)" for Q and m :: "('a conn, 'b) prog" by (simp add: returns_def)
  have err: "returns Q (thenp m (unlink_and_fail E l)) (gone file l)"
    for Q and m :: "('a conn, 'b) prog"
    by (rule returns_thenp [OF any unlink_and_fail_gone [OF assms]])
  have report: "returns Q (thenp (osop (os_unlink E l)) (thenp (ReportCopyFailure E rp l n) (ret False)))
      (gone file l)" for Q n
    by (rule returns_thenp [OF unlink_gone [OF assms]],
        rule returns_thenp [OF keeps_gone [OF ReportCopyFailure_files [OF assms]]])
      (auto intro: returns_ret simp: gone_def)
  show ?case
    unfolding recv_v1_loop.simps size_too_large_def cannot_write_def
    by (intro returns_bindp [OF any] returns_case_option returns_case_prod returns_if
        unlink_and_fail_gone [OF assms] err report returns_thenp [OF any] Suc returns_ret)
      (simp add: gone_def)
qed

lemma sync_recv_v1_gone:
  assumes "store_doc E file" "sync_recv_v1 E rp l nm ex s = (Ok False, s')"
  shows "file (world s') l = None \<or> file (world s') = file (world s)"
proof -
  obtain ok s1 where 1: "SendRequest E (ID_RECV_V1 E) rp s = (Ok ok, s1)"
    "(if \<not> ok then ret False else create_local E l (\<lambda>lfd. recv_v1_loop E lfd rp l nm ex 0 (loop_fuel E)))
       s1 = (Ok False, s')"
    using assms(2) by (auto simp: sync_recv_v1_def bindp_Ok_iff)
  have same: "file (world s1) = file (world s)"
    using keepsD [OF SendRequest_files [OF assms(1)] 1(1)] by (simp add: same_files_def)
  have any: "returns Q m (\<lambda>_ _. True)" for Q and m :: "('a conn, 'b) prog" by (simp add: returns_def)
  have creat: "returns (\<lambda>s. file (world s) l = None) (syscall (os_creat E l))
      (\<lambda>r s. r = None \<longrightarrow> file (world s) l = None)"
    using assms(1) by (auto simp: returns_def syscall_def store_doc_def split: prod.splits sum.splits)
  have fail: "returns (\<lambda>s. file (world s) l = None) (bindp (strerror_now E) (\<lambda>e. fail_with (m e)))
      (gone file l)" for m
    unfolding fail_with_def Error_def
    by (rule returns_post [OF keeps_gone])
       (auto intro!: keeps_intros same_files_frame [OF assms(1)] same_files_preorder simp: gone_def)
  have "returns (\<lambda>_. True) (create_local E l (\<lambda>lfd. recv_v1_loop E lfd rp l nm ex 0 (loop_fuel E)))
      (gone file l)"
    unfolding create_local_def
    by (rule returns_thenp [OF unlink_gone [OF assms(1)]], rule returns_bindp [OF creat],
        rule returns_case_option)
       (auto intro: returns_pre [OF fail] recv_v1_loop_gone [OF assms(1)])
  with 1(2) same show ?thesis by (cases ok) (auto simp: gone_def dest: returnsD)
qed

section \<open>A complete download\<close>

text \<open>
  \<open>target w h\<close> is the path behind the open file \<open>h\<close>; a write appends to it. The clock and the
  socket do not touch files, files do not touch the socket.
\<close>

definition fetch_doc ::
    "'w sync_env \<Rightarrow> ('w \<Rightarrow> string) \<Rightarrow> ('w \<Rightarrow> string \<Rightarrow> string option) \<Rightarrow> ('w \<Rightarrow> nat \<Rightarrow> string) \<Rightarrow> bool" where
  "fetch_doc E inb file target \<longleftrightarrow>
     (\<forall>n w. n \<le> length (inb w) \<longrightarrow>
        (\<exists>w'. os_read_exactly E n w = (Inr (take n (inb w)), w') \<and> inb w' = drop n (inb w) \<and>
              file w' = file w \<and> target w' = target w)) \<and>
     (\<forall>d w. \<exists>w'. os_write_exactly E d w = (Inr (), w') \<and> inb w' = inb w \<and> file w' = file w \<and>
              target w' = target w) \<and>
     (\<forall>w. inb (snd (os_now E w)) = inb w \<and> file (snd (os_now E w)) = file w \<and>
              target (snd (os_now E w)) = target w) \<and>
     (\<forall>p w. inb (snd (os_unlink E p w)) = inb w) \<and>
     (\<forall>p w. \<exists>h w'. os_creat E p w = (Inr h, w') \<and> inb w' = inb w \<and> file w' p = Some [] \<and>
              target w' h = p) \<and>
     (\<forall>h d w c. file w (target w h) = Some c \<longrightarrow>
        (\<exists>w'. os_write_file E h d w = (Inr (), w') \<and> inb w' = inb w \<and>
              file w' (target w h) = Some (c @ d) \<and> target w' = target w))"

definition data_stream :: "('x) sync_proto_scheme \<Rightarrow> string list \<Rightarrow> string" where
  "data_stream E ds =
     concat (map (\<lambda>d. put32 (ID_DATA E) @ put32 (word_of_nat (length d)) @ d) ds)
     @ put32 (ID_DONE E) @ put32 0"

lemma runs_fetch:
  assumes "fetch_doc E inb file target" "inb (world s) = x @ r" "length x = n"
    and "\<And>w. inb w = r \<Longrightarrow> file w = file (world s) \<Longrightarrow> target w = target (world s) \<Longrightarrow>
      Q (Some x) (s\<lparr>world := w\<rparr>)"
  shows "runs (read_fd E n) s Q"
proof -
  obtain w where w: "os_read_exactly E n (world s) = (Inr (take n (inb (world s))), w)"
    "inb w = drop n (inb (world s))" "file w = file (world s)" "target w = target (world s)"
    using assms(1-3) unfolding fetch_doc_def by (metis length_append le_add1)
  then have "read_fd E n s = (Ok (Some x), s\<lparr>world := w\<rparr>)"
    using assms(2,3) by (auto simp: read_fd_def syscall_def)
  then show ?thesis using assms(2-4) w by (auto simp: runs_def)
qed

lemma runs_clock:
  assumes "fetch_doc E inb file target"
    and "\<And>t. inb (world t) = inb (world s) \<Longrightarrow> file (world t) = file (world s) \<Longrightarrow>
      target (world t) = target (world s) \<Longrightarrow> max_size t = max_size s \<Longrightarrow>
      bytes_transferred (current_ledger t) = bytes_transferred (current_ledger s) \<Longrightarrow> Q () t"
  shows "runs (ReportProgress E f c n) s Q"
  using assms(1) unfolding ReportProgress_def
  by (auto simp: runs_simps fetch_doc_def ledger_ReportProgress_def Let_def
      split: prod.splits if_splits intro!: assms(2) simp del: getp_bind)

definition downloaded ::
    "('w \<Rightarrow> string) \<Rightarrow> ('w \<Rightarrow> string \<Rightarrow> string option) \<Rightarrow> 'w conn \<Rightarrow> string \<Rightarrow> string \<Rightarrow> string \<Rightarrow> nat
     \<Rightarrow> bool \<Rightarrow> 'w conn \<Rightarrow> bool" where
  "downloaded inb file s l content r n ok t \<longleftrightarrow>
     ok \<and> file (world t) l = Some content \<and> inb (world t) = r \<and>
     bytes_transferred (current_ledger t) = bytes_transferred (current_ledger s) + word_of_nat n"

lemma recv_v1_loop_receives:
  assumes D: "fetch_doc E inb file target" and W: "wire_doc E"
  shows "inb (world s) = data_stream E ds @ r \<Longrightarrow> target (world s) h = l \<Longrightarrow>
    file (world s) l = Some c \<Longrightarrow> length ds < fuel \<Longrightarrow>
    \<forall>d \<in> set ds. length d \<le> max_size s \<Longrightarrow> max_size s < 2 ^ 31 \<Longrightarrow>
    runs (recv_v1_loop E h rp l nm ex k fuel) s
      (downloaded inb file s l (c @ concat ds) r (length (concat ds)))"
proof (induction fuel arbitrary: s ds c k)
  case 0
  then show ?case by simp
next
  case (Suc fuel)
  have sz: "sizeof_data E = 8" and dec: "dec_data E (put32 i @ put32 n) = (i, n)" for i n
    using W by (simp_all add: wire_doc_def)
  have ids: "ID_DATA E \<noteq> ID_DONE E" using W by (auto simp: wire_doc_def)
  show ?case
  proof (cases ds)
    case Nil
    show ?thesis unfolding recv_v1_loop.simps runs_bindp
      by (rule runs_fetch [OF D, where x = "put32 (ID_DONE E) @ put32 0" and r = r])
         (use Suc.prems Nil sz in \<open>auto simp: data_stream_def dec downloaded_def
           RecordFilesTransferred_def both_ledgers_def runs_simps add_files_def
           simp del: modp_then\<close>)
  next
    case (Cons d ds')
    have d: "length d \<le> max_size s" "unat (word_of_nat (length d) :: u32) = length d"
      using Suc.prems(5,6) Cons by (auto intro!: unat_small)
    have onward: "runs (recv_v1_loop E h rp l nm ex k' fuel) t
        (downloaded inb file s l (c @ concat ds) r (length (concat ds)))"
      if t: "inb (world t) = data_stream E ds' @ r" "target (world t) h = l"
        "file (world t) l = Some (c @ d)" "max_size t = max_size s"
        "bytes_transferred (current_ledger t)
          = bytes_transferred (current_ledger s) + word_of_nat (length d)" for t k'
      by (rule runs_mono [OF Suc.IH [OF t(1-3)]])
         (use t Suc.prems Cons in \<open>auto simp: downloaded_def\<close>)
    have stored: "runs (thenp (RecordBytesTransferred (length d)) (thenp (ReportProgress E f b ex)
          (recv_v1_loop E h rp l nm ex b fuel))) t
        (downloaded inb file s l (c @ concat ds) r (length (concat ds)))"
      if "inb (world t) = data_stream E ds' @ r" "target (world t) h = l"
        "file (world t) l = Some (c @ d)" "max_size t = max_size s"
        "current_ledger t = current_ledger s" for t f b
      unfolding runs_thenp
      by (intro runs_RecordBytes runs_clock [OF D] onward) (use that in \<open>simp_all add: add_bytes_def\<close>)
    have written: "runs (syscall (os_write_file E h d)) t Q"
      if t: "target (world t) h = l" "file (world t) l = Some c"
        "\<And>w. inb w = inb (world t) \<Longrightarrow> file w l = Some (c @ d) \<Longrightarrow> target w h = l \<Longrightarrow>
          Q (Some ()) (t\<lparr>world := w\<rparr>)" for t Q
    proof -
      obtain w where "os_write_file E h d (world t) = (Inr (), w)" "inb w = inb (world t)"
        "file w l = Some (c @ d)" "target w = target (world t)"
        using D t(1,2) unfolding fetch_doc_def by blast
      then show ?thesis using t(3) t(1) by (auto simp: runs_def syscall_def)
    qed
    show ?thesis unfolding recv_v1_loop.simps runs_bindp
    proof (rule runs_fetch [OF D, where x = "put32 (ID_DATA E) @ put32 (word_of_nat (length d))"
          and r = "d @ data_stream E ds' @ r"])
      show "inb (world s) = (put32 (ID_DATA E) @ put32 (word_of_nat (length d))) @
          d @ data_stream E ds' @ r"
        using Suc.prems(1) Cons by (simp add: data_stream_def)
    qed (use Suc.prems d sz ids in \<open>auto simp: dec runs_simps simp del: getp_bind
        intro!: runs_fetch [OF D, where x = d] written
        stored [unfolded runs_thenp, folded Suc.prems(2)]\<close>)
  qed
qed

lemma sync_env_ref_fetch:
  "fetch_doc (sync_env_ref fuel features) inbox (map_of \<circ> rfiles) ref_target"
  unfolding fetch_doc_def
  by (auto simp: ref_take_def ref_target_def ref_creat_def ref_append_def fun_eq_iff update_conv'
      Let_def)

text \<open>From the request on.\<close>

lemma sync_recv_v1_receives:
  assumes D: "fetch_doc E inb file target" and W: "wire_doc E"
    and "inb (world s) = data_stream E ds @ r" "length rp \<le> 1024" "length ds < loop_fuel E"
    and "\<forall>d \<in> set ds. length d \<le> max_size s" "max_size s < 2 ^ 31"
  shows "runs (sync_recv_v1 E rp l nm ex) s
    (downloaded inb file s l (concat ds) r (length (concat ds)))"
proof -
  obtain w1 where w1: "os_write_exactly E (img_request E (ID_RECV_V1 E) (word_of_nat (length rp)) @ rp)
      (world s) = (Inr (), w1)" "inb w1 = inb (world s)"
    using D unfolding fetch_doc_def by blast
  define w2 where "w2 = snd (os_unlink E l w1)"
  have w2: "inb w2 = inb (world s)" using D w1(2) unfolding fetch_doc_def w2_def by metis
  obtain h w3 where w3: "os_creat E l w2 = (Inr h, w3)" "inb w3 = inb w2" "file w3 l = Some []"
    "target w3 h = l"
    using D unfolding fetch_doc_def by blast
  have req: "SendRequest E (ID_RECV_V1 E) rp s = (Ok True, s\<lparr>world := w1\<rparr>)"
    using assms(4) w1(1) by (simp add: SendRequest_def write_fd_def syscall_def bindp_def ret_def)
  have creat: "create_local E l k (s\<lparr>world := w1\<rparr>) = k h (s\<lparr>world := w3\<rparr>)" for k
    using w3(1) w2_def
    by (cases "os_unlink E l w1")
       (simp add: create_local_def thenp_def bindp_def osop_def syscall_def)
  have "runs (recv_v1_loop E h rp l nm ex 0 (loop_fuel E)) (s\<lparr>world := w3\<rparr>)
      (downloaded inb file (s\<lparr>world := w3\<rparr>) l ([] @ concat ds) r (length (concat ds)))"
    by (rule recv_v1_loop_receives [OF D W]) (use assms w2 w3 in auto)
  then show ?thesis
    by (simp add: sync_recv_v1_def runs_def bindp_Ok req creat downloaded_def)
qed

end
