(* ===== verification/SyncProperties.thy ===== *)
theory SyncProperties
  imports SyncDownload
begin

text \<open>The properties of the file-sync client, over the lemmas of the theories it imports.\<close>

section \<open>Pulling a tree\<close>

text \<open>C1: whatever names and modes a device lists, every file a pull would write lies, component by
  component, below the destination; only directory entries may name the destination itself.\<close>

theorem pull_stays_inside:
  assumes "unix_paths E" "root_path root"
    and "remote_build_list E fuel rp root [] s = (Ok (ok, files), s')"
  shows "\<forall>e \<in> set files. below root (lpath e) \<or>
    (S_ISDIR (ci_mode e) \<and> lpath e = root_marker E root)"
  using yieldsD [OF remote_build_list_inside [OF assms(1,2), of root "[]"] assms(3)]
  by (auto simp: pulled_inside_def dir_form_def)

text \<open>A device that lists a file and its parent directory.\<close>

definition hostile_conn :: "rworld conn" where
  "hostile_conn = ready_conn False (rworld0\<lparr>inbox :=
     dent_ref 0x81A4 3 7 ''a'' @ dent_ref 0x41ED 0 7 ''..'' @ dent_done_ref\<rparr>)"

lemma hostile_listing:
  defines "E \<equiv> sync_env_ref (Suc (Suc (Suc 0))) []"
  shows "\<exists>s'. remote_build_list E (Suc 0) ''/r/'' ''/d/'' [] hostile_conn
     = (Ok (True, [copyinfo_ctor E ''/'' ''/'' ''d'' S_IFDIR,
         (copyinfo_ctor E ''/d/'' ''/r/'' ''a'' 0x81A4)
           \<lparr>skip := False, ci_time := 7, ci_size := 3\<rparr>]), s')"
proof -
  let ?s = "hostile_conn\<lparr>world := (world hostile_conn)\<lparr>outbox :=
    outbox (world hostile_conn) @ put32 0x5453494C @ put32 3 @ ''/r/''\<rparr>\<rparr>"
  let ?cb = "remote_entry E ''/r/'' ''/d/''"
  let ?r = "dent_ref 0x41ED 0 7 ''..'' @ dent_done_ref"
  have paths: "Dirname E ''/d/'' = ''/''" "Dirname E ''/r/'' = ''/''" "Basename E ''/d/'' = ''d''"
    by (simp_all add: E_def dirname_ref_def basename_ref_def strip_slashes_def)
  have fuel: "loop_fuel E = Suc (Suc (Suc 0))" by (simp add: E_def)
  have no: "\<not> have_ls_v2 hostile_conn" by (simp add: hostile_conn_def ready_conn_def)
  have send: "SendLs E ''/r/'' hostile_conn = (Ok True, ?s)"
    unfolding E_def by (subst SendLs_ref [OF no]) simp_all
  have 1: "FinishLsImpl False E ?cb (Suc (Suc (Suc 0))) acc ?s
      = bindp (?cb 0x81A4 (ucast (3 :: u32)) (ucast (7 :: u32)) ''a'' acc)
          (FinishLsImpl False E ?cb (Suc (Suc 0))) (set_inbox ?r ?s)" for acc
    unfolding E_def by (rule listing_entry) (simp_all add: hostile_conn_def ready_conn_def)
  have 2: "FinishLsImpl False E ?cb (Suc (Suc 0)) acc (set_inbox ?r ?s)
      = bindp (?cb 0x41ED (ucast (0 :: u32)) (ucast (7 :: u32)) ''..'' acc)
          (FinishLsImpl False E ?cb (Suc 0)) (set_inbox dent_done_ref (set_inbox ?r ?s))" for acc
    unfolding E_def by (rule listing_entry) simp_all
  have 3: "FinishLsImpl False E ?cb (Suc 0) acc (set_inbox dent_done_ref ?s)
      = (Ok (True, acc), set_inbox [] (set_inbox dent_done_ref ?s))" for acc
    unfolding E_def by (rule listing_done) simp
  have "FinishLs E ?cb acc ?s
      = (Ok (True, fst acc @ [(copyinfo_ctor E ''/d/'' ''/r/'' ''a'' 0x81A4)
           \<lparr>skip := False, ci_time := 7, ci_size := 3\<rparr>], snd acc), set_inbox [] ?s)" for acc
    using no
    by (cases acc)
       (simp add: FinishLs_def fuel 1 2 3 remote_entry_def
         IsDotOrDotDot_def mode_defs should_pull_file_def Let_def thenp_def
         del: FinishLsImpl.simps)
  then show ?thesis
    using send by (simp add: sync_ls_def bindp_Ok paths Let_def) 
qed

lemma ref_unix_paths: "unix_paths (sync_env_ref fuel features)"
  by (simp add: unix_paths_def Path_doc_def)

theorem pull_stays_inside_witness:
  "\<exists>files s'. remote_build_list (sync_env_ref (Suc (Suc (Suc 0))) []) (Suc 0) ''/r/'' ''/d/'' []
       hostile_conn = (Ok (True, files), s') \<and> length files = 2 \<and>
     (\<forall>e \<in> set files. below ''/d/'' (lpath e) \<or> (S_ISDIR (ci_mode e) \<and>
        lpath e = root_marker (sync_env_ref (Suc (Suc (Suc 0))) []) ''/d/''))"
proof -
  obtain s' files where f: "remote_build_list (sync_env_ref (Suc (Suc (Suc 0))) []) (Suc 0) ''/r/''
      ''/d/'' [] hostile_conn = (Ok (True, files), s')" "length files = 2"
    using hostile_listing by fastforce
  have "root_path ''/d/''" unfolding root_path_def by (intro disjI2 exI [of _ "''/''"]) simp
  from pull_stays_inside [OF ref_unix_paths this f(1)] f show ?thesis by blast
qed

section \<open>Acknowledgements\<close>

text \<open>C3: when \<^verbatim>\<open>ReadAcknowledgements\<close> returns true the queue has only lost entries from its front, and
  it is empty if all replies were asked for and shorter than 128 otherwise.\<close>

theorem acknowledgements_settle:
  assumes "ReadAcknowledgements E read_all s = (Ok True, s')"
  shows "acks_settled read_all s' \<and> suffix (deferred_acknowledgements s') (deferred_acknowledgements s)"
  using ReadAcknowledgements_settles [OF assms] keepsD [OF ReadAcknowledgements_consumes assms]
  by (simp add: consumes_def)

definition two_sent :: "string \<Rightarrow> rworld conn" where
  "two_sent replies = (ready_conn False (rworld0\<lparr>inbox := replies\<rparr>))
     \<lparr>deferred_acknowledgements := [(''a'', ''/a''), (''b'', ''/b'')]\<rparr>"

lemma two_sent_fields:
  "deferred_acknowledgements (two_sent r) = [(''a'', ''/a''), (''b'', ''/b'')]"
  "acknowledgement_buffer (two_sent r) = []" "inbox (world (two_sent r)) = r"
  by (simp_all add: two_sent_def ready_conn_def)

lemma two_sent_okays:
  "\<exists>s'. ReadAcknowledgements (sync_env_ref 20 []) True (two_sent (okays (sync_env_ref 20 []) 2))
     = (Ok True, s')"
proof -
  have "\<exists>w. ReadAcknowledgements (sync_env_ref 20 []) True (two_sent (okays (sync_env_ref 20 []) 2))
     = (Ok True, acked [] [] w (two_sent (okays (sync_env_ref 20 []) 2))) \<and> inbox w = [] \<and>
       outbox w = outbox (world (two_sent (okays (sync_env_ref 20 []) 2)))"
    by (rule ReadAcknowledgements_okays [OF sync_env_ref_socket sync_env_ref_wire])
       (auto simp: two_sent_fields numeral_2_eq_2)
  then show ?thesis by blast
qed

theorem acknowledgements_settle_witness:
  "\<exists>s'. ReadAcknowledgements (sync_env_ref 20 []) True (two_sent (okays (sync_env_ref 20 []) 2))
     = (Ok True, s') \<and> acks_settled True s'"
  using two_sent_okays acknowledgements_settle by blast

text \<open>C4: a transfer leaves at most one file more unacknowledged than there were, however it ends; one that
  succeeds leaves fewer than 128, even if failures before it had let more pile up, or it was skipped as
  up to date and left the queue as it was.\<close>

theorem send_keeps_window:
  assumes "sync_send E l r mtime mode sync compression dry_run s = (res, s')"
  shows "length (deferred_acknowledgements s') \<le> length (deferred_acknowledgements s) + 1 \<and>
    (res = Ok True \<longrightarrow> length (deferred_acknowledgements s') < 128 \<or>
       deferred_acknowledgements s' = deferred_acknowledgements s)"
proof (intro conjI impI)
  show "length (deferred_acknowledgements s') \<le> length (deferred_acknowledgements s) + 1"
    using keepsD [OF sync_send_queues [unfolded queues_def] assms] .
  assume "res = Ok True"
  from returnsD [OF sync_send_window refl assms [unfolded this]]
  show "length (deferred_acknowledgements s') < 128 \<or> deferred_acknowledgements s' = deferred_acknowledgements s"
    by (simp add: window_closed_def max_deferred_acks_def)
qed

definition one_file :: "rworld conn" where
  "one_file = ready_conn False (rworld0\<lparr>rfiles := [(''a'', ''hello'')]\<rparr>)"

lemma one_file_sent:
  "\<exists>s'. sync_send (sync_env_ref (Suc 0) []) ''a'' ''/a'' 7 0 False CompAny False one_file
     = (Ok True, s')"
  by (simp add: one_file_def ready_conn_def sync_send_def SendSmallFile_def WriteOrDie_def
      write_fd_def syscall_def osop_def prog_defs ref_stat_def ref_lookup_def reg_stat_def mode_defs
      path_and_mode_def c_str_def show_int_def show_nat_def show_base.simps max_deferred_acks_def
      RecordFileSent_def RecordFilesTransferred_def RecordBytesTransferred_def both_ledgers_def
      ReportProgress_def ledger_ReportProgress_def kProgressReportInterval_def fresh_ledger_def
      ReadAcknowledgements_def add_files_def add_bytes_def rworld0_def)

theorem send_keeps_window_witness: "\<exists>s'. sync_send (sync_env_ref (Suc 0) []) ''a'' ''/a'' 7 0 False
    CompAny False one_file = (Ok True, s') \<and> length (deferred_acknowledgements s') < 128"
proof -
  have "length (deferred_acknowledgements one_file) < 128"
    by (simp add: one_file_def ready_conn_def)
  then show ?thesis using one_file_sent send_keeps_window by metis
qed

text \<open>C2: when the device acknowledges the files \<open>fs\<close> and then rejects \<open>f\<close>, the client reports exactly
  \<open>f\<close>, with the device's message, and stops with the later files still in the queue.\<close>

theorem failure_blames_its_file:
  assumes "socket_doc E inb outb" "wire_doc E" "8 < loop_fuel E" "length fs < loop_fuel E"
    and "length msg < loop_fuel E" "length msg \<le> SYNC_DATA_MAX E"
    and "deferred_acknowledgements s = fs @ f # q" "acknowledgement_buffer s = []"
    and "inb (world s) = okays E (length fs) @ fail_reply E msg @ rest"
  shows "\<exists>w. ReadAcknowledgements E True s = (Ok False, acked q [blame f msg] w s) \<and> inb w = rest"
  using ReadAcknowledgements_blames [OF assms] by blast

theorem failure_blames_its_file_witness:
  "\<exists>w. ReadAcknowledgements (sync_env_ref 20 []) True
       (two_sent (okays (sync_env_ref 20 []) 1 @ fail_reply (sync_env_ref 20 []) ''no''))
     = (Ok False, acked [] [blame (''b'', ''/b'') ''no''] w
         (two_sent (okays (sync_env_ref 20 []) 1 @ fail_reply (sync_env_ref 20 []) ''no'')))
     \<and> inbox w = []"
  by (rule failure_blames_its_file [OF sync_env_ref_socket sync_env_ref_wire,
      where fs = "[(''a'', ''/a'')]"]) (simp_all add: two_sent_def ready_conn_def)

text \<open>C8: the receive buffer for acknowledgements never outgrows the capacity it was created with,
  whatever the device sends, on every outcome of a transfer.\<close>

theorem ack_buffer_bounded:
  assumes "ack_bounded E s" "sync_send E l r mtime mode sync compression dry_run s = (res, s')"
  shows "ack_bounded E s'"
  using keepsD [OF ackbuf.sync_send_frame assms(2)] assms(1) by (simp add: inv_rel_def)

theorem ack_buffer_bounded_witness:
  "ack_bounded (sync_env_ref (Suc 0) []) (snd (sync_send (sync_env_ref (Suc 0) []) ''a'' ''/a'' 7 0 False
     CompAny False one_file))"
proof (rule ack_buffer_bounded)
  show "ack_bounded (sync_env_ref (Suc 0) []) one_file"
    by (simp add: one_file_def ready_conn_def ack_bounded_def)
qed (rule prod.collapse [symmetric])

section \<open>Contents\<close>

text \<open>C5: what \<^verbatim>\<open>SendLargeFileLegacy\<close> writes decodes, at the receiver, to the path and mode, the exact
  contents of the local file and its modification time, however the file system splits the reads.\<close>

theorem legacy_upload_decodes:
  assumes "reader_doc E outb pend file" "wire_doc E" "0 < max_size s" "max_size s < 2 ^ 31"
    and "file (world s) (c_str l) = Some content" "length content < loop_fuel E"
    and "length (path_and_mode path mode) \<le> 1024"
  shows "runs (SendLargeFileLegacy E path mode l r mtime) s (\<lambda>ok t. ok \<and>
    (\<exists>img. outb (world t) = outb (world s) @ img \<and>
      (\<forall>x. parse_upload E (img @ x) = Some (path_and_mode path mode, content, mtime, x))))"
  by (rule send_large_legacy_uploads [OF assms])

theorem legacy_upload_decodes_witness:
  "runs (SendLargeFileLegacy (sync_env_ref 20 []) ''/a'' 0 ''a'' ''/a'' 7) one_file (\<lambda>ok t. ok \<and>
     (\<exists>img. outbox (world t) = outbox (world one_file) @ img \<and>
       (\<forall>x. parse_upload (sync_env_ref 20 []) (img @ x) = Some (''/a,0'', ''hello'', 7, x))))"
proof -
  have pm: "path_and_mode ''/a'' 0 = ''/a,0''"
    by (simp add: path_and_mode_def c_str_def show_int_def show_nat_def show_base.simps hex_digit_def char_of_def bit_0)
  show ?thesis
    by (rule legacy_upload_decodes [OF sync_env_ref_reader sync_env_ref_wire, where path = "''/a''"
          and mode = 0, unfolded pm])
       (simp_all add: one_file_def ready_conn_def c_str_def)
qed

text \<open>The single write of a small file decodes to the same message.\<close>

theorem small_file_decodes:
  assumes "wire_doc E" "length pm \<le> 1024" "length data < 2 ^ 31"
  shows "parse_upload E (small_file_image E pm data mtime @ rest) = Some (pm, data, mtime, rest)"
  using assms by (intro parse_small_file) simp_all

theorem small_file_decodes_witness:
  "parse_upload (sync_env_ref 1 []) (small_file_image (sync_env_ref 1 []) ''/a,0'' ''hi'' 7 @ ''x'')
     = Some (''/a,0'', ''hi'', 7, ''x'')"
  by (rule small_file_decodes [OF sync_env_ref_wire]) simp_all

text \<open>C6: a well-formed \<^verbatim>\<open>RECV_V1\<close> reply of any number of blocks ends up in the local file byte for byte;
  the byte counter grows by its length, and nothing after the reply is consumed.\<close>

theorem download_exact:
  assumes "fetch_doc E inb file target" "wire_doc E" "inb (world s) = data_stream E ds @ rest"
    and "length rp \<le> 1024" "length ds < loop_fuel E"
    and "\<forall>d \<in> set ds. length d \<le> max_size s" "max_size s < 2 ^ 31"
  shows "runs (sync_recv_v1 E rp l name ex) s
    (downloaded inb file s l (concat ds) rest (length (concat ds)))"
  by (rule sync_recv_v1_receives [OF assms])

theorem download_exact_witness:
  "runs (sync_recv_v1 (sync_env_ref 5 []) ''/a'' ''a'' None 0)
     (ready_conn False (rworld0\<lparr>inbox := data_stream (sync_env_ref 5 []) [''hel'', ''lo'']\<rparr>))
     (downloaded inbox (map_of \<circ> rfiles)
       (ready_conn False (rworld0\<lparr>inbox := data_stream (sync_env_ref 5 []) [''hel'', ''lo'']\<rparr>))
       ''a'' (concat [''hel'', ''lo'']) [] (length (concat [''hel'', ''lo''])))"
  by (rule download_exact [OF sync_env_ref_fetch sync_env_ref_wire]) (simp_all add: ready_conn_def)

text \<open>C7: when a \<^verbatim>\<open>RECV_V1\<close> download fails, no partial file is left: the destination is gone, or the
  request itself was refused and no file was touched.\<close>

theorem failed_download_leaves_nothing:
  assumes "store_doc E file" "sync_recv_v1 E rp l name ex s = (Ok False, s')"
  shows "file (world s') l = None \<or> file (world s') = file (world s)"
  by (rule sync_recv_v1_gone [OF assms])

text \<open>A stream that breaks off inside the first block.\<close>

definition broken_conn :: "rworld conn" where
  "broken_conn = ready_conn False (rworld0\<lparr>inbox := put32 0x41544144\<rparr>)"

lemma broken_download:
  "\<exists>s'. sync_recv_v1 (sync_env_ref (Suc 0) []) ''/a'' ''a'' None 0 broken_conn = (Ok False, s')"
  by (simp add: sync_recv_v1_def create_local_def broken_conn_def ready_conn_def SendRequest_def
      write_fd_def read_fd_def syscall_def osop_def prog_defs ref_creat_def unlink_and_fail_def)

theorem failed_download_leaves_nothing_witness:
  "\<exists>s'. sync_recv_v1 (sync_env_ref (Suc 0) []) ''/a'' ''a'' None 0 broken_conn = (Ok False, s') \<and>
     ((map_of \<circ> rfiles) (world s') ''a'' = None \<or>
      (map_of \<circ> rfiles) (world s') = (map_of \<circ> rfiles) (world broken_conn))"
  using broken_download failed_download_leaves_nothing [OF sync_env_ref_store] by blast

section \<open>Pushing\<close>

text \<open>The list a push works on holds no directories, and exactly the files that are neither regular
  files nor symlinks are marked to be skipped.\<close>

theorem push_list_filters:
  assumes "local_build_list E fuel l r ([], dirs) s = (Ok (ok, files, dirs'), s')"
  shows "\<forall>ci \<in> set files. \<not> S_ISDIR (ci_mode ci) \<and> (skip ci \<longleftrightarrow> \<not> should_push_file (ci_mode ci))"
  using yieldsD [OF local_build_list_pushable assms] by (simp add: pushable_def)

definition local_tree :: "rworld conn" where
  "local_tree = ready_conn False (rworld0\<lparr>rdirs := [(''d/'', [''.'', ''a'', ''l''])],
     rfiles := [(''d/a'', ''hello'')], rlinks := [(''d/l'', ''a'')]\<rparr>)"

lemma local_tree_listed:
  "\<exists>files s'. local_build_list (sync_env_ref 1 []) (Suc 0) ''d/'' ''/r/'' ([], []) local_tree
     = (Ok (True, files, []), s') \<and> map lpath files = [''d/a'', ''d/l'']"
  by (simp add: local_tree_def ready_conn_def rworld0_def prog_defs syscall_def ref_lookup_def
      c_str_def local_entry_def IsDotOrDotDot_def ref_stat_def reg_stat_def zero_stat_def Let_def
      mode_defs should_push_file_def copyinfo_ctor_def ensure_trailing_separators_def)

theorem push_list_filters_witness:
  "\<exists>files s'. local_build_list (sync_env_ref 1 []) (Suc 0) ''d/'' ''/r/'' ([], []) local_tree
     = (Ok (True, files, []), s') \<and> length files = 2 \<and> (\<forall>ci \<in> set files. \<not> S_ISDIR (ci_mode ci))"
proof -
  obtain files s' where f: "local_build_list (sync_env_ref 1 []) (Suc 0) ''d/'' ''/r/'' ([], [])
      local_tree = (Ok (True, files, []), s')" "map lpath files = [''d/a'', ''d/l'']"
    using local_tree_listed by (elim exE conjE) (rule that)
  from arg_cong [OF f(2), of length] have "length files = 2" by simp
  with push_list_filters [OF f(1)] f(1) show ?thesis by blast
qed

text \<open>C38: the walk up to the root that collects the parent directories of a destination ends, within one
  step more than the path has characters, exactly when the path is absolute, whether \<^verbatim>\<open>dirname\<close> answers
  \<open>/\<close> or \<open>//\<close> for \<open>//foo\<close>; for a relative destination it never ends. From \<open>/c1/.../cn/\<close> it collects exactly
  \<open>/c1/.../cn/\<close> and its parents \<open>/c1/.../ck\<close>, the deepest first.\<close>

theorem parent_walk_ends_iff_absolute:
  assumes "Path_doc L" "p \<noteq> []"
  shows "(parent_dirs L (Suc (length p)) p \<noteq> None \<longleftrightarrow> hd p = CHR ''/'') \<and>
    (hd p \<noteq> CHR ''/'' \<longrightarrow> (\<forall>fuel. parent_dirs L fuel p = None)) \<and>
    (\<forall>cs c. list_all dir_name (cs @ [c]) \<and> p = dir_path (cs @ [c]) @ ''/'' \<longrightarrow>
       parent_dirs L (Suc (length p)) p
         = Some (p # rev (map (\<lambda>k. dir_path (take k cs)) [1..<Suc (length cs)])))"
proof (intro conjI)
  show "parent_dirs L (Suc (length p)) p \<noteq> None \<longleftrightarrow> hd p = CHR ''/''"
    "hd p \<noteq> CHR ''/'' \<longrightarrow> (\<forall>fuel. parent_dirs L fuel p = None)"
    using parent_dirs_relative [OF assms(1) _ assms(2)]
      parent_dirs_absolute [OF assms(1), of p "Suc (length p)"] by (metis lessI)+
  show "\<forall>cs c. list_all dir_name (cs @ [c]) \<and> p = dir_path (cs @ [c]) @ ''/'' \<longrightarrow>
     parent_dirs L (Suc (length p)) p
       = Some (p # rev (map (\<lambda>k. dir_path (take k cs)) [1..<Suc (length cs)]))"
  proof (intro allI impI, elim conjE)
    fix cs c
    assume d: "list_all dir_name (cs @ [c])" and p: "p = dir_path (cs @ [c]) @ ''/''"
    have "length cs + 1 < Suc (length p)" using length_dir_path [OF d] by (simp add: p)
    from parent_dirs_path [OF assms(1) d disjI2 [OF refl] this] show
      "parent_dirs L (Suc (length p)) p = Some (p # rev (map (\<lambda>k. dir_path (take k cs)) [1..<Suc (length cs)]))"
      unfolding p .
  qed
qed

text \<open>A C library whose \<^verbatim>\<open>dirname\<close> of \<open>//foo\<close> is \<open>//\<close>.\<close>

definition two_slashes :: libbase where
  "two_slashes = libbase_ref\<lparr>Dirname := (\<lambda>s. if keeps_slashes s then ''//'' else dirname_ref s)\<rparr>"

lemma two_slashes_doc: "Path_doc two_slashes"
  by (simp add: two_slashes_def Path_doc_def libbase_ref_def)

theorem parent_walk_ends_iff_absolute_witness:
  "(\<forall>fuel. parent_dirs two_slashes fuel ''tmp/x'' = None) \<and>
   parent_dirs two_slashes (Suc (length ''//foo'')) ''//foo'' \<noteq> None \<and> Dirname two_slashes ''//foo'' = ''//'' \<and>
   parent_dirs two_slashes (Suc (length ''/d/e/'')) ''/d/e/'' = Some [''/d/e/'', ''/d'']"
proof -
  have d: "dir_path ([''d''] @ [''e'']) @ ''/'' = ''/d/e/''" "dir_path [''d''] = ''/d''"
    "list_all dir_name ([''d''] @ [''e''])"
    by (simp_all add: dir_path_def dir_under_def dir_name_def plain_name_def)
  have "parent_dirs two_slashes (Suc (length ''/d/e/'')) ''/d/e/'' = Some (''/d/e/'' # rev (map
      (\<lambda>k. dir_path (take k [''d''])) [1..<Suc (length [''d''])]))"
    using parent_walk_ends_iff_absolute [OF two_slashes_doc, of "''/d/e/''", THEN conjunct2, THEN conjunct2,
      THEN spec [of _ "[''d'']"], THEN spec [of _ "''e''"], THEN mp] d by (simp del: parent_dirs.simps upt_Suc)
  then have "parent_dirs two_slashes (Suc (length ''/d/e/'')) ''/d/e/'' = Some [''/d/e/'', ''/d'']"
    unfolding d(2) [symmetric] by (simp del: parent_dirs.simps)
  moreover have "Dirname two_slashes ''//foo'' = ''//''"
    by (simp add: two_slashes_def keeps_slashes_def dirname_ref_def strip_slashes_def)
  ultimately show ?thesis
    using parent_walk_ends_iff_absolute [OF two_slashes_doc, of "''tmp/x''"]
      parent_walk_ends_iff_absolute [OF two_slashes_doc, of "''//foo''"]
    by (simp del: parent_dirs.simps)
qed

text \<open>The \<^verbatim>\<open>mkdir\<close> workaround passes exactly the escaped directories, in order, split over command
  lines of at most 32769 characters, and succeeds; the world here records the commands.\<close>

theorem mkdir_commands_split:
  assumes "\<forall>d \<in> set dirs. length (escape_arg E d) \<le> 16384"
  shows "\<exists>cmds. mkdir_loop (logging_shell E) dirs ''mkdir'' s
      = (Ok True, s\<lparr>world := world s @ cmds\<rparr>) \<and>
    concat (map (drop 5) cmds) = all_args E dirs \<and>
    list_all (\<lambda>c. prefix ''mkdir '' c \<and> length c \<le> 32769) cmds"
  using mkdir_loop_splits [OF assms, of "[]" s] by (simp add: splits_args_def)

text \<open>The instance with a shell that only records.\<close>

definition shell_env :: "string list sync_env" where
  "shell_env = sync_proto.extend sync_proto_ref (sync_env.fields
     1 \<lparr>realloc_ok = \<lambda>_. True, fresh_byte = \<lambda>_. CHR 0x00\<rparr> (\<lambda>_. None) (\<lambda>_. []) (\<lambda>_ _. [])
     (\<lambda>c. c = CHR ''/'') (CHR ''/'') 4096 (Pair 0) (Pair (Inr [])) (\<lambda>_. Pair (3, []))
     (\<lambda>_. Pair (Inl EPERM)) (\<lambda>_. Pair (Inl EPERM)) (Pair 0) (\<lambda>_. Pair (Inl EPERM)) (Pair ())
     (\<lambda>_. Pair (Inl EPERM)) (\<lambda>_. Pair (Inl EPERM)) (\<lambda>_. Pair (Inl EPERM)) (\<lambda>_ _. Pair (Inl EPERM))
     (\<lambda>_. Pair (Inl EPERM)) (\<lambda>_ _. Pair (Inl EPERM)) (\<lambda>_. Pair (Inl EPERM)) (\<lambda>_. Pair ())
     (\<lambda>_. Pair (Inl EPERM)) (\<lambda>_ _. Pair (Inl EPERM)) (\<lambda>_. Pair (Inl EPERM)) (\<lambda>_ _. Pair (Inl EPERM))
     (Pair 0) (\<lambda>_ _. Pair (Inl EPERM)) (\<lambda>_. Pair 0) (\<lambda>_ _. Pair ()) (\<lambda>_. Pair ()) (Pair ())
     (Pair (EncDone, [])) (\<lambda>_ _. Pair ()) (\<lambda>_. Pair ()) (Pair True) (Pair (DecDone, [])))"

lemma shell_env_escape: "escape_arg shell_env = quoted"
  by (simp add: shell_env_def sync_proto_ref_def libbase_ref_def sync_proto.defs
      sync_env.defs libbase.defs)

theorem mkdir_commands_split_witness:
  "\<exists>cmds. mkdir_loop (logging_shell shell_env) [''/a'', ''/a/b''] ''mkdir''
       (fresh_conn shell_env False EPERM None [])
     = (Ok True, (fresh_conn shell_env False EPERM None [])
         \<lparr>world := world (fresh_conn shell_env False EPERM None []) @ cmds\<rparr>) \<and>
     concat (map (drop 5) cmds) = all_args shell_env [''/a'', ''/a/b'']"
  using mkdir_commands_split [of "[''/a'', ''/a/b'']" shell_env
      "fresh_conn shell_env False EPERM None []"]
  by (auto simp: shell_env_escape quoted_def)

section \<open>Metadata\<close>

text \<open>On a device without \<^verbatim>\<open>stat_v2\<close>, a successful \<^verbatim>\<open>sync_stat_fallback\<close> never reports a
  symlink: links are resolved to a directory or a regular file.\<close>

theorem stat_fallback_never_link:
  assumes "\<not> have_stat_v2 s" "sync_stat_fallback E p s = (Ok (True, st), s')"
  shows "\<not> S_ISLNK (st_mode st)"
  by (rule stat_fallback_resolves [OF assms])

definition link_conn :: "rworld conn" where
  "link_conn = ready_conn False (rworld0\<lparr>inbox :=
     put32 0x54415453 @ put32 0xA1FF @ put32 1 @ put32 2 @
     put32 0x54415453 @ put32 0x41ED @ put32 1 @ put32 2\<rparr>)"

lemma link_followed:
  "\<exists>st s'. sync_stat_fallback (sync_env_ref 1 []) ''/l'' link_conn = (Ok (True, st), s')"
  by (simp add: sync_stat_fallback_def sync_stat_no_v2 link_conn_def ready_conn_def sync_lstat_def
      SendLstat_def SendRequest_def write_fd_def read_fd_def FinishStat_def syscall_def prog_defs
      ref_take_def stat_v1_ref_def rworld0_def mode_defs zero_stat_def Let_def)

theorem stat_fallback_never_link_witness:
  "\<exists>st s'. sync_stat_fallback (sync_env_ref 1 []) ''/l'' link_conn = (Ok (True, st), s') \<and>
     \<not> S_ISLNK (st_mode st)"
proof -
  have "\<not> have_stat_v2 link_conn" by (simp add: link_conn_def ready_conn_def)
  then show ?thesis using link_followed stat_fallback_never_link by blast
qed

section \<open>Accounting\<close>

text \<open>On every outcome of sending or receiving a file, the current and the global ledger count the
  same bytes, files and skips, and the connection's configuration is as the constructor left it.\<close>

theorem ledgers_in_step:
  "(sync_send E l r mtime mode sync compression dry_run s = (res, s') \<longrightarrow>
      balanced s s' \<and> same_config s s') \<and>
   (sync_recv E r l name ex compression s = (res', s'') \<longrightarrow> balanced s s'' \<and> same_config s s'')"
  by (auto dest: keepsD [OF balance.transfer.sync_send_frame] keepsD [OF balance.sync_recv_frame]
      keepsD [OF config.transfer.sync_send_frame] keepsD [OF config.sync_recv_frame])

theorem ledgers_in_step_witness:
  "balanced broken_conn (snd (sync_recv (sync_env_ref 1 []) ''/a'' ''a'' None 0 CompNone broken_conn))"
  using ledgers_in_step [where s = broken_conn and E = "sync_env_ref 1 []" and r = "''/a''"
      and l = "''a''" and name = None and ex = 0 and compression = CompNone]
  by (metis prod.collapse)

lemma length_show_nat_100:
  assumes "p \<le> 100"
  shows "length (show_nat p) \<le> 3"
proof (cases "p < 10")
  case False
  then have "p div 10 < 10 \<or> p = 100" using assms by auto
  with False show ?thesis
    by (auto simp: show_nat_def show_base.simps [of 10 p] show_base.simps [of 10 "p div 10"]
        show_base.simps [of 10 100] show_base.simps [of 10 10] show_base.simps [of 10 "Suc 0"])
qed (simp add: show_nat_def show_base.simps [of 10 p])

lemma percent_le_100:
  fixes x e :: u64
  assumes "e \<noteq> 0" "x \<le> e"
  shows "unat (x * 100 div e) \<le> 100"
    and "unat x * 100 < 2 ^ 64 \<Longrightarrow> unat (x * 100 div e) = unat x * 100 div unat e"
proof -
  have e: "0 < unat e" "unat x \<le> unat e"
    using assms by (simp_all add: word_le_nat_alt unat_gt_0)
  have q: "unat (x * 100 div e) = unat x * 100 mod 2 ^ 64 div unat e"
    by (simp add: unat_div_distrib unat_mult_lem [THEN iffD1] unat_word_ariths)
  show "unat x * 100 < 2 ^ 64 \<Longrightarrow> unat (x * 100 div e) = unat x * 100 div unat e"
    using q by simp
  have "unat x * 100 mod 2 ^ 64 \<le> unat e * 100"
  proof (cases "unat x * 100 < 2 ^ 64")
    case True
    with e(2) show ?thesis by simp
  next
    case False
    have "unat x * 100 mod 2 ^ 64 < 2 ^ 64" by simp
    with False e(2) show ?thesis by linarith
  qed
  then have "unat x * 100 mod 2 ^ 64 div unat e \<le> unat e * 100 div unat e" by (rule div_le_mono)
  with q e(1) show "unat (x * 100 div e) \<le> 100" by simp
qed

lemma to_int32_small:
  assumes "unat x \<le> 100"
  shows "to_int32 x = int (unat x)"
proof -
  have u: "uint x = int (unat x)" by simp
  have "int (unat x) \<le> 100" using assms by linarith
  with u have x: "0 \<le> uint x" "uint x \<le> 100" by (simp, linarith)
  then have "uint (ucast x :: i32) = uint x"
    by (simp add: unsigned_ucast_eq take_bit_int_eq_self)
  moreover have "signed_take_bit 31 (uint x) = uint x"
    by (rule signed_take_bit_int_eq_self) (rule order_trans [OF _ x(1)], simp, rule order_le_less_trans [OF x(2)], simp)
  ultimately show ?thesis by (simp add: to_int32_def sint_uint)
qed

text \<open>Whenever an expected size is known and not exceeded, the reported overall percentage is a number
  \<open>p%\<close> with \<open>p \<le> 100\<close>, even if the 64-bit product wraps, and it is the exact quotient if it does not.\<close>

theorem percentage_bounded:
  assumes "bytes_expected l \<noteq> 0" "bytes_transferred l \<le> bytes_expected l"
  shows "\<exists>p \<le> 100. overall_percentage_str l = show_nat p @ ''%'' \<and>
    (unat (bytes_transferred l) * 100 < 2 ^ 64 \<longrightarrow>
      p = unat (bytes_transferred l) * 100 div unat (bytes_expected l))"
proof -
  define p where "p = unat (bytes_transferred l * 100 div bytes_expected l)"
  have p: "p \<le> 100" unfolding p_def by (rule percent_le_100(1) [OF assms])
  have "to_int32 (bytes_transferred l * 100 div bytes_expected l) = int p"
    unfolding p_def by (rule to_int32_small [OF percent_le_100(1) [OF assms]])
  then have "overall_percentage_str l = show_nat p @ ''%''"
    using assms p length_show_nat_100 [OF p]
    by (simp add: overall_percentage_str_def Let_def show_int_def)
  with p percent_le_100(2) [OF assms] show ?thesis unfolding p_def by blast
qed

theorem percentage_bounded_witness:
  "\<exists>p \<le> 100. overall_percentage_str ((fresh_ledger 0 False)\<lparr>bytes_expected := 4, bytes_transferred := 1\<rparr>)
     = show_nat p @ ''%''"
proof -
  let ?l = "(fresh_ledger 0 False)\<lparr>bytes_expected := 4, bytes_transferred := 1\<rparr>"
  have "bytes_expected ?l \<noteq> 0" "bytes_transferred ?l \<le> bytes_expected ?l"
    by (simp_all add: fresh_ledger_def word_le_nat_alt)
  from percentage_bounded [OF this] show ?thesis by blast
qed

text \<open>C40: \<^verbatim>\<open>ReportCopyFailure\<close> overruns its buffer exactly for the message length \<open>2^32 - 1\<close>,
  where the 32-bit size \<open>msglen + 1\<close> of the buffer wraps to zero.\<close>

theorem failure_buffer_wraps:
  "fst (ReportCopyFailure E from to msglen s) = Abort ''heap buffer overflow'' \<longleftrightarrow> msglen = - 1"
proof -
  have wrap: "unat (msglen + 1) \<le> unat msglen \<longleftrightarrow> msglen = - 1"
  proof (cases "msglen = - 1")
    case False
    then have "unat (msglen + 1) = Suc (unat msglen)"
      by (metis add.commute add_cancel_left_left eq_neg_iff_add_eq_0 unatSuc)
    with False show ?thesis by simp
  qed simp
  show ?thesis
    by (auto simp: ReportCopyFailure_def failure_buffer_size_def wrap abortp_def read_fd_def
        syscall_def bindp_def thenp_def fail_with_def Error_def lp_def modp_def ret_def
        strerror_now_def getp_def split: prod.splits sum.splits option.splits)
qed

section \<open>Features\<close>

text \<open>The comma-separated form of the features this host supports is read back as the same list, and
  a feature is usable only if both sides have it.\<close>

theorem supported_features_roundtrip:
  assumes "Split_doc L" "Join_doc L"
  shows "StringToFeatureSet L (FeatureSetToString L (supported_features env)) = supported_features env
    \<and> (CanUseFeature env fs f \<longleftrightarrow> f \<in> set fs \<and> f \<in> set (supported_features env))"
  using feature_set_wire_roundtrip [OF assms, of "supported_features env"] no_comma_supported
    supported_features_ne by (auto simp: CanUseFeature_def contains_value_def)

theorem supported_features_roundtrip_witness:
  "StringToFeatureSet libbase_ref (FeatureSetToString libbase_ref (supported_features None))
     = supported_features None"
  using supported_features_roundtrip [OF libbase_ref_doc(1,2), of None] by blast

section \<open>Captured output\<close>

text \<open>\<^verbatim>\<open>capture_printf\<close> keeps the caller's buffer a C string of the recorded size; the captured text
  only grows, by exactly the formatted text when memory suffices and not at all otherwise.\<close>

theorem capture_appends:
  assumes "capture_wf b"
  shows "\<exists>b'. snd (capture_printf H (Some b) (Some msg)) = Some b' \<and> capture_wf b' \<and>
    captured b' = captured b @ (if realloc_ok H (output_size b + (length msg + 1)) then msg else [])"
proof (cases "realloc_ok H (output_size b + (length msg + 1))")
  case True
  show ?thesis by (rule capture_printf_append [OF assms True]) (use True in auto)
next
  case False
  with assms show ?thesis by (simp add: capture_printf_def Let_def)
qed

theorem capture_appends_witness:
  "\<exists>b'. snd (capture_printf \<lparr>realloc_ok = \<lambda>n. n < 100, fresh_byte = \<lambda>_. CHR 0x00\<rparr>
       (Some \<lparr>output_buffer = None, output_size = 0\<rparr>) (Some ''pushed'')) = Some b' \<and>
     captured b' = ''pushed''"
  using capture_appends [of "\<lparr>output_buffer = None, output_size = 0\<rparr>"
      "\<lparr>realloc_ok = \<lambda>n. n < 100, fresh_byte = \<lambda>_. CHR 0x00\<rparr>" "''pushed''"]
  by (auto simp: capture_wf_def captured_def)

end
