(* ===== verification/Fdevent.thy ===== *)
theory Fdevent
  imports Prelude
begin

text \<open>
  The event loop: \<^verbatim>\<open>fdevent/fdevent.cpp\<close>, \<^verbatim>\<open>fdevent/fdevent.h\<close> and the poll back end
  \<^verbatim>\<open>fdevent/fdevent_poll.cpp\<close> (the one used on platforms other than Linux).

  \<open>fdctx\<close> is \<^verbatim>\<open>fdevent_context\<close>. The map \<^verbatim>\<open>installed_fdevents_\<close> is an association list in
  ascending order of descriptors, as \<^verbatim>\<open>std::map\<close> iterates. An \<^verbatim>\<open>fdevent\<close> lives in its node of the map:
  its address is whichever free one the allocator picks, possibly that of a destroyed fdevent. Callbacks are values of type \<open>'c\<close> (the function with its
  argument), queued functions values of type \<open>'r\<close>; what they do, the clock and \<^verbatim>\<open>poll\<close> are the
  fields of \<open>fd_env\<close>. Times are nanoseconds of the steady clock. Each API call runs on the
  thread \<open>cur_thread\<close>. A failed \<^verbatim>\<open>CHECK\<close> is an abort. The fuel of \<open>fdevent_Loop\<close> counts
  iterations, that of \<open>FlushRunQueue\<close> queued functions.
\<close>

unbundle bit_operations_syntax

type_synonym fdptr = nat

definition FDE_READ :: u32 where "FDE_READ = 1"
definition FDE_WRITE :: u32 where "FDE_WRITE = 2"
definition FDE_ERROR :: u32 where "FDE_ERROR = 4"
definition FDE_TIMEOUT :: u32 where "FDE_TIMEOUT = 8"

lemmas fde_defs = FDE_READ_def FDE_WRITE_def FDE_ERROR_def FDE_TIMEOUT_def

text \<open>\<^verbatim>\<open>std::variant<fd_func, fd_func2>\<close>: the first gets the descriptor, the second the fdevent.\<close>

datatype 'c fd_variant = FdFunc 'c | FdFunc2 'c

record 'c fdevent =
  fde_ptr :: fdptr
  fde_id :: u64
  fde_fd :: int
  fde_state :: u16
  fde_timeout :: "int option"
  fde_last_active :: int
  fde_func :: "'c fd_variant"

record fdevent_event =
  ev_fde :: fdptr
  ev_events :: u32

record ('c, 'r, 'w) fdctx =
  looper_thread_id :: "nat option"
  cur_thread :: nat
  terminate_loop :: bool
  installed_fdevents :: "(int \<times> 'c fdevent) list"
  fdevent_id :: u64
  run_queue :: "'r list"
  fdevent_set :: "fdptr list"
  interrupt_fd :: int
  fd_log :: "string list"
  fd_world :: 'w

type_synonym ('c, 'r, 'w, 'a) fdprog = "(('c, 'r, 'w) fdctx, 'a) prog"

record pollfd =
  pfd_fd :: int
  pfd_events :: u32
  pfd_revents :: u32

record ('c, 'r, 'w) fd_env =
  call_fd :: "'c \<Rightarrow> int \<Rightarrow> u32 \<Rightarrow> ('c, 'r, 'w, unit) fdprog"
  call_fde :: "'c \<Rightarrow> fdptr \<Rightarrow> u32 \<Rightarrow> ('c, 'r, 'w, unit) fdprog"
  run_fn :: "'r \<Rightarrow> ('c, 'r, 'w, unit) fdprog"
  interrupt_fn :: 'c
  POLLIN :: u32
  POLLOUT :: u32
  POLLERR :: u32
  POLLHUP :: u32
  POLLNVAL :: u32
  os_new_node :: "'w \<Rightarrow> nat \<times> 'w"
  os_clock :: "'w \<Rightarrow> int \<times> 'w"
  os_poll :: "pollfd list \<Rightarrow> int \<Rightarrow> 'w \<Rightarrow> pollfd list option \<times> 'w"
  os_nonblock :: "int \<Rightarrow> 'w \<Rightarrow> bool \<times> 'w"
  os_socketpair :: "'w \<Rightarrow> (int \<times> int) option \<times> 'w"
  os_interrupt_write :: "int \<Rightarrow> 'w \<Rightarrow> (bool + nat) \<times> 'w"
  os_interrupt_read :: "int \<Rightarrow> 'w \<Rightarrow> bool \<times> 'w"

definition fdos :: "('w \<Rightarrow> 'a \<times> 'w) \<Rightarrow> ('c, 'r, 'w, 'a) fdprog" where
  "fdos f s = (case f (fd_world s) of (a, w) \<Rightarrow> (Ok a, s\<lparr>fd_world := w\<rparr>))"

definition fd_logs :: "string \<Rightarrow> ('c, 'r, 'w, unit) fdprog" where
  "fd_logs m = modp (\<lambda>s. s\<lparr>fd_log := fd_log s @ [m]\<rparr>)"

section \<open>The map of installed fdevents\<close>

fun ins_fd :: "int \<Rightarrow> 'a \<Rightarrow> (int \<times> 'a) list \<Rightarrow> (int \<times> 'a) list" where
  "ins_fd k v [] = [(k, v)]"
| "ins_fd k v ((k', v') # xs) =
     (if k < k' then (k, v) # (k', v') # xs
      else if k = k' then (k', v') # xs
      else (k', v') # ins_fd k v xs)"

text \<open>A new node of the map gets any address at which no node lives; \<open>n\<close> is the allocator's choice, the
  \<open>n\<close>-th free address. Those of destroyed fdevents are free again.\<close>

definition free_address :: "fdptr list \<Rightarrow> nat \<Rightarrow> fdptr" where
  "free_address live n = filter (\<lambda>a. a \<notin> set live) [0..<Suc (n + length live)] ! n"

lemma free_address_free: "free_address live n \<notin> set live"
proof -
  let ?as = "[0..<Suc (n + length live)]"
  have "length (filter (\<lambda>a. a \<in> set live) ?as) \<le> length live"
  proof -
    have "card (set (filter (\<lambda>a. a \<in> set live) ?as)) \<le> card (set live)" by (rule card_mono) auto
    also have "\<dots> \<le> length live" by (rule card_length)
    finally show ?thesis by (simp add: distinct_card del: set_filter upt_Suc)
  qed
  then have "n < length (filter (\<lambda>a. a \<notin> set live) ?as)"
    using sum_length_filter_compl [of "\<lambda>a. a \<in> set live" ?as] by (simp del: upt_Suc)
  from nth_mem [OF this] show ?thesis by (simp add: free_address_def del: upt_Suc)
qed

lemma free_address_Nil [simp]: "free_address [] n = n"
  by (simp add: free_address_def del: upt_Suc)

definition live_nodes :: "('c, 'r, 'w) fdctx \<Rightarrow> fdptr list" where
  "live_nodes s = map (fde_ptr \<circ> snd) (installed_fdevents s)"

definition deref :: "('c, 'r, 'w) fdctx \<Rightarrow> fdptr \<Rightarrow> 'c fdevent option" where
  "deref s p = find (\<lambda>f. fde_ptr f = p) (map snd (installed_fdevents s))"

definition update_fde ::
    "fdptr \<Rightarrow> ('c fdevent \<Rightarrow> 'c fdevent) \<Rightarrow> ('c, 'r, 'w) fdctx \<Rightarrow> ('c, 'r, 'w) fdctx" where
  "update_fde p g s = s\<lparr>installed_fdevents :=
     map (\<lambda>(k, f). (k, if fde_ptr f = p then g f else f)) (installed_fdevents s)\<rparr>"

text \<open>An access through a pointer whose fdevent is gone is undefined; here it aborts.\<close>

definition with_fde ::
    "fdptr \<Rightarrow> ('c fdevent \<Rightarrow> ('c, 'r, 'w, 'a) fdprog) \<Rightarrow> ('c, 'r, 'w, 'a) fdprog" where
  "with_fde p k = bindp (getp (\<lambda>s. deref s p)) (\<lambda>f. case f of
      None \<Rightarrow> abortp ''dangling fdevent'' | Some f \<Rightarrow> k f)"

section \<open>Operations\<close>

definition CheckLooperThread :: "('c, 'r, 'w, unit) fdprog" where
  "CheckLooperThread = bindp (getp (\<lambda>s. (looper_thread_id s, cur_thread s))) (\<lambda>(t, me).
     case t of None \<Rightarrow> ret ()
     | Some t \<Rightarrow> if t = me then ret () else abortp ''Check failed: looper thread'')"

definition Interrupt :: "('c, 'r, 'w) fd_env \<Rightarrow> ('c, 'r, 'w, unit) fdprog" where
  "Interrupt F = bindp (getp interrupt_fd) (\<lambda>fd.
     bindp (fdos (os_interrupt_write F fd)) (\<lambda>r. case r of
         Inl again \<Rightarrow> if again then ret () else fd_logs ''failed to write to fdevent interrupt fd''
       | Inr n \<Rightarrow> if n = 0 then fd_logs ''fdevent interrupt fd was closed?'' else ret ()))"

definition install_fde ::
    "('c, 'r, 'w) fd_env \<Rightarrow> int \<Rightarrow> 'c fd_variant \<Rightarrow> ('c, 'r, 'w, fdptr) fdprog" where
  "install_fde F fd func =
     bindp (fdos (os_new_node F)) (\<lambda>n. bindp (getp (\<lambda>s. free_address (live_nodes s) n)) (\<lambda>p.
       thenp (modp (\<lambda>s. s\<lparr>installed_fdevents := ins_fd fd
                \<lparr>fde_ptr = p, fde_id = fdevent_id s, fde_fd = fd, fde_state = 0,
                 fde_timeout = None, fde_last_active = 0, fde_func = func\<rparr>
                (installed_fdevents s),
              fdevent_id := fdevent_id s + 1\<rparr>))
       (bindp (fdos (os_nonblock F fd)) (\<lambda>ok.
          thenp (if ok then ret ()
                 else fd_logs (''failed to set non-blocking mode for fd '' @ show_int fd))
          (thenp (modp (\<lambda>s. s\<lparr>fdevent_set := p # fdevent_set s\<rparr>)) (ret p))))))"

definition fdevent_Create ::
    "('c, 'r, 'w) fd_env \<Rightarrow> int \<Rightarrow> 'c fd_variant \<Rightarrow> ('c, 'r, 'w, fdptr) fdprog" where
  "fdevent_Create F fd func =
     thenp CheckLooperThread
     (if fd < 0 then abortp ''Check failed: fd >= 0''
      else bindp (getp installed_fdevents) (\<lambda>m.
        if map_of m fd \<noteq> None then abortp ''Check failed: inserted''
        else install_fde F fd func))"

text \<open>\<open>None\<close> is the null pointer; the result is the descriptor handed back, \<open>-1\<close> for none.\<close>

definition fdevent_Destroy :: "fdptr option \<Rightarrow> ('c, 'r, 'w, int) fdprog" where
  "fdevent_Destroy fde = (case fde of
       None \<Rightarrow> ret (-1)
     | Some p \<Rightarrow> with_fde p (\<lambda>f.
         bindp (getp (\<lambda>s. map_of (installed_fdevents s) (fde_fd f) \<noteq> None)) (\<lambda>erased.
         if \<not> erased then abortp ''Check failed: erased == 1''
         else thenp (modp (\<lambda>s. s\<lparr>installed_fdevents :=
                        filter (\<lambda>(k, _). k \<noteq> fde_fd f) (installed_fdevents s)\<rparr>))
           (bindp (getp (\<lambda>s. p \<in> set (fdevent_set s))) (\<lambda>erased.
              if \<not> erased then abortp ''Check failed: erased == 1''
              else thenp (modp (\<lambda>s. s\<lparr>fdevent_set := removeAll p (fdevent_set s)\<rparr>))
                     (ret (fde_fd f)))))))"

definition fdevent_Set :: "fdptr \<Rightarrow> u32 \<Rightarrow> ('c, 'r, 'w, unit) fdprog" where
  "fdevent_Set p events =
     thenp CheckLooperThread
       (with_fde p (\<lambda>_. modp (update_fde p (\<lambda>f. f\<lparr>fde_state := ucast events\<rparr>))))"

definition fdevent_Add :: "fdptr \<Rightarrow> u32 \<Rightarrow> ('c, 'r, 'w, unit) fdprog" where
  "fdevent_Add p events =
     (if events AND FDE_TIMEOUT \<noteq> 0 then abortp ''Check failed: FDE_TIMEOUT''
      else with_fde p (\<lambda>f. fdevent_Set p (ucast (fde_state f) OR events)))"

definition fdevent_Del :: "fdptr \<Rightarrow> u32 \<Rightarrow> ('c, 'r, 'w, unit) fdprog" where
  "fdevent_Del p events =
     (if events AND FDE_TIMEOUT \<noteq> 0 then abortp ''Check failed: FDE_TIMEOUT''
      else with_fde p (\<lambda>f. fdevent_Set p (ucast (fde_state f) AND NOT events)))"

definition fdevent_SetTimeout ::
    "('c, 'r, 'w) fd_env \<Rightarrow> fdptr \<Rightarrow> int option \<Rightarrow> ('c, 'r, 'w, unit) fdprog" where
  "fdevent_SetTimeout F p t =
     thenp CheckLooperThread (with_fde p (\<lambda>_.
       bindp (fdos (os_clock F)) (\<lambda>now.
         modp (update_fde p (\<lambda>f. f\<lparr>fde_timeout := t, fde_last_active := now\<rparr>)))))"

text \<open>\<^verbatim>\<open>duration_cast<milliseconds>\<close> rounds towards zero.\<close>

definition ns_per_ms :: int where "ns_per_ms = 1000000"

definition to_ms :: "int \<Rightarrow> int" where
  "to_ms d = (if d \<ge> 0 then d div ns_per_ms else - ((- d) div ns_per_ms))"

definition time_left :: "int \<Rightarrow> 'c fdevent \<Rightarrow> int option" where
  "time_left now f = map_option (\<lambda>t. max 0 (to_ms (fde_last_active f + t * ns_per_ms - now)))
     (fde_timeout f)"

definition sooner :: "int option \<Rightarrow> int option \<Rightarrow> int option" where
  "sooner left result = (case left of
       None \<Rightarrow> result
     | Some t \<Rightarrow> (case result of None \<Rightarrow> Some t | Some r \<Rightarrow> Some (min r t)))"

definition min_duration :: "int \<Rightarrow> (int \<times> 'c fdevent) list \<Rightarrow> int option" where
  "min_duration now m = fold (\<lambda>(_, f). sooner (time_left now f)) m None"

definition CalculatePollDuration :: "('c, 'r, 'w) fd_env \<Rightarrow> ('c, 'r, 'w, int option) fdprog" where
  "CalculatePollDuration F = bindp (fdos (os_clock F)) (\<lambda>now.
     thenp CheckLooperThread (getp (\<lambda>s. min_duration now (installed_fdevents s))))"

section \<open>Dispatch\<close>

definition invoke_fde :: "('c, 'r, 'w) fd_env \<Rightarrow> fdptr \<Rightarrow> u32 \<Rightarrow> ('c, 'r, 'w, unit) fdprog" where
  "invoke_fde F p events = with_fde p (\<lambda>f. case fde_func f of
       FdFunc c \<Rightarrow> call_fd F c (fde_fd f) events
     | FdFunc2 c \<Rightarrow> call_fde F c p events)"

text \<open>The first event whose fdevent is still there is delivered; then the loop breaks.\<close>

fun first_live :: "('c, 'r, 'w) fd_env \<Rightarrow> fdevent_event list \<Rightarrow> ('c, 'r, 'w, unit) fdprog" where
  "first_live F [] = ret ()"
| "first_live F (e # es) = bindp (getp (\<lambda>s. ev_fde e \<in> set (fdevent_set s))) (\<lambda>live.
     if live then invoke_fde F (ev_fde e) (ev_events e) else first_live F es)"

fun FlushRunQueue :: "('c, 'r, 'w) fd_env \<Rightarrow> nat \<Rightarrow> ('c, 'r, 'w, unit) fdprog" where
  "FlushRunQueue F 0 = nofuel"
| "FlushRunQueue F (Suc fuel) = bindp (getp run_queue) (\<lambda>q. case q of
       [] \<Rightarrow> ret ()
     | fn # rest \<Rightarrow> thenp (modp (\<lambda>s. s\<lparr>run_queue := rest\<rparr>))
         (thenp (run_fn F fn) (FlushRunQueue F fuel)))"

definition HandleEvents ::
    "('c, 'r, 'w) fd_env \<Rightarrow> nat \<Rightarrow> fdevent_event list \<Rightarrow> ('c, 'r, 'w, unit) fdprog" where
  "HandleEvents F fuel events = thenp (first_live F events) (FlushRunQueue F fuel)"

definition fdevent_Run :: "('c, 'r, 'w) fd_env \<Rightarrow> 'r \<Rightarrow> ('c, 'r, 'w, unit) fdprog" where
  "fdevent_Run F fn = thenp (modp (\<lambda>s. s\<lparr>run_queue := run_queue s @ [fn]\<rparr>)) (Interrupt F)"

definition TerminateLoop :: "('c, 'r, 'w) fd_env \<Rightarrow> ('c, 'r, 'w, unit) fdprog" where
  "TerminateLoop F = thenp (modp (\<lambda>s. s\<lparr>terminate_loop := True\<rparr>)) (Interrupt F)"

definition NotifyLoopExit :: "('c, 'r, 'w, unit) fdprog" where
  "NotifyLoopExit = modp (\<lambda>s. s\<lparr>looper_thread_id := None\<rparr>)"

definition InstalledCount :: "('c, 'r, 'w) fdctx \<Rightarrow> int" where
  "InstalledCount s = int (length (installed_fdevents s)) - 1"

section \<open>The poll back end\<close>

definition fdevent_interrupt :: "('c, 'r, 'w) fd_env \<Rightarrow> int \<Rightarrow> ('c, 'r, 'w, unit) fdprog" where
  "fdevent_interrupt F fd = bindp (fdos (os_interrupt_read F fd)) (\<lambda>ok.
     if ok then ret () else abortp ''failed to read from fdevent interrupt fd'')"

definition fdevent_context_poll_ctor :: "('c, 'r, 'w) fd_env \<Rightarrow> ('c, 'r, 'w, unit) fdprog" where
  "fdevent_context_poll_ctor F = bindp (fdos (os_socketpair F)) (\<lambda>r. case r of
       None \<Rightarrow> abortp ''failed to create fdevent interrupt socketpair''
     | Some (s0, s1) \<Rightarrow>
         bindp (fdos (os_nonblock F s0)) (\<lambda>ok0.
         bindp (if ok0 then fdos (os_nonblock F s1) else ret False) (\<lambda>ok1.
         if \<not> ok1 then abortp ''failed to make fdevent interrupt socket nonblocking''
         else thenp (modp (\<lambda>s. s\<lparr>interrupt_fd := s0\<rparr>))
           (bindp (fdevent_Create F s1 (FdFunc (interrupt_fn F))) (\<lambda>fde.
              fdevent_Add fde FDE_READ)))))"

definition poll_request :: "('c, 'r, 'w) fd_env \<Rightarrow> int \<times> 'c fdevent \<Rightarrow> pollfd" where
  "poll_request F kf = (case kf of (fd, f) \<Rightarrow>
     \<lparr>pfd_fd = fd, pfd_events =
        (if ucast (fde_state f) AND FDE_READ \<noteq> 0 then POLLIN F else 0) OR
        (if ucast (fde_state f) AND FDE_WRITE \<noteq> 0 then POLLOUT F else 0) OR
        (if ucast (fde_state f) AND FDE_ERROR \<noteq> 0 then POLLERR F else 0),
      pfd_revents = 0\<rparr>)"

definition poll_events_of :: "('c, 'r, 'w) fd_env \<Rightarrow> u32 \<Rightarrow> u32" where
  "poll_events_of F revents =
     (if revents AND POLLIN F \<noteq> 0 then FDE_READ else 0) OR
     (if revents AND POLLOUT F \<noteq> 0 then FDE_WRITE else 0) OR
     (if revents AND (POLLERR F OR POLLHUP F OR POLLNVAL F) \<noteq> 0 then FDE_READ OR FDE_ERROR else 0)"

definition timed_out :: "int \<Rightarrow> 'c fdevent \<Rightarrow> bool" where
  "timed_out post_poll f \<longleftrightarrow>
     (case fde_timeout f of None \<Rightarrow> False | Some t \<Rightarrow> fde_last_active f + t * ns_per_ms < post_poll)"

text \<open>One result of \<^verbatim>\<open>poll\<close>: the event it makes, if any, and the refreshed activity time.\<close>

definition collect_event ::
    "('c, 'r, 'w) fd_env \<Rightarrow> int \<Rightarrow> pollfd \<Rightarrow> fdevent_event list \<Rightarrow> ('c, 'r, 'w, fdevent_event list) fdprog" where
  "collect_event F post_poll p acc =
     bindp (getp (\<lambda>s. map_of (installed_fdevents s) (pfd_fd p))) (\<lambda>r. case r of
       None \<Rightarrow> abortp ''dangling fdevent''
     | Some f \<Rightarrow>
         let io = poll_events_of F (pfd_revents p);
             events = (if io = 0 \<and> timed_out post_poll f then FDE_TIMEOUT else io)
         in if events \<noteq> 0
            then thenp (modp (update_fde (fde_ptr f) (\<lambda>f. f\<lparr>fde_last_active := post_poll\<rparr>)))
                   (ret (acc @ [\<lparr>ev_fde = fde_ptr f, ev_events = events\<rparr>]))
            else ret acc)"

text \<open>\<^verbatim>\<open>int timeout_ms = timeout->count()\<close> keeps 32 bits.\<close>

definition poll_timeout_ms :: "int option \<Rightarrow> int" where
  "poll_timeout_ms t = (case t of None \<Rightarrow> -1 | Some t \<Rightarrow> signed_take_bit 31 t)"

text \<open>One turn of the loop: \<open>Some r\<close> leaves it (\<open>r\<close> says whether waiters are notified).\<close>

definition loop_turn ::
    "('c, 'r, 'w) fd_env \<Rightarrow> nat \<Rightarrow> ('c, 'r, 'w, bool option) fdprog" where
  "loop_turn F fuel = bindp (getp terminate_loop) (\<lambda>stop.
     if stop then ret (Some True)
     else bindp (getp (\<lambda>s. map (poll_request F) (installed_fdevents s))) (\<lambda>pollfds.
       if pollfds = [] then abortp ''Check failed: pollfds.size() > 0''
       else bindp (CalculatePollDuration F) (\<lambda>timeout.
         bindp (fdos (os_poll F pollfds (poll_timeout_ms timeout))) (\<lambda>r. case r of
             None \<Rightarrow> thenp (fd_logs ''poll() failed'') (ret (Some False))
           | Some results \<Rightarrow>
               bindp (fdos (os_clock F)) (\<lambda>post_poll.
               bindp (fold_prog (collect_event F post_poll) results []) (\<lambda>events.
               thenp (HandleEvents F fuel events) (ret None)))))))"

fun loop_turns :: "('c, 'r, 'w) fd_env \<Rightarrow> nat \<Rightarrow> ('c, 'r, 'w, unit) fdprog" where
  "loop_turns F 0 = nofuel"
| "loop_turns F (Suc fuel) = bindp (loop_turn F fuel) (\<lambda>r. case r of
       None \<Rightarrow> loop_turns F fuel
     | Some notify \<Rightarrow> if notify then NotifyLoopExit else ret ())"

definition fdevent_Loop :: "('c, 'r, 'w) fd_env \<Rightarrow> nat \<Rightarrow> ('c, 'r, 'w, unit) fdprog" where
  "fdevent_Loop F fuel = thenp (modp (\<lambda>s. s\<lparr>looper_thread_id := Some (cur_thread s)\<rparr>))
     (loop_turns F fuel)"

definition dump_fde :: "'c fdevent \<Rightarrow> string" where
  "dump_fde f = ''(fdevent '' @ show_nat (unat (fde_id f)) @ '': fd '' @ show_int (fde_fd f) @ '' ''
     @ (if (ucast (fde_state f) :: u32) AND FDE_READ \<noteq> 0 then ''R'' else [])
     @ (if (ucast (fde_state f) :: u32) AND FDE_WRITE \<noteq> 0 then ''W'' else [])
     @ (if (ucast (fde_state f) :: u32) AND FDE_ERROR \<noteq> 0 then ''E'' else []) @ '')''"

definition dump_pollfds :: "('c, 'r, 'w) fd_env \<Rightarrow> pollfd list \<Rightarrow> string" where
  "dump_pollfds F ps = concat (map (\<lambda>p. '' '' @ show_int (pfd_fd p) @ ''(''
     @ (if pfd_events p AND POLLIN F \<noteq> 0 then ''R'' else [])
     @ (if pfd_events p AND POLLOUT F \<noteq> 0 then ''W'' else []) @ '')'') ps)"

text \<open>What \<^verbatim>\<open>WaitForLoopExit\<close> waits for.\<close>

definition loop_exited :: "('c, 'r, 'w) fdctx \<Rightarrow> bool" where
  "loop_exited s \<longleftrightarrow> looper_thread_id s = None"

text \<open>The destructor destroys \<^verbatim>\<open>interrupt_fde_\<close>, which the constructor never sets. A reset replaces
  the ambient context by a new one.\<close>

definition fdevent_context_poll_dtor :: "fdptr option \<Rightarrow> ('c, 'r, 'w, unit) fdprog" where
  "fdevent_context_poll_dtor interrupt_fde = thenp (fdevent_Destroy interrupt_fde) (ret ())"

definition fresh_ctx :: "('c, 'r, 'w) fdctx \<Rightarrow> ('c, 'r, 'w) fdctx" where
  "fresh_ctx s = s\<lparr>looper_thread_id := None, terminate_loop := False, installed_fdevents := [],
     fdevent_id := 0, run_queue := [], fdevent_set := []\<rparr>"

definition fdevent_reset :: "('c, 'r, 'w) fd_env \<Rightarrow> ('c, 'r, 'w, unit) fdprog" where
  "fdevent_reset F = thenp (modp fresh_ctx) (fdevent_context_poll_ctor F)"

end
