(* ===== verification/FdeventLoop.thy ===== *)
theory FdeventLoop
  imports Fdevent
begin

text \<open>
  What every callback may rely on: an interface for relations on the event loop's state that
  callbacks and queued functions keep, its frame lemmas for every operation up to the whole loop,
  and its interpretation for callbacks that are arbitrary sequences of calls into the loop.
\<close>

unbundle bit_operations_syntax

section \<open>Callbacks made of calls\<close>

text \<open>
  A callback's effect on the loop is the calls it makes. \<open>Callback\<close> lists them; an abort inside a
  callback ends the process.
\<close>

datatype fd_call =
    CallCreate int "callback fd_variant"
  | CallDestroy "fdptr option"
  | CallSet fdptr u32
  | CallAdd fdptr u32
  | CallDel fdptr u32
  | CallTimeout fdptr "int option"
  | CallRun callback
  | CallTerminate
  | CallInterruptRead int
and callback = Callback "fd_call list"

type_synonym ('w, 'a) cbprog = "(callback, callback, 'w, 'a) fdprog"

fun run_call :: "(callback, callback, 'w) fd_env \<Rightarrow> fd_call \<Rightarrow> ('w, unit) cbprog" where
  "run_call F (CallCreate fd cb) = thenp (fdevent_Create F fd cb) (ret ())"
| "run_call F (CallDestroy p) = thenp (fdevent_Destroy p) (ret ())"
| "run_call F (CallSet p e) = fdevent_Set p e"
| "run_call F (CallAdd p e) = fdevent_Add p e"
| "run_call F (CallDel p e) = fdevent_Del p e"
| "run_call F (CallTimeout p t) = fdevent_SetTimeout F p t"
| "run_call F (CallRun cb) = fdevent_Run F cb"
| "run_call F CallTerminate = TerminateLoop F"
| "run_call F (CallInterruptRead fd) = fdevent_interrupt F fd"

fun run_callback :: "(callback, callback, 'w) fd_env \<Rightarrow> callback \<Rightarrow> ('w, unit) cbprog" where
  "run_callback F (Callback cs) = fold_prog (\<lambda>c _. run_call F c) cs ()"

definition scripted :: "(callback, callback, 'w) fd_env \<Rightarrow> (callback, callback, 'w) fd_env" where
  "scripted F = F\<lparr>call_fd := \<lambda>cb fd e. run_callback F cb, call_fde := \<lambda>cb p e. run_callback F cb,
     run_fn := run_callback F\<rparr>"

section \<open>The interface\<close>

locale fd_state =
  fixes R :: "('c, 'r, 'w) fdctx \<Rightarrow> ('c, 'r, 'w) fdctx \<Rightarrow> bool"
  assumes preorder: "preorder_on_states R"
    and outside: "\<And>s w l. R s (s\<lparr>fd_world := w\<rparr>) \<and> R s (s\<lparr>fd_log := l\<rparr>)"
    and queue: "\<And>s q. R s (s\<lparr>run_queue := q\<rparr>)"
    and thread: "\<And>s t. R s (s\<lparr>looper_thread_id := t\<rparr>)"
    and stop: "\<And>s. R s (s\<lparr>terminate_loop := True\<rparr>)"
    and tune: "\<And>s p g. (\<And>f. fde_ptr (g f) = fde_ptr f \<and> fde_fd (g f) = fde_fd f) \<Longrightarrow>
      R s (update_fde p g s)"
    and create: "\<And>s fd func p. 0 \<le> fd \<Longrightarrow> map_of (installed_fdevents s) fd = None \<Longrightarrow> p \<notin> set (live_nodes s) \<Longrightarrow>
      R s (s\<lparr>installed_fdevents := ins_fd fd
            \<lparr>fde_ptr = p, fde_id = fdevent_id s, fde_fd = fd, fde_state = 0,
             fde_timeout = None, fde_last_active = 0, fde_func = func\<rparr> (installed_fdevents s),
          fdevent_id := fdevent_id s + 1, fdevent_set := p # fdevent_set s\<rparr>)"
    and destroy: "\<And>s p f. deref s p = Some f \<Longrightarrow> p \<in> set (fdevent_set s) \<Longrightarrow>
      R s (s\<lparr>installed_fdevents := filter (\<lambda>(k, _). k \<noteq> fde_fd f) (installed_fdevents s),
          fdevent_set := removeAll p (fdevent_set s)\<rparr>)"
    and stale: "\<And>s p f. deref s p = Some f \<Longrightarrow> p \<notin> set (fdevent_set s) \<Longrightarrow>
      R s (s\<lparr>installed_fdevents := filter (\<lambda>(k, _). k \<noteq> fde_fd f) (installed_fdevents s)\<rparr>)"
begin

lemma pure_frame:
  "keeps R (ret a)" "keeps R (getp f)" "keeps R (abortp e)" "keeps R nofuel"
  by (simp_all add: keeps_pure preorder)

lemma os_frame: "keeps R (fdos f)" "keeps R (fd_logs m)"
  using outside by (auto simp: fdos_def fd_logs_def keeps_def modp_def split: prod.splits)

lemma seq_frame:
  "keeps R m \<Longrightarrow> (\<And>a. keeps R (g a)) \<Longrightarrow> keeps R (bindp m g)"
  "keeps R m \<Longrightarrow> keeps R n \<Longrightarrow> keeps R (thenp m n)"
  using preorder by (auto intro: keeps_bindp keeps_thenp)

lemmas frame_intros = pure_frame os_frame seq_frame keeps_if keeps_case_option keeps_case_sum
  keeps_case_prod keeps_case_list keeps_Let

lemma Interrupt_frame: "keeps R (Interrupt F)"
  unfolding Interrupt_def by (intro frame_intros)

lemma CheckLooperThread_frame: "keeps R CheckLooperThread"
  unfolding CheckLooperThread_def by (intro frame_intros)

lemma with_fde_frame: "(\<And>f. keeps R (k f)) \<Longrightarrow> keeps R (with_fde p k)"
  unfolding with_fde_def by (intro frame_intros)

lemma modp_frame: "(\<And>s. R s (g s)) \<Longrightarrow> keeps R (modp g)"
  by (rule keeps_modp)

lemma tune_frame:
  "(\<And>f. fde_ptr (g f) = fde_ptr f \<and> fde_fd (g f) = fde_fd f) \<Longrightarrow> keeps R (modp (update_fde p g))"
  by (intro modp_frame tune)

lemma Set_frame: "keeps R (fdevent_Set p e)"
  unfolding fdevent_Set_def
  by (intro frame_intros CheckLooperThread_frame with_fde_frame tune_frame) simp

lemma Add_frame: "keeps R (fdevent_Add p e)" "keeps R (fdevent_Del p e)"
  unfolding fdevent_Add_def fdevent_Del_def
  by (intro frame_intros with_fde_frame Set_frame)+

lemma SetTimeout_frame: "keeps R (fdevent_SetTimeout F p t)"
  unfolding fdevent_SetTimeout_def
  by (intro frame_intros CheckLooperThread_frame with_fde_frame tune_frame) simp

lemma Run_frame: "keeps R (fdevent_Run F fn)" "keeps R (TerminateLoop F)" "keeps R NotifyLoopExit"
  unfolding fdevent_Run_def TerminateLoop_def NotifyLoopExit_def
  by (intro frame_intros modp_frame queue stop thread Interrupt_frame)+

lemma Create_frame: "keeps R (fdevent_Create F fd func)"
proof -
  have refl: "R s s" for s using preorder by (simp add: preorder_on_states_def)
  have trans: "R s t \<Longrightarrow> R t u \<Longrightarrow> R s u" for s t u
    using preorder unfolding preorder_on_states_def by blast
  have install: "R s (snd (install_fde F fd func s))"
    if fresh: "0 \<le> fd" "map_of (installed_fdevents s) fd = None" for s
  proof -
    obtain n w where n: "os_new_node F (fd_world s) = (n, w)" by fastforce
    obtain ok x where x: "os_nonblock F fd w = (ok, x)" by fastforce
    define s0 where "s0 = s\<lparr>fd_world := w\<rparr>"
    define p where "p = free_address (live_nodes s0) n"
    define t where "t = s0\<lparr>installed_fdevents := ins_fd fd
        \<lparr>fde_ptr = p, fde_id = fdevent_id s, fde_fd = fd, fde_state = 0,
         fde_timeout = None, fde_last_active = 0, fde_func = func\<rparr> (installed_fdevents s),
      fdevent_id := fdevent_id s + 1, fdevent_set := p # fdevent_set s\<rparr>"
    have "R s s0" unfolding s0_def using outside by blast
    moreover have "R s0 t"
    proof -
      have "0 \<le> fd" "map_of (installed_fdevents s0) fd = None" "p \<notin> set (live_nodes s0)"
        using fresh by (simp_all add: s0_def p_def free_address_free)
      from create [OF this] show ?thesis by (simp add: t_def s0_def)
    qed
    moreover have "R t (t\<lparr>fd_world := x\<rparr>)" "R (t\<lparr>fd_world := x\<rparr>) (t\<lparr>fd_world := x\<rparr>\<lparr>fd_log := l\<rparr>)"
      for l using outside by blast+
    moreover have "\<exists>l. snd (install_fde F fd func s) = t\<lparr>fd_world := x\<rparr>\<lparr>fd_log := l\<rparr>"
      using n x by (cases s; cases ok) (auto simp: t_def s0_def p_def live_nodes_def install_fde_def thenp_def bindp_def fdos_def
        fd_logs_def modp_def ret_def getp_def)
    ultimately show ?thesis using trans by metis
  qed
  have "keeps R (if fd < 0 then abortp m else bindp (getp installed_fdevents) (\<lambda>im.
      if map_of im fd \<noteq> None then abortp m' else install_fde F fd func))" for m m'
    unfolding keeps_def using install by (auto simp: refl abortp_def)
  then show ?thesis
    unfolding fdevent_Create_def by (intro seq_frame CheckLooperThread_frame)
qed

lemma Destroy_frame: "keeps R (fdevent_Destroy p)"
proof (cases p)
  case None
  then show ?thesis by (simp add: fdevent_Destroy_def pure_frame)
next
  case (Some q)
  have refl: "R s s" for s using preorder by (simp add: preorder_on_states_def)
  show ?thesis unfolding keeps_def
  proof
    fix s
    show "R s (snd (fdevent_Destroy p s))"
    proof (cases "deref s q")
      case None
      then show ?thesis
        using Some by (simp add: fdevent_Destroy_def with_fde_def abortp_def refl)
    next
      case (Some f)
      show ?thesis
        using \<open>p = Some q\<close> Some destroy [OF Some] stale [OF Some]
        by (auto simp: fdevent_Destroy_def with_fde_def abortp_def refl ret_def)
    qed
  qed
qed

end

text \<open>Callbacks that keep the relation: then the whole loop does.\<close>

locale fd_loop = fd_state R
  for R :: "('c, 'r, 'w) fdctx \<Rightarrow> ('c, 'r, 'w) fdctx \<Rightarrow> bool" +
  fixes F :: "('c, 'r, 'w) fd_env"
  assumes calls: "\<And>c fd e. keeps R (call_fd F c fd e)" "\<And>c p e. keeps R (call_fde F c p e)"
      "\<And>fn. keeps R (run_fn F fn)"
begin

lemma first_live_frame: "keeps R (first_live F es)"
proof (induction es)
  case Nil
  then show ?case by (simp add: pure_frame)
next
  case (Cons e es)
  have "keeps R (invoke_fde F p ev)" for p ev
    unfolding invoke_fde_def
    by (rule with_fde_frame) (simp add: calls split: fd_variant.split)
  with Cons show ?case unfolding first_live.simps by (intro frame_intros)
qed

lemma FlushRunQueue_frame: "keeps R (FlushRunQueue F fuel)"
proof (induction fuel)
  case 0
  then show ?case by (simp add: pure_frame)
next
  case (Suc fuel)
  then show ?case unfolding FlushRunQueue.simps
    by (intro frame_intros modp_frame queue calls)
qed

lemma collect_event_frame: "keeps R (collect_event F t p acc)"
  unfolding collect_event_def Let_def by (intro frame_intros tune_frame) simp

lemma loop_turn_frame: "keeps R (loop_turn F fuel)"
  unfolding loop_turn_def HandleEvents_def CalculatePollDuration_def
  by (intro frame_intros CheckLooperThread_frame first_live_frame FlushRunQueue_frame
      keeps_fold_prog preorder collect_event_frame)

lemma Loop_frame: "keeps R (fdevent_Loop F fuel)"
proof -
  have "keeps R (loop_turns F fuel)"
  proof (induction fuel)
    case 0
    then show ?case by (simp add: pure_frame)
  next
    case (Suc fuel)
    then show ?case unfolding loop_turns.simps
      by (intro frame_intros loop_turn_frame Run_frame)
  qed
  then show ?thesis
    unfolding fdevent_Loop_def by (intro frame_intros modp_frame thread)
qed

end

lemma run_callback_frame:
  assumes "fd_state (R :: (callback, callback, 'w) fdctx \<Rightarrow> _)"
  shows "keeps R (run_callback F cb)"
proof (cases cb)
  case (Callback cs)
  have one: "keeps R (run_call F c)" for c
    by (cases c) (auto intro!: fd_state.frame_intros [OF assms] fd_state.Create_frame [OF assms]
      fd_state.Destroy_frame [OF assms] fd_state.Set_frame [OF assms] fd_state.Add_frame [OF assms]
      fd_state.SetTimeout_frame [OF assms] fd_state.Run_frame [OF assms] simp: fdevent_interrupt_def)
  show ?thesis
    using assms one by (simp add: Callback keeps_fold_prog fd_state.preorder)
qed

lemma scripted_loop: "fd_state R \<Longrightarrow> fd_loop R (scripted F)"
  by (simp add: fd_loop_def fd_loop_axioms_def scripted_def run_callback_frame)

section \<open>The invariant of the loop's tables\<close>

definition ctx_wf :: "('c, 'r, 'w) fdctx \<Rightarrow> bool" where
  "ctx_wf s \<longleftrightarrow>
     sorted_wrt (<) (map fst (installed_fdevents s)) \<and>
     (\<forall>(k, f) \<in> set (installed_fdevents s). fde_fd f = k \<and> 0 \<le> k) \<and>
     distinct (map (fde_ptr \<circ> snd) (installed_fdevents s)) \<and>
     distinct (fdevent_set s) \<and>
     set (fdevent_set s) = set (map (fde_ptr \<circ> snd) (installed_fdevents s))"

lemma set_ins_fd: "map_of m k = None \<Longrightarrow> set (ins_fd k v m) = insert (k, v) (set m)"
  by (induction m) (auto split: if_splits)

lemma strict_sorted_ins_fd:
  "sorted_wrt (<) (map fst m) \<Longrightarrow> map_of m k = None \<Longrightarrow> sorted_wrt (<) (map fst (ins_fd k v m))"
proof (induction m)
  case (Cons a m)
  have "x \<in> fst ` insert (k, v) (set m) \<Longrightarrow> x = k \<or> x \<in> fst ` set m" for x by auto
  with Cons show ?case by (cases a) (auto simp: set_ins_fd split: if_splits)
qed simp

lemma distinct_ins_fd:
  "map_of m k = None \<Longrightarrow> distinct (map g m) \<Longrightarrow> g (k, v) \<notin> set (map g m) \<Longrightarrow>
   distinct (map g (ins_fd k v m))"
proof (induction m)
  case (Cons a m)
  then show ?case by (cases a) (auto simp: set_ins_fd split: if_splits)
qed simp

lemma strict_sorted_filter:
  "sorted_wrt (<) (map f xs) \<Longrightarrow> sorted_wrt (<) (map f (filter P xs))"
  by (induction xs) auto

lemma find_SomeD: "find P xs = Some x \<Longrightarrow> P x \<and> x \<in> set xs"
  by (induction xs) (auto split: if_splits)

lemma deref_Some:
  assumes "deref s p = Some f"
  shows "fde_ptr f = p" "\<exists>k. (k, f) \<in> set (installed_fdevents s)"
  using find_SomeD [OF assms [unfolded deref_def]] by force+

lemma ctx_wf_create:
  assumes "0 \<le> fd" "map_of (installed_fdevents s) fd = None" "p \<notin> set (live_nodes s)" "ctx_wf s"
  shows "ctx_wf (s\<lparr>installed_fdevents := ins_fd fd
      \<lparr>fde_ptr = p, fde_id = fdevent_id s, fde_fd = fd, fde_state = 0,
       fde_timeout = None, fde_last_active = 0, fde_func = func\<rparr> (installed_fdevents s),
    fdevent_id := fdevent_id s + 1, fdevent_set := p # fdevent_set s\<rparr>)"
  using assms by (auto simp: ctx_wf_def live_nodes_def set_ins_fd strict_sorted_ins_fd intro!: distinct_ins_fd)

lemma ctx_wf_destroy:
  assumes "deref s p = Some f" "ctx_wf s"
  shows "ctx_wf (s\<lparr>installed_fdevents := filter (\<lambda>(k, _). k \<noteq> fde_fd f) (installed_fdevents s),
    fdevent_set := removeAll p (fdevent_set s)\<rparr>)"
proof -
  obtain k where k: "(k, f) \<in> set (installed_fdevents s)" "fde_ptr f = p"
    using deref_Some [OF assms(1)] by blast
  with assms(2) have fd: "fde_fd f = k" by (auto simp: ctx_wf_def)
  have inj: "k' = k \<longleftrightarrow> fde_ptr g = p" if "(k', g) \<in> set (installed_fdevents s)" for k' g
  proof -
    have d: "distinct (map fst (installed_fdevents s))"
      "distinct (map (fde_ptr \<circ> snd) (installed_fdevents s))"
      using assms(2) strict_sorted_iff by (auto simp: ctx_wf_def)
    have "k' = k \<Longrightarrow> g = f" using d(1) that k(1) by (metis eq_key_imp_eq_value)
    moreover have "fde_ptr g = p \<Longrightarrow> (k', g) = (k, f)"
      using d(2) that k inj_onD [of "fde_ptr \<circ> snd" "set (installed_fdevents s)" "(k', g)" "(k, f)"]
      by (simp add: distinct_map)
    ultimately show ?thesis using k(2) by auto
  qed
  have ptrs: "(fde_ptr \<circ> snd) ` set (filter (\<lambda>(k, _). k \<noteq> fde_fd f) (installed_fdevents s))
      = (fde_ptr \<circ> snd) ` set (installed_fdevents s) - {p}"
  proof (intro set_eqI iffI)
    fix q
    assume "q \<in> (fde_ptr \<circ> snd) ` set (installed_fdevents s) - {p}"
    then obtain k' g where g: "(k', g) \<in> set (installed_fdevents s)" "q = fde_ptr g" "q \<noteq> p"
      by auto
    with inj fd have "k' \<noteq> fde_fd f" by auto
    with g show "q \<in> (fde_ptr \<circ> snd) ` set (filter (\<lambda>(k, _). k \<noteq> fde_fd f) (installed_fdevents s))"
      by force
  qed (use inj fd in auto)
  show ?thesis
    using assms(2) ptrs
    by (auto simp: ctx_wf_def strict_sorted_filter distinct_map_filter distinct_removeAll)
qed

lemma ctx_wf_table:
  assumes "map fst m = map fst (installed_fdevents s)"
    and "map (fde_ptr \<circ> snd) m = map (fde_ptr \<circ> snd) (installed_fdevents s)"
    and "\<forall>(k, f) \<in> set m. fde_fd f = k \<and> 0 \<le> k" "ctx_wf s"
  shows "ctx_wf (s\<lparr>installed_fdevents := m\<rparr>)"
  using assms unfolding ctx_wf_def by (simp del: set_map)

lemma ctx_wf_update:
  assumes "\<And>f. fde_ptr (g f) = fde_ptr f \<and> fde_fd (g f) = fde_fd f" "ctx_wf s"
  shows "ctx_wf (update_fde p g s)"
proof -
  let ?m = "map (\<lambda>(k, f). (k, if fde_ptr f = p then g f else f)) (installed_fdevents s)"
  have "map fst ?m = map fst (installed_fdevents s)" by auto
  moreover have "map (fde_ptr \<circ> snd) ?m = map (fde_ptr \<circ> snd) (installed_fdevents s)"
    using assms(1) by auto
  moreover have "\<forall>(k, f) \<in> set ?m. fde_fd f = k \<and> 0 \<le> k"
    using assms by (auto simp: ctx_wf_def)
  ultimately show ?thesis unfolding update_fde_def using assms(2) by (rule ctx_wf_table)
qed

interpretation wf: fd_state "inv_rel (ctx_wf :: ('c, 'r, 'w) fdctx \<Rightarrow> bool)"
proof
  fix s :: "('c, 'r, 'w) fdctx" and p f
  assume "deref s p = Some f" "p \<notin> set (fdevent_set s)"
  then have "\<not> ctx_wf s" using deref_Some [of s p f] by (force simp: ctx_wf_def)
  then show "inv_rel ctx_wf s
      (s\<lparr>installed_fdevents := filter (\<lambda>(k, _). k \<noteq> fde_fd f) (installed_fdevents s)\<rparr>)"
    by (simp add: inv_rel_def)
qed (auto simp: inv_rel_def intro: ctx_wf_create ctx_wf_destroy ctx_wf_update,
     auto simp: ctx_wf_def)

interpretation wf_loop: fd_loop "inv_rel ctx_wf" "scripted F" for F
  by (rule scripted_loop) (rule wf.fd_state_axioms)

text \<open>A stop request is never taken back, and the interrupt descriptor stays.\<close>

definition forward :: "('c, 'r, 'w) fdctx \<Rightarrow> ('c, 'r, 'w) fdctx \<Rightarrow> bool" where
  "forward s s' \<longleftrightarrow> (terminate_loop s \<longrightarrow> terminate_loop s') \<and>
     interrupt_fd s' = interrupt_fd s"

interpretation fwd: fd_state "forward :: ('c, 'r, 'w) fdctx \<Rightarrow> ('c, 'r, 'w) fdctx \<Rightarrow> bool"
  by unfold_locales (auto simp: forward_def preorder_on_states_def update_fde_def)

interpretation fwd_loop: fd_loop forward "scripted F" for F
  by (rule scripted_loop) (rule fwd.fd_state_axioms)

end
