(* ===== verification/FdeventProperties.thy ===== *)
theory FdeventProperties
  imports FdeventLoop
begin

text \<open>One turn of the loop in detail, the poll timeout, and the properties of the event loop.\<close>

unbundle bit_operations_syntax

section \<open>Collecting events\<close>

definition event_bits :: "('c, 'r, 'w) fd_env \<Rightarrow> int \<Rightarrow> 'c fdevent \<Rightarrow> pollfd \<Rightarrow> u32" where
  "event_bits F post f p =
     (let io = poll_events_of F (pfd_revents p)
      in if io = 0 \<and> timed_out post f then FDE_TIMEOUT else io)"

definition ready :: "('c, 'r, 'w) fd_env \<Rightarrow> int \<Rightarrow> ('c, 'r, 'w) fdctx \<Rightarrow> pollfd list \<Rightarrow> fdevent_event list" where
  "ready F post s results = concat (map (\<lambda>p. case map_of (installed_fdevents s) (pfd_fd p) of
       None \<Rightarrow> []
     | Some f \<Rightarrow> if event_bits F post f p \<noteq> 0
                 then [\<lparr>ev_fde = fde_ptr f, ev_events = event_bits F post f p\<rparr>] else []) results)"

definition touch :: "int \<Rightarrow> fdptr set \<Rightarrow> ('c, 'r, 'w) fdctx \<Rightarrow> ('c, 'r, 'w) fdctx" where
  "touch post ps s = s\<lparr>installed_fdevents :=
     map (\<lambda>(k, f). (k, if fde_ptr f \<in> ps then f\<lparr>fde_last_active := post\<rparr> else f))
       (installed_fdevents s)\<rparr>"

lemma touch_empty [simp]: "touch post {} s = s"
  by (simp add: touch_def)

lemma update_touch:
  "update_fde p (\<lambda>f. f\<lparr>fde_last_active := post\<rparr>) (touch post ps s) = touch post (insert p ps) s"
proof -
  have "map (\<lambda>(k, f). (k, if fde_ptr f = p then f\<lparr>fde_last_active := post\<rparr> else f))
      (map (\<lambda>(k, f). (k, if fde_ptr f \<in> ps then f\<lparr>fde_last_active := post\<rparr> else f)) m)
    = map (\<lambda>(k, f). (k, if fde_ptr f \<in> insert p ps then f\<lparr>fde_last_active := post\<rparr> else f)) m"
    for m :: "(int \<times> 'a fdevent) list" by (induction m) auto
  then show ?thesis by (simp add: update_fde_def touch_def del: map_map)
qed

lemma map_of_map_snd: "map_of (map (\<lambda>(k, f). (k, h f)) m) k = map_option h (map_of m k)"
  by (induction m) auto

lemma map_of_touch:
  "map_of (installed_fdevents (touch post ps s)) k = map_option
     (\<lambda>f. if fde_ptr f \<in> ps then f\<lparr>fde_last_active := post\<rparr> else f) (map_of (installed_fdevents s) k)"
  by (simp add: touch_def map_of_map_snd)

lemma collect_events:
  assumes "ctx_wf s" "distinct (map pfd_fd results)"
    and "\<forall>p \<in> set results. map_of (installed_fdevents s) (pfd_fd p) \<noteq> None"
    and "\<forall>p \<in> set results. \<forall>f. map_of (installed_fdevents s) (pfd_fd p) = Some f \<longrightarrow> fde_ptr f \<notin> ps"
  shows "fold_prog (collect_event F post) results acc (touch post ps s)
    = (Ok (acc @ ready F post s results), touch post (ps \<union> ev_fde ` set (ready F post s results)) s)"
  using assms(2-4)
proof (induction results arbitrary: acc ps)
  case Nil
  then show ?case by (simp add: ready_def ret_def)
next
  case (Cons p results)
  obtain f where f: "map_of (installed_fdevents s) (pfd_fd p) = Some f" using Cons.prems(2) by auto
  with Cons.prems(3) have out: "fde_ptr f \<notin> ps" by auto
  have lookup: "map_of (installed_fdevents (touch post ps s)) (pfd_fd p) = Some f"
    using f out by (simp add: map_of_touch)
  have other: "fde_ptr g \<noteq> fde_ptr f"
    if "q \<in> set results" "map_of (installed_fdevents s) (pfd_fd q) = Some g" for q g
  proof
    assume "fde_ptr g = fde_ptr f"
    moreover have "(pfd_fd q, g) \<in> set (installed_fdevents s)"
      "(pfd_fd p, f) \<in> set (installed_fdevents s)"
      using that(2) f by (auto dest: map_of_SomeD)
    moreover have "inj_on (fde_ptr \<circ> snd) (set (installed_fdevents s))"
      using assms(1) by (simp add: ctx_wf_def distinct_map)
    ultimately have "(pfd_fd q, g) = (pfd_fd p, f)"
      using inj_onD [of "fde_ptr \<circ> snd" _ "(pfd_fd q, g)" "(pfd_fd p, f)"] by simp
    with that(1) Cons.prems(1) show False by (metis Pair_inject distinct.simps(2) image_eqI list.simps(9) set_map)
  qed
  show ?case
  proof (cases "event_bits F post f p = 0")
    case True
    have "collect_event F post p acc (touch post ps s) = (Ok acc, touch post ps s)"
      using True lookup by (simp add: collect_event_def event_bits_def Let_def ret_def)
    moreover have "ready F post s (p # results) = ready F post s results"
      using True f by (simp add: ready_def)
    ultimately show ?thesis using Cons by (simp add: bindp_def)
  next
    case False
    let ?e = "\<lparr>ev_fde = fde_ptr f, ev_events = event_bits F post f p\<rparr>"
    have "collect_event F post p acc (touch post ps s)
        = (Ok (acc @ [?e]), touch post (insert (fde_ptr f) ps) s)"
      using False lookup update_touch
      by (auto simp: collect_event_def event_bits_def Let_def ret_def)
    moreover have "ready F post s (p # results) = ?e # ready F post s results"
      using False f by (simp add: ready_def)
    ultimately show ?thesis
      using Cons.IH [of "insert (fde_ptr f) ps" "acc @ [?e]"] Cons.prems other
      by (auto simp: bindp_def Un_insert_left)
  qed
qed

lemma ready_live:
  assumes "ctx_wf s" "e \<in> set (ready F post s results)"
  shows "ev_fde e \<in> set (fdevent_set s)"
proof -
  obtain p where p: "e \<in> set (case map_of (installed_fdevents s) (pfd_fd p) of None \<Rightarrow> []
      | Some f \<Rightarrow> if event_bits F post f p \<noteq> 0
          then [\<lparr>ev_fde = fde_ptr f, ev_events = event_bits F post f p\<rparr>] else [])"
    using assms(2) by (auto simp: ready_def)
  then obtain k f where "map_of (installed_fdevents s) k = Some f" "ev_fde e = fde_ptr f"
    by (cases "map_of (installed_fdevents s) (pfd_fd p)") (auto split: if_splits)
  then have "ev_fde e = (fde_ptr \<circ> snd) (k, f)" "(k, f) \<in> set (installed_fdevents s)"
    by (simp_all add: map_of_SomeD)
  then have "ev_fde e \<in> set (map (fde_ptr \<circ> snd) (installed_fdevents s))"
    unfolding set_map by (rule image_eqI)
  with assms(1) show ?thesis by (simp add: ctx_wf_def)
qed

section \<open>The poll timeout\<close>

fun times_left :: "int \<Rightarrow> (int \<times> 'c fdevent) list \<Rightarrow> int list" where
  "times_left now [] = []"
| "times_left now ((k, f) # m)
     = (case time_left now f of None \<Rightarrow> times_left now m | Some t \<Rightarrow> t # times_left now m)"

lemma fold_sooner_Some:
  "fold (\<lambda>(_, f). sooner (time_left now f)) m (Some a) = Some (fold min (times_left now m) a)"
proof (induction m arbitrary: a)
  case (Cons x m)
  then show ?case by (cases x) (simp add: sooner_def min.commute split: option.split)
qed simp

lemma min_duration_times:
  "min_duration now m = (case times_left now m of [] \<Rightarrow> None | t # ts \<Rightarrow> Some (Min (set (t # ts))))"
proof (induction m)
  case Nil
  then show ?case by (simp add: min_duration_def)
next
  case (Cons x m)
  obtain k f where x: "x = (k, f)" by (cases x)
  show ?case
  proof (cases "time_left now f")
    case None
    with Cons x show ?thesis by (simp add: min_duration_def sooner_def)
  next
    case (Some t)
    then show ?thesis
      by (simp add: x min_duration_def sooner_def fold_sooner_Some Min.set_eq_fold del: list.set)
  qed
qed

lemma time_left_None: "time_left now f = None \<longleftrightarrow> fde_timeout f = None"
  by (simp add: time_left_def)

lemma times_left_nonneg: "t \<in> set (times_left now m) \<Longrightarrow> 0 \<le> t"
  by (induction m) (auto simp: time_left_def split: option.splits)

lemma in_times_left:
  "t \<in> set (times_left now m) \<longleftrightarrow> Some t \<in> (\<lambda>(k, f). time_left now f) ` set m"
  by (induction m) (auto split: option.splits)

section \<open>A concrete loop\<close>

text \<open>A clock that stands still at the world's value and a \<^verbatim>\<open>poll\<close> that finds every descriptor
  readable; two fdevents, the first with a timeout, whose callbacks stop the loop.\<close>

definition fd_env_ref :: "(callback, callback, int) fd_env" where
  "fd_env_ref = \<lparr>call_fd = \<lambda>_ _ _. ret (), call_fde = \<lambda>_ _ _. ret (), run_fn = \<lambda>_. ret (),
     interrupt_fn = Callback [CallInterruptRead 4], POLLIN = 1, POLLOUT = 4, POLLERR = 8,
     POLLHUP = 16, POLLNVAL = 32, os_new_node = \<lambda>w. (0, w), os_clock = \<lambda>w. (w, w),
     os_poll = \<lambda>ps t w. (Some (map (\<lambda>p. p\<lparr>pfd_revents := 1\<rparr>) ps), w),
     os_nonblock = \<lambda>_ w. (True, w), os_socketpair = \<lambda>w. (Some (3, 4), w),
     os_interrupt_write = \<lambda>_ w. (Inr 1, w), os_interrupt_read = \<lambda>_ w. (True, w)\<rparr>"

definition fde_ref :: "fdptr \<Rightarrow> int \<Rightarrow> int option \<Rightarrow> callback fdevent" where
  "fde_ref p fd t = \<lparr>fde_ptr = p, fde_id = word_of_nat p, fde_fd = fd, fde_state = 1, fde_timeout = t,
     fde_last_active = 0, fde_func = FdFunc (Callback [CallTerminate])\<rparr>"

definition ctx_ref :: "(callback, callback, int) fdctx" where
  "ctx_ref = \<lparr>looper_thread_id = Some 1, cur_thread = 1, terminate_loop = False,
     installed_fdevents = [(5, fde_ref 0 5 (Some 30)), (7, fde_ref 1 7 None)], fdevent_id = 2,
     run_queue = [], fdevent_set = [1, 0], interrupt_fd = 3, fd_log = [],
     fd_world = 10000000\<rparr>"

lemma ctx_ref_wf: "ctx_wf ctx_ref"
  by (auto simp: ctx_wf_def ctx_ref_def fde_ref_def)

section \<open>Properties\<close>

text \<open>C15: whatever calls callbacks and queued functions make, the loop keeps its tables consistent: one
  fdevent per descriptor, in order, the set of live pointers exactly theirs, and no two at one address,
  though an address may be used again once its fdevent is destroyed; and no stop request is taken back.\<close>

theorem loop_tables_consistent:
  assumes "ctx_wf s" "fdevent_Loop (scripted F) fuel s = (r, s')"
  shows "ctx_wf s' \<and> forward s s'"
  using keepsD [OF wf_loop.Loop_frame assms(2)] keepsD [OF fwd_loop.Loop_frame assms(2)] assms(1)
  by (simp add: inv_rel_def)

theorem loop_tables_consistent_witness:
  "ctx_wf (snd (fdevent_Loop (scripted fd_env_ref) 5 ctx_ref))"
  using loop_tables_consistent [OF ctx_ref_wf prod.collapse [symmetric]] by simp

text \<open>The poll timeout is never negative, never later than any deadline, reached by some fdevent, and
  absent only if no fdevent has a timeout.\<close>

theorem poll_sleeps_until_first_deadline:
  "(min_duration now m = None \<longleftrightarrow> (\<forall>(k, f) \<in> set m. fde_timeout f = None)) \<and>
   (min_duration now m = Some d \<longrightarrow> 0 \<le> d \<and>
      (\<forall>(k, f) \<in> set m. \<forall>t. time_left now f = Some t \<longrightarrow> d \<le> t) \<and>
      (\<exists>(k, f) \<in> set m. time_left now f = Some d))"
proof (cases "times_left now m")
  case Nil
  then have "\<forall>(k, f) \<in> set m. time_left now f = None"
    using in_times_left [of _ now m] by force
  with Nil show ?thesis by (auto simp: min_duration_times time_left_None)
next
  case (Cons t ts)
  let ?S = "set (times_left now m)"
  have m: "min_duration now m = Some (Min ?S)" using Cons by (simp add: min_duration_times)
  have min: "Min ?S \<in> ?S" using Cons by (intro Min_in) auto
  then obtain k f where f: "(k, f) \<in> set m" "time_left now f = Some (Min ?S)"
    unfolding in_times_left by auto
  have "0 \<le> Min ?S" using min by (rule times_left_nonneg)
  moreover have low: "Min ?S \<le> u" if "(k, f) \<in> set m" "time_left now f = Some u" for k f u
  proof -
    have "u \<in> ?S" using that unfolding in_times_left by force
    then show ?thesis by simp
  qed
  then have "\<forall>(k, f) \<in> set m. \<forall>t. time_left now f = Some t \<longrightarrow> Min ?S \<le> t" by auto
  moreover have "\<not> (\<forall>(k, f) \<in> set m. fde_timeout f = None)"
  proof
    assume "\<forall>(k, f) \<in> set m. fde_timeout f = None"
    with f(1) have "time_left now f = None" unfolding time_left_None by blast
    with f(2) show False by simp
  qed
  moreover have "\<exists>(k, f) \<in> set m. time_left now f = Some (Min ?S)" using f by auto
  ultimately show ?thesis by (cases "d = Min ?S") (simp_all add: m)
qed

theorem poll_sleeps_until_first_deadline_witness:
  "min_duration 10000000 (installed_fdevents ctx_ref) = Some 20 \<and>
   (\<exists>k f. (k, f) \<in> set (installed_fdevents ctx_ref) \<and> time_left 10000000 f = Some 20)"
proof -
  have "min_duration 10000000 (installed_fdevents ctx_ref) = Some 20"
    by (simp add: ctx_ref_def fde_ref_def min_duration_def sooner_def time_left_def to_ms_def
        ns_per_ms_def)
  then show ?thesis
    using poll_sleeps_until_first_deadline [of 10000000 "installed_fdevents ctx_ref" 20] by blast
qed

text \<open>C14: one turn of the loop. When \<^verbatim>\<open>poll\<close> reports events, exactly the one of the smallest ready
  descriptor is delivered, before the queued functions; the others of the same turn are dropped,
  though their activity times are refreshed as well.\<close>

theorem turn_delivers_one_event:
  assumes "ctx_wf s" "\<not> terminate_loop s" "installed_fdevents s \<noteq> []"
    and "looper_thread_id s = Some (cur_thread s)" "os_clock F (fd_world s) = (now, w1)"
    and "os_poll F (map (poll_request F) (installed_fdevents s))
           (poll_timeout_ms (min_duration now (installed_fdevents s))) w1 = (Some results, w2)"
    and "map pfd_fd results = map fst (installed_fdevents s)" "os_clock F w2 = (post, w3)"
    and "ready F post s results = e # es"
  shows "loop_turn F fuel s =
    bindp (thenp (invoke_fde F (ev_fde e) (ev_events e)) (FlushRunQueue F fuel)) (\<lambda>_. ret None)
      (touch post (ev_fde ` set (e # es)) (s\<lparr>fd_world := w3\<rparr>))"
proof -
  let ?s = "s\<lparr>fd_world := w3\<rparr>"
  have wf: "ctx_wf ?s" using assms(1) by (simp add: ctx_wf_def)
  have same: "ready F post ?s results = e # es" using assms(9) by (simp add: ready_def)
  have dist: "distinct (map pfd_fd results)"
    using assms(1,7) strict_sorted_iff by (auto simp: ctx_wf_def)
  have dom: "\<forall>p \<in> set results. map_of (installed_fdevents ?s) (pfd_fd p) \<noteq> None"
  proof
    fix p
    assume "p \<in> set results"
    then have "pfd_fd p \<in> set (map pfd_fd results)" by simp
    then have "pfd_fd p \<in> fst ` set (installed_fdevents s)" unfolding assms(7) by simp
    then show "map_of (installed_fdevents ?s) (pfd_fd p) \<noteq> None" by (simp add: map_of_eq_None_iff)
  qed
  have "fold_prog (collect_event F post) results [] ?s
      = (Ok (e # es), touch post (ev_fde ` set (e # es)) ?s)"
    using collect_events [OF wf dist dom, of "{}" F post "[]"] same by simp
  moreover have "ev_fde e \<in> set (fdevent_set (touch post (ev_fde ` set (e # es)) ?s))"
    using ready_live [OF wf, of e F post results] same by (simp add: touch_def)
  ultimately show ?thesis
    using assms(2-6,8)
    by (simp add: loop_turn_def CalculatePollDuration_def CheckLooperThread_def HandleEvents_def
        bindp_Ok thenp_Ok fdos_def thenp_def getp_def ret_def bindp_def)
qed

theorem turn_delivers_one_event_witness:
  "loop_turn fd_env_ref 5 ctx_ref =
    bindp (thenp (invoke_fde fd_env_ref 0 FDE_READ) (FlushRunQueue fd_env_ref 5)) (\<lambda>_. ret None)
      (touch 10000000 {0, 1} ctx_ref)"
proof -
  let ?m = "installed_fdevents ctx_ref"
  let ?ps = "map (\<lambda>p. p\<lparr>pfd_revents := 1\<rparr>) (map (poll_request fd_env_ref) ?m)"
  have ready: "ready fd_env_ref 10000000 ctx_ref ?ps
      = [\<lparr>ev_fde = 0, ev_events = FDE_READ\<rparr>, \<lparr>ev_fde = 1, ev_events = FDE_READ\<rparr>]"
    by (simp add: ready_def event_bits_def ctx_ref_def fde_ref_def fd_env_ref_def poll_request_def
        poll_events_of_def fde_defs)
  have world: "ctx_ref\<lparr>fd_world := 10000000\<rparr> = ctx_ref" by (simp add: ctx_ref_def)
  show ?thesis
    using turn_delivers_one_event [OF ctx_ref_wf _ _ _ _ _ _ _ ready, of 10000000 10000000 10000000 10000000 5]
    by (simp add: world) (simp add: ctx_ref_def fd_env_ref_def poll_request_def)
qed

end
