(* ===== verification/Shell.thy ===== *)
theory Shell
  imports SyncCopy
begin

text \<open>
  Running a shell command on the device: the callback interface of \<^verbatim>\<open>client/commandline.h\<close>, and
  \<^verbatim>\<open>read_and_dump\<close> and \<^verbatim>\<open>send_shell_command\<close> of \<^verbatim>\<open>client/commandline.cpp\<close>.

  A callback object is a value of type \<open>'o\<close>; its methods are programs on the object and the host
  state. \<open>host\<close> adds the two standard streams to the state of the file-sync client (\<open>conn\<close>), so
  that both share the world and the captured output, and the lines shown by \<^verbatim>\<open>Bugreport\<close>'s line
  printer. \<^verbatim>\<open>ShellProtocol\<close> is outside the repository:
  \<open>sh_read_packet\<close> gives the identifier, the buffer and the length of the next packet, and
  \<open>None\<close> when \<^verbatim>\<open>Read\<close> returns false.
\<close>

record 'w host =
  h_conn :: "'w conn"
  h_out :: string
  h_err :: string
  h_printer :: "string list"

type_synonym ('w, 'a) hprog = "('w host, 'a) prog"

type_synonym ('o, 'w, 'a) oprog = "('o \<times> 'w host, 'a) prog"

record shell_packet =
  pk_id :: u8
  pk_buffer :: string
  pk_length :: nat

record 'w shell_env =
  sh_base :: "'w sync_env"
  kIdStdout :: u8
  kIdStderr :: u8
  kIdExit :: u8
  executable_path :: string
  shell_BUFSIZ :: nat
  shell_SIGPIPE :: nat
  kShellServiceArgShellProtocol :: string
  sh_return_errors :: bool
  sh_read_packet :: "int \<Rightarrow> 'w \<Rightarrow> shell_packet option \<times> 'w"
  sh_adb_read :: "int \<Rightarrow> nat \<Rightarrow> 'w \<Rightarrow> string option \<times> 'w"
  sh_fwrite :: "bool \<Rightarrow> string \<Rightarrow> 'w \<Rightarrow> nat \<times> 'w"
  sh_wait_for_device :: "string \<Rightarrow> 'w \<Rightarrow> bool \<times> 'w"

section \<open>Programs on the host state\<close>

definition connp :: "('w, 'a) cprog \<Rightarrow> ('w, 'a) hprog" where
  "connp m h = (case m (h_conn h) of (r, c) \<Rightarrow> (r, h\<lparr>h_conn := c\<rparr>))"

definition hostp :: "('w, 'a) hprog \<Rightarrow> ('o, 'w, 'a) oprog" where
  "hostp m s = (case m (snd s) of (r, h) \<Rightarrow> (r, (fst s, h)))"

text \<open>An object that lives for the time of one call.\<close>

definition with_object :: "'o \<Rightarrow> ('o, 'w, 'a) oprog \<Rightarrow> ('w, 'a \<times> 'o) hprog" where
  "with_object ob m h = (case m (ob, h) of
       (Ok a, (ob', h')) \<Rightarrow> (Ok (a, ob'), h')
     | (Exit c, (ob', h')) \<Rightarrow> (Exit c, h')
     | (Abort e, (ob', h')) \<Rightarrow> (Abort e, h')
     | (OutOfFuel, (ob', h')) \<Rightarrow> (OutOfFuel, h'))"

definition print_out :: "string \<Rightarrow> ('w, unit) hprog" where
  "print_out m = modp (\<lambda>h. h\<lparr>h_out := h_out h @ m\<rparr>)"

definition print_err :: "string \<Rightarrow> ('w, unit) hprog" where
  "print_err m = modp (\<lambda>h. h\<lparr>h_err := h_err h @ m\<rparr>)"

text \<open>\<^verbatim>\<open>error_exit_va\<close> with error 0 (\<open>None\<close>) or an error number; \<^verbatim>\<open>EXIT_FAILURE\<close> is 1.\<close>

definition error_exit_va :: "('w, 'x) shell_env_scheme \<Rightarrow> errno option \<Rightarrow> string \<Rightarrow> ('w, 'a) hprog" where
  "error_exit_va E err msg =
     thenp (print_err (c_str (Basename (sh_base E) (executable_path E)) @ '': '' @ msg
       @ (case err of None \<Rightarrow> [] | Some e \<Rightarrow> '': '' @ strerror (sh_base E) e) @ newline)) (exitp 1)"

definition error_exit :: "('w, 'x) shell_env_scheme \<Rightarrow> string \<Rightarrow> ('w, 'a) hprog" where
  "error_exit E msg = error_exit_va E None msg"

definition perror_exit :: "('w, 'x) shell_env_scheme \<Rightarrow> string \<Rightarrow> ('w, 'a) hprog" where
  "perror_exit E msg = bindp (connp (getp errno)) (\<lambda>e. error_exit_va E (Some e) msg)"

text \<open>\<^verbatim>\<open>fwrite\<close> tells how much it wrote; that much of the buffer is on the stream.\<close>

definition fwrite_stream :: "('w, 'x) shell_env_scheme \<Rightarrow> bool \<Rightarrow> string \<Rightarrow> ('w, nat) hprog" where
  "fwrite_stream E to_err buffer = bindp (connp (osop (sh_fwrite E to_err buffer))) (\<lambda>n.
     thenp (if to_err then print_err (take n buffer) else print_out (take n buffer)) (ret n))"

section \<open>Callbacks\<close>

record ('o, 'w) streams_cb =
  OnStdout :: "string \<Rightarrow> ('o, 'w, bool) oprog"
  OnStderr :: "string \<Rightarrow> ('o, 'w, bool) oprog"
  cb_Done :: "int \<Rightarrow> ('o, 'w, int) oprog"

text \<open>\<open>target\<close> is the string the caller wants filled, \<open>None\<close> for a null pointer.\<close>

definition OnStream ::
    "('w, 'x) shell_env_scheme \<Rightarrow> string option \<Rightarrow> bool \<Rightarrow> string \<Rightarrow> bool
     \<Rightarrow> ('w, bool \<times> string option) hprog" where
  "OnStream E target to_err buffer return_errors = (case target of
       Some s \<Rightarrow> ret (True, Some (s @ buffer))
     | None \<Rightarrow> bindp (fwrite_stream E to_err buffer) (\<lambda>n.
         ret (if return_errors then n = length buffer else True, None)))"

record default_cb =
  stdout_str :: "string option"
  stderr_str :: "string option"
  returnErrors :: bool

definition default_OnStdout ::
    "('w, 'x) shell_env_scheme \<Rightarrow> string \<Rightarrow> (default_cb, 'w, bool) oprog" where
  "default_OnStdout E buffer = bindp (getp fst) (\<lambda>d.
     bindp (hostp (OnStream E (stdout_str d) False buffer (returnErrors d))) (\<lambda>(ok, t).
       thenp (modp (\<lambda>s. (fst s\<lparr>stdout_str := t\<rparr>, snd s))) (ret ok)))"

definition default_OnStderr ::
    "('w, 'x) shell_env_scheme \<Rightarrow> string \<Rightarrow> (default_cb, 'w, bool) oprog" where
  "default_OnStderr E buffer = bindp (getp fst) (\<lambda>d.
     bindp (hostp (OnStream E (stderr_str d) True buffer (returnErrors d))) (\<lambda>(ok, t).
       thenp (modp (\<lambda>s. (fst s\<lparr>stderr_str := t\<rparr>, snd s))) (ret ok)))"

definition DefaultStandardStreamsCallback ::
    "('w, 'x) shell_env_scheme \<Rightarrow> (default_cb, 'w) streams_cb" where
  "DefaultStandardStreamsCallback E =
     \<lparr>OnStdout = default_OnStdout E, OnStderr = default_OnStderr E, cb_Done = \<lambda>status. ret status\<rparr>"

definition SilentStandardStreamsCallback :: "('o, 'w) streams_cb" where
  "SilentStandardStreamsCallback =
     \<lparr>OnStdout = \<lambda>_. ret True, OnStderr = \<lambda>_. ret True, cb_Done = \<lambda>status. ret status\<rparr>"

text \<open>\<^verbatim>\<open>DEFAULT_STANDARD_STREAMS_CALLBACK\<close>; the option \<^verbatim>\<open>--exit-on-write-error\<close> makes it return errors.\<close>

definition default_streams :: "('w, 'x) shell_env_scheme \<Rightarrow> default_cb" where
  "default_streams E = \<lparr>stdout_str = None, stderr_str = None, returnErrors = sh_return_errors E\<rparr>"

section \<open>Reading the output\<close>

definition pk_data :: "shell_packet \<Rightarrow> string" where
  "pk_data p = take (pk_length p) (pk_buffer p)"

text \<open>\<^verbatim>\<open>static_cast<uint8_t>(protocol->data()[0])\<close>: the first byte of the buffer, whatever the length.\<close>

definition exit_byte :: "shell_packet \<Rightarrow> int" where
  "exit_byte p = of_char (hd (pk_buffer p @ [CHR 0x00]))"

fun read_packets ::
    "('w, 'x) shell_env_scheme \<Rightarrow> nat \<Rightarrow> ('o, 'w) streams_cb \<Rightarrow> int \<Rightarrow> int \<Rightarrow> ('o, 'w, int) oprog" where
  "read_packets E 0 CB sock exit_code = nofuel"
| "read_packets E (Suc fuel) CB sock exit_code =
     bindp (hostp (connp (osop (sh_read_packet E sock)))) (\<lambda>r. case r of
         None \<Rightarrow> ret exit_code
       | Some p \<Rightarrow>
           if pk_id p = kIdStdout E then
             thenp (hostp (connp (capture (sh_base E) (c_str (pk_data p)))))
             (bindp (OnStdout CB (pk_data p)) (\<lambda>ok.
                if \<not> ok then ret (int (shell_SIGPIPE E) + 128)
                else read_packets E fuel CB sock exit_code))
           else if pk_id p = kIdStderr E then
             thenp (hostp (connp (capture (sh_base E) (c_str (pk_data p)))))
             (bindp (OnStderr CB (pk_data p)) (\<lambda>ok.
                if \<not> ok then ret (int (shell_SIGPIPE E) + 128)
                else read_packets E fuel CB sock exit_code))
           else if pk_id p = kIdExit E then read_packets E fuel CB sock (exit_byte p)
           else read_packets E fuel CB sock exit_code)"

definition read_and_dump_protocol ::
    "('w, 'x) shell_env_scheme \<Rightarrow> nat \<Rightarrow> ('o, 'w) streams_cb \<Rightarrow> int \<Rightarrow> ('o, 'w, int) oprog" where
  "read_and_dump_protocol E fuel CB sock = read_packets E fuel CB sock 255"

fun read_raw ::
    "('w, 'x) shell_env_scheme \<Rightarrow> nat \<Rightarrow> ('o, 'w) streams_cb \<Rightarrow> int \<Rightarrow> ('o, 'w, unit) oprog" where
  "read_raw E 0 CB sock = nofuel"
| "read_raw E (Suc fuel) CB sock =
     bindp (hostp (connp (osop (sh_adb_read E sock (shell_BUFSIZ E))))) (\<lambda>r. case r of
         None \<Rightarrow> ret ()
       | Some buffer \<Rightarrow> bindp (OnStdout CB buffer) (\<lambda>ok.
           if \<not> ok then ret () else read_raw E fuel CB sock))"

definition read_and_dump ::
    "('w, 'x) shell_env_scheme \<Rightarrow> nat \<Rightarrow> ('o, 'w) streams_cb \<Rightarrow> int \<Rightarrow> bool \<Rightarrow> ('o, 'w, int) oprog" where
  "read_and_dump E fuel CB sock use_shell_protocol =
     (if sock < 0 then ret 0
      else bindp (if use_shell_protocol then read_and_dump_protocol E fuel CB sock
                  else thenp (read_raw E fuel CB sock) (ret 0)) (cb_Done CB))"

section \<open>Sending a command\<close>

definition ShellServiceString ::
    "('w, 'x) shell_env_scheme \<Rightarrow> bool \<Rightarrow> string \<Rightarrow> string \<Rightarrow> string" where
  "ShellServiceString E use_shell_protocol type_arg command =
     (let args = (if use_shell_protocol
                  then kShellServiceArgShellProtocol E #
                       (case env_getenv (sh_base E) ''TERM'' of None \<Rightarrow> [] | Some t \<Rightarrow> [''TERM='' @ t])
                  else []) @ (if type_arg \<noteq> [] then [type_arg] else [])
      in ''shell'' @ (if args = [] then [] else '','') @ c_str (Join (sh_base E) args '','') @ '':'' @ c_str command)"

text \<open>A null \<^verbatim>\<open>output_buffer\<close>: nothing is captured during the call.\<close>

definition without_capture :: "('o, 'w, 'a) oprog \<Rightarrow> ('o, 'w, 'a) oprog" where
  "without_capture m s =
     (let c = out_capture (h_conn (snd s));
          put = (\<lambda>x (t :: _ \<times> 'w host). (fst t, snd t\<lparr>h_conn := h_conn (snd t)\<lparr>out_capture := x\<rparr>\<rparr>))
      in case m (put None s) of (r, s') \<Rightarrow> (r, put c s'))"

text \<open>\<open>Inl\<close>: the device went away and the user gave up; \<open>Inr\<close>: connected.\<close>

fun shell_connect ::
    "('w, 'x) shell_env_scheme \<Rightarrow> nat \<Rightarrow> string \<Rightarrow> bool \<Rightarrow> bool \<Rightarrow> ('w, (int \<times> bool) option) hprog" where
  "shell_connect E 0 command disable use_shell = nofuel"
| "shell_connect E (Suc fuel) command disable use_shell =
     bindp (if disable then ret (True, use_shell)
            else bindp (connp (osop (os_features (sh_base E)))) (\<lambda>r. case r of
                Inr features \<Rightarrow> ret (True, can_use (sh_base E) features kFeatureShell2)
              | Inl _ \<Rightarrow> ret (False, use_shell))) (\<lambda>(attempt, use_shell).
     bindp (if attempt
            then bindp (connp (osop (os_connect (sh_base E) (ShellServiceString E use_shell [] command))))
                   (\<lambda>(sock, _). ret sock)
            else ret (-1)) (\<lambda>sock.
     if sock \<ge> 0 then ret (Some (sock, use_shell))
     else thenp (print_err (''- waiting for device -'' @ newline))
       (bindp (connp (osop (sh_wait_for_device E ''wait-for-device''))) (\<lambda>ok.
          if \<not> ok then ret None else shell_connect E fuel command disable use_shell))))"

definition send_shell_command ::
    "('w, 'x) shell_env_scheme \<Rightarrow> nat \<Rightarrow> string \<Rightarrow> bool \<Rightarrow> ('o, 'w) streams_cb \<Rightarrow> ('o, 'w, int) oprog" where
  "send_shell_command E fuel command disable CB =
     bindp (hostp (shell_connect E fuel command disable False)) (\<lambda>r. case r of
         None \<Rightarrow> ret 1
       | Some (sock, use_shell) \<Rightarrow> without_capture (read_and_dump E fuel CB sock use_shell))"

section \<open>What a callback keeps, the whole command keeps\<close>

locale streams_client =
  fixes CB :: "('o, 'w) streams_cb" and R :: "'o \<times> 'w host \<Rightarrow> 'o \<times> 'w host \<Rightarrow> bool"
  assumes preorder: "preorder_on_states R"
    and host: "\<And>ob h c. R (ob, h) (ob, h\<lparr>h_conn := c\<rparr>)" "\<And>ob h m. R (ob, h) (ob, h\<lparr>h_err := m\<rparr>)"
    and methods: "\<And>b. keeps R (OnStdout CB b)" "\<And>b. keeps R (OnStderr CB b)"
      "\<And>n. keeps R (cb_Done CB n)"
begin

lemma conn_keeps: "keeps R (hostp (connp m))"
  using host(1) by (auto simp: keeps_def hostp_def connp_def split: prod.splits)

lemma seq_keeps:
  "keeps R (ret a)" "keeps R nofuel"
  "keeps R m \<Longrightarrow> (\<And>a. keeps R (f a)) \<Longrightarrow> keeps R (bindp m f)"
  "keeps R m \<Longrightarrow> keeps R n \<Longrightarrow> keeps R (thenp m n)"
  using preorder by (auto intro: keeps_intros)

lemmas keeps_rules = seq_keeps conn_keeps methods keeps_if keeps_case_option keeps_case_sum
  keeps_case_prod

lemma read_packets_keeps: "keeps R (read_packets E fuel CB sock code)"
proof (induction fuel arbitrary: code)
  case (Suc fuel)
  then show ?case unfolding read_packets.simps by (intro keeps_rules)
qed (simp add: keeps_rules)

lemma read_raw_keeps: "keeps R (read_raw E fuel CB sock)"
proof (induction fuel)
  case (Suc fuel)
  then show ?case unfolding read_raw.simps by (intro keeps_rules)
qed (simp add: keeps_rules)

lemma read_and_dump_keeps: "keeps R (read_and_dump E fuel CB sock b)"
  unfolding read_and_dump_def read_and_dump_protocol_def
  by (intro keeps_rules read_packets_keeps read_raw_keeps)

lemma trans: "R s t \<Longrightarrow> R t u \<Longrightarrow> R s u"
  using preorder unfolding preorder_on_states_def by blast

lemma without_capture_keeps:
  assumes "keeps R m"
  shows "keeps R (without_capture m)"
  unfolding keeps_def
proof
  fix s :: "'o \<times> 'w host"
  obtain ob h where s: "s = (ob, h)" by (cases s)
  let ?t = "(ob, h\<lparr>h_conn := h_conn h\<lparr>out_capture := None\<rparr>\<rparr>)"
  obtain r ob' h' where m: "m ?t = (r, (ob', h'))" by (cases "m ?t") auto
  have "R s ?t" "R ?t (ob', h')" unfolding s using host(1) keepsD [OF assms m] by auto
  moreover have "R (ob', h') (ob', h'\<lparr>h_conn := h_conn h'\<lparr>out_capture := out_capture (h_conn h)\<rparr>\<rparr>)"
    by (rule host(1))
  ultimately show "R s (snd (without_capture m s))"
    using m trans by (simp add: without_capture_def s Let_def)
qed

lemma shell_connect_keeps: "keeps R (hostp (shell_connect E fuel command disable use_shell))"
proof -
  have "R (ob, h) (ob, snd (shell_connect E fuel command disable use_shell h))" for ob h
  proof -
    define Q where "Q = (\<lambda>h h'. R (ob, h) (ob, h'))"
    have Q: "preorder_on_states Q"
      using preorder unfolding Q_def preorder_on_states_def by blast
    have conn: "keeps Q (connp m)" for m :: "('w, 'c) cprog"
      using host(1) by (auto simp: Q_def keeps_def connp_def split: prod.splits)
    have err: "keeps Q (print_err m)" for m
      using host(2) by (simp add: Q_def keeps_def print_err_def modp_def)
    have "keeps Q (shell_connect E fuel command disable use_shell)"
    proof (induction fuel arbitrary: use_shell)
      case 0
      then show ?case by (simp add: keeps_pure Q)
    next
      case (Suc fuel)
      then show ?case unfolding shell_connect.simps
        by (intro keeps_intros Q conn err)
    qed
    then show ?thesis by (simp add: Q_def keeps_def)
  qed
  then show ?thesis by (auto simp: keeps_def hostp_def split: prod.splits) (metis snd_conv)
qed

lemma send_shell_command_keeps: "keeps R (send_shell_command E fuel command disable CB)"
  unfolding send_shell_command_def
  by (intro keeps_rules shell_connect_keeps without_capture_keeps read_and_dump_keeps)

end

end
