(* ===== verification/Bugreport.thy ===== *)
theory Bugreport
  imports Shell
begin

text \<open>
  \<^verbatim>\<open>adb bugreport\<close> (\<^verbatim>\<open>client/bugreport.cpp\<close>). \<open>bugz_cb\<close> is \<^verbatim>\<open>BugreportStandardStreamsCallback\<close>: it
  reads the line protocol of \<^verbatim>\<open>bugreportz\<close> from the command's output and pulls the report at the
  end. Lines shown by the line printer of \<^verbatim>\<open>Bugreport\<close> are \<open>h_printer\<close>. An exception nobody
  catches and a division by zero are aborts. 32-bit signed arithmetic wraps.
\<close>

definition BUGZ_BEGIN_PREFIX :: string where "BUGZ_BEGIN_PREFIX = ''BEGIN:''"
definition BUGZ_PROGRESS_PREFIX :: string where "BUGZ_PROGRESS_PREFIX = ''PROGRESS:''"
definition BUGZ_PROGRESS_SEPARATOR :: string where "BUGZ_PROGRESS_SEPARATOR = ''/''"
definition BUGZ_OK_PREFIX :: string where "BUGZ_OK_PREFIX = ''OK:''"
definition BUGZ_FAIL_PREFIX :: string where "BUGZ_FAIL_PREFIX = ''FAIL:''"

lemmas bugz_prefix_defs = BUGZ_BEGIN_PREFIX_def BUGZ_PROGRESS_PREFIX_def
  BUGZ_PROGRESS_SEPARATOR_def BUGZ_OK_PREFIX_def BUGZ_FAIL_PREFIX_def

record 'w bug_env =
  bug_shell :: "'w shell_env"
  os_getcwd :: "'w \<Rightarrow> (errno + string) \<times> 'w"
  os_directory_exists :: "string \<Rightarrow> 'w \<Rightarrow> bool \<times> 'w"

abbreviation bug_sync :: "('w, 'x) bug_env_scheme \<Rightarrow> 'w sync_env" where
  "bug_sync B \<equiv> sh_base (bug_shell B)"

record bugz_cb =
  bz_src_file :: string
  bz_dest_dir :: string
  bz_dest_file :: string
  bz_line_message :: string
  bz_invalid_lines :: "string list"
  bz_show_progress :: bool
  bz_status :: int
  bz_line :: string
  bz_last_progress :: int

type_synonym ('w, 'a) bzprog = "(bugz_cb, 'w, 'a) oprog"

definition modo :: "('o \<Rightarrow> 'o) \<Rightarrow> ('o, 'w, unit) oprog" where
  "modo f = modp (\<lambda>s. (f (fst s), snd s))"

section \<open>Numbers in text\<close>

text \<open>What \<^verbatim>\<open>strtol\<close> and \<^verbatim>\<open>%d\<close> read: blanks, a sign, digits; the value and the rest.\<close>

definition scan_int :: "string \<Rightarrow> (int \<times> string) option" where
  "scan_int s =
     (let t = dropWhile is_space s;
          neg = (t \<noteq> [] \<and> hd t = CHR ''-'');
          u = (if t \<noteq> [] \<and> (hd t = CHR ''-'' \<or> hd t = CHR ''+'') then tl t else t);
          ds = takeWhile is_digit u
      in if ds = [] then None
         else Some (if neg then - int (dec_value ds) else int (dec_value ds), dropWhile is_digit u))"

definition stoi :: "string \<Rightarrow> int option" where
  "stoi s = (case scan_int s of
       None \<Rightarrow> None
     | Some (v, _) \<Rightarrow> if - (2 ^ 31) \<le> v \<and> v < 2 ^ 31 then Some v else None)"

definition to_int :: "int \<Rightarrow> int" where
  "to_int v = signed_take_bit 31 v"

text \<open>C++ division rounds towards zero.\<close>

definition cdiv :: "int \<Rightarrow> int \<Rightarrow> int" where
  "cdiv a b = to_int (sgn a * sgn b * (\<bar>a\<bar> div \<bar>b\<bar>))"

text \<open>The position after the last occurrence of \<open>p\<close>, as \<^verbatim>\<open>rfind\<close> finds it.\<close>

fun rfind :: "string \<Rightarrow> string \<Rightarrow> nat option" where
  "rfind p [] = (if p = [] then Some 0 else None)"
| "rfind p (c # s) = (case rfind p s of
       Some i \<Rightarrow> Some (Suc i)
     | None \<Rightarrow> if prefix p (c # s) then Some 0 else None)"

text \<open>\<^verbatim>\<open>substr(idx1, idx2 - idx1)\<close>: the difference wraps to a huge count when the separator is
  missing (\<^verbatim>\<open>npos\<close>) or comes first; then \<^verbatim>\<open>idx2 + 1\<close> is past the separator, or 0 for \<^verbatim>\<open>npos\<close>.\<close>

definition progress_text :: "string \<Rightarrow> string" where
  "progress_text line =
     (let idx1 = (case rfind BUGZ_PROGRESS_PREFIX line of None \<Rightarrow> 0 | Some i \<Rightarrow> i)
                   + length BUGZ_PROGRESS_PREFIX;
          rest = drop idx1 line
      in case rfind BUGZ_PROGRESS_SEPARATOR line of
           None \<Rightarrow> rest
         | Some idx2 \<Rightarrow> if idx2 < idx1 then rest else take (idx2 - idx1) rest)"

definition total_text :: "string \<Rightarrow> string" where
  "total_text line = (case rfind BUGZ_PROGRESS_SEPARATOR line of
       None \<Rightarrow> line
     | Some idx2 \<Rightarrow> drop (idx2 + 1) line)"

section \<open>The callback\<close>

definition progress_message :: "string \<Rightarrow> int \<Rightarrow> string" where
  "progress_message msg p = ''['' @ pad_left 3 CHR '' '' (show_int p) @ ''%] '' @ c_str msg"

definition UpdateProgress :: "string \<Rightarrow> int \<Rightarrow> ('w, unit) hprog" where
  "UpdateProgress msg p = modp (\<lambda>h. h\<lparr>h_printer := h_printer h @ [progress_message msg p]\<rparr>)"

definition SetLineMessage :: "('w, 'x) bug_env_scheme \<Rightarrow> string \<Rightarrow> bugz_cb \<Rightarrow> bugz_cb" where
  "SetLineMessage B action b =
     b\<lparr>bz_line_message := action @ '' '' @ Basename (bug_sync B) (bz_dest_file b)\<rparr>"

definition SetSrcFile :: "('w, 'x) bug_env_scheme \<Rightarrow> string \<Rightarrow> bugz_cb \<Rightarrow> bugz_cb" where
  "SetSrcFile B path b =
     (if bz_dest_dir b = [] then b\<lparr>bz_src_file := path\<rparr>
      else SetLineMessage B ''generating''
             (b\<lparr>bz_src_file := path, bz_dest_file := Basename (bug_sync B) path\<rparr>))"

definition bugz_ctor ::
    "('w, 'x) bug_env_scheme \<Rightarrow> string \<Rightarrow> string \<Rightarrow> bool \<Rightarrow> bugz_cb" where
  "bugz_ctor B dest_dir dest_file show_progress =
     SetLineMessage B ''generating''
       \<lparr>bz_src_file = [], bz_dest_dir = dest_dir, bz_dest_file = dest_file, bz_line_message = [],
        bz_invalid_lines = [], bz_show_progress = show_progress, bz_status = 0, bz_line = [],
        bz_last_progress = 0\<rparr>"

definition process_progress :: "string \<Rightarrow> ('w, unit) bzprog" where
  "process_progress line = (case stoi (progress_text line) of
       None \<Rightarrow> abortp ''std::stoi''
     | Some progress \<Rightarrow> (case stoi (total_text line) of
           None \<Rightarrow> abortp ''std::stoi''
         | Some tot \<Rightarrow>
             if tot = 0 then abortp ''division by zero''
             else let pct = cdiv (to_int (progress * 100)) tot
                  in bindp (getp fst) (\<lambda>b.
                       if pct \<noteq> 0 \<and> pct \<le> bz_last_progress b then ret ()
                       else thenp (modo (\<lambda>b. b\<lparr>bz_last_progress := pct\<rparr>))
                              (hostp (UpdateProgress (bz_line_message b) pct)))))"

definition ProcessLine :: "('w, 'x) bug_env_scheme \<Rightarrow> string \<Rightarrow> ('w, unit) bzprog" where
  "ProcessLine B line =
     (let starts = StartsWith (bug_sync B) line
      in if line = [] then ret ()
         else if starts BUGZ_BEGIN_PREFIX then
           modo (SetSrcFile B (c_str (drop (length BUGZ_BEGIN_PREFIX) line)))
         else if starts BUGZ_OK_PREFIX then
           modo (SetSrcFile B (c_str (drop (length BUGZ_OK_PREFIX) line)))
         else if starts BUGZ_FAIL_PREFIX then
           thenp (hostp (print_err (''adb: device failed to take a zipped bugreport: ''
                    @ c_str (drop (length BUGZ_FAIL_PREFIX) line) @ newline)))
             (modo (\<lambda>b. b\<lparr>bz_status := -1\<rparr>))
         else bindp (getp fst) (\<lambda>b.
           if bz_show_progress b \<and> starts BUGZ_PROGRESS_PREFIX then process_progress line
           else modo (\<lambda>b. b\<lparr>bz_invalid_lines := bz_invalid_lines b @ [line]\<rparr>)))"

definition bugz_char :: "('w, 'x) bug_env_scheme \<Rightarrow> char \<Rightarrow> unit \<Rightarrow> ('w, unit) bzprog" where
  "bugz_char B c _ =
     (if c = CHR 0x0A then
        thenp (bindp (getp fst) (\<lambda>b. ProcessLine B (bz_line b))) (modo (\<lambda>b. b\<lparr>bz_line := []\<rparr>))
      else modo (\<lambda>b. b\<lparr>bz_line := bz_line b @ [c]\<rparr>))"

definition bugz_OnStdout :: "('w, 'x) bug_env_scheme \<Rightarrow> string \<Rightarrow> ('w, bool) bzprog" where
  "bugz_OnStdout B buffer = thenp (fold_prog (bugz_char B) buffer ()) (ret True)"

definition bugz_OnStderr :: "('w, 'x) bug_env_scheme \<Rightarrow> string \<Rightarrow> ('w, bool) bzprog" where
  "bugz_OnStderr B buffer =
     hostp (bindp (OnStream (bug_shell B) None True buffer False) (\<lambda>(ok, _). ret ok))"

definition invalid_warning :: "string list \<Rightarrow> string" where
  "invalid_warning ls = (if ls = [] then [] else
     ''WARNING: bugreportz generated '' @ show_nat (length ls) @ '' line(s) with unknown commands, ''
     @ ''device might not support zipped bugreports:'' @ newline
     @ concat (map (\<lambda>l. CHR 0x09 # c_str l @ newline) ls)
     @ ''If the zipped bugreport was not generated, try '' @ quoted ''adb bugreport'' @ '' instead.''
     @ newline)"

definition bugz_destination :: "bugz_cb \<Rightarrow> string" where
  "bugz_destination b =
     (if bz_dest_dir b = [] then bz_dest_file b
      else c_str (bz_dest_dir b) @ ''/'' @ c_str (bz_dest_file b))"

text \<open>\<^verbatim>\<open>do_sync_pull\<close> of the file-sync client, with null capture pointers, no compression, not quiet.\<close>

definition DoSyncPull ::
    "('w, 'x) bug_env_scheme \<Rightarrow> string list \<Rightarrow> string \<Rightarrow> bool \<Rightarrow> string \<Rightarrow> ('o, 'w, bool) oprog" where
  "DoSyncPull B srcs dst copy_attrs name = without_capture
     (hostp (connp (do_sync_pull (bug_sync B) srcs dst copy_attrs CompNone (Some name) False)))"

definition bugz_pull :: "('w, 'x) bug_env_scheme \<Rightarrow> ('w, int) bzprog" where
  "bugz_pull B =
     thenp (modo (SetLineMessage B ''pulling''))
     (bindp (getp fst) (\<lambda>b.
        bindp (DoSyncPull B [c_str (bz_src_file b)] (c_str (bugz_destination b)) False
                 (c_str (bz_line_message b))) (\<lambda>ok.
          thenp (modo (\<lambda>b. b\<lparr>bz_status := (if ok then 0 else 1)\<rparr>))
          (thenp (hostp (if ok
              then print_out (''Bug report copied to '' @ c_str (bugz_destination b) @ newline)
              else print_err (''Bug report finished but could not be copied to ''
                     @ quoted (c_str (bugz_destination b)) @ ''.'' @ newline
                     @ ''Try to run '' @ quoted (''adb pull '' @ c_str (bz_src_file b) @ '' <directory>'')
                     @ newline @ ''to copy it to a directory that can be written.'' @ newline)))
            (ret (if ok then 0 else 1))))))"

definition bugz_Done :: "('w, 'x) bug_env_scheme \<Rightarrow> int \<Rightarrow> ('w, int) bzprog" where
  "bugz_Done B unused =
     thenp (bindp (getp fst) (\<lambda>b. ProcessLine B (bz_line b)))
     (bindp (getp fst) (\<lambda>b.
        thenp (if bz_invalid_lines b = [] then ret ()
               else hostp (print_err (invalid_warning (bz_invalid_lines b))))
        (if bz_status b \<noteq> 0 then ret (bz_status b)
         else if bz_src_file b = [] then
           thenp (hostp (print_err (''bugreportz did not return a '' @ quoted BUGZ_OK_PREFIX
                    @ '' or '' @ quoted BUGZ_FAIL_PREFIX @ '' line'' @ newline))) (ret (-1))
         else bugz_pull B)))"

definition BugreportStandardStreamsCallback ::
    "('w, 'x) bug_env_scheme \<Rightarrow> (bugz_cb, 'w) streams_cb" where
  "BugreportStandardStreamsCallback B =
     \<lparr>OnStdout = bugz_OnStdout B, OnStderr = bugz_OnStderr B, cb_Done = bugz_Done B\<rparr>"

section \<open>The command\<close>

definition bug_SendShellCommand ::
    "('w, 'x) bug_env_scheme \<Rightarrow> nat \<Rightarrow> string \<Rightarrow> ('o, 'w) streams_cb \<Rightarrow> 'o \<Rightarrow> ('w, int \<times> 'o) hprog" where
  "bug_SendShellCommand B fuel command CB ob =
     with_object ob (send_shell_command (bug_shell B) fuel command False CB)"

definition shell_to_stdout :: "('w, 'x) bug_env_scheme \<Rightarrow> nat \<Rightarrow> string \<Rightarrow> ('w, int) hprog" where
  "shell_to_stdout B fuel command =
     bindp (bug_SendShellCommand B fuel command (DefaultStandardStreamsCallback (bug_shell B))
              (default_streams (bug_shell B))) (\<lambda>(status, _). ret status)"

text \<open>\<^verbatim>\<open>sscanf(version, "%d.%d", &major, &minor)\<close> with both numbers 0 before.\<close>

definition scan_version :: "string \<Rightarrow> int \<times> int" where
  "scan_version v = (case scan_int (c_str v) of
       None \<Rightarrow> (0, 0)
     | Some (major, rest) \<Rightarrow> (to_int major,
         if rest \<noteq> [] \<and> hd rest = CHR ''.''
         then (case scan_int (tl rest) of None \<Rightarrow> 0 | Some (minor, _) \<Rightarrow> to_int minor)
         else 0))"

definition bugreport_dest_file :: "('w, 'x) bug_env_scheme \<Rightarrow> string \<Rightarrow> string" where
  "bugreport_dest_file B dest_file =
     (if dest_file = [] then ''bugreport.zip''
      else if EndsWithIgnoreCase (bug_sync B) dest_file ''.zip'' then dest_file
      else dest_file @ ''.zip'')"

definition bugreport_run ::
    "('w, 'x) bug_env_scheme \<Rightarrow> nat \<Rightarrow> string \<Rightarrow> string \<Rightarrow> string \<Rightarrow> ('w, int) hprog" where
  "bugreport_run B fuel version dest_dir dest_file =
     (let old = (version = ''1.0'')
      in thenp (if old then print_err
               (''Bugreport is in progress and it could take minutes to complete.'' @ newline
                @ ''Please be patient and do not cancel or disconnect your device ''
                @ ''until it completes.'' @ newline) else ret ())
           (bindp (bug_SendShellCommand B fuel (if old then ''bugreportz'' else ''bugreportz -p'')
                (BugreportStandardStreamsCallback B)
                (bugz_ctor B dest_dir (bugreport_dest_file B dest_file) (\<not> old)))
              (\<lambda>(status, _). ret status)))"

definition bugreport_dest ::
    "('w, 'x) bug_env_scheme \<Rightarrow> nat \<Rightarrow> string \<Rightarrow> string \<Rightarrow> ('w, int) hprog" where
  "bugreport_dest B fuel version arg =
     (if arg = ''--stream'' then
        (case scan_version version of (major, minor) \<Rightarrow>
           if major = 1 \<and> minor < 2 then
             thenp (print_err (''Failed to stream bugreport: bugreportz does not support stream.''
                      @ newline)) (bugreport_run B fuel version [] [])
           else shell_to_stdout B fuel ''bugreportz -s'')
      else bindp (connp (osop (os_directory_exists B arg))) (\<lambda>is_dir.
        if is_dir then bugreport_run B fuel version arg []
        else bugreport_run B fuel version [] arg))"

definition DoIt :: "('w, 'x) bug_env_scheme \<Rightarrow> nat \<Rightarrow> string list \<Rightarrow> ('w, int) hprog" where
  "DoIt B fuel argv =
     (if 2 < length argv then
        error_exit (bug_shell B) ''usage: adb bugreport [[PATH] | [--stream]]''
      else bindp (bug_SendShellCommand B fuel ''bugreportz -v''
             (DefaultStandardStreamsCallback (bug_shell B))
             \<lparr>stdout_str = Some [], stderr_str = Some [], returnErrors = False\<rparr>) (\<lambda>(status, cb).
        let version = Trim (bug_sync B) (the (stderr_str cb));
            output = Trim (bug_sync B) (the (stdout_str cb))
        in if status \<noteq> 0 \<or> version = [] then
             (if length argv = 1 then
                thenp (print_err (''Failed to get bugreportz version, which is only available on devices ''
                   @ ''running Android 7.0 or later.'' @ newline
                   @ ''Trying a plain-text bug report instead.'' @ newline))
                  (shell_to_stdout B fuel ''bugreport'')
              else thenp (print_err (''Failed to get bugreportz version: '' @ quoted ''bugreportz -v'' @ '' returned ''
                   @ quoted (c_str output) @ '' (code '' @ show_int status @ '').'' @ newline
                   @ ''If the device does not run Android 7.0 or above, try this instead:'' @ newline
                   @ CHR 0x09 # ''adb bugreport > bugreport.txt'' @ newline))
                 (ret (if status \<noteq> 0 then status else -1)))
           else case argv of
               [_] \<Rightarrow> bindp (connp (syscall (os_getcwd B))) (\<lambda>r. case r of
                   None \<Rightarrow> bindp (connp (strerror_now (bug_sync B))) (\<lambda>m.
                     thenp (print_err (''adb: getcwd failed: '' @ m @ newline)) (ret 1))
                 | Some dir \<Rightarrow> bugreport_run B fuel version dir [])
             | [_, arg] \<Rightarrow> bugreport_dest B fuel version arg
             | _ \<Rightarrow> abortp ''argv[1]''))"

end
