(* ===== verification/ShellProperties.thy ===== *)
theory ShellProperties
  imports Bugreport SyncRef
begin

text \<open>What running a shell command yields, and the properties of \<^verbatim>\<open>adb bugreport\<close>.\<close>

section \<open>A command's output\<close>

text \<open>A peer that has the packets \<open>pending w\<close> left to send.\<close>

definition packets_doc :: "('w, 'x) shell_env_scheme \<Rightarrow> int \<Rightarrow> ('w \<Rightarrow> shell_packet list) \<Rightarrow> bool" where
  "packets_doc E sock pending \<longleftrightarrow> (\<forall>w. case pending w of
       [] \<Rightarrow> fst (sh_read_packet E sock w) = None
     | p # ps \<Rightarrow> fst (sh_read_packet E sock w) = Some p \<and> pending (snd (sh_read_packet E sock w)) = ps)"

definition stream_of :: "u8 \<Rightarrow> shell_packet list \<Rightarrow> string" where
  "stream_of i ps = concat (map pk_data (filter (\<lambda>p. pk_id p = i) ps))"

definition shown_of :: "('w, 'x) shell_env_scheme \<Rightarrow> shell_packet list \<Rightarrow> string" where
  "shown_of E ps = concat (map (\<lambda>p. c_str (pk_data p))
     (filter (\<lambda>p. pk_id p = kIdStdout E \<or> pk_id p = kIdStderr E) ps))"

definition exit_of :: "('w, 'x) shell_env_scheme \<Rightarrow> int \<Rightarrow> shell_packet list \<Rightarrow> int" where
  "exit_of E = foldl (\<lambda>c p. if pk_id p = kIdExit E then exit_byte p else c)"

lemma stream_of_simps [simp]:
  "stream_of i [] = []"
  "stream_of i (p # ps) = (if pk_id p = i then pk_data p @ stream_of i ps else stream_of i ps)"
  by (simp_all add: stream_of_def)

lemma shown_of_simps [simp]:
  "shown_of E [] = []"
  "shown_of E (p # ps) = (if pk_id p = kIdStdout E \<or> pk_id p = kIdStderr E
     then c_str (pk_data p) @ shown_of E ps else shown_of E ps)"
  by (simp_all add: shown_of_def)

lemma exit_of_simps [simp]:
  "exit_of E c [] = c"
  "exit_of E c (p # ps) = exit_of E (if pk_id p = kIdExit E then exit_byte p else c) ps"
  by (simp_all add: exit_of_def)

definition into :: "string \<Rightarrow> string \<Rightarrow> default_cb" where
  "into out err = \<lparr>stdout_str = Some out, stderr_str = Some err, returnErrors = False\<rparr>"

lemma default_into:
  "OnStdout (DefaultStandardStreamsCallback E) buf (into a b, h) = (Ok True, (into (a @ buf) b, h))"
  "OnStderr (DefaultStandardStreamsCallback E) buf (into a b, h) = (Ok True, (into a (b @ buf), h))"
  by (simp_all add: DefaultStandardStreamsCallback_def default_OnStdout_def default_OnStderr_def
      OnStream_def into_def bindp_def thenp_def hostp_def modp_def ret_def getp_def)

definition captures :: "'w host \<Rightarrow> string \<Rightarrow> bool" where
  "captures h t \<longleftrightarrow> (\<exists>b. out_capture (h_conn h) = Some b \<and> capture_wf b \<and> captured b = t)"

lemma capture_step:
  assumes "captures h t" "\<forall>n. realloc_ok (env_heap E) n"
  shows "\<exists>h'. hostp (connp (capture E m)) (ob, h) = (Ok (), (ob, h')) \<and> captures h' (t @ m)
     \<and> world (h_conn h') = world (h_conn h)"
proof -
  obtain b where b: "out_capture (h_conn h) = Some b" "capture_wf b" "captured b = t"
    using assms(1) by (auto simp: captures_def)
  obtain b' where "capture_printf (env_heap E) (Some b) (Some m) = (int (length m), Some b')"
    "capture_wf b'" "captured b' = captured b @ m"
    using capture_printf_append [OF b(2)] assms(2) by blast
  with b show ?thesis
    by (simp add: hostp_def connp_def capture_def modp_def captures_def)
qed

lemma read_packets_runs:
  assumes "packets_doc E sock pending" "\<forall>n. realloc_ok (env_heap (sh_base E)) n"
    and "pending (world (h_conn h)) = ps" "length ps < fuel" "captures h t"
    and "kIdStdout E \<noteq> kIdStderr E" "kIdStdout E \<noteq> kIdExit E" "kIdStderr E \<noteq> kIdExit E"
  shows "runs (read_packets E fuel (DefaultStandardStreamsCallback E) sock code) (into a b, h)
     (\<lambda>r (ob, h'). r = exit_of E code ps \<and> ob = into (a @ stream_of (kIdStdout E) ps)
        (b @ stream_of (kIdStderr E) ps) \<and> captures h' (t @ shown_of E ps))"
  using assms(3-5)
proof (induction ps arbitrary: fuel h t a b code)
  case Nil
  then obtain n where n: "fuel = Suc n" by (cases fuel) auto
  have "fst (sh_read_packet E sock (world (h_conn h))) = None"
    using assms(1) Nil(1) by (auto simp: packets_doc_def dest: spec [of _ "world (h_conn h)"])
  then obtain w where w: "sh_read_packet E sock (world (h_conn h)) = (None, w)"
    by (cases "sh_read_packet E sock (world (h_conn h))") auto
  have read: "hostp (connp (osop (sh_read_packet E sock))) (into a b, h)
      = (Ok None, (into a b, h\<lparr>h_conn := h_conn h\<lparr>world := w\<rparr>\<rparr>))"
    by (simp add: hostp_def connp_def osop_def w)
  have "read_packets E fuel (DefaultStandardStreamsCallback E) sock code (into a b, h)
      = ret code (into a b, h\<lparr>h_conn := h_conn h\<lparr>world := w\<rparr>\<rparr>)"
    unfolding n read_packets.simps by (subst bindp_Ok, rule read) simp
  moreover have "captures (h\<lparr>h_conn := h_conn h\<lparr>world := w\<rparr>\<rparr>) t"
    using Nil(3) unfolding captures_def by simp
  ultimately show ?case by (simp add: runs_def)
next
  case (Cons p ps)
  then obtain n where n: "fuel = Suc n" "length ps < n" by (cases fuel) auto
  have "fst (sh_read_packet E sock (world (h_conn h))) = Some p \<and>
      pending (snd (sh_read_packet E sock (world (h_conn h)))) = ps"
    using assms(1) Cons.prems(1) by (auto simp: packets_doc_def dest: spec [of _ "world (h_conn h)"])
  then obtain w where w: "sh_read_packet E sock (world (h_conn h)) = (Some p, w)" "pending w = ps"
    by (cases "sh_read_packet E sock (world (h_conn h))") auto
  let ?h = "h\<lparr>h_conn := h_conn h\<lparr>world := w\<rparr>\<rparr>"
  have read: "hostp (connp (osop (sh_read_packet E sock))) (into a b, h) = (Ok (Some p), (into a b, ?h))"
    by (simp add: hostp_def connp_def osop_def w)
  have cap: "captures ?h t" using Cons.prems(3) by (simp add: captures_def)
  obtain h' where h': "hostp (connp (capture (sh_base E) (c_str (pk_data p)))) (into a b, ?h)
      = (Ok (), (into a b, h'))" "captures h' (t @ c_str (pk_data p))" "pending (world (h_conn h')) = ps"
    using capture_step [OF cap assms(2)] w(2) by fastforce
  note step = read h'(1) default_into bindp_Ok thenp_Ok
  have w': "pending (world (h_conn ?h)) = ps" using w(2) by simp
  consider "pk_id p = kIdStdout E" | "pk_id p = kIdStderr E" | "pk_id p = kIdExit E"
    | "pk_id p \<noteq> kIdStdout E" "pk_id p \<noteq> kIdStderr E" "pk_id p \<noteq> kIdExit E" by blast
  then show ?case
  proof cases
    case 1
    then show ?thesis
      using Cons.IH [OF h'(3) n(2) h'(2), of code "a @ pk_data p" b] assms(6,7)
      by (simp add: n(1) runs_def step)
  next
    case 2
    then show ?thesis
      using Cons.IH [OF h'(3) n(2) h'(2), of code a "b @ pk_data p"] assms(6,8)
      by (simp add: n(1) runs_def step)
  next
    case 3
    then show ?thesis
      using Cons.IH [OF w' n(2) cap, of "exit_byte p" a b] assms(7,8)
      by (simp add: n(1) runs_def step)
  next
    case 4
    then show ?thesis
      using Cons.IH [OF w' n(2) cap, of code a b] by (simp add: n(1) runs_def step)
  qed
qed

text \<open>C26: what a shell command prints. The two strings receive every byte of their stream, the
  captured output grows by both streams in order of arrival (each packet up to its first NUL), and
  the status is that of the last exit packet, 255 without one.\<close>

theorem shell_output_collected:
  assumes "packets_doc E sock pending" "\<forall>n. realloc_ok (env_heap (sh_base E)) n" "0 \<le> sock"
    and "pending (world (h_conn h)) = ps" "length ps < fuel" "captures h t"
    and "kIdStdout E \<noteq> kIdStderr E" "kIdStdout E \<noteq> kIdExit E" "kIdStderr E \<noteq> kIdExit E"
  shows "\<exists>h'. read_and_dump E fuel (DefaultStandardStreamsCallback E) sock True (into [] [], h)
     = (Ok (exit_of E 255 ps),
        (into (stream_of (kIdStdout E) ps) (stream_of (kIdStderr E) ps), h')) \<and>
     captures h' (t @ shown_of E ps)"
proof -
  obtain h' where "read_packets E fuel (DefaultStandardStreamsCallback E) sock 255 (into [] [], h)
     = (Ok (exit_of E 255 ps),
        (into (stream_of (kIdStdout E) ps) (stream_of (kIdStderr E) ps), h'))"
    "captures h' (t @ shown_of E ps)"
    using read_packets_runs [OF assms(1,2,4-9), of 255 "[]" "[]"] by (auto simp: runs_def)
  then show ?thesis
    using assms(3)
    by (simp add: read_and_dump_def read_and_dump_protocol_def bindp_Ok
        DefaultStandardStreamsCallback_def ret_def)
qed

definition packet_ref :: "string \<Rightarrow> shell_packet" where
  "packet_ref c = \<lparr>pk_id = of_char (hd c), pk_buffer = tl c, pk_length = length (tl c)\<rparr>"

definition shell_env_ref :: "nat \<Rightarrow> rworld shell_env" where
  "shell_env_ref fuel = \<lparr>sh_base = sync_env_ref fuel [kFeatureShell2], kIdStdout = 1, kIdStderr = 2,
     kIdExit = 3, executable_path = ''/bin/adb'', shell_BUFSIZ = 8192, shell_SIGPIPE = 13,
     kShellServiceArgShellProtocol = ''v2'', sh_return_errors = False,
     sh_read_packet = \<lambda>_ w. (case rcommands w of [] \<Rightarrow> (None, w)
       | c # cs \<Rightarrow> (Some (packet_ref c), w\<lparr>rcommands := cs\<rparr>)),
     sh_adb_read = \<lambda>_ _ w. (None, w), sh_fwrite = \<lambda>_ s w. (length s, w),
     sh_wait_for_device = \<lambda>_ w. (True, w)\<rparr>"

lemma packets_doc_ref: "packets_doc (shell_env_ref fuel) sock (\<lambda>w. map packet_ref (rcommands w))"
  by (simp add: packets_doc_def shell_env_ref_def split: list.split)

definition host_ref :: "string list \<Rightarrow> rworld host" where
  "host_ref packets = \<lparr>h_conn = (ready_conn True (rworld0\<lparr>rcommands := packets\<rparr>))
       \<lparr>out_capture := Some \<lparr>output_buffer = None, output_size = 0\<rparr>\<rparr>,
     h_out = [], h_err = [], h_printer = []\<rparr>"

theorem shell_output_collected_witness:
  "\<exists>h'. read_and_dump (shell_env_ref 9) 5 (DefaultStandardStreamsCallback (shell_env_ref 9)) 3 True
       (into [] [], host_ref [[CHR 0x01, CHR ''a'', CHR 0x00, CHR ''b''], [CHR 0x02, CHR ''c''],
          [CHR 0x03, CHR 0x07]])
     = (Ok 7, (into [CHR ''a'', CHR 0x00, CHR ''b''] ''c'', h')) \<and> captures h' ''ac''"
proof -
  let ?ps = "[[CHR 0x01, CHR ''a'', CHR 0x00, CHR ''b''], [CHR 0x02, CHR ''c''], [CHR 0x03, CHR 0x07]]"
  have cap: "captures (host_ref ?ps) []"
    by (simp add: captures_def host_ref_def capture_wf_def captured_def)
  have pend: "(\<lambda>w. map packet_ref (rcommands w)) (world (h_conn (host_ref ?ps))) = map packet_ref ?ps"
    by (simp add: host_ref_def ready_conn_def)
  show ?thesis
    using shell_output_collected [OF packets_doc_ref _ _ pend _ cap, of 9 3 5]
    by (simp add: shell_env_ref_def packet_ref_def pk_data_def exit_byte_def c_str_def)
qed

end
