(* ===== verification/BugreportProperties.thy ===== *)
theory BugreportProperties
  imports ShellProperties SyncPaths
begin

text \<open>
  What holds of a bug report whatever the device prints: an interface for relations that the
  callback's steps keep, its instances for the destination and for the progress shown, and the
  properties of the line protocol.
\<close>

locale bugz_relation =
  fixes B :: "'w bug_env" and R :: "bugz_cb \<times> 'w host \<Rightarrow> bugz_cb \<times> 'w host \<Rightarrow> bool"
  assumes pre: "preorder_on_states R"
    and world: "\<And>b h c. R (b, h) (b, h\<lparr>h_conn := c\<rparr>)" "\<And>b h m. R (b, h) (b, h\<lparr>h_err := m\<rparr>)"
      "\<And>b h m. R (b, h) (b, h\<lparr>h_out := m\<rparr>)"
    and source: "\<And>b h p. R (b, h) (SetSrcFile B p b, h)"
    and message: "\<And>b h a. R (b, h) (SetLineMessage B a b, h)"
    and fields: "\<And>b h n. R (b, h) (b\<lparr>bz_status := n\<rparr>, h)"
      "\<And>b h ls. R (b, h) (b\<lparr>bz_invalid_lines := ls\<rparr>, h)" "\<And>b h l. R (b, h) (b\<lparr>bz_line := l\<rparr>, h)"
    and progress: "\<And>b h p. R (b, h) (b\<lparr>bz_last_progress := p\<rparr>,
        h\<lparr>h_printer := h_printer h @ [progress_message (bz_line_message b) p]\<rparr>)
      \<or> (p \<noteq> 0 \<and> p \<le> bz_last_progress b)"
begin

lemma R_refl: "R s s" and R_trans: "R s t \<Longrightarrow> R t u \<Longrightarrow> R s u"
  using pre unfolding preorder_on_states_def by blast+

lemma object_keeps:
  "keeps R (modo (SetSrcFile B p))" "keeps R (modo (SetLineMessage B a))"
  "keeps R (modo (\<lambda>b. b\<lparr>bz_status := n\<rparr>))" "keeps R (modo (\<lambda>b. b\<lparr>bz_line := l\<rparr>))"
  "keeps R (modo (\<lambda>b. b\<lparr>bz_invalid_lines := bz_invalid_lines b @ [l]\<rparr>))"
  "keeps R (modo (\<lambda>b. b\<lparr>bz_line := bz_line b @ [c]\<rparr>))"
  using source message fields by (auto simp: keeps_def modo_def modp_def)

lemma host_keeps:
  "keeps R (hostp (print_err m))" "keeps R (hostp (connp k))"
  "keeps R (hostp (if ok then print_out m else print_err m'))"
  using world by (auto simp: keeps_def hostp_def print_err_def print_out_def connp_def modp_def
      split: prod.splits)

lemma step_keeps:
  "keeps R (ret a)" "keeps R (getp f)" "keeps R (abortp e)"
  "keeps R m \<Longrightarrow> (\<And>a. keeps R (g a)) \<Longrightarrow> keeps R (bindp m g)"
  "keeps R m \<Longrightarrow> keeps R n \<Longrightarrow> keeps R (thenp m n)"
  using pre by (auto intro: keeps_intros)

lemmas bugz_keeps = step_keeps object_keeps host_keeps keeps_if keeps_case_option keeps_case_prod

lemma shown_keeps:
  "keeps R (bindp (getp fst) (\<lambda>b. if p \<noteq> 0 \<and> p \<le> bz_last_progress b then ret ()
     else thenp (modo (\<lambda>b. b\<lparr>bz_last_progress := p\<rparr>)) (hostp (UpdateProgress (bz_line_message b) p))))"
  unfolding keeps_def
proof
  fix s :: "bugz_cb \<times> 'w host"
  obtain b h where s: "s = (b, h)" by (cases s)
  show "R s (snd (bindp (getp fst) (\<lambda>b. if p \<noteq> 0 \<and> p \<le> bz_last_progress b then ret ()
     else thenp (modo (\<lambda>b. b\<lparr>bz_last_progress := p\<rparr>)) (hostp (UpdateProgress (bz_line_message b) p))) s))"
    using progress [of b h p] R_refl
    by (auto simp: s ret_def modo_def hostp_def UpdateProgress_def modp_def [of "\<lambda>h. h\<lparr>h_printer := _ h\<rparr>"])
qed

lemma process_progress_keeps: "keeps R (process_progress line)"
  unfolding process_progress_def Let_def by (intro bugz_keeps shown_keeps)

lemma ProcessLine_keeps: "keeps R (ProcessLine B line)"
  unfolding ProcessLine_def Let_def by (intro bugz_keeps process_progress_keeps)

lemma OnStdout_keeps: "keeps R (bugz_OnStdout B buffer)"
  unfolding bugz_OnStdout_def bugz_char_def
  by (intro bugz_keeps keeps_fold_prog pre ProcessLine_keeps)

lemma OnStderr_keeps: "keeps R (bugz_OnStderr B buffer)"
proof -
  have "fst (bugz_OnStderr B buffer (b, h)) = Ok True \<and>
      R (b, h) (snd (bugz_OnStderr B buffer (b, h)))" for b h
  proof -
    obtain n w where w: "sh_fwrite (bug_shell B) True buffer (world (h_conn h)) = (n, w)" by fastforce
    let ?h = "h\<lparr>h_conn := h_conn h\<lparr>world := w\<rparr>\<rparr>"
    have "R (b, h) (b, ?h)" by (rule world)
    moreover have "R (b, ?h) (b, ?h\<lparr>h_err := h_err h @ take n buffer\<rparr>)" by (rule world)
    ultimately have "R (b, h) (b, ?h\<lparr>h_err := h_err h @ take n buffer\<rparr>)" by (rule R_trans)
    then show ?thesis
      by (simp add: bugz_OnStderr_def OnStream_def fwrite_stream_def hostp_def connp_def osop_def
          print_err_def modp_def bindp_def thenp_def ret_def w)
  qed
  then show ?thesis by (auto simp: keeps_def)
qed

lemma without_capture_conn_keeps: "keeps R (without_capture (hostp (connp k)))"
  unfolding keeps_def
proof
  fix s :: "bugz_cb \<times> 'w host"
  obtain b h where s: "s = (b, h)" by (cases s)
  obtain r c where "k (h_conn h\<lparr>out_capture := None\<rparr>) = (r, c)" by fastforce
  then have "snd (without_capture (hostp (connp k)) s)
      = (b, h\<lparr>h_conn := c\<lparr>out_capture := out_capture (h_conn h)\<rparr>\<rparr>)"
    by (simp add: s without_capture_def hostp_def connp_def)
  with world(1) show "R s (snd (without_capture (hostp (connp k)) s))" by (simp add: s)
qed

lemma Done_keeps: "keeps R (bugz_Done B n)"
  unfolding bugz_Done_def bugz_pull_def DoSyncPull_def
  by (intro bugz_keeps ProcessLine_keeps without_capture_conn_keeps)

end

sublocale bugz_relation \<subseteq> streams_client "BugreportStandardStreamsCallback B" R
  by unfold_locales
    (simp_all add: pre world BugreportStandardStreamsCallback_def OnStdout_keeps OnStderr_keeps Done_keeps)

section \<open>A concrete device\<close>

definition bug_env_ref :: "nat \<Rightarrow> rworld bug_env" where
  "bug_env_ref fuel = \<lparr>bug_shell = shell_env_ref fuel, os_getcwd = \<lambda>w. (Inr ''/home'', w),
     os_directory_exists = \<lambda>p w. (map_of (rdirs w) p \<noteq> None, w)\<rparr>"

lemma bug_env_ref_doc: "Path_doc (bug_sync (bug_env_ref fuel))" "Prefix_doc (bug_sync (bug_env_ref fuel))"
  by (simp_all add: bug_env_ref_def shell_env_ref_def Path_doc_def Prefix_doc_def)

text \<open>A device that reports a path outside the user's directory, then a failure.\<close>

definition device_output :: "string list" where
  "device_output = [CHR 0x01 # ''BEGIN:/data/../etc/a.zip'' @ newline,
     CHR 0x01 # ''PROGRESS:1/4'' @ newline @ ''FAIL:no'', [CHR 0x03, CHR 0x00]]"

definition bug_demo :: "int res \<times> bugz_cb \<times> rworld host" where
  "bug_demo = send_shell_command (bug_shell (bug_env_ref 9)) 9 ''bugreportz -p'' False
     (BugreportStandardStreamsCallback (bug_env_ref 9))
     (bugz_ctor (bug_env_ref 9) ''/home'' ''bugreport.zip'' True, host_ref device_output)"

section \<open>The destination\<close>

definition dest_kept :: "'w bug_env \<Rightarrow> bugz_cb \<times> 'w host \<Rightarrow> bugz_cb \<times> 'w host \<Rightarrow> bool" where
  "dest_kept B s s' \<longleftrightarrow> bz_dest_dir (fst s') = bz_dest_dir (fst s) \<and>
     (bz_dest_dir (fst s) = [] \<longrightarrow> bz_dest_file (fst s') = bz_dest_file (fst s)) \<and>
     (bz_dest_file (fst s') = bz_dest_file (fst s) \<or>
      bz_dest_file (fst s') \<in> range (Basename (bug_sync B)))"

interpretation dest: bugz_relation B "dest_kept B" for B
  by unfold_locales (auto simp: dest_kept_def preorder_on_states_def SetSrcFile_def SetLineMessage_def)

lemma basename_ref_slash: "CHR ''/'' \<in> set (basename_ref p) \<Longrightarrow> basename_ref p = ''/''"
  by (auto simp: basename_ref_def dest: set_takeWhileD)

lemma basename_ref_plain: "plain_name (basename_ref p) \<or> basename_ref p \<in> {''.'', ''..'', ''/''}"
  using basename_ref_slash [of p] by (auto simp: plain_name_def)

text \<open>C16: what a device has to say about where a bug report goes. Whatever it prints, the directory is the one
  the user gave, and a file that the user named stays as it is. In a directory of the user's the file may get
  the name the device prints, which is then a plain name, one without a slash, or one of three names that are
  let through unchecked: the dot, the two dots, with which the destination leaves the directory, and the lone
  slash. The two dots do occur: a line \<open>OK:/data/..\<close> sets them, whatever came before.\<close>

theorem report_name_is_basename:
  fixes B :: "'w bug_env"
  assumes "Path_doc (bug_sync B)" "Prefix_doc (bug_sync B)"
    and "send_shell_command (bug_shell B) fuel command False (BugreportStandardStreamsCallback B)
           (bugz_ctor B dir name progress, h) = (r, (b, h'))"
  shows "bz_dest_dir b = dir \<and> (dir = [] \<longrightarrow> bz_dest_file b = name) \<and>
    (bz_dest_file b = name \<or> plain_name (bz_dest_file b) \<or> bz_dest_file b \<in> {''.'', ''..'', ''/''}) \<and>
    (dir \<noteq> [] \<longrightarrow> (case ProcessLine B ''OK:/data/..'' (b, h') of (r, b', _) \<Rightarrow>
       r = Ok () \<and> bz_dest_dir b' = dir \<and> bz_dest_file b' = ''..''))"
proof -
  have kept: "dest_kept B (bugz_ctor B dir name progress, h) (b, h')"
    by (rule keepsD [OF dest.send_shell_command_keeps assms(3)])
  have base: "Basename (bug_sync B) = basename_ref" using assms(1) by (simp add: Path_doc_def)
  have dir: "bz_dest_dir b = dir" "dir = [] \<longrightarrow> bz_dest_file b = name"
    using kept by (auto simp: dest_kept_def bugz_ctor_def SetLineMessage_def)
  consider "bz_dest_file b = name" | q where "bz_dest_file b = basename_ref q"
    using kept base by (auto simp: dest_kept_def bugz_ctor_def SetLineMessage_def)
  then have "bz_dest_file b = name \<or> plain_name (bz_dest_file b) \<or> bz_dest_file b \<in> {''.'', ''..'', ''/''}"
    using basename_ref_plain by cases auto
  moreover have "basename_ref ''/data/..'' = ''..''" by code_simp
  ultimately show ?thesis
    using dir base assms(2) by (simp add: ProcessLine_def Prefix_doc_def SetSrcFile_def SetLineMessage_def Let_def
        modo_def prog_defs bugz_prefix_defs c_str_def)
qed

theorem report_name_is_basename_witness:
  "bz_dest_dir (fst (snd bug_demo)) = ''/home'' \<and> bz_dest_file (fst (snd bug_demo)) \<noteq> ''../etc/a.zip'' \<and>
   bz_dest_file (fst (snd (ProcessLine (bug_env_ref 9) ''OK:/data/..'' (snd bug_demo)))) = ''..''"
proof -
  have run: "send_shell_command (bug_shell (bug_env_ref 9)) 9 ''bugreportz -p'' False
      (BugreportStandardStreamsCallback (bug_env_ref 9))
      (bugz_ctor (bug_env_ref 9) ''/home'' ''bugreport.zip'' True, host_ref device_output)
    = (fst bug_demo, (fst (snd bug_demo), snd (snd bug_demo)))"
    by (simp add: bug_demo_def)
  show ?thesis
    using report_name_is_basename [OF bug_env_ref_doc run] by (auto simp: plain_name_def split: prod.splits)
qed

section \<open>Progress\<close>

fun advances :: "int \<Rightarrow> int list \<Rightarrow> bool" where
  "advances l [] = True"
| "advances l (p # ps) = ((p = 0 \<or> l < p) \<and> advances p ps)"

lemma advances_append: "advances l (ps @ qs) \<longleftrightarrow> advances l ps \<and> advances (last (l # ps)) qs"
  by (induction ps arbitrary: l) auto

definition shows_progress :: "bugz_cb \<times> 'w host \<Rightarrow> bugz_cb \<times> 'w host \<Rightarrow> bool" where
  "shows_progress s s' \<longleftrightarrow> (\<exists>ms. h_printer (snd s') = h_printer (snd s)
        @ map (\<lambda>(m, p). progress_message m p) ms \<and>
     advances (bz_last_progress (fst s)) (map snd ms) \<and>
     bz_last_progress (fst s') = last (bz_last_progress (fst s) # map snd ms))"

lemma shows_progress_same:
  "h_printer (snd s') = h_printer (snd s) \<Longrightarrow> bz_last_progress (fst s') = bz_last_progress (fst s) \<Longrightarrow>
   shows_progress s s'"
  unfolding shows_progress_def by (rule exI [of _ "[]"]) simp

lemma shows_progress_trans:
  assumes "shows_progress s t" "shows_progress t u"
  shows "shows_progress s u"
proof -
  obtain ms ns where "h_printer (snd t) = h_printer (snd s) @ map (\<lambda>(m, p). progress_message m p) ms"
      "advances (bz_last_progress (fst s)) (map snd ms)"
      "bz_last_progress (fst t) = last (bz_last_progress (fst s) # map snd ms)"
      "h_printer (snd u) = h_printer (snd t) @ map (\<lambda>(m, p). progress_message m p) ns"
      "advances (bz_last_progress (fst t)) (map snd ns)"
      "bz_last_progress (fst u) = last (bz_last_progress (fst t) # map snd ns)"
    using assms unfolding shows_progress_def by blast
  then show ?thesis unfolding shows_progress_def
    by (intro exI [of _ "ms @ ns"]) (auto simp: advances_append)
qed

lemma shows_progress_step:
  assumes "\<not> (p \<noteq> 0 \<and> p \<le> bz_last_progress b)"
  shows "shows_progress (b, h) (b\<lparr>bz_last_progress := p\<rparr>,
    h\<lparr>h_printer := h_printer h @ [progress_message m p]\<rparr>)"
  using assms unfolding shows_progress_def by (intro exI [of _ "[(m, p)]"]) auto

interpretation shown: bugz_relation B shows_progress for B
proof
  show "preorder_on_states shows_progress"
    unfolding preorder_on_states_def using shows_progress_trans shows_progress_same by blast
qed (auto intro: shows_progress_same shows_progress_step simp: SetSrcFile_def SetLineMessage_def)

text \<open>The progress shown only moves forward, except that 0 is always shown and starts anew.\<close>

theorem progress_only_forward:
  fixes B :: "'w bug_env"
  assumes "send_shell_command (bug_shell B) fuel command False (BugreportStandardStreamsCallback B)
           (bugz_ctor B dir name progress, h) = (r, (b, h'))"
  shows "\<exists>ms. h_printer h' = h_printer h @ map (\<lambda>(m, p). progress_message m p) ms \<and>
    advances 0 (map snd ms)"
proof -
  have "shows_progress (bugz_ctor B dir name progress, h) (b, h')"
    by (rule keepsD [OF shown.send_shell_command_keeps assms])
  then show ?thesis by (auto simp: shows_progress_def bugz_ctor_def SetLineMessage_def)
qed

theorem progress_only_forward_witness:
  "\<exists>ms. h_printer (snd (snd bug_demo)) = map (\<lambda>(m, p). progress_message m p) ms \<and> advances 0 (map snd ms)"
  using progress_only_forward [of "bug_env_ref 9" 9 "''bugreportz -p''" "''/home''"
    "''bugreport.zip''" True "host_ref device_output" "fst bug_demo" "fst (snd bug_demo)" "snd (snd bug_demo)"]
  by (simp add: bug_demo_def host_ref_def)

section \<open>Progress lines\<close>

lemma rfind_absent: "hd p \<notin> set s \<Longrightarrow> p \<noteq> [] \<Longrightarrow> rfind p s = None"
  by (induction s) (auto simp: prefix_def Cons_eq_append_conv)

lemma rfind_append: "rfind p s = Some i \<Longrightarrow> rfind p (u @ s) = Some (length u + i)"
  by (induction u) auto

lemma rfind_char: "c \<notin> set u \<Longrightarrow> rfind [c] (s @ c # u) = Some (length s)"
  using rfind_append [of "[c]" "c # u" 0 s] by (simp add: rfind_absent)

lemma scan_int_none: "s \<noteq> [] \<Longrightarrow> \<not> is_space (hd s) \<Longrightarrow> \<not> is_digit (hd s) \<Longrightarrow> hd s \<noteq> CHR ''-'' \<Longrightarrow>
    hd s \<noteq> CHR ''+'' \<Longrightarrow> scan_int s = None"
  by (cases s) (simp_all add: scan_int_def)

lemma digits_show_nat: "set (show_nat n) \<subseteq> Collect is_digit" "show_nat n \<noteq> []"
  using all_digits_show_nat [of n] by (auto simp: list_all_iff show_nat_def show_base_ne)

lemma digit_char: "is_digit c \<Longrightarrow> c \<noteq> CHR ''-'' \<and> c \<noteq> CHR ''+'' \<and> c \<noteq> CHR ''/'' \<and> c \<noteq> CHR ''P'' \<and> \<not> is_space c"
  by (auto simp: is_digit_def is_space_def)

lemma scan_int_digits:
  assumes "set ds \<subseteq> Collect is_digit" "ds \<noteq> []"
  shows "scan_int ds = Some (int (dec_value ds), [])"
proof -
  obtain c cs where ds: "ds = c # cs" using assms(2) by (cases ds) auto
  have "takeWhile is_digit ds = ds" "dropWhile is_digit ds = []"
    using assms(1) by (auto simp: takeWhile_eq_all_conv)
  moreover have "is_digit c" "takeWhile is_digit cs = cs" using assms(1) ds by auto
  ultimately show ?thesis using digit_char [of c] unfolding scan_int_def Let_def
    by (simp add: ds takeWhile_eq_all_conv [THEN iffD2])
qed

lemma stoi_show_nat: "n < 2 ^ 31 \<Longrightarrow> stoi (show_nat n) = Some (int n)"
  using scan_int_digits [OF digits_show_nat] by (simp add: stoi_def dec_value_show_nat)

lemma other_prefixes:
  "\<not> prefix BUGZ_BEGIN_PREFIX (BUGZ_PROGRESS_PREFIX @ t)"
  "\<not> prefix BUGZ_OK_PREFIX (BUGZ_PROGRESS_PREFIX @ t)"
  "\<not> prefix BUGZ_FAIL_PREFIX (BUGZ_PROGRESS_PREFIX @ t)"
  by (simp_all add: bugz_prefix_defs)

lemma ProcessLine_progress:
  assumes "Prefix_doc (bug_sync B)" "bz_show_progress b"
  shows "ProcessLine B (BUGZ_PROGRESS_PREFIX @ t) (b, h) = process_progress (BUGZ_PROGRESS_PREFIX @ t) (b, h)"
proof -
  have "BUGZ_PROGRESS_PREFIX \<noteq> []" by (simp add: bugz_prefix_defs)
  with assms show ?thesis
    by (simp add: ProcessLine_def Prefix_doc_def other_prefixes Let_def)
qed

lemma to_int_small: "0 \<le> v \<Longrightarrow> v < 2 ^ 31 \<Longrightarrow> to_int v = v"
  by (simp add: to_int_def signed_take_bit_int_eq_self)

text \<open>A progress line without a slash ends the whole program: \<^verbatim>\<open>rfind\<close> gives \<^verbatim>\<open>npos\<close>, the total is
  parsed from the start of the line, and \<^verbatim>\<open>stoi\<close> throws.\<close>

theorem progress_without_total_aborts:
  assumes "Prefix_doc (bug_sync B)" "bz_show_progress b" "CHR ''/'' \<notin> set t"
  shows "ProcessLine B (BUGZ_PROGRESS_PREFIX @ t) (b, h) = (Abort ''std::stoi'', (b, h))"
proof -
  let ?l = "BUGZ_PROGRESS_PREFIX @ t"
  have "rfind BUGZ_PROGRESS_SEPARATOR ?l = None"
    using assms(3) by (intro rfind_absent) (auto simp: bugz_prefix_defs)
  then have "total_text ?l = ?l" by (simp add: total_text_def)
  moreover have "stoi ?l = None"
    by (simp add: stoi_def scan_int_none bugz_prefix_defs is_space_def is_digit_def)
  ultimately show ?thesis
    unfolding ProcessLine_progress [OF assms(1,2)] process_progress_def
    by (simp add: abortp_def split: option.split)
qed

theorem progress_without_total_aborts_witness:
  "ProcessLine (bug_env_ref 9) ''PROGRESS:50'' (bugz_ctor (bug_env_ref 9) [] ''a.zip'' True, host_ref [])
    = (Abort ''std::stoi'', (bugz_ctor (bug_env_ref 9) [] ''a.zip'' True, host_ref []))"
  using progress_without_total_aborts [OF bug_env_ref_doc(2),
    of "bugz_ctor (bug_env_ref 9) [] ''a.zip'' True" "''50''" 9 "host_ref []"]
  by (simp add: bugz_ctor_def SetLineMessage_def BUGZ_PROGRESS_PREFIX_def)

text \<open>A well-formed progress line shows \<open>p * 100 div t\<close> percent, unless that is behind what was
  shown before.\<close>

theorem progress_line_shown:
  assumes "Prefix_doc (bug_sync B)" "bz_show_progress b" "p * 100 < 2 ^ 31" "0 < t" "t < 2 ^ 31"
  shows "ProcessLine B (BUGZ_PROGRESS_PREFIX @ show_nat p @ ''/'' @ show_nat t) (b, h) =
    (let pct = int (p * 100 div t)
     in if pct \<noteq> 0 \<and> pct \<le> bz_last_progress b then (Ok (), (b, h))
        else (Ok (), (b\<lparr>bz_last_progress := pct\<rparr>,
               h\<lparr>h_printer := h_printer h @ [progress_message (bz_line_message b) pct]\<rparr>)))"
proof -
  let ?u = "show_nat p @ ''/'' @ show_nat t"
  let ?l = "BUGZ_PROGRESS_PREFIX @ ?u"
  have noP: "CHR ''P'' \<notin> set ?u" "CHR ''/'' \<notin> set (show_nat t)"
    using digits_show_nat(1) digit_char by auto
  have "rfind BUGZ_PROGRESS_PREFIX (tl ?l) = None"
    using noP by (intro rfind_absent) (auto simp: bugz_prefix_defs)
  then have one: "rfind BUGZ_PROGRESS_PREFIX ?l = Some 0"
    by (simp add: bugz_prefix_defs)
  have "rfind ''/'' ((BUGZ_PROGRESS_PREFIX @ show_nat p) @ CHR ''/'' # show_nat t)
      = Some (length (BUGZ_PROGRESS_PREFIX @ show_nat p))"
    using noP(2) by (rule rfind_char)
  then have two: "rfind BUGZ_PROGRESS_SEPARATOR ?l = Some (length BUGZ_PROGRESS_PREFIX + length (show_nat p))"
    by (simp add: BUGZ_PROGRESS_SEPARATOR_def)
  have "progress_text ?l = show_nat p" "total_text ?l = show_nat t"
    unfolding progress_text_def total_text_def one two by simp_all
  moreover have "cdiv (to_int (int p * 100)) (int t) = int (p * 100 div t)"
  proof -
    have "int (p * 100 div t) < 2 ^ 31"
      using le_less_trans [OF div_le_dividend assms(3), of t]
      by (metis of_nat_less_iff of_nat_numeral of_nat_power)
    then have "to_int (int (p * 100 div t)) = int (p * 100 div t)" by (intro to_int_small) auto
    moreover have "to_int (int p * 100) = int p * 100" using assms(3) by (intro to_int_small) auto
    ultimately show ?thesis using assms(4) by (cases "p = 0") (simp_all add: cdiv_def zdiv_int sgn_if)
  qed
  moreover have "stoi (show_nat p) = Some (int p)" "stoi (show_nat t) = Some (int t)"
    using assms(3,5) by (intro stoi_show_nat; simp)+
  ultimately have "process_progress ?l (b, h) = (let pct = int (p * 100 div t)
      in if pct \<noteq> 0 \<and> pct \<le> bz_last_progress b then ret () (b, h)
         else thenp (modo (\<lambda>b. b\<lparr>bz_last_progress := pct\<rparr>))
                (hostp (UpdateProgress (bz_line_message b) pct)) (b, h))"
    using assms(4) by (simp add: process_progress_def Let_def)
  then show ?thesis
    unfolding ProcessLine_progress [OF assms(1,2)]
    by (simp add: Let_def ret_def modo_def)
       (simp add: hostp_def UpdateProgress_def modp_def)
qed

theorem progress_line_shown_witness:
  "h_printer (snd (snd (ProcessLine (bug_env_ref 9) ''PROGRESS:1/4''
      (bugz_ctor (bug_env_ref 9) [] ''a.zip'' True, host_ref [])))) = [''[ 25%] generating a.zip'']"
proof -
  have "show_nat 1 = ''1''" "show_nat 4 = ''4''" "show_int 25 = ''25''"
    by (simp_all add: show_int_def show_nat_def show_base.simps hex_digit_def char_of_def bit_0)
  then show ?thesis
    using progress_line_shown [OF bug_env_ref_doc(2),
      of "bugz_ctor (bug_env_ref 9) [] ''a.zip'' True" 1 4 9 "host_ref []"]
    by (simp add: bugz_ctor_def SetLineMessage_def BUGZ_PROGRESS_PREFIX_def host_ref_def
        progress_message_def pad_left_def c_str_def bug_env_ref_def shell_env_ref_def
        basename_ref_def strip_slashes_def)
qed

section \<open>The line protocol\<close>

text \<open>What the callback does with one complete line, and with pieces of output one after another.\<close>

definition one_line :: "'w bug_env \<Rightarrow> string \<Rightarrow> unit \<Rightarrow> ('w, unit) bzprog" where
  "one_line B l _ = thenp (modo (\<lambda>b. b\<lparr>bz_line := l\<rparr>))
     (thenp (ProcessLine B l) (modo (\<lambda>b. b\<lparr>bz_line := []\<rparr>)))"

definition feed :: "'w bug_env \<Rightarrow> string list \<Rightarrow> ('w, unit) bzprog" where
  "feed B pieces = fold_prog (\<lambda>piece _. thenp (bugz_OnStdout B piece) (ret ())) pieces ()"

lemma bindp_ret_right [simp]: "bindp m ret = m"
  by (rule ext) (auto simp: bindp_def ret_def split: prod.splits res.splits)

lemma bindp_unit_ret [simp]: "bindp m (\<lambda>u::unit. ret ()) = m"
  by (rule ext) (auto simp: bindp_def ret_def split: prod.splits res.splits)

lemma fold_prog_Nil [simp]: "fold_prog f [] = ret"
  by (rule ext) simp

lemma feed_concat: "feed B pieces = fold_prog (bugz_char B) (concat pieces) ()"
proof (induction pieces)
  case (Cons p pieces)
  have "feed B (p # pieces) = bindp (thenp (bugz_OnStdout B p) (ret ())) (\<lambda>_. feed B pieces)"
    by (simp add: feed_def)
  moreover have "thenp (bugz_OnStdout B p) (ret ()) = fold_prog (bugz_char B) p ()"
    by (simp add: bugz_OnStdout_def thenp_def bindp_assoc)
  ultimately show ?case using Cons by (simp add: fold_prog_append)
qed (simp add: feed_def)

lemma line_chars:
  "CHR 0x0A \<notin> set l \<Longrightarrow> fold_prog (bugz_char B) l () (b, h) = (Ok (), (b\<lparr>bz_line := bz_line b @ l\<rparr>, h))"
proof (induction l arbitrary: b)
  case (Cons c l)
  then have "c \<noteq> CHR 0x0A" by auto
  then have "bugz_char B c () (b, h) = (Ok (), (b\<lparr>bz_line := bz_line b @ [c]\<rparr>, h))"
    by (simp add: bugz_char_def modo_def modp_def)
  with Cons show ?case by (simp add: bindp_Ok)
qed (simp add: ret_def)

lemma line_end:
  assumes "CHR 0x0A \<notin> set l" "bz_line b = []"
  shows "fold_prog (bugz_char B) (l @ [CHR 0x0A]) () (b, h) = one_line B l () (b, h)"
proof -
  have "fold_prog (bugz_char B) (l @ [CHR 0x0A]) () (b, h)
      = bugz_char B (CHR 0x0A) () (b\<lparr>bz_line := l\<rparr>, h)"
    using assms by (simp add: fold_prog_append bindp_Ok line_chars)
  also have "\<dots> = one_line B l () (b, h)"
    by (simp add: bugz_char_def one_line_def modo_def thenp_def [of "bindp _ _"])
       (simp add: thenp_def bindp_assoc)
  finally show ?thesis .
qed

lemma one_line_clears: "yields (one_line B l u) (\<lambda>_ s. bz_line (fst s) = [])"
  unfolding one_line_def by (intro yields_thenp) (auto simp: yields_def modo_def)

text \<open>C25: however the output of \<^verbatim>\<open>bugreportz\<close> is cut into pieces, it is processed line by line, and an
  unfinished line waits in the buffer.\<close>

theorem output_processed_by_line:
  assumes "concat pieces = concat (map (\<lambda>l. l @ [CHR 0x0A]) ls) @ rest"
    and "\<forall>l \<in> set ls. CHR 0x0A \<notin> set l" "CHR 0x0A \<notin> set rest" "bz_line b = []"
  shows "feed B pieces (b, h) =
    bindp (fold_prog (one_line B) ls ()) (\<lambda>_. modo (\<lambda>b. b\<lparr>bz_line := rest\<rparr>)) (b, h)"
  unfolding feed_concat assms(1) using assms(2,4)
proof (induction ls arbitrary: b h)
  case Nil
  then show ?case using assms(3) by (simp add: line_chars modo_def modp_def)
next
  case (Cons l ls)
  have "fold_prog (bugz_char B) (concat (map (\<lambda>l. l @ [CHR 0x0A]) (l # ls)) @ rest) () (b, h)
      = bindp (one_line B l ()) (\<lambda>u. fold_prog (bugz_char B) (concat (map (\<lambda>l. l @ [CHR 0x0A]) ls) @ rest) u) (b, h)"
  proof -
    have l: "fold_prog (bugz_char B) (l @ [CHR 0x0A]) () (b, h) = one_line B l () (b, h)"
      using Cons.prems by (intro line_end) auto
    have "fold_prog (bugz_char B) ((l @ [CHR 0x0A]) @ ys) () (b, h)
        = bindp (one_line B l ()) (fold_prog (bugz_char B) ys) (b, h)" for ys
      unfolding fold_prog_append [of _ "l @ [CHR 0x0A]"] bindp_def
      unfolding l ..
    then show ?thesis by simp
  qed
  also have "\<dots> = bindp (one_line B l ()) (\<lambda>u. bindp (fold_prog (one_line B) ls u)
      (\<lambda>_. modo (\<lambda>b. b\<lparr>bz_line := rest\<rparr>))) (b, h)"
  proof -
    obtain r s where m: "one_line B l () (b, h) = (r, s)" by (cases "one_line B l () (b, h)")
    show ?thesis
    proof (cases r)
      case (Ok u)
      then have "bz_line (fst s) = []" using yieldsD [OF one_line_clears] m by blast
      then show ?thesis
        using Cons.IH [of "fst s" "snd s"] Cons.prems(1) m Ok by (simp add: bindp_Ok)
    qed (simp_all add: bindp_def m)
  qed
  finally show ?case by (simp add: bindp_assoc)
qed

theorem output_processed_by_line_witness:
  "feed (bug_env_ref 9) [''BEGIN'', '':/a'' @ newline @ ''OK:'', ''/b'' @ newline, ''PROG'']
      (bugz_ctor (bug_env_ref 9) [] ''a.zip'' True, host_ref []) =
    bindp (fold_prog (one_line (bug_env_ref 9)) [''BEGIN:/a'', ''OK:/b''] ())
      (\<lambda>_. modo (\<lambda>b. b\<lparr>bz_line := ''PROG''\<rparr>))
      (bugz_ctor (bug_env_ref 9) [] ''a.zip'' True, host_ref [])"
  by (rule output_processed_by_line)
    (simp_all add: newline_def bugz_ctor_def SetLineMessage_def)

end
