(* ===== verification/ServerState.thy ===== *)
theory ServerState
  imports Features Fdevent "HOL-Library.Product_Lexorder" "HOL-Library.List_Lexorder" "HOL-Library.Char_ord"
begin

text \<open>
  The state of the adb server process that \<^verbatim>\<open>transport.cpp\<close>, \<^verbatim>\<open>adb_listeners.cpp\<close> and
  \<^verbatim>\<open>client/adb.cpp\<close> share, and the members of \<^verbatim>\<open>atransport\<close> that only touch the object.

  \<open>server\<close> holds the event loop (\<open>fdctx\<close>, whose run queue holds the functions queued with
  \<^verbatim>\<open>fdevent_run_on_looper\<close>, named by \<open>server_fn\<close>), the transport objects by pointer with the two
  lists of pointers, the reconnect handler, the device trackers and the listeners. The class
  headers, the connection classes of the transports, the socket layer, authentication, USB and
  mDNS are outside the repository: what the program asks of them is a call (\<open>ext_call\<close>), recorded
  in order in \<open>ext_trace\<close>, that moves the world; their answers are functions of \<open>srv_env\<close>, as are
  the protocol constants. A use of a deleted object is an abort. Logging is left out.
\<close>

type_synonym tptr = nat
type_synonym lptr = nat
type_synonym sockptr = nat

datatype TransportType = kTransportUsb | kTransportLocal | kTransportAny | kTransportHost

datatype ConnectionState =
    kCsAny | kCsConnecting | kCsAuthorizing | kCsUnauthorized | kCsNoPerm | kCsDetached
  | kCsOffline | kCsBootloader | kCsDevice | kCsHost | kCsRecovery | kCsSideload | kCsRescue

datatype ReconnectResult = Retry | Success | AbortReconnect

datatype TrackerOutputType = SHORT_TEXT | LONG_TEXT | PROTOBUF | TEXT_PROTOBUF

record amessage =
  msg_command :: u32
  msg_arg0 :: u32
  msg_arg1 :: u32
  msg_data_length :: u32
  msg_data_check :: u32
  msg_magic :: u32

record apacket =
  pkt_msg :: amessage
  pkt_payload :: string

text \<open>\<^verbatim>\<open>adisconnect\<close>: the one inside a listener object, or one of another module.\<close>

datatype adisconnect = ListenerDisconnect lptr | OtherDisconnect nat

record transport =
  t_id :: u64
  t_serial :: string
  t_product :: string
  t_model :: string
  t_device :: string
  t_devpath :: string
  t_type :: TransportType
  t_state :: ConnectionState
  t_online :: bool
  t_kicked :: bool
  t_protocol_version :: int
  t_max_payload :: nat
  t_features :: feature_set
  t_delayed_ack :: bool
  t_use_tls :: bool
  t_keys :: "string list"
  t_disconnects :: "adisconnect list"
  t_reverse_forwards :: "(string \<times> string) list"
  t_usb_handle :: "nat option"

datatype proto_type = PROTO_USB | PROTO_SOCKET

datatype proto_state = CONNECTING | AUTHORIZING | UNAUTHORIZED | NOPERMISSION | DETACHED | OFFLINE | BOOTLOADER
  | DEVICE | HOST | RECOVERY | SIDELOAD | RESCUE | ANY

record proto_device =
  pd_serial :: string
  pd_connection_type :: proto_type
  pd_state :: proto_state
  pd_bus_address :: string
  pd_product :: string
  pd_model :: string
  pd_device :: string
  pd_negotiated_speed :: u64
  pd_max_speed :: u64
  pd_transport_id :: u64

record reconnect_attempt =
  ra_transport :: tptr
  ra_time :: int
  ra_attempts_left :: nat

record device_tracker =
  dt_ptr :: nat
  dt_peer :: "sockptr option"
  dt_update_needed :: bool
  dt_output_type :: TrackerOutputType

record alistener =
  al_ptr :: lptr
  al_fde :: "fdptr option"
  al_fd :: int
  al_local_name :: string
  al_connect_to :: string
  al_transport :: "tptr option"

datatype fd_cb = SsListenerEvent lptr | ListenerEvent lptr | OtherEvent nat

text \<open>Functions queued for the looper.\<close>

datatype server_fn =
    RegisterTransport tptr
  | UnregisterTransport tptr
  | HandlePacket apacket tptr
  | OfflineAndDestroy tptr
  | EnableServerSockets

datatype ext_call =
    ConnSetTransport tptr
  | ConnStart tptr
  | ConnStop tptr
  | ConnReset tptr
  | ConnWrite tptr apacket
  | CloseAllSockets tptr
  | RunOtherDisconnect nat tptr
  | PeerEnqueue sockptr string
  | PeerClose sockptr
  | SendAuthResponse tptr string
  | TlsHandshake tptr
  | SocketClose sockptr
  | SocketReady sockptr
  | SocketEnqueue sockptr string
  | SocketAck sockptr "int option"
  | SocketSendBytes sockptr u32
  | SocketSetPeer sockptr u32 tptr
  | SocketSetTransport sockptr "tptr option"
  | ConnectToRemote sockptr string
  | ConnectToSmartsocket sockptr
  | SetRcvBuf int
  | CloseOnExec int
  | ConnectStatusUpdated string string
  | ReplyOkay int
  | ReplyFail int string
  | ReplyString int string
  | ReplyBytes int string
  | LocalConnect nat
  | LocalInit string
  | AuthInit

record 'w server =
  loop :: "(fd_cb, server_fn, 'w) fdctx"
  transports :: "tptr \<Rightarrow> transport option"
  next_tptr :: tptr
  established :: "tptr \<Rightarrow> bool option"
  transport_list :: "tptr list"
  pending_list :: "tptr list"
  next_transport_id :: u64
  reconnect_running :: bool
  reconnect_initialized :: bool
  reconnect_queue :: "reconnect_attempt list"
  device_tracker_list :: "device_tracker list"
  next_tracker :: nat
  listener_list :: "alistener list"
  next_listener :: lptr
  one_device :: "string option"
  device_scan_complete :: bool
  transports_ready :: bool
  launched :: bool
  server_pipe :: "int \<times> int"
  g_reject_kill_server :: bool
  ext_trace :: "ext_call list"

type_synonym ('w, 'a) sprog = "('w server, 'a) prog"

text \<open>A local socket as the socket layer returns it: its pointer, its id and its peer, if any.\<close>

record asocket =
  so_ptr :: sockptr
  so_id :: u32
  so_peer :: "(u32 \<times> tptr option) option"

record 'w srv_env = libbase +
  srv_fd :: "(fd_cb, server_fn, 'w) fd_env"
  A_SYNC :: u32
  A_CNXN :: u32
  A_OPEN :: u32
  A_OKAY :: u32
  A_CLSE :: u32
  A_WRTE :: u32
  A_AUTH :: u32
  A_STLS :: u32
  ADB_AUTH_TOKEN :: u32
  A_VERSION :: int
  A_VERSION_MIN :: int
  A_VERSION_SKIP_CHECKSUM :: int
  A_STLS_VERSION :: u32
  MAX_PAYLOAD :: nat
  MAX_PAYLOAD_V1 :: nat
  INITIAL_DELAYED_ACK_BYTES :: u32
  adb_device_banner :: string
  kSmartSocketConnectTo :: string
  INSTALL_LISTENER_NO_REBIND :: u32
  INSTALL_LISTENER_DISABLED :: u32
  type_rank :: "TransportType \<Rightarrow> nat"
  srv_getenv :: "string \<Rightarrow> string option"
  no_permission_short :: string
  no_permission_long :: string
  ParseNetAddress :: "string \<Rightarrow> int \<Rightarrow> (string \<times> int) option"
  StripTrailingNulls :: "string \<Rightarrow> string"
  devices_proto :: "bool \<Rightarrow> proto_device list \<Rightarrow> string"
  connection_speeds :: "transport \<Rightarrow> u64 \<times> u64"
  is_libusb_enabled :: bool
  IsTcpDevice :: "transport \<Rightarrow> bool"
  os_ext :: "ext_call \<Rightarrow> 'w \<Rightarrow> 'w"
  os_conn_write :: "tptr \<Rightarrow> apacket \<Rightarrow> 'w \<Rightarrow> bool \<times> 'w"
  os_reconnect :: "tptr \<Rightarrow> 'w \<Rightarrow> ReconnectResult \<times> 'w"
  os_peer_enqueue :: "sockptr \<Rightarrow> string \<Rightarrow> 'w \<Rightarrow> bool \<times> 'w"
  os_conn_attach :: "bool \<Rightarrow> tptr \<Rightarrow> 'w \<Rightarrow> string option \<times> 'w"
  os_private_keys :: "'w \<Rightarrow> string list \<times> 'w"
  os_init_socket_transport :: "int \<Rightarrow> int \<Rightarrow> int \<Rightarrow> 'w \<Rightarrow> (nat + TransportType) \<times> 'w"
  os_socket_spec_listen :: "string \<Rightarrow> 'w \<Rightarrow> ((string + int) \<times> int) \<times> 'w"
  os_accept :: "int \<Rightarrow> 'w \<Rightarrow> int \<times> 'w"
  os_create_local_socket :: "int \<Rightarrow> 'w \<Rightarrow> sockptr option \<times> 'w"
  os_find_local_socket :: "u32 \<Rightarrow> u32 \<Rightarrow> 'w \<Rightarrow> asocket option \<times> 'w"
  os_create_local_service :: "string \<Rightarrow> tptr \<Rightarrow> 'w \<Rightarrow> asocket option \<times> 'w"

section \<open>Programs on the server\<close>

definition loopp :: "(fd_cb, server_fn, 'w, 'a) fdprog \<Rightarrow> ('w, 'a) sprog" where
  "loopp m s = (case m (loop s) of (r, l) \<Rightarrow> (r, s\<lparr>loop := l\<rparr>))"

definition sos :: "('w \<Rightarrow> 'a \<times> 'w) \<Rightarrow> ('w, 'a) sprog" where
  "sos f = loopp (fdos f)"

definition ext :: "('w, 'x) srv_env_scheme \<Rightarrow> ext_call \<Rightarrow> ('w, unit) sprog" where
  "ext E c = thenp (modp (\<lambda>s. s\<lparr>ext_trace := ext_trace s @ [c]\<rparr>)) (sos (\<lambda>w. ((), os_ext E c w)))"

definition run_on_looper :: "('w, 'x) srv_env_scheme \<Rightarrow> server_fn \<Rightarrow> ('w, unit) sprog" where
  "run_on_looper E fn = loopp (fdevent_Run (srv_fd E) fn)"

definition check_looper :: "('w, unit) sprog" where
  "check_looper = loopp CheckLooperThread"

definition with_transport :: "tptr \<Rightarrow> (transport \<Rightarrow> ('w, 'a) sprog) \<Rightarrow> ('w, 'a) sprog" where
  "with_transport p k = bindp (getp (\<lambda>s. transports s p)) (\<lambda>t. case t of
      None \<Rightarrow> abortp ''dangling transport'' | Some t \<Rightarrow> k t)"

definition upd_transport :: "tptr \<Rightarrow> (transport \<Rightarrow> transport) \<Rightarrow> ('w, unit) sprog" where
  "upd_transport p g = with_transport p (\<lambda>t. modp (\<lambda>s. s\<lparr>transports := (transports s)(p := Some (g t))\<rparr>))"

text \<open>The next value of the static counter of \<^verbatim>\<open>NextTransportId\<close>, and a new object.\<close>

definition NextTransportId :: "('w, u64) sprog" where
  "NextTransportId = bindp (getp next_transport_id) (\<lambda>i.
     thenp (modp (\<lambda>s. s\<lparr>next_transport_id := i + 1\<rparr>)) (ret i))"

definition new_transport ::
    "('w, 'x) srv_env_scheme \<Rightarrow> ConnectionState \<Rightarrow> ('w, tptr) sprog" where
  "new_transport E state = bindp NextTransportId (\<lambda>i. bindp (getp next_tptr) (\<lambda>p.
     thenp (modp (\<lambda>s. s\<lparr>next_tptr := Suc p, transports := (transports s)(p := Some
       \<lparr>t_id = i, t_serial = [], t_product = [], t_model = [], t_device = [], t_devpath = [],
        t_type = kTransportAny, t_state = state, t_online = False, t_kicked = False,
        t_protocol_version = A_VERSION_MIN E, t_max_payload = MAX_PAYLOAD E, t_features = [],
        t_delayed_ack = False, t_use_tls = False, t_keys = [], t_disconnects = [],
        t_reverse_forwards = [], t_usb_handle = None\<rparr>)\<rparr>)) (ret p)))"

section \<open>Members of \<^verbatim>\<open>atransport\<close>\<close>

text \<open>The \<^verbatim>\<open>ConnectionWaitable\<close> of a transport, which outlives it. Only the first call of
  \<^verbatim>\<open>SetConnectionEstablished\<close> counts; \<open>WaitForConnection\<close> is the answer once the wait is over.\<close>

definition SetConnectionEstablished :: "tptr \<Rightarrow> bool \<Rightarrow> ('w, unit) sprog" where
  "SetConnectionEstablished p ok = modp (\<lambda>s.
     if established s p \<noteq> None then s else s\<lparr>established := (established s)(p := Some ok)\<rparr>)"

definition WaitForConnection :: "tptr \<Rightarrow> ('w, bool) sprog" where
  "WaitForConnection p = getp (\<lambda>s. established s p = Some True)"

definition update_version :: "('w, 'x) srv_env_scheme \<Rightarrow> int \<Rightarrow> nat \<Rightarrow> transport \<Rightarrow> transport" where
  "update_version E version payload t =
     t\<lparr>t_protocol_version := min version (A_VERSION E), t_max_payload := min payload (MAX_PAYLOAD E)\<rparr>"

definition has_feature :: "transport \<Rightarrow> string \<Rightarrow> bool" where
  "has_feature t f = contains_value (t_features t) f"

definition SetFeatures :: "('w, 'x) srv_env_scheme \<Rightarrow> string \<Rightarrow> transport \<Rightarrow> transport" where
  "SetFeatures E features t =
     (let fs = StringToFeatureSet E features
      in t\<lparr>t_features := fs,
           t_delayed_ack := CanUseFeature (srv_getenv E ''ADB_DELAYED_ACK'') fs kFeatureDelayedAck\<rparr>)"

definition AddDisconnect :: "adisconnect \<Rightarrow> transport \<Rightarrow> transport" where
  "AddDisconnect d t = t\<lparr>t_disconnects := t_disconnects t @ [d]\<rparr>"

definition RemoveDisconnect :: "adisconnect \<Rightarrow> transport \<Rightarrow> transport" where
  "RemoveDisconnect d t = t\<lparr>t_disconnects := removeAll d (t_disconnects t)\<rparr>"

definition Key :: "transport \<Rightarrow> string option" where
  "Key t = (case t_keys t of [] \<Rightarrow> None | k # _ \<Rightarrow> Some k)"

definition ResetKeys :: "transport \<Rightarrow> transport" where
  "ResetKeys t = t\<lparr>t_keys := []\<rparr>"

definition NextKey :: "('w, 'x) srv_env_scheme \<Rightarrow> tptr \<Rightarrow> ('w, string option) sprog" where
  "NextKey E p = with_transport p (\<lambda>t.
     thenp (if t_keys t = []
            then bindp (sos (os_private_keys E)) (\<lambda>ks.
              thenp (upd_transport p (\<lambda>t. t\<lparr>t_keys := ks\<rparr>))
                (if ks = [] then abortp ''Check failed: !keys_.empty()'' else ret ()))
            else upd_transport p (\<lambda>t. t\<lparr>t_keys := tl (t_keys t)\<rparr>))
       (with_transport p (\<lambda>t. ret (Key t))))"

text \<open>Kicking and resetting act on the connection only once.\<close>

definition Kick :: "('w, 'x) srv_env_scheme \<Rightarrow> tptr \<Rightarrow> ('w, unit) sprog" where
  "Kick E p = with_transport p (\<lambda>t.
     if t_kicked t then ret ()
     else thenp (upd_transport p (\<lambda>t. t\<lparr>t_kicked := True\<rparr>)) (ext E (ConnStop p)))"

definition ResetTransport :: "('w, 'x) srv_env_scheme \<Rightarrow> tptr \<Rightarrow> ('w, unit) sprog" where
  "ResetTransport E p = with_transport p (\<lambda>t.
     if t_kicked t then ret ()
     else thenp (upd_transport p (\<lambda>t. t\<lparr>t_kicked := True\<rparr>)) (ext E (ConnReset p)))"

text \<open>The destructor; the memory is gone afterwards.\<close>

definition delete_transport :: "tptr \<Rightarrow> ('w, unit) sprog" where
  "delete_transport p = with_transport p (\<lambda>_.
     thenp (SetConnectionEstablished p False)
       (modp (\<lambda>s. s\<lparr>transports := (transports s)(p := None)\<rparr>)))"

definition HandleError :: "('w, 'x) srv_env_scheme \<Rightarrow> tptr \<Rightarrow> ('w, unit) sprog" where
  "HandleError E p = run_on_looper E (OfflineAndDestroy p)"

section \<open>Packets\<close>

definition calculate_apacket_checksum :: "apacket \<Rightarrow> u32" where
  "calculate_apacket_checksum p =
     foldl (\<lambda>sum c. sum + of_char c) 0 (take (unat (msg_data_length (pkt_msg p))) (pkt_payload p))"

unbundle bit_operations_syntax

definition seal_packet :: "('w, 'x) srv_env_scheme \<Rightarrow> transport \<Rightarrow> apacket \<Rightarrow> apacket" where
  "seal_packet E t p =
     (let m = (pkt_msg p)\<lparr>msg_magic := msg_command (pkt_msg p) XOR 0xffffffff\<rparr>;
          p1 = p\<lparr>pkt_msg := m\<rparr>
      in p1\<lparr>pkt_msg := m\<lparr>msg_data_check :=
           (if t_protocol_version t \<ge> A_VERSION_SKIP_CHECKSUM E then 0
            else calculate_apacket_checksum p1)\<rparr>\<rparr>)"

definition send_packet :: "('w, 'x) srv_env_scheme \<Rightarrow> apacket \<Rightarrow> tptr \<Rightarrow> ('w, unit) sprog" where
  "send_packet E p tp = with_transport tp (\<lambda>t.
     let q = seal_packet E t p
     in thenp (modp (\<lambda>s. s\<lparr>ext_trace := ext_trace s @ [ConnWrite tp q]\<rparr>))
        (bindp (sos (os_conn_write E tp q)) (\<lambda>ok. if ok then ret () else Kick E tp)))"

definition check_header :: "apacket \<Rightarrow> transport \<Rightarrow> bool" where
  "check_header p t \<longleftrightarrow>
     msg_magic (pkt_msg p) = msg_command (pkt_msg p) XOR 0xffffffff \<and>
     unat (msg_data_length (pkt_msg p)) \<le> t_max_payload t"

text \<open>A packet the reader thread got.\<close>

definition HandleRead :: "('w, 'x) srv_env_scheme \<Rightarrow> apacket \<Rightarrow> tptr \<Rightarrow> ('w, bool) sprog" where
  "HandleRead E p tp = with_transport tp (\<lambda>t.
     if \<not> check_header p t then ret False
     else thenp (run_on_looper E (HandlePacket p tp)) (ret True))"

end
