(* ===== verification/Connection.thy ===== *)
theory Connection
  imports ServerState
begin

text \<open>
  The connections of \<^verbatim>\<open>transport.cpp\<close>.

  \<^item> \<^verbatim>\<open>FdConnection\<close> carries packets over a descriptor or a TLS session: \<open>FdConnection_Read\<close> and
    \<open>FdConnection_Write\<close>, with the exact reads and writes of \<^verbatim>\<open>adb_io\<close> and of the TLS library as
    parameters.
  \<^item> \<^verbatim>\<open>BlockingConnectionAdapter\<close> runs such a connection with a reader and a writer thread:
    \<open>bca_step\<close> is the step relation of its threads and of its callers. A step is what a thread does
    between two points where it can block; a TLS handshake holds the mutex until the reader has ended
    and the handshake is over, so that nothing that locks it happens meanwhile; \<open>Stop\<close> has one step for each of them. Every caller of
    \<open>Stop\<close> but the one that sets \<^verbatim>\<open>stopped_\<close> returns at once, so one program counter is enough;
    \<^verbatim>\<open>Reset\<close> resets the connection under the same guard and calls \<open>Stop\<close>, as the destructor does.
    After \<^verbatim>\<open>Close\<close> the underlying connection neither reads nor writes.
\<close>

section \<open>\<^verbatim>\<open>FdConnection\<close>\<close>

record 'w conn_env =
  conn_max_payload :: nat
  os_conn_read :: "bool \<Rightarrow> nat \<Rightarrow> 'w \<Rightarrow> string option \<times> 'w"
  os_conn_send :: "bool \<Rightarrow> string \<Rightarrow> 'w \<Rightarrow> bool \<times> 'w"
  os_rsa_key :: "string \<Rightarrow> 'w \<Rightarrow> bool \<times> 'w"
  os_tls_create :: "string \<Rightarrow> int \<Rightarrow> 'w \<Rightarrow> bool \<times> 'w"
  os_tls_handshake :: "'w \<Rightarrow> bool \<times> 'w"
  os_shutdown :: "int \<Rightarrow> 'w \<Rightarrow> unit \<times> 'w"

record 'w fdconn =
  fc_fd :: int
  fc_tls :: bool
  fc_world :: 'w

type_synonym ('w, 'a) cprog = "('w fdconn, 'a) prog"

definition cos :: "('w \<Rightarrow> 'a \<times> 'w) \<Rightarrow> ('w, 'a) cprog" where
  "cos f c = (case f (fc_world c) of (a, w) \<Rightarrow> (Ok a, c\<lparr>fc_world := w\<rparr>))"

text \<open>The memory of an \<^verbatim>\<open>amessage\<close>, and back.\<close>

definition amessage_image :: "amessage \<Rightarrow> string" where
  "amessage_image m = put32 (msg_command m) @ put32 (msg_arg0 m) @ put32 (msg_arg1 m)
     @ put32 (msg_data_length m) @ put32 (msg_data_check m) @ put32 (msg_magic m)"

definition image_amessage :: "string \<Rightarrow> amessage" where
  "image_amessage s = \<lparr>msg_command = get32 s, msg_arg0 = get32 (drop 4 s), msg_arg1 = get32 (drop 8 s),
     msg_data_length = get32 (drop 12 s), msg_data_check = get32 (drop 16 s), msg_magic = get32 (drop 20 s)\<rparr>"

text \<open>TLS allows no empty transfers.\<close>

definition DispatchRead :: "('w, 'x) conn_env_scheme \<Rightarrow> nat \<Rightarrow> ('w, string option) cprog" where
  "DispatchRead C len = bindp (getp fc_tls) (\<lambda>tls.
     if tls \<and> len = 0 then ret (Some []) else cos (os_conn_read C tls len))"

definition DispatchWrite :: "('w, 'x) conn_env_scheme \<Rightarrow> string \<Rightarrow> ('w, bool) cprog" where
  "DispatchWrite C buf = bindp (getp fc_tls) (\<lambda>tls.
     if tls \<and> buf = [] then ret True else cos (os_conn_send C tls buf))"

definition FdConnection_Read :: "('w, 'x) conn_env_scheme \<Rightarrow> ('w, apacket option) cprog" where
  "FdConnection_Read C = bindp (DispatchRead C 24) (\<lambda>r. case r of
       None \<Rightarrow> ret None
     | Some s \<Rightarrow>
         (let m = image_amessage s
          in if unat (msg_data_length m) > conn_max_payload C then ret None
             else bindp (DispatchRead C (unat (msg_data_length m))) (\<lambda>r. case r of
                 None \<Rightarrow> ret None
               | Some d \<Rightarrow> ret (Some \<lparr>pkt_msg = m, pkt_payload = d\<rparr>))))"

text \<open>A payload shorter than the header says is read past its end.\<close>

definition FdConnection_Write :: "('w, 'x) conn_env_scheme \<Rightarrow> apacket \<Rightarrow> ('w, bool) cprog" where
  "FdConnection_Write C p = bindp (DispatchWrite C (amessage_image (pkt_msg p))) (\<lambda>ok.
     let n = unat (msg_data_length (pkt_msg p))
     in if \<not> ok then ret False
        else if n = 0 then ret True
        else if length (pkt_payload p) < n then abortp ''read past the payload''
        else bindp (DispatchWrite C (take n (pkt_payload p))) ret)"

definition FdConnection_DoTlsHandshake ::
    "('w, 'x) conn_env_scheme \<Rightarrow> string \<Rightarrow> ('w, bool) cprog" where
  "FdConnection_DoTlsHandshake C key = bindp (cos (os_rsa_key C key)) (\<lambda>ok.
     if \<not> ok then ret False
     else bindp (getp fc_fd) (\<lambda>fd. bindp (cos (os_tls_create C key fd)) (\<lambda>made.
       if \<not> made then abortp ''Check failed: tls_''
       else thenp (modp (\<lambda>c. c\<lparr>fc_tls := True\<rparr>)) (bindp (cos (os_tls_handshake C)) (\<lambda>ok.
         if ok then ret True else thenp (modp (\<lambda>c. c\<lparr>fc_tls := False\<rparr>)) (ret False))))))"

definition FdConnection_Close :: "('w, 'x) conn_env_scheme \<Rightarrow> ('w, unit) cprog" where
  "FdConnection_Close C = bindp (getp fc_fd) (\<lambda>fd.
     thenp (cos (os_shutdown C fd)) (modp (\<lambda>c. c\<lparr>fc_fd := -1\<rparr>)))"

section \<open>\<^verbatim>\<open>BlockingConnectionAdapter\<close>\<close>

text \<open>A reader reads, has a packet to hand to the transport, has seen an error, or has ended.\<close>

datatype rthread = RReading | RGot apacket | RBroken | REnded
datatype wthread = WWaiting | WWriting apacket | WBroken | WEnded

text \<open>Where \<^verbatim>\<open>Stop\<close> is: \<^verbatim>\<open>stopped_\<close> set; the connection closed; the threads taken (the reader by its
  number); the threads joined; returned.\<close>

datatype stop_pc = NotStopped | Marked | Closed | Joining "nat option" | Joined | Returned

datatype conn_event = ConnRead apacket | ConnError string

text \<open>\<open>bc_readers\<close> are the reader threads started so far, \<open>bc_read_thread\<close> which of them the member
  \<^verbatim>\<open>read_thread_\<close> holds; \<open>bc_events\<close> are the calls of the transport and \<open>bc_sent\<close> the packets the
  underlying connection wrote.\<close>

record bca =
  bc_started :: bool
  bc_stopped :: bool
  bc_closed :: bool
  bc_queue :: "apacket list"
  bc_writer :: wthread
  bc_readers :: "rthread list"
  bc_read_thread :: "nat option"
  bc_stop :: stop_pc
  bc_handshaking :: bool
  bc_error_flag :: bool
  bc_events :: "conn_event list"
  bc_sent :: "apacket list"

definition bca_ctor :: bca where
  "bca_ctor = \<lparr>bc_started = False, bc_stopped = False, bc_closed = False, bc_queue = [],
     bc_writer = WEnded, bc_readers = [], bc_read_thread = None, bc_stop = NotStopped,
     bc_handshaking = False,
     bc_error_flag = False, bc_events = [], bc_sent = []\<rparr>"

definition error_once :: "string \<Rightarrow> bca \<Rightarrow> bca" where
  "error_once e c = (if bc_error_flag c then c
     else c\<lparr>bc_error_flag := True, bc_events := bc_events c @ [ConnError e]\<rparr>)"

definition StartReadThread :: "bca \<Rightarrow> bca" where
  "StartReadThread c = c\<lparr>bc_readers := bc_readers c @ [RReading],
     bc_read_thread := Some (length (bc_readers c))\<rparr>"

text \<open>\<open>None\<close> is the abort of a second start.\<close>

definition bca_Start :: "bca \<Rightarrow> bca option" where
  "bca_Start c = (if bc_started c then None
     else Some ((StartReadThread c)\<lparr>bc_writer := WWaiting, bc_started := True\<rparr>))"

definition bca_Write :: "apacket \<Rightarrow> bca \<Rightarrow> bca" where
  "bca_Write p c = c\<lparr>bc_queue := bc_queue c @ [p]\<rparr>"

definition set_reader :: "nat \<Rightarrow> rthread \<Rightarrow> bca \<Rightarrow> bca" where
  "set_reader i r c = c\<lparr>bc_readers := (bc_readers c)[i := r]\<rparr>"

definition reader_is :: "bca \<Rightarrow> nat \<Rightarrow> rthread \<Rightarrow> bool" where
  "reader_is c i r \<longleftrightarrow> i < length (bc_readers c) \<and> bc_readers c ! i = r"

definition reader_joined :: "bca \<Rightarrow> nat option \<Rightarrow> bool" where
  "reader_joined c r \<longleftrightarrow> (case r of None \<Rightarrow> True | Some i \<Rightarrow> reader_is c i REnded)"

text \<open>The transport gets the packet: the thread ends after the request for a TLS handshake.\<close>

definition reader_got :: "u32 \<Rightarrow> nat \<Rightarrow> apacket \<Rightarrow> bca \<Rightarrow> bca" where
  "reader_got stls i p c = set_reader i (if msg_command (pkt_msg p) = stls then REnded else RReading)
     (c\<lparr>bc_events := bc_events c @ [ConnRead p]\<rparr>)"

datatype bca_act =
    Start | Write apacket | TlsHandshake | TlsDone | ResetUnderlying | StopMark | StopClose | StopTake | StopJoin | StopError
  | GotPacket nat apacket | HandlesRead nat | ReadFails nat | ReadError nat
  | WriterTakes | WriterSent apacket | WriteFails apacket | WriteError | WriterStops

inductive bca_step :: "u32 \<Rightarrow> bca \<Rightarrow> bca_act \<Rightarrow> bca \<Rightarrow> bool" for stls where
  start: "bca_Start c = Some c' \<Longrightarrow> \<not> bc_handshaking c \<Longrightarrow> bca_step stls c Start c'"
| enqueue: "\<not> bc_handshaking c \<Longrightarrow> bca_step stls c (Write p) (bca_Write p c)"
| handshake: "\<not> bc_handshaking c \<Longrightarrow> bca_step stls c TlsHandshake (c\<lparr>bc_handshaking := True\<rparr>)"
| handshake_done: "bc_handshaking c \<Longrightarrow> reader_joined c (bc_read_thread c) \<Longrightarrow>
    bca_step stls c TlsDone ((StartReadThread c)\<lparr>bc_handshaking := False\<rparr>)"
| got: "reader_is c i RReading \<Longrightarrow> \<not> bc_closed c \<Longrightarrow>
    bca_step stls c (GotPacket i p) (set_reader i (RGot p) c)"
| handles_read: "reader_is c i (RGot p) \<Longrightarrow>
    bca_step stls c (HandlesRead i) (reader_got stls i p c)"
| read_fails: "reader_is c i RReading \<Longrightarrow> bca_step stls c (ReadFails i) (set_reader i RBroken c)"
| read_error: "reader_is c i RBroken \<Longrightarrow>
    bca_step stls c (ReadError i) (set_reader i REnded (error_once ''read failed'' c))"
| writer_takes: "\<not> bc_handshaking c \<Longrightarrow> bc_writer c = WWaiting \<Longrightarrow> \<not> bc_stopped c \<Longrightarrow> bc_queue c = p # q \<Longrightarrow>
    bca_step stls c WriterTakes (c\<lparr>bc_writer := WWriting p, bc_queue := q\<rparr>)"
| writer_sent: "bc_writer c = WWriting p \<Longrightarrow> \<not> bc_closed c \<Longrightarrow>
    bca_step stls c (WriterSent p) (c\<lparr>bc_writer := WWaiting, bc_sent := bc_sent c @ [p]\<rparr>)"
| write_fails: "bc_writer c = WWriting p \<Longrightarrow> bca_step stls c (WriteFails p) (c\<lparr>bc_writer := WBroken\<rparr>)"
| write_error: "bc_writer c = WBroken \<Longrightarrow>
    bca_step stls c WriteError ((error_once ''write failed'' c)\<lparr>bc_writer := WEnded\<rparr>)"
| writer_stops: "\<not> bc_handshaking c \<Longrightarrow> bc_writer c = WWaiting \<Longrightarrow> bc_stopped c \<Longrightarrow>
    bca_step stls c WriterStops (c\<lparr>bc_writer := WEnded\<rparr>)"
| reset_underlying: "\<not> bc_handshaking c \<Longrightarrow> bc_started c \<Longrightarrow> \<not> bc_stopped c \<Longrightarrow> bca_step stls c ResetUnderlying c"
| stop_mark: "\<not> bc_handshaking c \<Longrightarrow> bc_started c \<Longrightarrow> \<not> bc_stopped c \<Longrightarrow>
    bca_step stls c StopMark (c\<lparr>bc_stopped := True, bc_stop := Marked\<rparr>)"
| stop_close: "bc_stop c = Marked \<Longrightarrow>
    bca_step stls c StopClose (c\<lparr>bc_closed := True, bc_stop := Closed\<rparr>)"
| stop_take: "\<not> bc_handshaking c \<Longrightarrow> bc_stop c = Closed \<Longrightarrow>
    bca_step stls c StopTake (c\<lparr>bc_stop := Joining (bc_read_thread c), bc_read_thread := None\<rparr>)"
| stop_join: "bc_stop c = Joining r \<Longrightarrow> reader_joined c r \<Longrightarrow> bc_writer c = WEnded \<Longrightarrow>
    bca_step stls c StopJoin (c\<lparr>bc_stop := Joined\<rparr>)"
| stop_error: "bc_stop c = Joined \<Longrightarrow>
    bca_step stls c StopError ((error_once ''requested stop'' c)\<lparr>bc_stop := Returned\<rparr>)"

inductive bca_run :: "u32 \<Rightarrow> bca \<Rightarrow> bca_act list \<Rightarrow> bca \<Rightarrow> bool" for stls where
  run_nil: "bca_run stls c [] c"
| run_snoc: "bca_run stls c as c' \<Longrightarrow> bca_step stls c' a c'' \<Longrightarrow> bca_run stls c (as @ [a]) c''"

inductive_cases bca_stepE: "bca_step stls c a c'"

end
