(* ===== verification/Listeners.thy ===== *)
theory Listeners
  imports ServerState
begin

text \<open>
  The listeners of \<^verbatim>\<open>adb_listeners.cpp\<close>: local sockets that forward their connections to a service,
  and the smartsockets of the server itself. A listener is owned by \<open>listener_list\<close>; its
  \<^verbatim>\<open>adisconnect\<close> is \<open>ListenerDisconnect\<close> with its pointer. The list mutex is not modelled.
\<close>

unbundle bit_operations_syntax

datatype InstallStatus =
    INSTALL_STATUS_OK | INSTALL_STATUS_INTERNAL_ERROR | INSTALL_STATUS_CANNOT_BIND
  | INSTALL_STATUS_CANNOT_REBIND | INSTALL_STATUS_LISTENER_NOT_FOUND

definition isSmartSocket :: "('w, 'x) srv_env_scheme \<Rightarrow> alistener \<Rightarrow> bool" where
  "isSmartSocket E l \<longleftrightarrow> al_connect_to l = kSmartSocketConnectTo E"

text \<open>The destructor closes the descriptor with its fdevent and leaves the transport.\<close>

definition alistener_dtor :: "alistener \<Rightarrow> ('w, unit) sprog" where
  "alistener_dtor l =
     thenp (loopp (thenp (fdevent_Destroy (al_fde l)) (ret ())))
       (case al_transport l of
          None \<Rightarrow> ret ()
        | Some p \<Rightarrow> upd_transport p (RemoveDisconnect (ListenerDisconnect (al_ptr l))))"

definition erase_listener :: "alistener \<Rightarrow> ('w, unit) sprog" where
  "erase_listener l =
     thenp (modp (\<lambda>s. s\<lparr>listener_list := filter (\<lambda>k. al_ptr k \<noteq> al_ptr l) (listener_list s)\<rparr>))
       (alistener_dtor l)"

section \<open>Events\<close>

definition ss_listener_event_func ::
    "('w, 'x) srv_env_scheme \<Rightarrow> int \<Rightarrow> u32 \<Rightarrow> ('w, unit) sprog" where
  "ss_listener_event_func E lfd ev =
     (if ev AND FDE_READ = 0 then ret ()
      else bindp (sos (os_accept E lfd)) (\<lambda>fd.
        if fd < 0 then ret ()
        else thenp (ext E (SetRcvBuf fd))
          (bindp (sos (os_create_local_socket E fd)) (\<lambda>s. case s of
              None \<Rightarrow> ret ()
            | Some s \<Rightarrow> ext E (ConnectToSmartsocket s)))))"

definition with_listener :: "lptr \<Rightarrow> (alistener \<Rightarrow> ('w, 'a) sprog) \<Rightarrow> ('w, 'a) sprog" where
  "with_listener arg k = bindp (getp (\<lambda>s. find (\<lambda>l. al_ptr l = arg) (listener_list s))) (\<lambda>r.
     case r of None \<Rightarrow> abortp ''dangling listener'' | Some l \<Rightarrow> k l)"

definition listener_event_func ::
    "('w, 'x) srv_env_scheme \<Rightarrow> int \<Rightarrow> u32 \<Rightarrow> lptr \<Rightarrow> ('w, unit) sprog" where
  "listener_event_func E lfd ev arg =
     (if ev AND FDE_READ = 0 then ret ()
      else bindp (sos (os_accept E lfd)) (\<lambda>fd.
        if fd < 0 then ret ()
        else bindp (sos (os_create_local_socket E fd)) (\<lambda>s. case s of
            None \<Rightarrow> ret ()
          | Some s \<Rightarrow> with_listener arg (\<lambda>l. thenp (ext E (SocketSetTransport s (al_transport l)))
                        (ext E (ConnectToRemote s (al_connect_to l)))))))"

text \<open>The transport is gone: the listener forgets it before it is erased.\<close>

definition listener_disconnect :: "lptr \<Rightarrow> ('w, unit) sprog" where
  "listener_disconnect arg = bindp (getp (\<lambda>s. find (\<lambda>l. al_ptr l = arg) (listener_list s))) (\<lambda>r.
     case r of None \<Rightarrow> ret () | Some l \<Rightarrow> erase_listener (l\<lparr>al_transport := None\<rparr>))"

section \<open>Operations\<close>

definition format_listener :: "transport \<Rightarrow> alistener \<Rightarrow> string" where
  "format_listener t l = (if t_serial t \<noteq> [] then c_str (t_serial t) else ''(reverse)'') @ '' ''
     @ c_str (al_local_name l) @ '' '' @ c_str (al_connect_to l) @ [CHR 0x0A]"

definition format_listeners :: "('w, 'x) srv_env_scheme \<Rightarrow> ('w, string) sprog" where
  "format_listeners E = bindp (getp listener_list) (\<lambda>ls.
     fold_prog (\<lambda>l acc.
       if isSmartSocket E l then ret acc
       else case al_transport l of
           None \<Rightarrow> abortp ''null transport''
         | Some p \<Rightarrow> with_transport p (\<lambda>t. ret (acc @ format_listener t l))) ls [])"

definition remove_listener :: "string \<Rightarrow> ('w, InstallStatus) sprog" where
  "remove_listener local_name =
     bindp (getp (\<lambda>s. find (\<lambda>l. al_local_name l = c_str local_name) (listener_list s))) (\<lambda>r. case r of
         Some l \<Rightarrow> thenp (erase_listener l) (ret INSTALL_STATUS_OK)
       | None \<Rightarrow> ret INSTALL_STATUS_LISTENER_NOT_FOUND)"

text \<open>\<^verbatim>\<open>connect_to[0]\<close> of an empty string is its NUL.\<close>

definition never_removed :: "alistener \<Rightarrow> bool" where
  "never_removed l \<longleftrightarrow> al_connect_to l \<noteq> [] \<and> hd (al_connect_to l) = CHR ''*''"

definition remove_all_listeners :: "('w, unit) sprog" where
  "remove_all_listeners = bindp (getp listener_list) (\<lambda>ls.
     fold_prog (\<lambda>l _. if never_removed l then ret () else erase_listener l) ls ())"

definition fde_set :: "fdptr option \<Rightarrow> u32 \<Rightarrow> ('w, unit) sprog" where
  "fde_set fde events = (case fde of
       None \<Rightarrow> abortp ''null fdevent'' | Some p \<Rightarrow> loopp (fdevent_Set p events))"

definition enable_server_sockets :: "('w, 'x) srv_env_scheme \<Rightarrow> ('w, unit) sprog" where
  "enable_server_sockets E = bindp (getp listener_list) (\<lambda>ls.
     fold_prog (\<lambda>l _. if isSmartSocket E l then fde_set (al_fde l) FDE_READ else ret ()) ls ())"

definition close_smartsockets :: "('w, 'x) srv_env_scheme \<Rightarrow> ('w, unit) sprog" where
  "close_smartsockets E = bindp (getp listener_list) (\<lambda>ls.
     fold_prog (\<lambda>l _. if isSmartSocket E l then erase_listener l else ret ()) ls ())"

text \<open>Results of \<open>install_listener\<close>: the status, the port the caller gets back and the error text
  (\<open>None\<close> where the pointers are not written).\<close>

type_synonym install_result = "InstallStatus \<times> int option \<times> string option"

definition set_listener :: "alistener \<Rightarrow> ('w, unit) sprog" where
  "set_listener l = modp (\<lambda>s. s\<lparr>listener_list :=
     map (\<lambda>k. if al_ptr k = al_ptr l then l else k) (listener_list s)\<rparr>)"

definition rebind_listener ::
    "alistener \<Rightarrow> string \<Rightarrow> tptr option \<Rightarrow> ('w, unit) sprog" where
  "rebind_listener l connect_to transport =
     (let d = ListenerDisconnect (al_ptr l)
      in thenp (set_listener (l\<lparr>al_connect_to := connect_to\<rparr>))
        (if al_transport l = transport then ret ()
         else thenp (case al_transport l of
                None \<Rightarrow> abortp ''null transport'' | Some p \<Rightarrow> upd_transport p (RemoveDisconnect d))
           (thenp (set_listener (l\<lparr>al_connect_to := connect_to, al_transport := transport\<rparr>))
              (case transport of
                None \<Rightarrow> abortp ''null transport'' | Some p \<Rightarrow> upd_transport p (AddDisconnect d)))))"

definition new_listener ::
    "('w, 'x) srv_env_scheme \<Rightarrow> string \<Rightarrow> string \<Rightarrow> tptr option \<Rightarrow> u32 \<Rightarrow> int \<Rightarrow> ('w, unit) sprog" where
  "new_listener E local_name connect_to transport flags fd =
     bindp (getp next_listener) (\<lambda>p.
     let smart = (connect_to = kSmartSocketConnectTo E)
     in thenp (modp (\<lambda>s. s\<lparr>next_listener := Suc p\<rparr>))
       (thenp (ext E (CloseOnExec fd))
       (bindp (loopp (fdevent_Create (srv_fd E) fd
                (FdFunc (if smart then SsListenerEvent p else ListenerEvent p)))) (\<lambda>fde.
        thenp (if flags AND INSTALL_LISTENER_DISABLED E = 0 then fde_set (Some fde) FDE_READ else ret ())
        (thenp (case transport of None \<Rightarrow> ret ()
                | Some t \<Rightarrow> upd_transport t (AddDisconnect (ListenerDisconnect p)))
          (modp (\<lambda>s. s\<lparr>listener_list := listener_list s @
             [\<lparr>al_ptr = p, al_fde = Some fde, al_fd = fd, al_local_name = local_name,
               al_connect_to = connect_to, al_transport = transport\<rparr>]\<rparr>))))))) "

definition install_listener ::
    "('w, 'x) srv_env_scheme \<Rightarrow> string \<Rightarrow> string \<Rightarrow> tptr option \<Rightarrow> u32 \<Rightarrow> ('w, install_result) sprog" where
  "install_listener E local_name connect_to transport flags =
     bindp (getp (\<lambda>s. find (\<lambda>l. al_local_name l = local_name) (listener_list s))) (\<lambda>r. case r of
         Some l \<Rightarrow>
           if isSmartSocket E l then
             ret (INSTALL_STATUS_INTERNAL_ERROR, None, Some ''cannot repurpose smartsocket'')
           else if flags AND INSTALL_LISTENER_NO_REBIND E \<noteq> 0 then
             ret (INSTALL_STATUS_CANNOT_REBIND, None, Some ''cannot rebind'')
           else thenp (rebind_listener l (c_str connect_to) transport) (ret (INSTALL_STATUS_OK, None, None))
       | None \<Rightarrow>
           bindp (sos (os_socket_spec_listen E local_name)) (\<lambda>(r, resolved). case r of
               Inl err \<Rightarrow> ret (INSTALL_STATUS_CANNOT_BIND, None, Some err)
             | Inr fd \<Rightarrow>
                 if fd < 0 then ret (INSTALL_STATUS_CANNOT_BIND, None, None)
                 else thenp (new_listener E
                       (if resolved \<noteq> 0 then ''tcp:'' @ show_int resolved else local_name)
                       (c_str connect_to) transport flags fd)
                   (ret (INSTALL_STATUS_OK, if resolved \<noteq> 0 then Some resolved else None, None))))"

text \<open>After the porting layer lost its sockets: every listener listens again. The error pointer given
  to \<^verbatim>\<open>socket_spec_listen\<close> is null, so its text is lost and a failing listener keeps \<^verbatim>\<open>-1\<close>; the
  fdevents still hold the old descriptors.\<close>

definition reinstall_all_listeners :: "('w, 'x) srv_env_scheme \<Rightarrow> ('w, unit) sprog" where
  "reinstall_all_listeners E = bindp (getp listener_list) (\<lambda>ls.
     fold_prog (\<lambda>l _. bindp (sos (os_socket_spec_listen E (al_local_name l))) (\<lambda>(r, _).
       case r of Inl _ \<Rightarrow> set_listener (l\<lparr>al_fd := -1\<rparr>)
       | Inr fd \<Rightarrow> set_listener (l\<lparr>al_fd := fd\<rparr>))) ls ())"

end
