(* ===== verification/Transport.thy ===== *)
theory Transport
  imports Listeners
begin

text \<open>
  The transports of the server (\<^verbatim>\<open>transport.cpp\<close>): listing them, the device trackers, their life
  from registration to deletion, the reconnect handler, and the choice of a transport for a
  request. \<^verbatim>\<open>handle_online\<close>, \<^verbatim>\<open>handle_offline\<close> and \<^verbatim>\<open>send_connect\<close> of \<^verbatim>\<open>client/adb.cpp\<close> are here
  because the life of a transport needs them. The recursive transport lock is not modelled.
\<close>

section \<open>Listing\<close>

definition is_alnum :: "char \<Rightarrow> bool" where
  "is_alnum c = (let n = (of_char c :: nat)
     in (48 \<le> n \<and> n \<le> 57) \<or> (65 \<le> n \<and> n \<le> 90) \<or> (97 \<le> n \<and> n \<le> 122))"

definition sanitize :: "string \<Rightarrow> bool \<Rightarrow> string" where
  "sanitize str alphanumeric =
     map (\<lambda>c. if (if alphanumeric then \<not> is_alnum c else c = CHR 0x0A) then CHR ''_'' else c) str"

definition state_string :: "('w, 'x) srv_env_scheme \<Rightarrow> ConnectionState \<Rightarrow> string" where
  "state_string E st = (case st of
       kCsOffline \<Rightarrow> ''offline'' | kCsBootloader \<Rightarrow> ''bootloader'' | kCsDevice \<Rightarrow> ''device''
     | kCsHost \<Rightarrow> ''host'' | kCsRecovery \<Rightarrow> ''recovery'' | kCsRescue \<Rightarrow> ''rescue''
     | kCsNoPerm \<Rightarrow> no_permission_short E | kCsSideload \<Rightarrow> ''sideload''
     | kCsUnauthorized \<Rightarrow> ''unauthorized'' | kCsAuthorizing \<Rightarrow> ''authorizing''
     | kCsConnecting \<Rightarrow> ''connecting'' | _ \<Rightarrow> ''unknown'')"

definition append_transport_info :: "string \<Rightarrow> string \<Rightarrow> bool \<Rightarrow> string" where
  "append_transport_info key v alphanumeric =
     (if v = [] then [] else CHR '' '' # key @ sanitize v alphanumeric)"

definition shown_serial :: "transport \<Rightarrow> string" where
  "shown_serial t = (if t_serial t = [] then ''(no serial number)'' else t_serial t)"

definition append_transport :: "('w, 'x) srv_env_scheme \<Rightarrow> bool \<Rightarrow> transport \<Rightarrow> string" where
  "append_transport E long_listing t =
     (if \<not> long_listing then shown_serial t @ CHR 0x09 # state_string E (t_state t)
      else pad_right 22 CHR '' '' (c_str (shown_serial t)) @ '' '' @ c_str (state_string E (t_state t))
        @ append_transport_info [] (t_devpath t) False
        @ append_transport_info ''product:'' (t_product t) False
        @ append_transport_info ''model:'' (t_model t) True
        @ append_transport_info ''device:'' (t_device t) False
        @ '' transport_id:'' @ show_nat (unat (t_id t))) @ [CHR 0x0A]"

definition transportListToText :: "('w, 'x) srv_env_scheme \<Rightarrow> bool \<Rightarrow> transport list \<Rightarrow> string" where
  "transportListToText E long_listing ts = concat (map (append_transport E long_listing) ts)"

text \<open>The message is serialized by protobuf.\<close>

fun adbStateFromProto :: "ConnectionState \<Rightarrow> proto_state" where
  "adbStateFromProto kCsConnecting = CONNECTING"
| "adbStateFromProto kCsAuthorizing = AUTHORIZING"
| "adbStateFromProto kCsUnauthorized = UNAUTHORIZED"
| "adbStateFromProto kCsNoPerm = NOPERMISSION"
| "adbStateFromProto kCsDetached = DETACHED"
| "adbStateFromProto kCsOffline = OFFLINE"
| "adbStateFromProto kCsBootloader = BOOTLOADER"
| "adbStateFromProto kCsDevice = DEVICE"
| "adbStateFromProto kCsHost = HOST"
| "adbStateFromProto kCsRecovery = RECOVERY"
| "adbStateFromProto kCsSideload = SIDELOAD"
| "adbStateFromProto kCsRescue = RESCUE"
| "adbStateFromProto kCsAny = ANY"

definition transportListToProto :: "('w, 'x) srv_env_scheme \<Rightarrow> bool \<Rightarrow> transport list \<Rightarrow> string" where
  "transportListToProto E text_version ts = devices_proto E text_version (map (\<lambda>t.
     \<lparr>pd_serial = c_str (t_serial t),
      pd_connection_type = (if t_type t = kTransportUsb then PROTO_USB else PROTO_SOCKET),
      pd_state = adbStateFromProto (t_state t), pd_bus_address = sanitize (t_devpath t) False,
      pd_product = sanitize (t_product t) False, pd_model = sanitize (t_model t) True,
      pd_device = sanitize (t_device t) False, pd_negotiated_speed = fst (connection_speeds E t),
      pd_max_speed = snd (connection_speeds E t), pd_transport_id = t_id t\<rparr>) ts)"

definition sort_transports :: "('w, 'x) srv_env_scheme \<Rightarrow> transport list \<Rightarrow> transport list" where
  "sort_transports E = sort_key (\<lambda>t. (type_rank E (t_type t), t_serial t))"

definition transports_of :: "tptr list \<Rightarrow> ('w, transport list) sprog" where
  "transports_of ps = fold_prog (\<lambda>p acc. with_transport p (\<lambda>t. ret (acc @ [t]))) ps []"

definition list_transports :: "('w, 'x) srv_env_scheme \<Rightarrow> TrackerOutputType \<Rightarrow> ('w, string) sprog" where
  "list_transports E kind = bindp (getp transport_list) (\<lambda>ps. bindp (transports_of ps) (\<lambda>ts.
     ret (let sorted = sort_transports E ts in case kind of
         SHORT_TEXT \<Rightarrow> transportListToText E False sorted
       | LONG_TEXT \<Rightarrow> transportListToText E True sorted
       | PROTOBUF \<Rightarrow> transportListToProto E False sorted
       | TEXT_PROTOBUF \<Rightarrow> transportListToProto E True sorted)))"

section \<open>Device trackers\<close>

definition device_tracker_remove :: "nat \<Rightarrow> ('w, unit) sprog" where
  "device_tracker_remove p = modp (\<lambda>s. s\<lparr>device_tracker_list :=
     filter (\<lambda>d. dt_ptr d \<noteq> p) (device_tracker_list s)\<rparr>)"

definition with_tracker :: "nat \<Rightarrow> (device_tracker \<Rightarrow> ('w, 'a) sprog) \<Rightarrow> ('w, 'a) sprog" where
  "with_tracker p k = bindp (getp (\<lambda>s. find (\<lambda>d. dt_ptr d = p) (device_tracker_list s))) (\<lambda>r.
     case r of None \<Rightarrow> abortp ''dangling tracker'' | Some d \<Rightarrow> k d)"

definition device_tracker_close :: "('w, 'x) srv_env_scheme \<Rightarrow> nat \<Rightarrow> ('w, unit) sprog" where
  "device_tracker_close E p = with_tracker p (\<lambda>d.
     thenp (case dt_peer d of None \<Rightarrow> ret () | Some peer \<Rightarrow> ext E (PeerClose peer))
       (device_tracker_remove p))"

definition device_tracker_enqueue :: "('w, 'x) srv_env_scheme \<Rightarrow> nat \<Rightarrow> ('w, int) sprog" where
  "device_tracker_enqueue E p = thenp (device_tracker_close E p) (ret (-1))"

text \<open>\<^verbatim>\<open>snprintf\<close> into five bytes keeps four digits, however many the length has.\<close>

definition tracker_message :: "string \<Rightarrow> string" where
  "tracker_message str = take 4 (pad_left 4 CHR ''0'' (show_hex (length str mod 2 ^ 32))) @ str"

text \<open>A peer that closes while it takes the message closes the tracker.\<close>

definition device_tracker_send ::
    "('w, 'x) srv_env_scheme \<Rightarrow> nat \<Rightarrow> string \<Rightarrow> ('w, unit) sprog" where
  "device_tracker_send E p str = with_tracker p (\<lambda>d. case dt_peer d of
       None \<Rightarrow> abortp ''null peer''
     | Some peer \<Rightarrow>
         thenp (modp (\<lambda>s. s\<lparr>ext_trace := ext_trace s @ [PeerEnqueue peer (tracker_message str)]\<rparr>))
         (bindp (sos (os_peer_enqueue E peer (tracker_message str))) (\<lambda>closed.
            if closed then device_tracker_remove p else ret ())))"

definition device_tracker_ready :: "('w, 'x) srv_env_scheme \<Rightarrow> nat \<Rightarrow> ('w, unit) sprog" where
  "device_tracker_ready E p = with_tracker p (\<lambda>d.
     if \<not> dt_update_needed d then ret ()
     else thenp (modp (\<lambda>s. s\<lparr>device_tracker_list := map (\<lambda>e.
              if dt_ptr e = p then e\<lparr>dt_update_needed := False\<rparr> else e) (device_tracker_list s)\<rparr>))
       (bindp (list_transports E (dt_output_type d)) (device_tracker_send E p)))"

definition create_device_tracker :: "TrackerOutputType \<Rightarrow> ('w, nat) sprog" where
  "create_device_tracker kind = bindp (getp next_tracker) (\<lambda>p.
     thenp (modp (\<lambda>s. s\<lparr>next_tracker := Suc p, device_tracker_list :=
        \<lparr>dt_ptr = p, dt_peer = None, dt_update_needed = True, dt_output_type = kind\<rparr>
          # device_tracker_list s\<rparr>)) (ret p))"

section \<open>Changes of the list\<close>

text \<open>The callback returns false to stop; the result says whether all were visited.\<close>

definition iterate_transports :: "(tptr \<Rightarrow> transport \<Rightarrow> ('w, bool) sprog) \<Rightarrow> ('w, bool) sprog" where
  "iterate_transports f = bindp (getp (\<lambda>s. transport_list s @ pending_list s)) (\<lambda>ps.
     bindp (for_each ps (\<lambda>p. with_transport p (\<lambda>t. bindp (f p t) (\<lambda>go.
       ret (if go then None else Some ()))))) (\<lambda>r. ret (r = None)))"

definition update_transport_status_real :: "('w, unit) sprog" where
  "update_transport_status_real =
     bindp (iterate_transports (\<lambda>_ t. ret (\<not> (t_type t = kTransportUsb \<and> \<not> t_online t))))
       (\<lambda>r. modp (\<lambda>s. s\<lparr>transports_ready := r\<rparr>))"

definition update_transport_status :: "('w, 'x) srv_env_scheme \<Rightarrow> ('w, unit) sprog" where
  "update_transport_status E = thenp update_transport_status_real
     (bindp (iterate_transports (\<lambda>_ t. thenp
        (ext E (ConnectStatusUpdated (c_str (t_serial t)) (c_str (state_string E (t_state t)))))
        (ret True))) (\<lambda>_. ret ()))"

definition adb_notify_device_scan_complete :: "('w, 'x) srv_env_scheme \<Rightarrow> ('w, unit) sprog" where
  "adb_notify_device_scan_complete E = bindp (getp device_scan_complete) (\<lambda>done.
     if done then ret ()
     else thenp (modp (\<lambda>s. s\<lparr>device_scan_complete := True\<rparr>)) (update_transport_status E))"

definition update_transports :: "('w, 'x) srv_env_scheme \<Rightarrow> ('w, unit) sprog" where
  "update_transports E = thenp (update_transport_status E)
     (bindp (getp (\<lambda>s. map dt_ptr (device_tracker_list s))) (\<lambda>ps.
        fold_prog (\<lambda>p _. with_tracker p (\<lambda>d.
          bindp (list_transports E (dt_output_type d)) (device_tracker_send E p))) ps ()))"

definition SetConnectionState :: "('w, 'x) srv_env_scheme \<Rightarrow> tptr \<Rightarrow> ConnectionState \<Rightarrow> ('w, unit) sprog" where
  "SetConnectionState E p st = thenp check_looper
     (thenp (upd_transport p (\<lambda>t. t\<lparr>t_state := st\<rparr>)) (update_transports E))"

definition RunDisconnects :: "('w, 'x) srv_env_scheme \<Rightarrow> tptr \<Rightarrow> ('w, unit) sprog" where
  "RunDisconnects E p = with_transport p (\<lambda>t.
     thenp (fold_prog (\<lambda>d _. case d of
         ListenerDisconnect l \<Rightarrow> listener_disconnect l
       | OtherDisconnect n \<Rightarrow> ext E (RunOtherDisconnect n p)) (t_disconnects t) ())
       (upd_transport p (\<lambda>t. t\<lparr>t_disconnects := []\<rparr>)))"

definition handle_online :: "tptr \<Rightarrow> ('w, unit) sprog" where
  "handle_online p = thenp (upd_transport p (\<lambda>t. t\<lparr>t_online := True\<rparr>)) (SetConnectionEstablished p True)"

definition handle_offline :: "('w, 'x) srv_env_scheme \<Rightarrow> tptr \<Rightarrow> ('w, unit) sprog" where
  "handle_offline E p = with_transport p (\<lambda>t.
     if t_state t = kCsOffline then ret ()
     else thenp (SetConnectionState E p kCsOffline)
       (thenp (upd_transport p (\<lambda>t. t\<lparr>t_online := False\<rparr>))
       (thenp (ext E (CloseAllSockets p)) (RunDisconnects E p))))"

section \<open>Connecting\<close>

definition empty_packet :: apacket where
  "empty_packet = \<lparr>pkt_msg = \<lparr>msg_command = 0, msg_arg0 = 0, msg_arg1 = 0, msg_data_length = 0,
     msg_data_check = 0, msg_magic = 0\<rparr>, pkt_payload = []\<rparr>"

definition make_packet :: "u32 \<Rightarrow> u32 \<Rightarrow> u32 \<Rightarrow> string \<Rightarrow> apacket" where
  "make_packet command arg0 arg1 payload = \<lparr>pkt_msg = \<lparr>msg_command = command, msg_arg0 = arg0,
     msg_arg1 = arg1, msg_data_length = word_of_nat (length payload), msg_data_check = 0,
     msg_magic = 0\<rparr>, pkt_payload = payload\<rparr>"

definition get_connection_string :: "('w, 'x) srv_env_scheme \<Rightarrow> string" where
  "get_connection_string E = c_str (adb_device_banner E) @ ''::'' @ c_str (Join E
     [''features='' @ c_str (FeatureSetToString E
        (supported_features (srv_getenv E ''ADB_DELAYED_ACK'')))] '';'')"

definition send_connect :: "('w, 'x) srv_env_scheme \<Rightarrow> tptr \<Rightarrow> ('w, unit) sprog" where
  "send_connect E p = with_transport p (\<lambda>t.
     if length (get_connection_string E) > MAX_PAYLOAD_V1 E
     then abortp ''Connection banner is too long''
     else send_packet E (make_packet (A_CNXN E) (word_of_int (A_VERSION E))
            (word_of_nat (t_max_payload t)) (get_connection_string E)) p)"

definition AttachTransport ::
    "('w, 'x) srv_env_scheme \<Rightarrow> tptr \<Rightarrow> ('w, string option) sprog" where
  "AttachTransport E p = thenp check_looper (with_transport p (\<lambda>t.
     if \<not> is_libusb_enabled E then ret (Some ''attach/detach only implemented for libusb backend'')
     else if t_state t \<noteq> kCsDetached
     then ret (Some (''transport '' @ c_str (t_serial t) @ '' is not detached''))
     else thenp (upd_transport p ResetKeys)
       (bindp (sos (os_conn_attach E True p)) (\<lambda>err. case err of
           Some e \<Rightarrow> ret (Some e)
         | None \<Rightarrow> thenp (send_connect E p) (ret None)))))"

definition DetachTransport ::
    "('w, 'x) srv_env_scheme \<Rightarrow> tptr \<Rightarrow> ('w, string option) sprog" where
  "DetachTransport E p = thenp check_looper (with_transport p (\<lambda>t.
     if \<not> is_libusb_enabled E then ret (Some ''attach/detach only implemented for libusb backend'')
     else if t_state t = kCsDetached
     then ret (Some (''transport '' @ c_str (t_serial t) @ '' is already detached''))
     else thenp (handle_offline E p)
       (bindp (sos (os_conn_attach E False p)) (\<lambda>err. case err of
           Some e \<Rightarrow> ret (Some e)
         | None \<Rightarrow> thenp (SetConnectionState E p kCsDetached) (ret None)))))"

section \<open>Registration and removal\<close>

definition usb_devices_start_detached :: "('w, 'x) srv_env_scheme \<Rightarrow> bool" where
  "usb_devices_start_detached E \<longleftrightarrow>
     is_libusb_enabled E \<and> srv_getenv E ''ADB_LIBUSB_START_DETACHED'' = Some ''1''"

definition fdevent_unregister_transport :: "('w, 'x) srv_env_scheme \<Rightarrow> tptr \<Rightarrow> ('w, unit) sprog" where
  "fdevent_unregister_transport E p =
     thenp (modp (\<lambda>s. s\<lparr>transport_list := removeAll p (transport_list s)\<rparr>))
     (thenp (delete_transport p) (update_transports E))"

definition fdevent_register_transport :: "('w, 'x) srv_env_scheme \<Rightarrow> tptr \<Rightarrow> ('w, unit) sprog" where
  "fdevent_register_transport E p = with_transport p (\<lambda>t.
     thenp (if t_state t = kCsNoPerm then ret ()
            else thenp (ext E (ConnSetTransport p))
              (if t_type t = kTransportUsb \<and> usb_devices_start_detached E
               then SetConnectionState E p kCsDetached
               else thenp (ext E (ConnStart p)) (send_connect E p)))
     (thenp (modp (\<lambda>s. if p \<in> set (pending_list s)
          then s\<lparr>pending_list := removeAll p (pending_list s), transport_list := p # transport_list s\<rparr>
          else s))
        (update_transports E)))"

definition register_transport :: "('w, 'x) srv_env_scheme \<Rightarrow> tptr \<Rightarrow> ('w, unit) sprog" where
  "register_transport E p = run_on_looper E (RegisterTransport p)"

definition remove_transport :: "('w, 'x) srv_env_scheme \<Rightarrow> tptr \<Rightarrow> ('w, unit) sprog" where
  "remove_transport E p = run_on_looper E (UnregisterTransport p)"

section \<open>Reconnecting\<close>

definition kMaxAttempts :: nat where "kMaxAttempts = 20"
definition kDefaultTimeout :: int where "kDefaultTimeout = 3000000000"
definition reconnect_delay :: int where "reconnect_delay = 250000000"

text \<open>The order of \<^verbatim>\<open>std::set<ReconnectAttempt>\<close>: by time, then by pointer.\<close>

fun insert_attempt :: "reconnect_attempt \<Rightarrow> reconnect_attempt list \<Rightarrow> reconnect_attempt list" where
  "insert_attempt a [] = [a]"
| "insert_attempt a (b # bs) =
     (if (ra_time a, ra_transport a) < (ra_time b, ra_transport b) then a # b # bs
      else if (ra_time a, ra_transport a) = (ra_time b, ra_transport b) then b # bs
      else b # insert_attempt a bs)"

definition init_reconnect_handler :: "('w, unit) sprog" where
  "init_reconnect_handler = bindp (getp reconnect_initialized) (\<lambda>i.
     if i then ret () else thenp check_looper (modp (\<lambda>s. s\<lparr>reconnect_initialized := True\<rparr>)))"

text \<open>\<^verbatim>\<open>Stop\<close>: the thread has been joined; what is left in the queue is removed.\<close>

definition reconnect_Stop :: "('w, 'x) srv_env_scheme \<Rightarrow> ('w, unit) sprog" where
  "reconnect_Stop E = thenp check_looper (thenp (modp (\<lambda>s. s\<lparr>reconnect_running := False\<rparr>))
     (bindp (getp reconnect_queue) (\<lambda>q.
        fold_prog (\<lambda>a _. thenp (modp (\<lambda>s. s\<lparr>reconnect_queue := tl (reconnect_queue s)\<rparr>))
          (remove_transport E (ra_transport a))) q ())))"

definition TrackTransport :: "('w, 'x) srv_env_scheme \<Rightarrow> tptr \<Rightarrow> ('w, unit) sprog" where
  "TrackTransport E p = thenp check_looper (bindp (getp reconnect_running) (\<lambda>running.
     if \<not> running then ret ()
     else bindp (sos (os_clock (srv_fd E))) (\<lambda>now. modp (\<lambda>s. s\<lparr>reconnect_queue := insert_attempt
        \<lparr>ra_transport = p, ra_time = now + reconnect_delay, ra_attempts_left = kMaxAttempts\<rparr>
        (reconnect_queue s)\<rparr>))))"

text \<open>A turn of the handler's thread in two steps: \<open>reconnect_take\<close>, under the lock after a wake-up,
  answers \<open>Inl\<close> whether to go on or \<open>Inr\<close> with the attempt that is due; \<open>reconnect_finish\<close> makes
  the attempt.\<close>

definition remove_kicked :: "('w, 'x) srv_env_scheme \<Rightarrow> ('w, unit) sprog" where
  "remove_kicked E = bindp (getp reconnect_queue) (\<lambda>q.
     fold_prog (\<lambda>a _. with_transport (ra_transport a) (\<lambda>t.
       if t_kicked t
       then thenp (remove_transport E (ra_transport a))
              (modp (\<lambda>s. s\<lparr>reconnect_queue := removeAll a (reconnect_queue s)\<rparr>))
       else ret ())) q ())"

definition reconnect_take ::
    "('w, 'x) srv_env_scheme \<Rightarrow> ('w, bool + reconnect_attempt) sprog" where
  "reconnect_take E = bindp (getp reconnect_running) (\<lambda>running.
     if \<not> running then ret (Inl False)
     else thenp (remove_kicked E) (bindp (getp reconnect_queue) (\<lambda>q. case q of
         [] \<Rightarrow> ret (Inl True)
       | a # rest \<Rightarrow> bindp (sos (os_clock (srv_fd E))) (\<lambda>now.
           if ra_time a > now then ret (Inl True)
           else thenp (modp (\<lambda>s. s\<lparr>reconnect_queue := rest\<rparr>)) (ret (Inr a))))))"

definition reconnect_finish ::
    "('w, 'x) srv_env_scheme \<Rightarrow> reconnect_attempt \<Rightarrow> ('w, unit) sprog" where
  "reconnect_finish E a = bindp (sos (os_reconnect E (ra_transport a))) (\<lambda>r. case r of
       Retry \<Rightarrow> if ra_attempts_left a = 0 then remove_transport E (ra_transport a)
         else bindp (sos (os_clock (srv_fd E))) (\<lambda>now. modp (\<lambda>s. s\<lparr>reconnect_queue := insert_attempt
           \<lparr>ra_transport = ra_transport a, ra_time = now + kDefaultTimeout,
            ra_attempts_left = ra_attempts_left a - 1\<rparr> (reconnect_queue s)\<rparr>))
     | Success \<Rightarrow> register_transport E (ra_transport a)
     | AbortReconnect \<Rightarrow> remove_transport E (ra_transport a))"

definition reconnect_turn :: "('w, 'x) srv_env_scheme \<Rightarrow> ('w, bool) sprog" where
  "reconnect_turn E = bindp (reconnect_take E) (\<lambda>r. case r of
       Inl go \<Rightarrow> ret go
     | Inr a \<Rightarrow> thenp (reconnect_finish E a) (ret True))"

definition transport_destroy :: "('w, 'x) srv_env_scheme \<Rightarrow> tptr \<Rightarrow> ('w, unit) sprog" where
  "transport_destroy E p = thenp check_looper (thenp (ext E (ConnStop p)) (with_transport p (\<lambda>t.
     if IsTcpDevice E t \<and> \<not> t_kicked t
     then thenp (upd_transport p ResetKeys) (TrackTransport E p)
     else remove_transport E p)))"

section \<open>Kicking\<close>

definition kick_or_reset :: "('w, 'x) srv_env_scheme \<Rightarrow> bool \<Rightarrow> tptr \<Rightarrow> ('w, unit) sprog" where
  "kick_or_reset E reset p = (if reset then ResetTransport E p else Kick E p)"

definition kick_transport :: "('w, 'x) srv_env_scheme \<Rightarrow> tptr \<Rightarrow> bool \<Rightarrow> ('w, unit) sprog" where
  "kick_transport E p reset = bindp (getp (\<lambda>s. p \<in> set (transport_list s))) (\<lambda>known.
     if known then kick_or_reset E reset p else ret ())"

definition kick_where ::
    "('w, 'x) srv_env_scheme \<Rightarrow> (transport \<Rightarrow> bool) \<Rightarrow> bool \<Rightarrow> ('w, unit) sprog" where
  "kick_where E P reset = bindp (getp transport_list) (\<lambda>ps. fold_prog (\<lambda>p _.
     with_transport p (\<lambda>t. if P t then kick_or_reset E reset p else ret ())) ps ())"

definition kick_all_transports :: "('w, 'x) srv_env_scheme \<Rightarrow> ('w, unit) sprog" where
  "kick_all_transports E = thenp (reconnect_Stop E) (kick_where E (\<lambda>_. True) False)"

definition kick_all_tcp_tls_transports :: "('w, 'x) srv_env_scheme \<Rightarrow> ('w, unit) sprog" where
  "kick_all_tcp_tls_transports E = kick_where E (\<lambda>t. IsTcpDevice E t \<and> t_use_tls t) False"

definition kick_all_tcp_devices :: "('w, 'x) srv_env_scheme \<Rightarrow> ('w, unit) sprog" where
  "kick_all_tcp_devices E = kick_where E (IsTcpDevice E) False"

definition close_usb_devices ::
    "('w, 'x) srv_env_scheme \<Rightarrow> (transport \<Rightarrow> bool) \<Rightarrow> bool \<Rightarrow> ('w, unit) sprog" where
  "close_usb_devices E P reset = kick_where E P reset"

end
