(* ===== verification/TransportSelect.thy ===== *)
theory TransportSelect
  imports Transport
begin

text \<open>
  Choosing and adding transports (\<^verbatim>\<open>transport.cpp\<close>): matching a target, \<^verbatim>\<open>acquire_one_transport\<close>,
  the registration of socket and USB transports, and the reverse-forward table that decides which
  addresses a device may connect to. \<^verbatim>\<open>ParseNetAddress\<close> is a parameter.
\<close>

section \<open>Matching\<close>

text \<open>The characters of \<open>s\<close> are read off \<open>ptr\<close> one by one; what is left of \<open>ptr\<close> if all agree.\<close>

fun eat :: "string \<Rightarrow> string \<Rightarrow> string option" where
  "eat [] ptr = Some ptr"
| "eat (c # s) [] = None"
| "eat (c # s) (p # ptr) = (if c = p then eat s ptr else None)"

definition qual_match :: "string \<Rightarrow> string \<Rightarrow> string \<Rightarrow> bool \<Rightarrow> bool" where
  "qual_match to_test pre qual sanitize_qual =
     (if to_test = [] then qual = []
      else if qual = [] then False
      else (case eat (c_str pre) (c_str to_test) of
          None \<Rightarrow> False
        | Some ptr \<Rightarrow> (case eat (if sanitize_qual then sanitize qual True else qual) ptr of
              None \<Rightarrow> False
            | Some ptr \<Rightarrow> ptr = [])))"

definition local_target :: "('w, 'x) srv_env_scheme \<Rightarrow> string \<Rightarrow> string" where
  "local_target E target = c_str (if StartsWith E target ''tcp:'' \<or> StartsWith E target ''udp:''
     then drop 4 target else target)"

text \<open>\<^verbatim>\<open>ParseNetAddress\<close> gets the port to use when the address names none.\<close>

definition local_match :: "('w, 'x) srv_env_scheme \<Rightarrow> transport \<Rightarrow> string \<Rightarrow> bool" where
  "local_match E t target = (case ParseNetAddress E (t_serial t) (-1) of
       None \<Rightarrow> False
     | Some (serial_host, serial_port) \<Rightarrow>
         (case ParseNetAddress E (local_target E target) serial_port of
            None \<Rightarrow> False
          | Some (target_host, target_port) \<Rightarrow> serial_host = target_host \<and> serial_port = target_port))"

definition MatchesTarget :: "('w, 'x) srv_env_scheme \<Rightarrow> transport \<Rightarrow> string \<Rightarrow> bool" where
  "MatchesTarget E t target \<longleftrightarrow>
     (t_serial t \<noteq> [] \<and> (target = t_serial t \<or> (t_type t = kTransportLocal \<and> local_match E t target))) \<or>
     target = t_devpath t \<or> qual_match target ''product:'' (t_product t) False \<or>
     qual_match target ''model:'' (t_model t) True \<or> qual_match target ''device:'' (t_device t) False"

definition transport_set_one_device :: "string option \<Rightarrow> ('w, unit) sprog" where
  "transport_set_one_device d = modp (\<lambda>s. s\<lparr>one_device := d\<rparr>)"

definition transport_server_owns_device :: "'w server \<Rightarrow> string \<Rightarrow> bool" where
  "transport_server_owns_device s serial = (case one_device s of
       None \<Rightarrow> True | Some d \<Rightarrow> serial = c_str d)"

definition transport_server_owns_device_path :: "'w server \<Rightarrow> string \<Rightarrow> string \<Rightarrow> bool" where
  "transport_server_owns_device_path s dev_path serial = (case one_device s of
       None \<Rightarrow> True | Some d \<Rightarrow> serial = c_str d \<or> dev_path = c_str d)"

section \<open>\<^verbatim>\<open>acquire_one_transport\<close>\<close>

record acquired =
  aq_result :: "tptr option"
  aq_error :: string
  aq_ambiguous :: bool

definition not_found_text :: "TransportType \<Rightarrow> string option \<Rightarrow> u64 \<Rightarrow> string" where
  "not_found_text type serial transport_id =
     (if transport_id \<noteq> 0 then ''no device with transport id '' @ quoted (show_nat (unat transport_id))
      else case serial of
          Some sn \<Rightarrow> ''device '' @ quoted sn @ '' not found''
        | None \<Rightarrow> if type = kTransportLocal then ''no emulators found''
            else if type = kTransportAny then ''no devices/emulators found''
            else ''no devices found'')"

definition more_than_one_text :: "TransportType \<Rightarrow> string option \<Rightarrow> string" where
  "more_than_one_text type serial = (case serial of
       Some sn \<Rightarrow> ''more than one device with serial '' @ sn
     | None \<Rightarrow> if type = kTransportUsb then ''more than one USB device''
         else if type = kTransportLocal then ''more than one emulator''
         else ''more than one device/emulator'')"

text \<open>Whether a transport is one the request may mean (ids apart).\<close>

definition selects ::
    "('w, 'x) srv_env_scheme \<Rightarrow> TransportType \<Rightarrow> string option \<Rightarrow> transport \<Rightarrow> bool" where
  "selects E type serial t = (case serial of
       Some sn \<Rightarrow> MatchesTarget E t sn
     | None \<Rightarrow> (type = kTransportUsb \<and> t_type t = kTransportUsb) \<or>
         (type = kTransportLocal \<and> t_type t = kTransportLocal) \<or> type = kTransportAny)"

text \<open>The loop over \<^verbatim>\<open>transport_list\<close>, with \<^verbatim>\<open>break\<close> as the end of the recursion.\<close>

fun acquire_loop ::
    "('w, 'x) srv_env_scheme \<Rightarrow> TransportType \<Rightarrow> string option \<Rightarrow> u64 \<Rightarrow> (tptr \<times> transport) list
     \<Rightarrow> acquired \<Rightarrow> acquired" where
  "acquire_loop E type serial tid [] a = a"
| "acquire_loop E type serial tid ((p, t) # ts) a =
     (if t_state t = kCsNoPerm
      then acquire_loop E type serial tid ts (a\<lparr>aq_error := no_permission_long E\<rparr>)
      else if tid \<noteq> 0 then
        (if t_id t = tid then a\<lparr>aq_result := Some p\<rparr> else acquire_loop E type serial tid ts a)
      else if selects E type serial t then
        (if aq_result a \<noteq> None
         then \<lparr>aq_result = None, aq_error = more_than_one_text type serial, aq_ambiguous = True\<rparr>
         else acquire_loop E type serial tid ts (a\<lparr>aq_result := Some p\<rparr>))
      else acquire_loop E type serial tid ts a)"

definition unauthorized_text :: "('w, 'x) srv_env_scheme \<Rightarrow> string" where
  "unauthorized_text E = ''device unauthorized.'' @ [CHR 0x0A] @ ''This adb server's $ADB_VENDOR_KEYS is ''
     @ (case srv_getenv E ''ADB_VENDOR_KEYS'' of None \<Rightarrow> ''not set'' | Some k \<Rightarrow> k) @ [CHR 0x0A]
     @ ''Try '' @ quoted ''adb kill-server'' @ '' if that seems wrong.'' @ [CHR 0x0A]
     @ ''Otherwise check for a confirmation dialog on your device.''"

definition inactive_text :: "('w, 'x) srv_env_scheme \<Rightarrow> ConnectionState \<Rightarrow> string option" where
  "inactive_text E st = (case st of
       kCsConnecting \<Rightarrow> Some ''device still connecting''
     | kCsAuthorizing \<Rightarrow> Some ''device still authorizing''
     | kCsUnauthorized \<Rightarrow> Some (unauthorized_text E)
     | kCsOffline \<Rightarrow> Some ''device offline''
     | _ \<Rightarrow> None)"

definition acquire_check ::
    "('w, 'x) srv_env_scheme \<Rightarrow> bool \<Rightarrow> (tptr \<Rightarrow> transport option) \<Rightarrow> acquired \<Rightarrow> acquired" where
  "acquire_check E any_state look a = (case aq_result a of
       None \<Rightarrow> a
     | Some p \<Rightarrow> (case (if any_state then None else inactive_text E (t_state (the (look p)))) of
           Some e \<Rightarrow> a\<lparr>aq_result := None, aq_error := e\<rparr>
         | None \<Rightarrow> a\<lparr>aq_error := ''success''\<rparr>))"

definition acquire_one_transport ::
    "('w, 'x) srv_env_scheme \<Rightarrow> TransportType \<Rightarrow> string option \<Rightarrow> u64 \<Rightarrow> bool \<Rightarrow> ('w, acquired) sprog" where
  "acquire_one_transport E type serial tid any_state =
     bindp (getp transport_list) (\<lambda>ps. bindp (transports_of ps) (\<lambda>ts.
     bindp (getp transports) (\<lambda>look.
       ret (acquire_check E any_state look (acquire_loop E type serial tid (zip ps ts)
         \<lparr>aq_result = None, aq_error = not_found_text type serial tid, aq_ambiguous = False\<rparr>)))))"

section \<open>Adding transports\<close>

datatype reg_error = EALREADY_error | ETIMEDOUT_error | EPERM_error | InitError nat

text \<open>\<^verbatim>\<open>validate_transport_list\<close>: a serial may be registered once in either list.\<close>

definition serial_taken :: "string \<Rightarrow> ('w server \<Rightarrow> tptr list) \<Rightarrow> 'w server \<Rightarrow> bool" where
  "serial_taken serial lst s = (\<exists>p \<in> set (lst s). case transports s p of
       None \<Rightarrow> False | Some t \<Rightarrow> t_serial t = serial)"

text \<open>The part before the wait: \<open>Inl\<close> an error, \<open>Inr\<close> the transport.\<close>

definition register_socket_begin ::
    "('w, 'x) srv_env_scheme \<Rightarrow> int \<Rightarrow> string \<Rightarrow> int \<Rightarrow> int \<Rightarrow> bool \<Rightarrow> ('w, reg_error + tptr) sprog" where
  "register_socket_begin E s serial port local use_tls =
     bindp (new_transport E kCsOffline) (\<lambda>p.
       thenp (upd_transport p (\<lambda>t. t\<lparr>t_use_tls := use_tls, t_serial := serial\<rparr>))
       (bindp (sos (os_init_socket_transport E s port local)) (\<lambda>r. case r of
           Inl e \<Rightarrow> thenp (delete_transport p) (ret (Inl (InitError e)))
         | Inr ty \<Rightarrow>
             thenp (upd_transport p (\<lambda>t. t\<lparr>t_type := ty\<rparr>))
             (bindp (getp (\<lambda>st. serial_taken serial pending_list st \<or> serial_taken serial transport_list st))
               (\<lambda>taken. if taken then thenp (delete_transport p) (ret (Inl EALREADY_error))
                else thenp (modp (\<lambda>s. s\<lparr>pending_list := p # pending_list s\<rparr>))
                  (thenp (register_transport E p) (ret (Inr p))))))))"

text \<open>The part after the looper ran: the answer of the waitable, then the state of the transport.\<close>

definition register_socket_finish :: "int \<Rightarrow> tptr \<Rightarrow> ('w, reg_error option) sprog" where
  "register_socket_finish local p =
     (if local = 1 then ret None
      else bindp (WaitForConnection p) (\<lambda>ok.
        if \<not> ok then ret (Some ETIMEDOUT_error)
        else with_transport p (\<lambda>t. ret (if t_state t = kCsUnauthorized then Some EPERM_error else None))))"

definition find_transport :: "string \<Rightarrow> ('w, tptr option) sprog" where
  "find_transport serial = bindp (getp transport_list) (\<lambda>ps. bindp (transports_of ps) (\<lambda>ts.
     ret (map_option fst (find (\<lambda>(_, t). c_str (t_serial t) = c_str serial) (zip ps ts)))))"

definition register_usb_transport ::
    "('w, 'x) srv_env_scheme \<Rightarrow> nat option \<Rightarrow> string option \<Rightarrow> string option \<Rightarrow> bool \<Rightarrow> ('w, tptr) sprog" where
  "register_usb_transport E usb serial devpath writeable =
     bindp (new_transport E (if writeable then kCsOffline else kCsNoPerm)) (\<lambda>p.
       thenp (upd_transport p (\<lambda>t. t\<lparr>t_serial := (case serial of None \<Rightarrow> [] | Some x \<Rightarrow> x),
          t_devpath := (case devpath of None \<Rightarrow> [] | Some x \<Rightarrow> x), t_type := kTransportUsb,
          t_usb_handle := usb\<rparr>))
       (thenp (modp (\<lambda>s. s\<lparr>pending_list := p # pending_list s\<rparr>))
       (thenp (register_transport E p) (ret p))))"

definition unregister_usb_transport :: "nat option \<Rightarrow> ('w, unit) sprog" where
  "unregister_usb_transport usb = modp (\<lambda>s. s\<lparr>transport_list := filter (\<lambda>p. case transports s p of
       None \<Rightarrow> True | Some t \<Rightarrow> \<not> (t_usb_handle t = usb \<and> t_state t = kCsNoPerm)) (transport_list s)\<rparr>)"

section \<open>Reverse forwards\<close>

text \<open>\<^verbatim>\<open>reverse_forwards_[remote] = local\<close>\<close>

definition set_reverse :: "string \<Rightarrow> string \<Rightarrow> (string \<times> string) list \<Rightarrow> (string \<times> string) list" where
  "set_reverse remote local m = (remote, local) # filter (\<lambda>(r, _). r \<noteq> remote) m"

definition erase_reverse :: "string \<Rightarrow> (string \<times> string) list \<Rightarrow> (string \<times> string) list" where
  "erase_reverse remote m = filter (\<lambda>(r, _). r \<noteq> remote) m"

definition before_semicolon :: "string \<Rightarrow> string" where
  "before_semicolon = takeWhile (\<lambda>c. c \<noteq> CHR 0x3B)"

definition after_semicolon :: "string \<Rightarrow> string" where
  "after_semicolon s = tl (dropWhile (\<lambda>c. c \<noteq> CHR 0x3B) s)"

definition reverse_forward :: "('w, 'x) srv_env_scheme \<Rightarrow> string \<Rightarrow> (string \<times> string) list \<Rightarrow> (string \<times> string) list" where
  "reverse_forward E addr m =
     (let (norebind, addr) = (case ConsumePrefix E addr ''norebind:'' of
            Some rest \<Rightarrow> (True, rest) | None \<Rightarrow> (False, addr))
      in if CHR 0x3B \<notin> set addr then m
         else if norebind \<and> map_of m (before_semicolon addr) \<noteq> None then m
         else set_reverse (before_semicolon addr) (after_semicolon addr) m)"

definition UpdateReverseConfig ::
    "('w, 'x) srv_env_scheme \<Rightarrow> tptr \<Rightarrow> string \<Rightarrow> ('w, unit) sprog" where
  "UpdateReverseConfig E p service_addr = thenp check_looper
     (case ConsumePrefix E service_addr ''reverse:'' of
        None \<Rightarrow> ret ()
      | Some addr \<Rightarrow> (case ConsumePrefix E addr ''forward:'' of
          Some addr \<Rightarrow> upd_transport p (\<lambda>t. t\<lparr>t_reverse_forwards := reverse_forward E addr (t_reverse_forwards t)\<rparr>)
        | None \<Rightarrow> (case ConsumePrefix E addr ''killforward:'' of
            Some addr \<Rightarrow> if CHR 0x3B \<in> set addr then ret ()
              else upd_transport p (\<lambda>t. t\<lparr>t_reverse_forwards := erase_reverse addr (t_reverse_forwards t)\<rparr>)
          | None \<Rightarrow> if addr = ''killforward-all'' then upd_transport p (\<lambda>t. t\<lparr>t_reverse_forwards := []\<rparr>)
              else if addr = ''list-forward'' then ret ()
              else abortp ''unhandled reverse service'')))"

definition IsReverseConfigured :: "transport \<Rightarrow> string \<Rightarrow> bool" where
  "IsReverseConfigured t local_addr \<longleftrightarrow> local_addr \<in> snd ` set (t_reverse_forwards t)"

end
