(* ===== verification/Process.thy ===== *)
theory Process
  imports Libbase
begin

text \<open>
  The server as a process of the operating system: how \<^verbatim>\<open>launch_server\<close> of \<^verbatim>\<open>client/adb.cpp\<close> forks and
  executes it and waits for its acknowledgement, the report of a failed start, and how a daemon redirects
  its output to the log (\<^verbatim>\<open>client/main.cpp\<close>). \<open>proc_env\<close> has the system calls these functions make and
  what the process knows of its surroundings; a program here changes only the world. \<^verbatim>\<open>fork\<close> returns
  once, with 0 in the child; a successful \<^verbatim>\<open>execv\<close> replaces the process (\<open>None\<close>). Windows code is left out.
\<close>

record 'w proc_env = libbase +
  PLATFORM_TOOLS_VERSION :: string
  ADB_VERSION_MAJOR :: nat
  ADB_VERSION_MINOR :: nat
  GetBuildNumber :: string
  GetExecutablePath :: string
  GetOSVersion :: string
  GetLogFilePath :: string
  pr_stderr :: "string \<Rightarrow> 'w \<Rightarrow> unit \<times> 'w"
  pr_open_read :: "string \<Rightarrow> 'w \<Rightarrow> int \<times> 'w"
  pr_open_append :: "string \<Rightarrow> 'w \<Rightarrow> int \<times> 'w"
  pr_lseek_end :: "int \<Rightarrow> int \<Rightarrow> 'w \<Rightarrow> unit \<times> 'w"
  pr_read_all :: "int \<Rightarrow> 'w \<Rightarrow> string option \<times> 'w"
  pr_read :: "int \<Rightarrow> nat \<Rightarrow> 'w \<Rightarrow> (int + string) \<times> 'w"
  pr_write_all :: "int \<Rightarrow> string \<Rightarrow> 'w \<Rightarrow> bool \<times> 'w"
  pr_close :: "int \<Rightarrow> 'w \<Rightarrow> unit \<times> 'w"
  pr_dup2 :: "int \<Rightarrow> int \<Rightarrow> 'w \<Rightarrow> bool \<times> 'w"
  pr_keep_on_exec :: "int \<Rightarrow> 'w \<Rightarrow> unit \<times> 'w"
  pr_pipe :: "'w \<Rightarrow> (int \<times> int) option \<times> 'w"
  pr_access :: "string \<Rightarrow> 'w \<Rightarrow> bool \<times> 'w"
  pr_fork :: "'w \<Rightarrow> int \<times> 'w"
  pr_execv :: "string \<Rightarrow> string list \<Rightarrow> 'w \<Rightarrow> int option \<times> 'w"
  pr_getpid :: "'w \<Rightarrow> int \<times> 'w"
  pr_errno :: "'w \<Rightarrow> int \<times> 'w"
  pr_strerror :: "int \<Rightarrow> string"
  pr_close_stdin :: "'w \<Rightarrow> unit \<times> 'w"
  pr_atexit :: "'w \<Rightarrow> unit \<times> 'w"
  pr_setsid :: "'w \<Rightarrow> bool \<times> 'w"

definition syscallp :: "('w \<Rightarrow> 'a \<times> 'w) \<Rightarrow> ('w, 'a) prog" where
  "syscallp f w = (case f w of (a, w') \<Rightarrow> (Ok a, w'))"

definition stderr_line :: "('w, 'x) proc_env_scheme \<Rightarrow> string \<Rightarrow> ('w, unit) prog" where
  "stderr_line P m = syscallp (pr_stderr P (m @ [CHR 0x0A]))"

definition adb_version_string :: "('w, 'x) proc_env_scheme \<Rightarrow> nat \<Rightarrow> string" where
  "adb_version_string P server_version =
     ''Android Debug Bridge version '' @ show_nat (ADB_VERSION_MAJOR P) @ ''.'' @ show_nat (ADB_VERSION_MINOR P)
       @ ''.'' @ show_nat server_version @ [CHR 0x0A]
     @ ''Version '' @ PLATFORM_TOOLS_VERSION P @ ''-'' @ c_str (GetBuildNumber P) @ [CHR 0x0A]
     @ ''Installed as '' @ c_str (GetExecutablePath P) @ [CHR 0x0A]
     @ ''Running on '' @ c_str (GetOSVersion P) @ [CHR 0x0A]"

section \<open>The log of a daemon\<close>

definition startup_header :: "int \<Rightarrow> string" where
  "startup_header pid = ''--- adb starting (pid '' @ show_int pid @ '') ---''"

text \<open>The version that goes to the log after the header is logging and left out.\<close>

definition setup_daemon_logging :: "('w, 'x) proc_env_scheme \<Rightarrow> ('w, unit) prog" where
  "setup_daemon_logging P =
     bindp (syscallp (pr_open_append P (GetLogFilePath P))) (\<lambda>log_fd.
       if log_fd = -1 then abortp ''cannot open log file''
       else bindp (syscallp (pr_dup2 P log_fd 1)) (\<lambda>ok.
         if \<not> ok then abortp ''cannot redirect stdout''
         else bindp (syscallp (pr_dup2 P log_fd 2)) (\<lambda>ok.
           if \<not> ok then abortp ''cannot redirect stderr''
           else thenp (syscallp (pr_close P log_fd))
             (bindp (syscallp (pr_getpid P)) (\<lambda>pid. stderr_line P (startup_header pid))))))"

text \<open>The index of the last line equal to the header among the first \<open>n\<close>, -1 if there is none. Compared as
  \<^verbatim>\<open>size_t\<close>, -1 is not less than the number of lines.\<close>

fun last_line :: "string \<Rightarrow> string list \<Rightarrow> nat \<Rightarrow> int" where
  "last_line header ls 0 = -1"
| "last_line header ls (Suc i) = (if ls ! i = header then int i else last_line header ls i)"

definition shown_lines :: "string \<Rightarrow> string list \<Rightarrow> string list" where
  "shown_lines header ls =
     (let i = last_line header ls (length ls) in if i < 0 then [] else drop (nat i) ls)"

definition report_tail :: int where "report_tail = 128 * 1024"

definition ReportServerStartupFailure :: "('w, 'x) proc_env_scheme \<Rightarrow> int \<Rightarrow> ('w, unit) prog" where
  "ReportServerStartupFailure P pid =
     thenp (stderr_line P ''ADB server didn't ACK'')
     (thenp (stderr_line P (''Full server startup log: '' @ c_str (GetLogFilePath P)))
     (thenp (stderr_line P (''Server had pid: '' @ show_int pid))
     (bindp (syscallp (pr_open_read P (GetLogFilePath P))) (\<lambda>log_fd.
        if log_fd = -1 then ret ()
        else thenp (syscallp (pr_lseek_end P log_fd (- report_tail)))
          (bindp (syscallp (pr_read_all P log_fd)) (\<lambda>content.
             thenp (case content of
                 None \<Rightarrow> ret ()
               | Some c \<Rightarrow> fold_prog (\<lambda>l _. stderr_line P (c_str l))
                   (shown_lines (startup_header pid) (Split P c [CHR 0x0A])) ())
               (syscallp (pr_close P log_fd))))))))"

section \<open>Launching\<close>

definition is_one_device_mandatory :: "('w, 'x) proc_env_scheme \<Rightarrow> ('w, bool) prog" where
  "is_one_device_mandatory P = syscallp (pr_access P ''/etc/adb/one_device_required'')"

definition child_argv :: "bool \<Rightarrow> string \<Rightarrow> int \<Rightarrow> string option \<Rightarrow> string list" where
  "child_argv listen_all socket_spec reply_fd one_device =
     [''adb'', ''-L'', c_str socket_spec] @ (if listen_all then [''-a''] else [])
     @ [''fork-server'', ''server'', ''--reply-fd'', show_int reply_fd]
     @ (case one_device of None \<Rightarrow> [] | Some d \<Rightarrow> [''--one-device'', d])"

definition launch_child ::
    "('w, 'x) proc_env_scheme \<Rightarrow> string list \<Rightarrow> int \<Rightarrow> int \<Rightarrow> ('w, 'a) prog" where
  "launch_child P argv pipe_read pipe_write =
     thenp (syscallp (pr_close P pipe_read))
     (thenp (syscallp (pr_keep_on_exec P pipe_write))
     (bindp (syscallp (pr_execv P (c_str (GetExecutablePath P)) argv)) (\<lambda>r. case r of
        None \<Rightarrow> exitp 0
      | Some result \<Rightarrow> bindp (syscallp (pr_errno P)) (\<lambda>e.
          thenp (stderr_line P (''adb: execl returned '' @ show_int result @ '': '' @ pr_strerror P e))
            (exitp 127)))))"

text \<open>Three bytes from the pipe must be the acknowledgement.\<close>

definition launch_ack :: string where "launch_ack = ''OK'' @ [CHR 0x0A]"

definition await_ack :: "('w, 'x) proc_env_scheme \<Rightarrow> string \<Rightarrow> int + string \<Rightarrow> int \<Rightarrow> ('w, int) prog" where
  "await_ack P who answer pid = (case answer of
       Inl e \<Rightarrow> thenp (stderr_line P (who @ ''could not read ok from ADB Server, errno = '' @ show_int e)) (ret (-1))
     | Inr s \<Rightarrow> if s = launch_ack then ret 0
         else thenp (ReportServerStartupFailure P pid) (ret (-1)))"

definition launch_parent ::
    "('w, 'x) proc_env_scheme \<Rightarrow> int \<Rightarrow> int \<Rightarrow> int \<Rightarrow> ('w, int) prog" where
  "launch_parent P pipe_read pipe_write pid =
     thenp (syscallp (pr_close P pipe_write))
     (bindp (syscallp (pr_read P pipe_read 3)) (\<lambda>answer.
        thenp (syscallp (pr_close P pipe_read)) (await_ack P [] answer pid)))"

text \<open>The function of \<^verbatim>\<open>client/adb.cpp\<close>, which the build of the library renames; \<open>listen_all\<close> is \<^verbatim>\<open>gListenAll\<close>. A
  return before the fork destroys the two \<^verbatim>\<open>unique_fd\<close>.\<close>

definition launch_server_unused ::
    "('w, 'x) proc_env_scheme \<Rightarrow> bool \<Rightarrow> string \<Rightarrow> string option \<Rightarrow> ('w, int) prog" where
  "launch_server_unused P listen_all socket_spec one_device =
     bindp (syscallp (pr_pipe P)) (\<lambda>r. case r of
       None \<Rightarrow> bindp (syscallp (pr_errno P)) (\<lambda>e.
         thenp (stderr_line P (''pipe failed in launch_server, errno: '' @ show_int e)) (ret (-1)))
     | Some (pipe_read, pipe_write) \<Rightarrow>
         let give_up = thenp (syscallp (pr_close P pipe_write)) (thenp (syscallp (pr_close P pipe_read)) (ret (-1)))
         in bindp (if one_device = None then is_one_device_mandatory P else ret False) (\<lambda>mandatory.
           if mandatory then thenp (stderr_line P (''adb: cannot start server: --one-device option is required ''
               @ ''for this system in order to start adb.'')) give_up
           else bindp (syscallp (pr_fork P)) (\<lambda>pid.
             if pid < 0 then give_up
             else if pid = 0
             then launch_child P (child_argv listen_all socket_spec pipe_write one_device) pipe_read pipe_write
             else launch_parent P pipe_read pipe_write pid)))"

end
