(* ===== verification/AdbCore.thy ===== *)
theory AdbCore
  imports TransportSelect Process
begin

text \<open>
  The protocol of the server (\<^verbatim>\<open>client/adb.cpp\<close>): the banner a device sends, the packets it sends, and
  the \<^verbatim>\<open>host:\<close> services of the clients. Windows code is left out; \<^verbatim>\<open>launch_server\<close> is
  in \<open>Process\<close>. The socket layer is a parameter: \<open>asocket\<close> is what it returns.

  \<open>after_payload\<close> is what follows a packet's payload in memory: \<^verbatim>\<open>address.data()\<close> of an \<^verbatim>\<open>A_OPEN\<close> is
  read as a C string, and the payload need not end with a NUL.
\<close>

text \<open>\<^verbatim>\<open>adb::proto::AdbServerStatus\<close>, serialized by protobuf.\<close>

datatype UsbBackend = NATIVE | LIBUSB

datatype MDNSBackend = BONJOUR | OPENSCREEN

record AdbServerStatus =
  as_usb_backend :: UsbBackend
  as_usb_backend_forced :: bool
  as_mdns_backend :: MDNSBackend
  as_mdns_backend_forced :: bool
  as_version :: string
  as_build :: string
  as_executable_absolute_path :: string
  as_log_absolute_path :: string
  as_os :: string

record 'w core_env = "'w srv_env" +
  after_payload :: string
  ADB_SERVER_VERSION :: nat
  core_proc :: "'w proc_env"
  server_status_proto :: "AdbServerStatus \<Rightarrow> string"
  serial_name :: "transport \<Rightarrow> string"
  ConnectionStateIsOnline :: "ConnectionState \<Rightarrow> bool"
  ParseNetAddressSerial :: "string \<Rightarrow> string + string"

section \<open>Packets to the device\<close>

text \<open>What \<^verbatim>\<open>print_packet\<close> writes to \<^verbatim>\<open>stderr\<close> when packets are debugged.\<close>

definition packet_tag :: "('w, 'x) srv_env_scheme \<Rightarrow> u32 \<Rightarrow> string" where
  "packet_tag E command =
     (if command = A_SYNC E then ''SYNC'' else if command = A_CNXN E then ''CNXN''
      else if command = A_OPEN E then ''OPEN'' else if command = A_OKAY E then ''OKAY''
      else if command = A_CLSE E then ''CLSE'' else if command = A_WRTE E then ''WRTE''
      else if command = A_AUTH E then ''AUTH'' else if command = A_STLS E then ''STLS'' else ''????'')"

definition print_packet :: "('w, 'x) srv_env_scheme \<Rightarrow> string \<Rightarrow> apacket \<Rightarrow> string" where
  "print_packet E label p =
     (let m = pkt_msg p;
          hex = (\<lambda>k w. pad_left k CHR ''0'' (show_hex (unat (w :: u32))));
          count = unat (msg_data_length m)
      in label @ '': '' @ packet_tag E (msg_command m) @ '' '' @ hex 8 (msg_arg0 m) @ '' '' @ hex 8 (msg_arg1 m)
         @ '' '' @ hex 4 (msg_data_length m) @ '' '' @ [CHR 0x22]
         @ map (\<lambda>c. if 32 \<le> of_char c \<and> of_char c < (127 :: nat) then c else CHR ''.'')
             (take (min 32 count) (pkt_payload p))
         @ (if 32 < count then [] else [CHR 0x22]) @ [CHR 0x0A])"

definition send_ready ::
    "('w, 'x) srv_env_scheme \<Rightarrow> u32 \<Rightarrow> u32 \<Rightarrow> tptr \<Rightarrow> u32 \<Rightarrow> ('w, unit) sprog" where
  "send_ready E local remote p ack_bytes = with_transport p (\<lambda>t.
     send_packet E (make_packet (A_OKAY E) local remote
       (if t_delayed_ack t then put32 ack_bytes else [])) p)"

definition send_close :: "('w, 'x) srv_env_scheme \<Rightarrow> u32 \<Rightarrow> u32 \<Rightarrow> tptr \<Rightarrow> ('w, unit) sprog" where
  "send_close E local remote p = send_packet E (make_packet (A_CLSE E) local remote []) p"

definition send_tls_request :: "('w, 'x) srv_env_scheme \<Rightarrow> tptr \<Rightarrow> ('w, unit) sprog" where
  "send_tls_request E p = send_packet E (make_packet (A_STLS E) (A_STLS_VERSION E) 0 []) p"

section \<open>The banner\<close>

definition banner_prop :: "('w, 'x) srv_env_scheme \<Rightarrow> string \<Rightarrow> transport \<Rightarrow> transport" where
  "banner_prop E prop t =
     (case Split E prop ''='' of
        [key, val] \<Rightarrow>
          if prop = [] then t
          else if key = ''ro.product.name'' then t\<lparr>t_product := val\<rparr>
          else if key = ''ro.product.model'' then t\<lparr>t_model := val\<rparr>
          else if key = ''ro.product.device'' then t\<lparr>t_device := val\<rparr>
          else if key = ''features'' then SetFeatures E val t
          else t
      | _ \<Rightarrow> t)"

definition banner_state :: "string \<Rightarrow> ConnectionState" where
  "banner_state type =
     (if type = ''bootloader'' then kCsBootloader else if type = ''device'' then kCsDevice
      else if type = ''recovery'' then kCsRecovery else if type = ''sideload'' then kCsSideload
      else if type = ''rescue'' then kCsRescue else kCsHost)"

definition banner_props :: "('w, 'x) srv_env_scheme \<Rightarrow> string \<Rightarrow> transport \<Rightarrow> transport" where
  "banner_props E banner t =
     (let pieces = Split E banner '':''
      in fold (banner_prop E) (if length pieces > 2 then Split E (pieces ! 2) '';'' else [])
           (SetFeatures E [] t))"

definition parse_banner :: "('w, 'x) srv_env_scheme \<Rightarrow> string \<Rightarrow> tptr \<Rightarrow> ('w, unit) sprog" where
  "parse_banner E banner p = thenp (upd_transport p (banner_props E banner))
     (SetConnectionState E p (banner_state (hd (Split E banner '':''))))"

definition handle_new_connection ::
    "('w, 'x) srv_env_scheme \<Rightarrow> tptr \<Rightarrow> apacket \<Rightarrow> ('w, unit) sprog" where
  "handle_new_connection E p pkt = thenp (handle_offline E p)
     (thenp (upd_transport p (update_version E (sint (msg_arg0 (pkt_msg pkt))) (unat (msg_arg1 (pkt_msg pkt)))))
     (thenp (parse_banner E (pkt_payload pkt) p) (handle_online p)))"

section \<open>Packets from the device\<close>

definition handle_auth :: "('w, 'x) srv_env_scheme \<Rightarrow> apacket \<Rightarrow> tptr \<Rightarrow> ('w, unit) sprog" where
  "handle_auth E pkt p = with_transport p (\<lambda>t.
     if t_use_tls t then ret ()
     else if msg_arg0 (pkt_msg pkt) = ADB_AUTH_TOKEN E then
       thenp (if t_state t \<noteq> kCsAuthorizing then SetConnectionState E p kCsAuthorizing else ret ())
         (ext E (SendAuthResponse p (pkt_payload pkt)))
     else thenp (SetConnectionState E p kCsOffline) (handle_offline E p))"

definition handle_open :: "('w, 'x) core_env_scheme \<Rightarrow> apacket \<Rightarrow> tptr \<Rightarrow> ('w, unit) sprog" where
  "handle_open E pkt p = with_transport p (\<lambda>t.
     let arg0 = msg_arg0 (pkt_msg pkt); send_bytes = msg_arg1 (pkt_msg pkt);
         address = StripTrailingNulls E (pkt_payload pkt)
     in if \<not> t_online t \<or> arg0 = 0 then ret ()
        else if t_delayed_ack t \<noteq> (send_bytes \<noteq> 0) then send_close E 0 arg0 p
        else if \<not> IsReverseConfigured t (c_str (pkt_payload pkt @ after_payload E))
        then abortp ''disallowed connect''
        else bindp (sos (os_create_local_service E address p)) (\<lambda>r. case r of
            None \<Rightarrow> send_close E 0 arg0 p
          | Some s \<Rightarrow>
              thenp (ext E (SocketSetPeer (so_ptr s) arg0 p))
              (thenp (if t_delayed_ack t
                      then thenp (ext E (SocketSendBytes (so_ptr s) send_bytes))
                             (send_ready E (so_id s) arg0 p (INITIAL_DELAYED_ACK_BYTES E))
                      else send_ready E (so_id s) arg0 p 0)
                (ext E (SocketReady (so_ptr s))))))"

text \<open>\<open>None\<close>: a payload of another size than none or four bytes, which ends the handler.\<close>

definition acked_bytes :: "string \<Rightarrow> int option option" where
  "acked_bytes payload =
     (if length payload = 4 then Some (Some (sint (get32 payload)))
      else if payload = [] then Some None else None)"

definition handle_okay :: "('w, 'x) srv_env_scheme \<Rightarrow> apacket \<Rightarrow> tptr \<Rightarrow> ('w, unit) sprog" where
  "handle_okay E pkt p = with_transport p (\<lambda>t.
     let arg0 = msg_arg0 (pkt_msg pkt); arg1 = msg_arg1 (pkt_msg pkt)
     in if \<not> (t_online t \<and> arg0 \<noteq> 0 \<and> arg1 \<noteq> 0) then ret ()
        else bindp (sos (os_find_local_socket E arg1 0)) (\<lambda>r. case r of
            None \<Rightarrow> send_close E arg1 arg0 p
          | Some s \<Rightarrow> (case acked_bytes (pkt_payload pkt) of
              None \<Rightarrow> ret ()
            | Some acked \<Rightarrow> (case so_peer s of
                None \<Rightarrow> thenp (ext E (SocketSetPeer (so_ptr s) arg0 p))
                  (thenp (ext E (SocketAck (so_ptr s) acked)) (ext E (SocketReady (so_ptr s))))
              | Some (peer_id, _) \<Rightarrow>
                  if peer_id = arg0 then ext E (SocketAck (so_ptr s) acked) else ret ()))))"

definition handle_close :: "('w, 'x) srv_env_scheme \<Rightarrow> apacket \<Rightarrow> tptr \<Rightarrow> ('w, unit) sprog" where
  "handle_close E pkt p = with_transport p (\<lambda>t.
     let arg0 = msg_arg0 (pkt_msg pkt); arg1 = msg_arg1 (pkt_msg pkt)
     in if \<not> (t_online t \<and> arg1 \<noteq> 0) then ret ()
        else bindp (sos (os_find_local_socket E arg1 arg0)) (\<lambda>r. case r of
            None \<Rightarrow> ret ()
          | Some s \<Rightarrow> (case so_peer s of
              Some (_, tr) \<Rightarrow>
                if arg0 = 0 \<and> tr \<noteq> Some p then ret () else ext E (SocketClose (so_ptr s))
            | None \<Rightarrow> ext E (SocketClose (so_ptr s)))))"

definition handle_write :: "('w, 'x) srv_env_scheme \<Rightarrow> apacket \<Rightarrow> tptr \<Rightarrow> ('w, unit) sprog" where
  "handle_write E pkt p = with_transport p (\<lambda>t.
     let arg0 = msg_arg0 (pkt_msg pkt); arg1 = msg_arg1 (pkt_msg pkt)
     in if \<not> (t_online t \<and> arg0 \<noteq> 0 \<and> arg1 \<noteq> 0) then ret ()
        else bindp (sos (os_find_local_socket E arg1 arg0)) (\<lambda>r. case r of
            None \<Rightarrow> ret ()
          | Some s \<Rightarrow> ext E (SocketEnqueue (so_ptr s) (pkt_payload pkt))))"

definition handle_packet :: "('w, 'x) core_env_scheme \<Rightarrow> apacket \<Rightarrow> tptr \<Rightarrow> ('w, unit) sprog" where
  "handle_packet E pkt p =
     (let command = msg_command (pkt_msg pkt)
      in if length (pkt_payload pkt) \<noteq> unat (msg_data_length (pkt_msg pkt))
         then abortp ''Check failed: p->payload.size() == p->msg.data_length''
         else if command = A_CNXN E then handle_new_connection E p pkt
         else if command = A_STLS E then
           thenp (upd_transport p (\<lambda>t. t\<lparr>t_use_tls := True\<rparr>))
             (thenp (send_tls_request E p) (ext E (TlsHandshake p)))
         else if command = A_AUTH E then handle_auth E pkt p
         else if command = A_OPEN E then handle_open E pkt p
         else if command = A_OKAY E then handle_okay E pkt p
         else if command = A_CLSE E then handle_close E pkt p
         else if command = A_WRTE E then handle_write E pkt p
         else ret ())"

section \<open>The looper's queue\<close>

definition run_server_fn :: "('w, 'x) core_env_scheme \<Rightarrow> server_fn \<Rightarrow> ('w, unit) sprog" where
  "run_server_fn E fn = (case fn of
       RegisterTransport p \<Rightarrow> fdevent_register_transport E p
     | UnregisterTransport p \<Rightarrow> fdevent_unregister_transport E p
     | HandlePacket pkt p \<Rightarrow> handle_packet E pkt p
     | OfflineAndDestroy p \<Rightarrow> thenp (handle_offline E p) (transport_destroy E p)
     | EnableServerSockets \<Rightarrow> enable_server_sockets E)"

text \<open>\<^verbatim>\<open>fdevent_context::FlushRunQueue\<close> on the whole server.\<close>

fun flush_run_queue :: "('w, 'x) core_env_scheme \<Rightarrow> nat \<Rightarrow> ('w, unit) sprog" where
  "flush_run_queue E 0 = nofuel"
| "flush_run_queue E (Suc fuel) = bindp (getp (\<lambda>s. run_queue (loop s))) (\<lambda>q. case q of
       [] \<Rightarrow> ret ()
     | fn # rest \<Rightarrow> thenp (loopp (modp (\<lambda>l. l\<lparr>run_queue := rest\<rparr>)))
         (thenp (run_server_fn E fn) (flush_run_queue E fuel)))"

section \<open>Forwarding requests\<close>

definition install_failure :: "InstallStatus \<Rightarrow> string \<Rightarrow> string \<Rightarrow> string" where
  "install_failure r error service = (case r of
       INSTALL_STATUS_OK \<Rightarrow> ''success (!)''
     | INSTALL_STATUS_INTERNAL_ERROR \<Rightarrow> ''internal error''
     | INSTALL_STATUS_CANNOT_BIND \<Rightarrow> ''cannot bind listener: '' @ c_str error
     | INSTALL_STATUS_CANNOT_REBIND \<Rightarrow> ''cannot rebind existing socket''
     | INSTALL_STATUS_LISTENER_NOT_FOUND \<Rightarrow> ''listener '' @ quoted service @ '' not found'')"

definition forward_reply ::
    "('w, 'x) srv_env_scheme \<Rightarrow> int \<Rightarrow> string \<Rightarrow> install_result \<Rightarrow> string \<Rightarrow> ('w, unit) sprog" where
  "forward_reply E reply_fd service res error = (case res of (r, port, err) \<Rightarrow>
     if r = INSTALL_STATUS_OK then
       thenp (ext E (ReplyOkay reply_fd)) (thenp (ext E (ReplyOkay reply_fd))
         (case port of None \<Rightarrow> ret () | Some n \<Rightarrow> ext E (ReplyString reply_fd (show_int n))))
     else ext E (ReplyFail reply_fd (install_failure r
            (case err of None \<Rightarrow> error | Some e \<Rightarrow> e) service)))"

definition forward_add ::
    "('w, 'x) srv_env_scheme \<Rightarrow> tptr \<Rightarrow> int \<Rightarrow> string \<Rightarrow> string \<Rightarrow> ('w, unit) sprog" where
  "forward_add E transport reply_fd service error =
     (let (no_rebind, service) = (if StartsWith E service ''norebind:'' then (True, drop 9 service)
            else (False, service))
      in case Split E service '';'' of
           [local, remote] \<Rightarrow>
             if local = [] \<or> remote = [] \<or> hd remote = CHR ''*''
             then ext E (ReplyFail reply_fd (''bad forward: '' @ service))
             else bindp (install_listener E local remote (Some transport)
                    (if no_rebind then INSTALL_LISTENER_NO_REBIND E else 0)) (\<lambda>res.
               forward_reply E reply_fd service res error)
         | _ \<Rightarrow> ext E (ReplyFail reply_fd (''bad forward: '' @ service)))"

definition forward_kill ::
    "('w, 'x) srv_env_scheme \<Rightarrow> int \<Rightarrow> string \<Rightarrow> string \<Rightarrow> ('w, unit) sprog" where
  "forward_kill E reply_fd service error =
     (case Split E service '';'' of
        [local] \<Rightarrow>
          if local = [] then ext E (ReplyFail reply_fd (''bad killforward: '' @ service))
          else bindp (remove_listener local) (\<lambda>r.
            forward_reply E reply_fd service (r, None, None) error)
      | _ \<Rightarrow> ext E (ReplyFail reply_fd (''bad killforward: '' @ service)))"

text \<open>\<open>acquirer\<close> is the \<^verbatim>\<open>transport_acquirer\<close>: the transport and what it left in \<^verbatim>\<open>error\<close>. The transport
  only has to exist for a \<^verbatim>\<open>killforward:\<close>.\<close>

definition handle_forward_request ::
    "('w, 'x) srv_env_scheme \<Rightarrow> string \<Rightarrow> ('w, tptr option \<times> string) sprog \<Rightarrow> int \<Rightarrow> ('w, bool) sprog" where
  "handle_forward_request E service acquirer reply_fd =
     (if service = ''list-forward'' then
        bindp (format_listeners E) (\<lambda>ls.
          thenp (ext E (ReplyOkay reply_fd)) (thenp (ext E (ReplyString reply_fd ls)) (ret True)))
      else if service = ''killforward-all'' then
        thenp remove_all_listeners
          (thenp (ext E (ReplyOkay reply_fd)) (thenp (ext E (ReplyOkay reply_fd)) (ret True)))
      else if take 8 service = ''forward:'' \<or> take 12 service = ''killforward:'' then
        bindp acquirer (\<lambda>(t, error). case t of
            None \<Rightarrow> thenp (ext E (ReplyFail reply_fd error)) (ret True)
          | Some t \<Rightarrow>
              thenp (if StartsWith E service ''killforward:''
                     then forward_kill E reply_fd (drop 12 service) error
                     else forward_add E t reply_fd (drop 8 service) error) (ret True))
      else ret False)"

end
