(* ===== verification/HostServices.thy ===== *)
theory HostServices
  imports AdbCore
begin

text \<open>
  \<^verbatim>\<open>handle_host_request\<close> (\<^verbatim>\<open>client/adb.cpp\<close>): the services a client asks of the server itself. The
  replies go through \<^verbatim>\<open>SendOkay\<close>, \<^verbatim>\<open>SendFail\<close> and \<^verbatim>\<open>SendProtocolString\<close> of \<^verbatim>\<open>adb_io\<close>, as calls. A request
  comes with the transport selection of its prefix (\<open>host_sel\<close>) and the client's socket with the
  transport it may already have.
\<close>

datatype HostRequestResult = Handled | SwitchedTransport | Unhandled

record host_sel =
  hs_type :: TransportType
  hs_serial :: "string option"
  hs_id :: u64

text \<open>\<^verbatim>\<open>SendOkay(fd, s)\<close>\<close>

definition SendOkayString :: "('w, 'x) srv_env_scheme \<Rightarrow> int \<Rightarrow> string \<Rightarrow> ('w, unit) sprog" where
  "SendOkayString E reply_fd s = thenp (ext E (ReplyOkay reply_fd)) (ext E (ReplyString reply_fd s))"

text \<open>\<^verbatim>\<open>s->transport ? s->transport : acquire_one_transport(...)\<close>\<close>

definition socket_or_acquire ::
    "('w, 'x) srv_env_scheme \<Rightarrow> tptr option \<Rightarrow> host_sel \<Rightarrow> bool \<Rightarrow> ('w, tptr option \<times> string) sprog" where
  "socket_or_acquire E st sel any_state = (case st of
       Some p \<Rightarrow> ret (Some p, [])
     | None \<Rightarrow> bindp (acquire_one_transport E (hs_type sel) (hs_serial sel) (hs_id sel) any_state)
         (\<lambda>a. ret (aq_result a, aq_error a)))"

text \<open>A service about one transport: an answer or the failure to find it.\<close>

definition answer_for ::
    "('w, 'x) srv_env_scheme \<Rightarrow> int \<Rightarrow> tptr option \<times> string \<Rightarrow> (transport \<Rightarrow> string)
     \<Rightarrow> ('w, HostRequestResult) sprog" where
  "answer_for E reply_fd found f = thenp (case found of
       (Some p, _) \<Rightarrow> with_transport p (\<lambda>t. SendOkayString E reply_fd (f t))
     | (None, error) \<Rightarrow> ext E (ReplyFail reply_fd error)) (ret Handled)"

section \<open>Selecting a transport\<close>

text \<open>The selection a \<^verbatim>\<open>transport...\<close> or \<^verbatim>\<open>tport:\<close> request asks for (\<open>None\<close>: a bad id) and whether it is
  the old form, which does not answer with the id.\<close>

definition parse_selection ::
    "('w, 'x) srv_env_scheme \<Rightarrow> string \<Rightarrow> host_sel \<Rightarrow> (host_sel option) \<times> bool" where
  "parse_selection E service sel =
     (let any = sel\<lparr>hs_type := kTransportAny\<rparr>
      in case ConsumePrefix E service ''tport:'' of
           Some rest \<Rightarrow> (Some (case ConsumePrefix E rest ''serial:'' of
               Some sn \<Rightarrow> any\<lparr>hs_serial := Some (c_str sn)\<rparr>
             | None \<Rightarrow> if rest = ''usb'' then any\<lparr>hs_type := kTransportUsb\<rparr>
                 else if rest = ''local'' then any\<lparr>hs_type := kTransportLocal\<rparr> else any), False)
         | None \<Rightarrow> (case ConsumePrefix E service ''transport-id:'' of
               Some n \<Rightarrow> (case ParseUint E n of
                   None \<Rightarrow> None
                 | Some i \<Rightarrow> if i < 2 ^ 64 then Some (any\<lparr>hs_id := word_of_nat i\<rparr>) else None)
             | None \<Rightarrow> Some (if service = ''transport-usb'' then any\<lparr>hs_type := kTransportUsb\<rparr>
                 else if service = ''transport-local'' then any\<lparr>hs_type := kTransportLocal\<rparr>
                 else if service = ''transport-any'' then any
                 else case ConsumePrefix E service ''transport:'' of
                     Some sn \<Rightarrow> any\<lparr>hs_serial := Some (c_str sn)\<rparr>
                   | None \<Rightarrow> any), True))"

definition switch_transport ::
    "('w, 'x) srv_env_scheme \<Rightarrow> string \<Rightarrow> host_sel \<Rightarrow> int \<Rightarrow> sockptr \<Rightarrow> ('w, HostRequestResult) sprog" where
  "switch_transport E service sel reply_fd s = (case parse_selection E service sel of
       (None, _) \<Rightarrow> thenp (ext E (ReplyFail reply_fd ''invalid transport id'')) (ret Handled)
     | (Some sel, legacy) \<Rightarrow>
         bindp (acquire_one_transport E (hs_type sel) (hs_serial sel) (hs_id sel) False) (\<lambda>a.
           case aq_result a of
             None \<Rightarrow> thenp (ext E (ReplyFail reply_fd (aq_error a))) (ret Handled)
           | Some p \<Rightarrow> with_transport p (\<lambda>t.
               thenp (ext E (SocketSetTransport s (Some p)))
               (thenp (ext E (ReplyOkay reply_fd))
               (thenp (if legacy then ret () else ext E (ReplyBytes reply_fd (put64 (t_id t))))
                 (ret SwitchedTransport))))))"

section \<open>Disconnecting and reconnecting\<close>

definition reconnect_offline ::
    "('w, 'x) core_env_scheme \<Rightarrow> int \<Rightarrow> ('w, HostRequestResult) sprog" where
  "reconnect_offline E reply_fd = bindp (getp transport_list) (\<lambda>ps.
     bindp (fold_prog (\<lambda>p acc. with_transport p (\<lambda>t.
        if ConnectionStateIsOnline E (t_state t) then ret acc
        else thenp (ResetTransport E p)
          (ret (acc @ ''reconnecting '' @ serial_name E t @ [CHR 0x0A])))) ps [])
       (\<lambda>response. thenp (SendOkayString E reply_fd (butlast response)) (ret Handled)))"

definition disconnect_one ::
    "('w, 'x) srv_env_scheme \<Rightarrow> tptr \<Rightarrow> string \<Rightarrow> int \<Rightarrow> ('w, HostRequestResult) sprog" where
  "disconnect_one E p address reply_fd = thenp (kick_transport E p False)
     (thenp (SendOkayString E reply_fd (''disconnected '' @ c_str address)) (ret Handled))"

definition disconnect_request ::
    "('w, 'x) core_env_scheme \<Rightarrow> string \<Rightarrow> int \<Rightarrow> ('w, HostRequestResult) sprog" where
  "disconnect_request E address reply_fd =
     (if address = [] then thenp (kick_all_tcp_devices E)
        (thenp (SendOkayString E reply_fd ''disconnected everything'') (ret Handled))
      else bindp (find_transport address) (\<lambda>r. case r of
          Some p \<Rightarrow> disconnect_one E p address reply_fd
        | None \<Rightarrow>
            (case (if take 6 address = ''vsock:'' \<or> take 16 address = ''localfilesystem:''
                   then Inr address else ParseNetAddressSerial E address) of
               Inl error \<Rightarrow> thenp (ext E (ReplyFail reply_fd (''couldn't parse '' @ quoted (c_str address)
                   @ '': '' @ c_str error))) (ret Handled)
             | Inr serial \<Rightarrow> bindp (find_transport serial) (\<lambda>r. case r of
                 None \<Rightarrow> thenp (ext E (ReplyFail reply_fd (''no such device '' @ quoted (c_str serial))))
                   (ret Handled)
               | Some p \<Rightarrow> disconnect_one E p address reply_fd))))"

definition reconnect_request ::
    "('w, 'x) core_env_scheme \<Rightarrow> tptr option \<times> string \<Rightarrow> int \<Rightarrow> ('w, HostRequestResult) sprog" where
  "reconnect_request E found reply_fd = (case found of
       (None, response) \<Rightarrow> thenp (SendOkayString E reply_fd response) (ret Handled)
     | (Some p, _) \<Rightarrow> thenp (kick_transport E p True) (with_transport p (\<lambda>t.
         thenp (SendOkayString E reply_fd (''reconnecting '' @ serial_name E t @ '' [''
            @ state_string E (t_state t) @ '']'' @ [CHR 0x0A])) (ret Handled))))"

definition attach_request ::
    "('w, 'x) core_env_scheme \<Rightarrow> bool \<Rightarrow> sockptr \<Rightarrow> tptr option \<times> string \<Rightarrow> int
     \<Rightarrow> ('w, HostRequestResult) sprog" where
  "attach_request E attach s found reply_fd = (case found of
       (None, error) \<Rightarrow> thenp (ext E (ReplyFail reply_fd error)) (ret Handled)
     | (Some p, _) \<Rightarrow>
         thenp (if attach then ret () else ext E (SocketSetTransport s None))
         (bindp (if attach then AttachTransport E p else DetachTransport E p) (\<lambda>r. case r of
            Some error \<Rightarrow> thenp (ext E (ReplyFail reply_fd error)) (ret Handled)
          | None \<Rightarrow> with_transport p (\<lambda>t. thenp (SendOkayString E reply_fd (c_str (serial_name E t)
              @ (if attach then '' attached'' else '' detached''))) (ret Handled)))))"

section \<open>The dispatcher\<close>

text \<open>The acquirer of a forward request: its lambda declares an \<^verbatim>\<open>error\<close> of its own, so the caller's
  stays empty.\<close>

definition forward_acquirer ::
    "('w, 'x) srv_env_scheme \<Rightarrow> tptr option \<Rightarrow> host_sel \<Rightarrow> ('w, tptr option \<times> string) sprog" where
  "forward_acquirer E st sel = bindp (socket_or_acquire E st sel False) (\<lambda>(p, _). ret (p, []))"

definition host_features :: "('w, 'x) srv_env_scheme \<Rightarrow> feature_set" where
  "host_features E = supported_features (srv_getenv E ''ADB_DELAYED_ACK'')
     @ (if is_libusb_enabled E then [kFeatureLibusb] else []) @ [kFeaturePushSync]"

definition server_status :: "('w, 'x) core_env_scheme \<Rightarrow> string" where
  "server_status E = (let P = core_proc E in server_status_proto E
     \<lparr>as_usb_backend = (if is_libusb_enabled E then LIBUSB else NATIVE),
      as_usb_backend_forced = (srv_getenv E ''ADB_LIBUSB'' \<noteq> None), as_mdns_backend = OPENSCREEN,
      as_mdns_backend_forced = (srv_getenv E ''ADB_MDNS_OPENSCREEN'' \<noteq> None),
      as_version = PLATFORM_TOOLS_VERSION P, as_build = GetBuildNumber P,
      as_executable_absolute_path = GetExecutablePath P, as_log_absolute_path = GetLogFilePath P,
      as_os = GetOSVersion P\<rparr>)"

definition or_unknown :: "string \<Rightarrow> string" where
  "or_unknown s = (if s = [] then ''unknown'' else s)"

definition emulator_request ::
    "('w, 'x) srv_env_scheme \<Rightarrow> string \<Rightarrow> ('w, HostRequestResult) sprog" where
  "emulator_request E port = thenp (case ParseUint E port of
       None \<Rightarrow> ret () | Some n \<Rightarrow> if n < 2 ^ 32 then ext E (LocalConnect n) else ret ()) (ret Handled)"

definition host_dispatch ::
    "('w, 'x) core_env_scheme \<Rightarrow> string \<Rightarrow> host_sel \<Rightarrow> int \<Rightarrow> sockptr \<Rightarrow> tptr option
     \<Rightarrow> ('w, HostRequestResult) sprog" where
  "host_dispatch E service sel reply_fd s st =
     (let about = (\<lambda>any f. bindp (socket_or_acquire E st sel any) f);
          okay = (\<lambda>str. thenp (SendOkayString E reply_fd str) (ret Handled))
      in if service = ''server-status'' then okay (server_status E)
         else if service = ''devices'' \<or> service = ''devices-l'' then
           bindp (list_transports E (if service = ''devices-l'' then LONG_TEXT else SHORT_TEXT)) okay
         else if service = ''reconnect-offline'' then reconnect_offline E reply_fd
         else if service = ''features'' then
           about False (\<lambda>r. answer_for E reply_fd r (\<lambda>t. FeatureSetToString E (t_features t)))
         else if service = ''host-features'' then okay (FeatureSetToString E (host_features E))
         else if take 11 service = ''disconnect:'' then disconnect_request E (drop 11 service) reply_fd
         else if service = ''version'' then
           okay (pad_left 4 CHR ''0'' (show_hex (ADB_SERVER_VERSION E)))
         else if service = ''get-serialno'' then
           about False (\<lambda>r. answer_for E reply_fd r (\<lambda>t. or_unknown (t_serial t)))
         else if service = ''get-devpath'' then
           about False (\<lambda>r. answer_for E reply_fd r (\<lambda>t. or_unknown (t_devpath t)))
         else if service = ''get-state'' then
           about False (\<lambda>r. answer_for E reply_fd r (\<lambda>t. state_string E (t_state t)))
         else case ConsumePrefix E service ''emulator:'' of
           Some port \<Rightarrow> emulator_request E port
         | None \<Rightarrow>
             if service = ''reconnect'' then about True (\<lambda>r. reconnect_request E r reply_fd)
             else if service = ''attach'' then about True (\<lambda>r. attach_request E True s r reply_fd)
             else if service = ''detach'' then about True (\<lambda>r. attach_request E False s r reply_fd)
             else bindp (handle_forward_request E (c_str service) (forward_acquirer E st sel) reply_fd)
               (\<lambda>handled. ret (if handled then Handled else Unhandled)))"

text \<open>A rejected \<^verbatim>\<open>kill\<close> answers with a failure and goes on to the rest of the function, where no service
  has that name.\<close>

definition handle_host_request ::
    "('w, 'x) core_env_scheme \<Rightarrow> string \<Rightarrow> host_sel \<Rightarrow> int \<Rightarrow> sockptr \<Rightarrow> tptr option
     \<Rightarrow> ('w, HostRequestResult) sprog" where
  "handle_host_request E service sel reply_fd s st =
     bindp (getp g_reject_kill_server) (\<lambda>reject.
      if service = ''kill'' \<and> \<not> reject
      then thenp (ext E (ReplyOkay reply_fd)) (ret Unhandled)
      else thenp (if service = ''kill''
                  then ext E (ReplyFail reply_fd ''kill-server rejected by remote server'') else ret ())
        (if take 9 service = ''transport'' \<or> take 6 service = ''tport:''
         then switch_transport E service sel reply_fd s
         else host_dispatch E service sel reply_fd s st))"

definition adb_set_reject_kill_server :: "bool \<Rightarrow> ('w, unit) sprog" where
  "adb_set_reject_kill_server v = modp (\<lambda>s. s\<lparr>g_reject_kill_server := v\<rparr>)"

end
