(* ===== verification/ServerMain.thy ===== *)
theory ServerMain
  imports HostServices
begin

text \<open>
  Starting the server (\<^verbatim>\<open>client/main.cpp\<close>), as a daemon of its own or, with the porting layer's
  \<^verbatim>\<open>launch_server\<close>, inside the application process. The function-local statics \<^verbatim>\<open>not_first\<close> and \<^verbatim>\<open>pipe_server\<close>
  are \<open>launched\<close> and \<open>server_pipe\<close>. The server thread is cut at
  the points where it blocks: \<open>server_start\<close> runs up to \<^verbatim>\<open>fdevent_loop\<close>, \<open>notify_ready\<close> is the thread
  that acknowledges the start, and \<open>launch_cleanup\<close> is the part of a later \<^verbatim>\<open>launch_server\<close> that tears
  the old server down; the wait for the loop's end in it is the loop thread's \<^verbatim>\<open>NotifyLoopExit\<close>.
  System calls are those of \<open>Process\<close>. Signal handlers and the leak for the leak checker are left out.
\<close>

record 'w main_env = "'w core_env" +
  DEFAULT_ADB_LOCAL_TRANSPORT_PORT :: nat
  os_sleep :: "int \<Rightarrow> 'w \<Rightarrow> unit \<times> 'w"

definition process :: "('w, 'a) prog \<Rightarrow> ('w, 'a) sprog" where
  "process m = loopp (\<lambda>l. case m (fd_world l) of (r, w) \<Rightarrow> (r, l\<lparr>fd_world := w\<rparr>))"

definition adb_server_cleanup :: "('w, 'x) srv_env_scheme \<Rightarrow> ('w, unit) sprog" where
  "adb_server_cleanup E = thenp (close_smartsockets E) (kick_all_transports E)"

definition clear_listener_list :: "('w, unit) sprog" where
  "clear_listener_list = bindp (getp listener_list) (\<lambda>ls. fold_prog (\<lambda>l _. erase_listener l) ls ())"

definition clear_transport_list :: "('w, 'x) srv_env_scheme \<Rightarrow> ('w, unit) sprog" where
  "clear_transport_list E = thenp (kick_where E (\<lambda>_. True) False)
     (modp (\<lambda>s. s\<lparr>transport_list := [], pending_list := []\<rparr>))"

text \<open>The smartsocket is retried for half a second.\<close>

definition install_patience :: int where "install_patience = 500000000"
definition install_pause :: int where "install_pause = 100000000"

fun install_smartsocket ::
    "('w, 'x) main_env_scheme \<Rightarrow> nat \<Rightarrow> int \<Rightarrow> string \<Rightarrow> ('w, unit) sprog" where
  "install_smartsocket E 0 start spec = nofuel"
| "install_smartsocket E (Suc fuel) start spec =
     bindp (install_listener E spec (kSmartSocketConnectTo E) None (INSTALL_LISTENER_DISABLED E))
       (\<lambda>(r, _, _). if r = INSTALL_STATUS_OK then ret ()
         else bindp (sos (os_clock (srv_fd E))) (\<lambda>now.
           if now - start > install_patience then abortp ''could not install *smartsocket* listener''
           else thenp (sos (os_sleep E install_pause)) (install_smartsocket E fuel start spec)))"

definition server_options ::
    "('w, 'x) main_env_scheme \<Rightarrow> string option \<Rightarrow> ('w, unit) sprog" where
  "server_options E device =
     thenp (case device of None \<Rightarrow> ret () | Some d \<Rightarrow> transport_set_one_device (Some d))
     (if srv_getenv E ''ADB_REJECT_KILL_SERVER'' = Some ''1'' then adb_set_reject_kill_server True else ret ())"

definition daemonize :: "('w, 'x) proc_env_scheme \<Rightarrow> ('w, unit) prog" where
  "daemonize P = thenp (syscallp (pr_close_stdin P)) (setup_daemon_logging P)"

definition own_session :: "('w, 'x) proc_env_scheme \<Rightarrow> ('w, unit) prog" where
  "own_session P = bindp (syscallp (pr_setsid P)) (\<lambda>ok. if ok then ret () else abortp ''setsid() failed'')"

definition server_start ::
    "('w, 'x) main_env_scheme \<Rightarrow> nat \<Rightarrow> bool \<Rightarrow> string \<Rightarrow> string option \<Rightarrow> ('w, unit) sprog" where
  "server_start E fuel is_daemon spec device =
     thenp (server_options E device)
     (thenp (if is_daemon then process (daemonize (core_proc E)) else ret ())
     (thenp (process (syscallp (pr_atexit (core_proc E))))
     (thenp init_reconnect_handler
     (thenp (adb_notify_device_scan_complete E)
     (thenp (if srv_getenv E ''ADB_EMU'' = Some ''0'' then ret ()
             else ext E (LocalInit (''tcp:'' @ show_nat (DEFAULT_ADB_LOCAL_TRANSPORT_PORT E))))
     (bindp (sos (os_clock (srv_fd E))) (\<lambda>start.
       thenp (install_smartsocket E fuel start spec)
       (thenp (ext E AuthInit) (if is_daemon then process (own_session (core_proc E)) else ret ())))))))))"

definition notify_ready :: "('w, 'x) main_env_scheme \<Rightarrow> int \<Rightarrow> ('w, unit) sprog" where
  "notify_ready E ack_reply_fd =
     thenp (if ack_reply_fd \<ge> 0
            then bindp (process (syscallp (pr_write_all (core_proc E) ack_reply_fd launch_ack))) (\<lambda>ok.
              if ok then process (syscallp (pr_close (core_proc E) ack_reply_fd)) else abortp ''error writing ACK'')
            else ret ())
       (run_on_looper E EnableServerSockets)"

text \<open>\<^verbatim>\<open>adb_wait_for_device_initialization\<close> stops waiting, before its timeout, when this holds.\<close>

definition device_initialization_done :: "'w server \<Rightarrow> bool" where
  "device_initialization_done s \<longleftrightarrow> device_scan_complete s \<and> transports_ready s"

section \<open>Launching inside the process\<close>

definition launch_cleanup :: "('w, 'x) main_env_scheme \<Rightarrow> ('w, unit) sprog" where
  "launch_cleanup E = bindp (getp launched) (\<lambda>again.
     thenp (if again
            then thenp (loopp (TerminateLoop (srv_fd E)))
              (thenp (loopp NotifyLoopExit)
              (thenp (adb_server_cleanup E)
              (thenp (clear_transport_list E) (loopp (fdevent_reset (srv_fd E))))))
            else ret ())
       (modp (\<lambda>s. s\<lparr>launched := True\<rparr>)))"

text \<open>\<^verbatim>\<open>pipe\<close> fills the static array; its result is not looked at, and a failure leaves the array as it is.\<close>

definition fill_pipe :: "('w, 'x) main_env_scheme \<Rightarrow> ('w, int \<times> int) sprog" where
  "fill_pipe E = bindp (process (syscallp (pr_pipe (core_proc E)))) (\<lambda>r.
     thenp (case r of None \<Rightarrow> ret () | Some p \<Rightarrow> modp (\<lambda>s. s\<lparr>server_pipe := p\<rparr>)) (getp server_pipe))"

definition launch_server_thread ::
    "('w, 'x) main_env_scheme \<Rightarrow> nat \<Rightarrow> int \<Rightarrow> string \<Rightarrow> ('w, unit) sprog" where
  "launch_server_thread E fuel pipe_write spec =
     thenp (process (syscallp (pr_keep_on_exec (core_proc E) pipe_write)))
     (thenp (server_start E fuel False spec None) (notify_ready E pipe_write))"

text \<open>A whole launch: the old server is torn down, the new one starts and acknowledges, and the caller reads
  the acknowledgement. The argument \<open>device\<close> (\<^verbatim>\<open>one_device\<close>) is not used.\<close>

definition launch_server ::
    "('w, 'x) main_env_scheme \<Rightarrow> nat \<Rightarrow> string \<Rightarrow> string option \<Rightarrow> ('w, int) sprog" where
  "launch_server E fuel spec device =
     thenp (launch_cleanup E)
     (bindp (fill_pipe E) (\<lambda>(pipe_read, pipe_write).
        if pipe_read < 0 \<or> pipe_write < 0
        then process (bindp (syscallp (pr_errno (core_proc E))) (\<lambda>e. thenp (stderr_line (core_proc E)
          (''pipe failed in launch_server, errno: '' @ show_int e)) (ret (-1))))
        else thenp (launch_server_thread E fuel pipe_write (c_str spec))
          (process (bindp (syscallp (pr_read (core_proc E) pipe_read 3)) (\<lambda>answer.
            await_ack (core_proc E) ''[adb_porting] '' answer 0)))))"

end
