(* ===== verification/ServerRef.thy ===== *)
theory ServerRef
  imports ServerMain
begin

text \<open>
  A concrete server: the constants of the adb protocol, an operating system whose world is the
  clock, and a looper with two TCP devices. Theorems are applied to it.
\<close>

definition srv_fd_ref :: "(fd_cb, server_fn, int) fd_env" where
  "srv_fd_ref = \<lparr>call_fd = \<lambda>_ _ _. ret (), call_fde = \<lambda>_ _ _. ret (), run_fn = \<lambda>_. ret (),
     interrupt_fn = OtherEvent 0, POLLIN = 1, POLLOUT = 4, POLLERR = 8,
     POLLHUP = 16, POLLNVAL = 32, os_new_node = \<lambda>w. (0, w), os_clock = \<lambda>w. (w, w + 1000000000), os_poll = \<lambda>_ _ w. (Some [], w),
     os_nonblock = \<lambda>_ w. (True, w), os_socketpair = \<lambda>w. (Some (3, 4), w),
     os_interrupt_write = \<lambda>_ w. (Inr 1, w), os_interrupt_read = \<lambda>_ w. (True, w)\<rparr>"

text \<open>A process whose system calls leave the world alone and read the acknowledgement from the pipe.\<close>

definition proc_ref :: "'w proc_env" where
  "proc_ref = libbase.extend libbase_ref (proc_env.fields ''36.0.0'' 1 0 ''build'' ''/bin/adb'' ''os'' ''/tmp/adb.log''
     (\<lambda>_ w. ((), w)) (\<lambda>_ w. (-1, w)) (\<lambda>_ w. (5, w)) (\<lambda>_ _ w. ((), w)) (\<lambda>_ w. (None, w))
     (\<lambda>_ _ w. (Inr launch_ack, w)) (\<lambda>_ _ w. (True, w)) (\<lambda>_ w. ((), w)) (\<lambda>_ _ w. (True, w)) (\<lambda>_ w. ((), w))
     (\<lambda>w. (Some (7, 8), w)) (\<lambda>_ w. (False, w)) (\<lambda>w. (100, w)) (\<lambda>_ _ w. (None, w)) (\<lambda>w. (100, w)) (\<lambda>w. (0, w))
     (\<lambda>_. ''error'') (\<lambda>w. ((), w)) (\<lambda>w. ((), w)) (\<lambda>w. (True, w)))"

lemma proc_ref_simps [simp]:
  "Split proc_ref = (\<lambda>s d. split_on (hd (d @ ''x'')) s)" "pr_atexit proc_ref = (\<lambda>w. ((), w))"
  "pr_keep_on_exec proc_ref = (\<lambda>_ w. ((), w))" "pr_pipe proc_ref = (\<lambda>w. (Some (7, 8), w))"
  "pr_write_all proc_ref = (\<lambda>_ _ w. (True, w))" "pr_close proc_ref = (\<lambda>_ w. ((), w))"
  "pr_read proc_ref = (\<lambda>_ _ w. (Inr launch_ack, w))"
  by (simp_all add: proc_ref_def proc_env.defs libbase_ref_def libbase.defs)

definition core_ref :: "int core_env" where
  "core_ref = srv_env.extend (libbase.extend libbase_ref (srv_env.fields srv_fd_ref
     0x434e5953 0x4e584e43 0x4e45504f 0x59414b4f 0x45534c43 0x45545257 0x48545541 0x534c5453 1
     0x01000001 0x01000000 0x01000001 0x01000000 1048576 4096 33554432
     ''host'' ''*smartsocket*'' 1 2
     (\<lambda>t. case t of kTransportUsb \<Rightarrow> 0 | kTransportLocal \<Rightarrow> 1 | kTransportAny \<Rightarrow> 2 | kTransportHost \<Rightarrow> 3)
     (\<lambda>_. None) ''no permissions'' ''no permissions (long)''
     (\<lambda>a port. Some (a, port)) (\<lambda>s. rev (dropWhile (\<lambda>c. c = CHR 0x00) (rev s)))
     (\<lambda>_ _. ''proto'') (\<lambda>_. (0, 0)) False
     (\<lambda>t. t_type t = kTransportLocal)
     (\<lambda>_ w. w) (\<lambda>_ _ w. (True, w)) (\<lambda>_ w. (Retry, w)) (\<lambda>_ _ w. (False, w))
     (\<lambda>_ _ w. (None, w)) (\<lambda>w. ([''key''], w)) (\<lambda>_ _ _ w. (Inr kTransportLocal, w))
     (\<lambda>_ w. ((Inr 9, 0), w)) (\<lambda>_ w. (10, w)) (\<lambda>_ w. (Some 7, w))
     (\<lambda>id _ w. (Some \<lparr>so_ptr = 7, so_id = id, so_peer = Some (5, Some 0)\<rparr>, w))
     (\<lambda>_ _ w. (Some \<lparr>so_ptr = 7, so_id = 4, so_peer = None\<rparr>, w))))
     (core_env.fields [] 41 proc_ref (\<lambda>_. ''status'') t_serial (\<lambda>st. st = kCsDevice) Inr)"

lemmas core_ref_defs = core_ref_def srv_fd_ref_def libbase_ref_def libbase.defs srv_env.defs core_env.defs

lemma core_ref_simps [simp]:
  "Split core_ref = (\<lambda>s d. split_on (hd (d @ ''x'')) s)" "Join core_ref = (\<lambda>xs d. join_with d xs)"
  "StartsWith core_ref = (\<lambda>s p. prefix p s)" "ParseUint core_ref = parse_uint_ref"
  "ConsumePrefix core_ref = (\<lambda>s p. if prefix p s then Some (drop (length p) s) else None)"
  "srv_fd core_ref = srv_fd_ref" "A_CNXN core_ref = 0x4e584e43" "A_OPEN core_ref = 0x4e45504f"
  "A_OKAY core_ref = 0x59414b4f" "A_CLSE core_ref = 0x45534c43" "A_WRTE core_ref = 0x45545257"
  "A_AUTH core_ref = 0x48545541" "A_STLS core_ref = 0x534c5453" "ADB_AUTH_TOKEN core_ref = 1"
  "A_VERSION core_ref = 0x01000001" "A_VERSION_MIN core_ref = 0x01000000"
  "A_VERSION_SKIP_CHECKSUM core_ref = 0x01000001" "MAX_PAYLOAD core_ref = 1048576"
  "kSmartSocketConnectTo core_ref = ''*smartsocket*''" "INSTALL_LISTENER_NO_REBIND core_ref = 1"
  "INSTALL_LISTENER_DISABLED core_ref = 2" "srv_getenv core_ref = (\<lambda>_. None)"
  "is_libusb_enabled core_ref = False" "IsTcpDevice core_ref = (\<lambda>t. t_type t = kTransportLocal)"
  "StripTrailingNulls core_ref = (\<lambda>s. rev (dropWhile (\<lambda>c. c = CHR 0x00) (rev s)))"
  "os_ext core_ref = (\<lambda>_ w. w)" "os_conn_write core_ref = (\<lambda>_ _ w. (True, w))"
  "os_reconnect core_ref = (\<lambda>_ w. (Retry, w))" "os_peer_enqueue core_ref = (\<lambda>_ _ w. (False, w))"
  "os_socket_spec_listen core_ref = (\<lambda>_ w. ((Inr 9, 0), w))"
  "os_find_local_socket core_ref = (\<lambda>id _ w. (Some \<lparr>so_ptr = 7, so_id = id, so_peer = Some (5, Some 0)\<rparr>, w))"
  "os_create_local_service core_ref = (\<lambda>_ _ w. (Some \<lparr>so_ptr = 7, so_id = 4, so_peer = None\<rparr>, w))"
  "core_proc core_ref = proc_ref" "after_payload core_ref = []" "no_permission_long core_ref = ''no permissions (long)''"
  "ParseNetAddress core_ref = (\<lambda>a port. Some (a, port))"
  "type_rank core_ref = (\<lambda>t. case t of kTransportUsb \<Rightarrow> 0 | kTransportLocal \<Rightarrow> 1 | kTransportAny \<Rightarrow> 2
     | kTransportHost \<Rightarrow> 3)"
  by (simp_all add: core_ref_defs)

lemma srv_fd_ref_simps [simp]:
  "os_clock srv_fd_ref = (\<lambda>w. (w, w + 1000000000))" "os_interrupt_write srv_fd_ref = (\<lambda>_ w. (Inr 1, w))"
  "os_nonblock srv_fd_ref = (\<lambda>_ w. (True, w))" "os_socketpair srv_fd_ref = (\<lambda>w. (Some (3, 4), w))"
  "interrupt_fn srv_fd_ref = OtherEvent 0" "os_new_node srv_fd_ref = (\<lambda>w. (0, w))"
  by (simp_all add: srv_fd_ref_def)

lemma core_ref_doc: "Split_doc core_ref" "Join_doc core_ref" "Prefix_doc core_ref" "ParseUint_doc core_ref"
  by (simp_all add: Split_doc_def Join_doc_def Prefix_doc_def ParseUint_doc_def
      parse_uint_ref_show_nat parse_uint_ref_nil)

definition device_ref :: "u64 \<Rightarrow> string \<Rightarrow> transport" where
  "device_ref i serial = \<lparr>t_id = i, t_serial = serial, t_product = ''p'', t_model = ''m'', t_device = ''d'',
     t_devpath = [], t_type = kTransportLocal, t_state = kCsDevice, t_online = True, t_kicked = False,
     t_protocol_version = 0x01000001, t_max_payload = 1048576, t_features = [], t_delayed_ack = False,
     t_use_tls = False, t_keys = [], t_disconnects = [],
     t_reverse_forwards = [(''tcp:1'', ''tcp:2'')], t_usb_handle = None\<rparr>"

definition loop_ref :: "(fd_cb, server_fn, int) fdctx" where
  "loop_ref = \<lparr>looper_thread_id = Some 1, cur_thread = 1, terminate_loop = False,
     installed_fdevents = [], fdevent_id = 0, run_queue = [], fdevent_set = [],
     interrupt_fd = 3, fd_log = [], fd_world = 0\<rparr>"

definition server_ref :: "int server" where
  "server_ref = \<lparr>loop = loop_ref,
     transports = (\<lambda>_. None)(0 := Some (device_ref 1 ''emulator-5554''), 1 := Some (device_ref 2 ''10.0.0.1:5555'')),
     next_tptr = 2, established = (\<lambda>_. None), transport_list = [0, 1], pending_list = [],
     next_transport_id = 3, reconnect_running = True, reconnect_initialized = True,
     reconnect_queue = [], device_tracker_list = [], next_tracker = 0, listener_list = [],
     next_listener = 0, one_device = None, device_scan_complete = True, transports_ready = True,
     launched = True, server_pipe = (0, 0), g_reject_kill_server = False, ext_trace = []\<rparr>"

lemmas server_ref_defs = server_ref_def loop_ref_def device_ref_def

definition main_ref :: "int main_env" where
  "main_ref = core_env.extend core_ref (main_env.fields 5555 (\<lambda>_ w. ((), w)))"

lemma main_ref_simps [simp]:
  "srv_fd main_ref = srv_fd_ref" "core_proc main_ref = proc_ref" "srv_getenv main_ref = (\<lambda>_. None)" "os_ext main_ref = (\<lambda>_ w. w)"
  "kSmartSocketConnectTo main_ref = ''*smartsocket*''" "INSTALL_LISTENER_NO_REBIND main_ref = 1"
  "INSTALL_LISTENER_DISABLED main_ref = 2" "os_socket_spec_listen main_ref = (\<lambda>_ w. ((Inr 9, 0), w))"
  "DEFAULT_ADB_LOCAL_TRANSPORT_PORT main_ref = 5555" "os_conn_write main_ref = (\<lambda>_ _ w. (True, w))"
  by (simp_all add: main_ref_def core_ref_defs main_env.defs)

end
