(* ===== verification/ConnectionProperties.thy ===== *)
theory ConnectionProperties
  imports Connection ServerRef
begin

text \<open>
  Correctness of the connections: packets survive the byte stream of an \<^verbatim>\<open>FdConnection\<close>; a
  \<^verbatim>\<open>BlockingConnectionAdapter\<close> writes what it was given in order, reports one error at most, and its
  \<open>Stop\<close> returns. The locale \<open>adapter_invariant\<close> is the rule of induction over runs.
\<close>

section \<open>Runs of the adapter\<close>

locale adapter_invariant =
  fixes stls :: u32
    and I :: "bca_act list \<Rightarrow> bca \<Rightarrow> bool"
  assumes init: "I [] bca_ctor"
    and step: "I as c \<Longrightarrow> bca_step stls c a c' \<Longrightarrow> I (as @ [a]) c'"
begin

lemma holds: "bca_run stls c as c' \<Longrightarrow> c = bca_ctor \<Longrightarrow> I as c'"
  by (induction rule: bca_run.induct) (auto intro: init step)

end

definition enqueued :: "bca_act list \<Rightarrow> apacket list" where
  "enqueued as = concat (map (\<lambda>a. case a of Write p \<Rightarrow> [p] | _ \<Rightarrow> []) as)"

definition failed_writes :: "bca_act list \<Rightarrow> apacket list" where
  "failed_writes as = concat (map (\<lambda>a. case a of WriteFails p \<Rightarrow> [p] | _ \<Rightarrow> []) as)"

definition in_hand :: "wthread \<Rightarrow> apacket list" where
  "in_hand w = (case w of WWriting p \<Rightarrow> [p] | _ \<Rightarrow> [])"

definition error_reports :: "bca \<Rightarrow> conn_event list" where
  "error_reports c = filter (\<lambda>e. case e of ConnError _ \<Rightarrow> True | _ \<Rightarrow> False) (bc_events c)"

definition fifo_inv :: "bca_act list \<Rightarrow> bca \<Rightarrow> bool" where
  "fifo_inv as c \<longleftrightarrow>
     enqueued as = bc_sent c @ failed_writes as @ in_hand (bc_writer c) @ bc_queue c \<and>
     length (failed_writes as) \<le> 1 \<and>
     (\<forall>p. bc_writer c \<in> {WWaiting, WWriting p} \<longrightarrow> failed_writes as = []) \<and>
     (\<not> bc_started c \<longrightarrow> failed_writes as = [] \<and> bc_writer c = WEnded)"

definition life_inv :: "bca_act list \<Rightarrow> bca \<Rightarrow> bool" where
  "life_inv as c \<longleftrightarrow> length (error_reports c) = (if bc_error_flag c then 1 else 0) \<and>
     (bc_stopped c \<longleftrightarrow> bc_stop c \<noteq> NotStopped) \<and>
     (bc_closed c \<longleftrightarrow> bc_stop c \<notin> {NotStopped, Marked}) \<and>
     (bc_stop c = Returned \<longrightarrow> bc_error_flag c) \<and>
     (\<not> bc_started c \<longrightarrow> bc_writer c = WEnded) \<and>
     (\<forall>i. bc_read_thread c = Some i \<longrightarrow> i < length (bc_readers c)) \<and>
     (\<forall>i. bc_stop c = Joining (Some i) \<longrightarrow> i < length (bc_readers c))"

inductive_simps bca_step_simps:
  "bca_step stls c Start c'" "bca_step stls c (Write p) c'" "bca_step stls c WriterTakes c'"
  "bca_step stls c (WriterSent p) c'" "bca_step stls c WriterStops c'" "bca_step stls c StopMark c'"
  "bca_step stls c StopClose c'" "bca_step stls c StopTake c'" "bca_step stls c StopJoin c'"
  "bca_step stls c StopError c'" "bca_step stls c (ReadFails i) c'" "bca_step stls c (ReadError i) c'"
  "bca_step stls c (WriteFails p) c'" "bca_step stls c WriteError c'"

lemmas adapter_defs = bca_Start_def bca_Write_def set_reader_def error_once_def StartReadThread_def
  reader_got_def

lemma enqueued_snoc [simp]: "enqueued (as @ [a]) = enqueued as @ (case a of Write p \<Rightarrow> [p] | _ \<Rightarrow> [])"
  by (simp add: enqueued_def)

lemma failed_writes_snoc [simp]:
  "failed_writes (as @ [a]) = failed_writes as @ (case a of WriteFails p \<Rightarrow> [p] | _ \<Rightarrow> [])"
  by (simp add: failed_writes_def)

interpretation fifo: adapter_invariant stls fifo_inv for stls
proof
  show "fifo_inv [] bca_ctor"
    by (simp add: fifo_inv_def bca_ctor_def enqueued_def failed_writes_def in_hand_def)
next
  fix as c a c' assume "fifo_inv as c" "bca_step stls c a c'"
  then show "fifo_inv (as @ [a]) c'"
    by (elim bca_stepE)
       (auto simp: fifo_inv_def adapter_defs in_hand_def split: if_splits wthread.splits)
qed

interpretation life: adapter_invariant stls life_inv for stls
proof
  show "life_inv [] bca_ctor" by (simp add: life_inv_def bca_ctor_def error_reports_def)
next
  fix as c a c' assume "life_inv as c" "bca_step stls c a c'"
  then show "life_inv (as @ [a]) c'"
    by (elim bca_stepE)
       (auto simp: life_inv_def adapter_defs error_reports_def split: if_splits
         intro: less_SucI)
qed

text \<open>The writer is past its last write: it has seen an error or the stop.\<close>

definition writer_done :: "bca \<Rightarrow> bool" where
  "writer_done c \<longleftrightarrow> bc_started c \<and>
     (bc_writer c \<in> {WBroken, WEnded} \<or> bc_stopped c \<and> bc_writer c = WWaiting)"

lemma writer_done_step:
  "bca_step stls c a c' \<Longrightarrow> writer_done c \<Longrightarrow>
   writer_done c' \<and> bc_sent c' = bc_sent c \<and> prefix (bc_queue c) (bc_queue c')"
  by (elim bca_stepE) (auto simp: writer_done_def adapter_defs split: if_splits)

lemma writer_done_run:
  "bca_run stls c as c' \<Longrightarrow> writer_done c \<Longrightarrow>
   writer_done c' \<and> bc_sent c' = bc_sent c \<and> prefix (bc_queue c) (bc_queue c')"
  by (induction rule: bca_run.induct) (auto dest: writer_done_step intro: prefix_order.order_trans)

section \<open>Stopping\<close>

text \<open>The steps of the threads and of the running \<open>Stop\<close>, as opposed to those of other callers.\<close>

fun internal :: "bca_act \<Rightarrow> bool" where
  "internal Start = False"
| "internal (Write p) = False"
| "internal TlsHandshake = False"
| "internal ResetUnderlying = False"
| "internal StopMark = False"
| "internal a = True"

definition reader_work :: "rthread \<Rightarrow> nat" where
  "reader_work r = (case r of RReading \<Rightarrow> 2 | RGot _ \<Rightarrow> 3 | RBroken \<Rightarrow> 1 | REnded \<Rightarrow> 0)"

definition writer_work :: "wthread \<Rightarrow> nat" where
  "writer_work w = (case w of WWaiting \<Rightarrow> 1 | WWriting _ \<Rightarrow> 2 | WBroken \<Rightarrow> 1 | WEnded \<Rightarrow> 0)"

definition stop_work :: "stop_pc \<Rightarrow> nat" where
  "stop_work s = (case s of Closed \<Rightarrow> 3 | Joining _ \<Rightarrow> 2 | Joined \<Rightarrow> 1 | _ \<Rightarrow> 0)"

definition work_left :: "bca \<Rightarrow> nat" where
  "work_left c = sum_list (map reader_work (bc_readers c)) + writer_work (bc_writer c) + stop_work (bc_stop c)
     + (if bc_handshaking c then 3 else 0)"

lemma work_left_bound: "work_left c \<le> 3 * length (bc_readers c) + 8"
proof -
  have readers: "sum_list (map reader_work rs) \<le> 3 * length rs" for rs
    by (induction rs) (auto simp: reader_work_def split: rthread.splits)
  have "writer_work (bc_writer c) \<le> 2" "stop_work (bc_stop c) \<le> 3"
    by (auto simp: writer_work_def stop_work_def split: wthread.splits stop_pc.splits)
  moreover have "(if bc_handshaking c then 3 else 0) \<le> (3::nat)" by simp
  ultimately show ?thesis unfolding work_left_def using readers [of "bc_readers c"] by linarith
qed

lemma sum_list_update_less:
  "i < length rs \<Longrightarrow> f r < f (rs ! i) \<Longrightarrow> sum_list (map f (rs[i := r])) < (sum_list (map f rs) :: nat)"
proof (induction rs arbitrary: i)
  case (Cons x rs)
  then show ?case by (cases i) auto
qed simp

lemma error_once_simps [simp]:
  "bc_readers (error_once e c) = bc_readers c" "bc_writer (error_once e c) = bc_writer c"
  "bc_stop (error_once e c) = bc_stop c" "bc_closed (error_once e c) = bc_closed c" "bc_handshaking (error_once e c) = bc_handshaking c"
  by (auto simp: error_once_def)

lemma set_reader_simps [simp]:
  "bc_writer (set_reader i r c) = bc_writer c" "bc_stop (set_reader i r c) = bc_stop c"
  "bc_closed (set_reader i r c) = bc_closed c" "bc_handshaking (set_reader i r c) = bc_handshaking c"
  by (auto simp: set_reader_def)

lemma work_left_set_reader:
  assumes "reader_is c i r" "reader_work r' < reader_work r" "bc_readers d = bc_readers c"
    "bc_writer d = bc_writer c" "bc_stop d = bc_stop c" "bc_handshaking d = bc_handshaking c"
  shows "work_left (set_reader i r' d) < work_left c"
  using assms sum_list_update_less [of i "bc_readers c" reader_work r']
  by (simp add: work_left_def set_reader_def reader_is_def)

lemma closed_step_less:
  assumes "life_inv as c" "bca_step stls c a c'" "internal a" "bc_closed c"
  shows "work_left c' < work_left c"
  using assms(2,1,3,4)
proof (cases rule: bca_step.cases)
  case (handles_read i p)
  then show ?thesis
    using work_left_set_reader [OF handles_read(3), of _ "c\<lparr>bc_events := bc_events c @ [ConnRead p]\<rparr>"]
    by (auto simp: reader_work_def reader_got_def)
next
  case (read_fails i)
  then show ?thesis
    using work_left_set_reader [OF read_fails(3), of RBroken c] by (simp add: reader_work_def)
next
  case (read_error i)
  then show ?thesis
    using work_left_set_reader [OF read_error(3), of REnded "error_once ''read failed'' c"]
    by (simp add: reader_work_def)
qed (use assms in \<open>auto simp: life_inv_def work_left_def writer_work_def stop_work_def
  StartReadThread_def reader_work_def\<close>)

lemma closed_step_closed: "bca_step stls c a c' \<Longrightarrow> bc_closed c \<Longrightarrow> bc_closed c'"
  by (cases rule: bca_step.cases, assumption)
    (auto simp: adapter_defs split: if_splits)

lemma closed_progress:
  assumes "life_inv as c" "bc_closed c" "bc_stop c \<noteq> Returned"
  shows "\<exists>a c'. internal a \<and> bca_step stls c a c'"
proof (cases "\<exists>i < length (bc_readers c). bc_readers c ! i \<noteq> REnded")
  case True
  then obtain i where i: "i < length (bc_readers c)" "bc_readers c ! i \<noteq> REnded" by auto
  show ?thesis
  proof (cases "bc_readers c ! i")
    case RReading
    with i have "bca_step stls c (ReadFails i) (set_reader i RBroken c)"
      by (intro bca_step.intros) (simp add: reader_is_def)
    then show ?thesis using internal.simps by blast
  next
    case (RGot p)
    with i have "bca_step stls c (HandlesRead i) (reader_got stls i p c)"
      by (intro bca_step.intros) (simp add: reader_is_def)
    then show ?thesis using internal.simps by blast
  next
    case RBroken
    with i have "bca_step stls c (ReadError i) (set_reader i REnded (error_once ''read failed'' c))"
      by (intro bca_step.intros) (simp add: reader_is_def)
    then show ?thesis using internal.simps by blast
  qed (use i in simp)
next
  case ended: False
  have stopped: "bc_stopped c" using assms by (auto simp: life_inv_def)
  show ?thesis
  proof (cases "bc_handshaking c")
    case True
    with ended assms have "reader_joined c (bc_read_thread c)"
      by (auto simp: reader_joined_def reader_is_def life_inv_def split: option.splits)
    with True show ?thesis using bca_step.handshake_done internal.simps by blast
  next
    case free: False
    show ?thesis
  proof (cases "bc_writer c")
    case WWaiting
    then show ?thesis using stopped free bca_step.writer_stops internal.simps by blast
  next
    case (WWriting p)
    then show ?thesis using bca_step.write_fails internal.simps by blast
  next
    case WBroken
    then show ?thesis using bca_step.write_error internal.simps by blast
  next
    case w: WEnded
    show ?thesis
    proof (cases "bc_stop c")
      case Closed
      then show ?thesis using free bca_step.stop_take internal.simps by blast
    next
      case (Joining r)
      with ended assms have "reader_joined c r"
        by (auto simp: reader_joined_def reader_is_def life_inv_def split: option.splits)
      with Joining w show ?thesis using bca_step.stop_join internal.simps by blast
    next
      case Joined
      then show ?thesis using bca_step.stop_error internal.simps by blast
    qed (use assms in \<open>auto simp: life_inv_def\<close>)
  qed
  qed
qed

lemma closed_run:
  assumes "bca_run stls c as' c'" "life_inv as c" "bc_closed c" "list_all internal as'"
  shows "length as' + work_left c' \<le> work_left c \<and> bc_closed c' \<and> life_inv (as @ as') c'"
  using assms
proof (induction rule: bca_run.induct)
  case (run_nil c)
  then show ?case by simp
next
  case (run_snoc c as1 c1 a c2)
  then have IH: "length as1 + work_left c1 \<le> work_left c" "bc_closed c1" "life_inv (as @ as1) c1"
    and a: "internal a" by auto
  from closed_step_less [OF IH(3) run_snoc.hyps(2) a IH(2)]
    closed_step_closed [OF run_snoc.hyps(2) IH(2)] IH
  have "length (as1 @ [a]) + work_left c2 \<le> work_left c" "bc_closed c2" by auto
  moreover have "life_inv (as @ as1 @ [a]) c2"
    using life.step [OF IH(3) run_snoc.hyps(2)] by simp
  ultimately show ?case by simp
qed

section \<open>Packets on the wire\<close>

text \<open>A connection whose exact writes append to a wire and whose exact reads take from it.\<close>

definition wire_env :: "('w, 'x) conn_env_scheme \<Rightarrow> ('w \<Rightarrow> string) \<Rightarrow> bool" where
  "wire_env C wire \<longleftrightarrow>
     (\<forall>tls b w. fst (os_conn_send C tls b w) \<and> wire (snd (os_conn_send C tls b w)) = wire w @ b) \<and>
     (\<forall>tls n w. n \<le> length (wire w) \<longrightarrow> fst (os_conn_read C tls n w) = Some (take n (wire w)) \<and>
        wire (snd (os_conn_read C tls n w)) = drop n (wire w))"

definition packet_image :: "apacket \<Rightarrow> string" where
  "packet_image p = amessage_image (pkt_msg p) @ pkt_payload p"

definition whole_packet :: "nat \<Rightarrow> apacket \<Rightarrow> bool" where
  "whole_packet n p \<longleftrightarrow> length (pkt_payload p) = unat (msg_data_length (pkt_msg p)) \<and>
     length (pkt_payload p) \<le> n"

lemma length_amessage_image [simp]: "length (amessage_image m) = 24"
  by (simp add: amessage_image_def)

lemma image_amessage_image [simp]: "image_amessage (amessage_image m) = m"
proof -
  have "drop 4 (put32 a @ s) = s" "drop 8 (put32 a @ s) = drop 4 s" "drop 12 (put32 a @ s) = drop 8 s"
    "drop 16 (put32 a @ s) = drop 12 s" "drop 20 (put32 a @ s) = drop 16 s" for a s
    by simp_all
  then show ?thesis by (simp add: image_amessage_def amessage_image_def)
qed

lemma runs_cos [runs_simps]:
  "runs (cos f) c Q \<longleftrightarrow> Q (fst (f (fc_world c))) (c\<lparr>fc_world := snd (f (fc_world c))\<rparr>)"
  by (auto simp: runs_def cos_def split: prod.splits)

lemma runs_cond [runs_simps]:
  "runs (if b then m else n) s Q \<longleftrightarrow> (if b then runs m s Q else runs n s Q)"
  by simp

lemma DispatchWrite_wire:
  "wire_env C wire \<Longrightarrow>
   runs (DispatchWrite C b) c (\<lambda>ok d. ok \<and> wire (fc_world d) = wire (fc_world c) @ b)"
  by (simp add: DispatchWrite_def runs_simps wire_env_def)

lemma DispatchRead_wire:
  "wire_env C wire \<Longrightarrow> wire (fc_world c) = s @ rest \<Longrightarrow>
   runs (DispatchRead C (length s)) c (\<lambda>r d. r = Some s \<and> wire (fc_world d) = rest)"
  by (simp add: DispatchRead_def runs_simps wire_env_def)

lemma Write_wire:
  assumes "wire_env C wire" "whole_packet n p"
  shows "runs (FdConnection_Write C p) c
    (\<lambda>ok d. ok \<and> wire (fc_world d) = wire (fc_world c) @ packet_image p)"
  unfolding FdConnection_Write_def runs_simps Let_def
proof (rule runs_mono [OF DispatchWrite_wire [OF assms(1), of "amessage_image (pkt_msg p)" c]], goal_cases)
  case (1 ok d)
  show ?case
    using 1 assms runs_mono [OF DispatchWrite_wire [OF assms(1), of "pkt_payload p" d]]
    by (auto simp: whole_packet_def packet_image_def runs_simps)
qed

lemma Read_wire:
  assumes "wire_env C wire" "whole_packet (conn_max_payload C) p" "wire (fc_world c) = packet_image p @ rest"
  shows "runs (FdConnection_Read C) c (\<lambda>r d. r = Some p \<and> wire (fc_world d) = rest)"
proof -
  have "wire (fc_world c) = amessage_image (pkt_msg p) @ pkt_payload p @ rest"
    using assms(3) by (simp add: packet_image_def)
  note head = DispatchRead_wire [OF assms(1) this, simplified]
  show ?thesis
    unfolding FdConnection_Read_def runs_simps
  proof (rule runs_mono [OF head], goal_cases)
    case (1 r d)
    then have "wire (fc_world d) = pkt_payload p @ rest" "r = Some (amessage_image (pkt_msg p))" by auto
    note tail = DispatchRead_wire [OF assms(1) this(1)] and r = this(2)
    show ?case
      using assms(2) r runs_mono [OF tail, of "\<lambda>r e. runs (case r of None \<Rightarrow> ret None
        | Some d \<Rightarrow> ret (Some \<lparr>pkt_msg = pkt_msg p, pkt_payload = d\<rparr>)) e
          (\<lambda>r d. r = Some p \<and> wire (fc_world d) = rest)"]
      by (auto simp: whole_packet_def runs_simps Let_def)
  qed
qed

text \<open>The packets of a list written one after the other, and as many reads.\<close>

definition write_packets :: "('w, 'x) conn_env_scheme \<Rightarrow> apacket list \<Rightarrow> ('w, bool) cprog" where
  "write_packets C ps = fold_prog (\<lambda>p ok. bindp (FdConnection_Write C p) (\<lambda>r. ret (ok \<and> r))) ps True"

definition read_packets_of :: "('w, 'x) conn_env_scheme \<Rightarrow> nat \<Rightarrow> ('w, apacket option list) cprog" where
  "read_packets_of C n = fold_prog (\<lambda>_ acc. bindp (FdConnection_Read C) (\<lambda>r. ret (acc @ [r]))) [0..<n] []"

lemma write_packets_wire:
  assumes "wire_env C wire" "\<And>p. p \<in> set ps \<Longrightarrow> whole_packet n p"
  shows "runs (write_packets C ps) c
    (\<lambda>ok d. ok \<and> wire (fc_world d) = wire (fc_world c) @ concat (map packet_image ps))"
  using assms(2) unfolding write_packets_def
proof (induction ps arbitrary: c)
  case Nil
  then show ?case by (simp add: runs_simps)
next
  case (Cons p ps)
  show ?case
    unfolding fold_prog.simps runs_simps
  proof (rule runs_mono [OF Write_wire [OF assms(1), of n p c]], goal_cases)
    case 1
    then show ?case using Cons.prems by simp
  next
    case (2 ok d)
    with Cons.IH [of d] Cons.prems show ?case by simp
  qed
qed

lemma read_packets_wire:
  assumes "wire_env C wire"
  shows "\<lbrakk>\<And>p. p \<in> set ps \<Longrightarrow> whole_packet (conn_max_payload C) p; length xs = length ps;
     wire (fc_world c) = concat (map packet_image ps) @ rest\<rbrakk> \<Longrightarrow>
   runs (fold_prog (\<lambda>_ acc. bindp (FdConnection_Read C) (\<lambda>r. ret (acc @ [r]))) xs acc) c
     (\<lambda>rs d. rs = acc @ map Some ps \<and> wire (fc_world d) = rest)"
proof (induction ps arbitrary: c acc xs)
  case Nil
  then show ?case by (simp add: runs_simps)
next
  case (Cons p ps)
  then obtain x ys where xs: "xs = x # ys" "length ys = length ps" by (cases xs) auto
  from Cons.prems(3) have w: "wire (fc_world c) = packet_image p @ concat (map packet_image ps) @ rest" by simp
  show ?case
    unfolding xs(1) fold_prog.simps runs_simps
  proof (rule runs_mono [OF Read_wire [OF assms(1) _ w]], goal_cases)
    case 1
    then show ?case using Cons.prems by simp
  next
    case (2 r d)
    with Cons.IH [OF _ xs(2), of d "acc @ [r]"] Cons.prems show ?case by (auto elim: runs_mono)
  qed
qed

definition wire_ref :: "string conn_env" where
  "wire_ref = \<lparr>conn_max_payload = 1048576,
     os_conn_read = \<lambda>_ n w. if n \<le> length w then (Some (take n w), drop n w) else (None, w),
     os_conn_send = \<lambda>_ b w. (True, w @ b), os_rsa_key = \<lambda>_ w. (True, w), os_tls_create = \<lambda>_ _ w. (True, w),
     os_tls_handshake = \<lambda>w. (True, w), os_shutdown = \<lambda>_ w. ((), w)\<rparr>"

lemma wire_ref_env: "wire_env wire_ref (\<lambda>w. w)"
  by (simp add: wire_env_def wire_ref_def)

section \<open>Properties\<close>

text \<open>C17: the bytes that a connection writes for sealed packets, followed by anything, are read back by
  another connection, over TLS or not, as exactly those packets; nothing after them is consumed and the
  reader's transport accepts each of them.\<close>

theorem packets_cross_the_wire:
  assumes "wire_env C wire" "wire_env D wire'"
    and whole: "list_all (whole_packet (min (conn_max_payload D) (t_max_payload u))) ps"
    and sealed: "ps = map (seal_packet E t) qs"
  shows "runs (write_packets C ps) c (\<lambda>ok c'. ok \<and> (\<exists>b. wire (fc_world c') = wire (fc_world c) @ b \<and>
    (\<forall>d rest. wire' (fc_world d) = b @ rest \<longrightarrow>
       runs (read_packets_of D (length ps)) d (\<lambda>rs d'. rs = map Some ps \<and> wire' (fc_world d') = rest \<and>
         list_all (\<lambda>p. check_header p u) ps))))"
proof (rule runs_mono [OF write_packets_wire [OF assms(1), where
      n = "min (conn_max_payload D) (t_max_payload u)"]], goal_cases)
  case (1 p)
  then show ?case using whole by (auto simp: list_all_iff)
next
  case (2 ok c')
  have headers: "list_all (\<lambda>p. check_header p u) ps"
    using whole unfolding sealed
    by (auto simp: list_all_iff check_header_def seal_packet_def whole_packet_def Let_def)
  have "runs (read_packets_of D (length ps)) d (\<lambda>rs d'. rs = map Some ps \<and> wire' (fc_world d') = rest)"
    if "wire' (fc_world d) = concat (map packet_image ps) @ rest" for d rest
    unfolding read_packets_of_def
  proof (rule read_packets_wire [OF assms(2) _ _ that, of "[0..<length ps]" "[]", simplified])
    fix p assume "p \<in> set ps"
    with whole show "whole_packet (conn_max_payload D) p" by (auto simp: list_all_iff whole_packet_def)
  qed
  with 2 headers show ?case by (auto elim: runs_mono)
qed

theorem packets_cross_the_wire_witness:
  "\<exists>c'. write_packets wire_ref [seal_packet core_ref (device_ref 1 ''a'') (make_packet 5 1 2 ''hello''),
       seal_packet core_ref (device_ref 1 ''a'') (make_packet 6 1 2 [])]
     \<lparr>fc_fd = 3, fc_tls = False, fc_world = []\<rparr> = (Ok True, c')"
  using packets_cross_the_wire [OF wire_ref_env wire_ref_env, where u = "device_ref 2 ''b''"
    and t = "device_ref 1 ''a''" and qs = "[make_packet 5 1 2 ''hello'', make_packet 6 1 2 []]" and E = core_ref
    and ps = "map (seal_packet core_ref (device_ref 1 ''a'')) [make_packet 5 1 2 ''hello'', make_packet 6 1 2 []]"
    and c = "\<lparr>fc_fd = 3, fc_tls = False, fc_world = []\<rparr>"]
  by (auto simp: runs_def whole_packet_def seal_packet_def make_packet_def device_ref_def wire_ref_def)

text \<open>C18: whatever the threads and the callers do, the packets the adapter was given are, in order, those
  it has written, the one whose write failed if there is one, the one being written, and the queue; the
  transport hears of at most one error. Once the writer has seen an error or the stop, nothing more is
  written: what is or comes into the queue stays there.\<close>

theorem adapter_writes_in_order:
  assumes "bca_run stls bca_ctor as c"
  shows "enqueued as = bc_sent c @ failed_writes as @ in_hand (bc_writer c) @ bc_queue c \<and>
      length (failed_writes as) \<le> 1 \<and> length (error_reports c) \<le> 1 \<and>
      (writer_done c \<and> bca_run stls c as' c' \<longrightarrow>
        bc_sent c' = bc_sent c \<and> prefix (bc_queue c) (bc_queue c'))"
  using fifo.holds [OF assms refl] life.holds [OF assms refl] writer_done_run [of stls c as' c']
  by (auto simp: fifo_inv_def life_inv_def)

text \<open>A run with one packet written and one waiting, and then a stop.\<close>

definition packet_ref :: "u32 \<Rightarrow> apacket" where
  "packet_ref n = make_packet n 0 0 []"

definition acts_ref :: "bca_act list" where
  "acts_ref = [Start, Write (packet_ref 1), Write (packet_ref 2), WriterTakes, WriterSent (packet_ref 1),
     StopMark, StopClose]"

definition adapter_ref :: bca where
  "adapter_ref = bca_ctor\<lparr>bc_started := True, bc_stopped := True, bc_closed := True,
     bc_queue := [packet_ref 2], bc_writer := WWaiting, bc_readers := [RReading],
     bc_read_thread := Some 0, bc_stop := Closed, bc_sent := [packet_ref 1]\<rparr>"

lemma run_ref: "bca_run 0 bca_ctor acts_ref adapter_ref"
proof -
  note snoc = run_snoc [of 0 bca_ctor]
  have "bca_run 0 bca_ctor ([] @ [Start] @ [Write (packet_ref 1)] @ [Write (packet_ref 2)] @ [WriterTakes]
    @ [WriterSent (packet_ref 1)] @ [StopMark] @ [StopClose]) adapter_ref"
    unfolding append_assoc [symmetric]
    by (rule snoc, rule snoc, rule snoc, rule snoc, rule snoc, rule snoc, rule snoc, rule run_nil)
      (auto simp: bca_step_simps bca_ctor_def adapter_defs adapter_ref_def)
  then show ?thesis by (simp add: acts_ref_def)
qed

text \<open>A run with one packet written, one whose write fails and one that waits, after which another comes.\<close>

definition fail_acts_ref :: "bca_act list" where
  "fail_acts_ref = [Start, Write (packet_ref 1), Write (packet_ref 2), Write (packet_ref 3), WriterTakes,
     WriterSent (packet_ref 1), WriterTakes, WriteFails (packet_ref 2), WriteError]"

definition failed_adapter_ref :: bca where
  "failed_adapter_ref = bca_ctor\<lparr>bc_started := True, bc_queue := [packet_ref 3], bc_readers := [RReading],
     bc_read_thread := Some 0, bc_sent := [packet_ref 1], bc_error_flag := True,
     bc_events := [ConnError ''write failed'']\<rparr>"

lemma fail_run_ref: "bca_run 0 bca_ctor fail_acts_ref failed_adapter_ref"
proof -
  note snoc = run_snoc [of 0 bca_ctor]
  have "bca_run 0 bca_ctor ([] @ [Start] @ [Write (packet_ref 1)] @ [Write (packet_ref 2)]
    @ [Write (packet_ref 3)] @ [WriterTakes] @ [WriterSent (packet_ref 1)] @ [WriterTakes]
    @ [WriteFails (packet_ref 2)] @ [WriteError]) failed_adapter_ref"
    unfolding append_assoc [symmetric]
    by (rule snoc, rule snoc, rule snoc, rule snoc, rule snoc, rule snoc, rule snoc, rule snoc, rule snoc,
        rule run_nil)
      (auto simp: bca_step_simps bca_ctor_def adapter_defs failed_adapter_ref_def)
  then show ?thesis by (simp add: fail_acts_ref_def)
qed

theorem adapter_writes_in_order_witness:
  "failed_writes fail_acts_ref = [packet_ref 2] \<and>
   bc_sent (bca_Write (packet_ref 4) failed_adapter_ref) = [packet_ref 1]"
proof -
  have "bca_run 0 failed_adapter_ref ([] @ [Write (packet_ref 4)]) (bca_Write (packet_ref 4) failed_adapter_ref)"
    by (rule run_snoc, rule run_nil) (simp add: bca_step_simps failed_adapter_ref_def bca_ctor_def)
  with adapter_writes_in_order [OF fail_run_ref, of "[Write (packet_ref 4)]"
      "bca_Write (packet_ref 4) failed_adapter_ref"]
  show ?thesis
    by (simp add: writer_done_def failed_adapter_ref_def bca_ctor_def in_hand_def enqueued_def fail_acts_ref_def)
qed

text \<open>C19: once \<^verbatim>\<open>Stop\<close> has closed the connection, the threads and \<^verbatim>\<open>Stop\<close> itself make a bounded number of
  steps, however they interleave; when none of them can go on, \<^verbatim>\<open>Stop\<close> has returned and the transport has
  heard of exactly one error.\<close>

theorem stop_returns:
  assumes "bca_run stls bca_ctor as c" "bc_closed c"
    and "bca_run stls c as' c'" "list_all internal as'"
  shows "length as' \<le> 3 * length (bc_readers c) + 8 \<and>
    ((\<exists>a c''. internal a \<and> bca_step stls c' a c'') \<or>
     (bc_stop c' = Returned \<and> length (error_reports c') = 1))"
proof -
  note run = closed_run [OF assms(3) life.holds [OF assms(1) refl] assms(2,4)]
  have "length as' \<le> 3 * length (bc_readers c) + 8" using run work_left_bound [of c] by linarith
  moreover have "\<exists>a c''. internal a \<and> bca_step stls c' a c''" if "bc_stop c' \<noteq> Returned"
    using closed_progress that run by blast
  moreover have "bc_stop c' = Returned \<Longrightarrow> length (error_reports c') = 1"
    using run by (auto simp: life_inv_def)
  ultimately show ?thesis by blast
qed

definition stop_acts_ref :: "bca_act list" where
  "stop_acts_ref = [StopTake, WriterStops, ReadFails 0]"

lemma stop_run_ref: "\<exists>c'. bca_run 0 adapter_ref stop_acts_ref c' \<and> bc_stop c' \<noteq> Returned"
proof -
  note snoc = run_snoc [of 0 adapter_ref]
  have "\<exists>c'. bca_run 0 adapter_ref ([] @ [StopTake] @ [WriterStops] @ [ReadFails 0]) c' \<and>
    bc_stop c' \<noteq> Returned"
    unfolding append_assoc [symmetric]
    by (rule exI, rule conjI, rule snoc, rule snoc, rule snoc, rule run_nil)
      (auto simp: bca_step_simps bca_ctor_def adapter_defs adapter_ref_def reader_is_def)
  then show ?thesis by (simp add: stop_acts_ref_def)
qed

theorem stop_returns_witness:
  "\<exists>c' a c''. bca_run 0 adapter_ref stop_acts_ref c' \<and> internal a \<and> bca_step 0 c' a c''"
proof -
  obtain c' where run: "bca_run 0 adapter_ref stop_acts_ref c'" "bc_stop c' \<noteq> Returned"
    using stop_run_ref by blast
  have "bc_closed adapter_ref" "list_all internal stop_acts_ref"
    by (simp_all add: adapter_ref_def stop_acts_ref_def)
  from stop_returns [OF run_ref this(1) run(1) this(2)] run show ?thesis by blast
qed

end
