(* ===== verification/ServerFrames.thy ===== *)
theory ServerFrames
  imports ServerRef
begin

text \<open>
  What the operations of the server leave alone. The locale \<open>notice_frame\<close> is the contract of a
  two-state relation that a change of the event loop, of the trackers and of the readiness flag and the record
  of a notification keep; under it the notifications keep the relation too. \<open>server_frame\<close> extends it by every
  call recorded, \<open>transport_frame\<close> by the transports.
\<close>

section \<open>Frames\<close>

text \<open>What a notification records.\<close>

definition is_notice :: "ext_call \<Rightarrow> bool" where
  "is_notice c \<longleftrightarrow> (case c of PeerEnqueue _ _ \<Rightarrow> True | ConnectStatusUpdated _ _ \<Rightarrow> True | _ \<Rightarrow> False)"

locale notice_frame =
  fixes R :: "'w server \<Rightarrow> 'w server \<Rightarrow> bool"
  assumes preorder: "preorder_on_states R"
    and loop: "R s (s\<lparr>loop := l\<rparr>)"
    and notice: "is_notice c \<Longrightarrow> R s (s\<lparr>ext_trace := ext_trace s @ [c]\<rparr>)"
    and trackers: "R s (s\<lparr>device_tracker_list := d\<rparr>)"
    and ready: "R s (s\<lparr>transports_ready := b\<rparr>)"
begin

lemmas pure = keeps_pure [OF preorder]

lemmas combine = keeps_bindp [OF preorder] keeps_thenp [OF preorder] keeps_fold_prog [OF preorder]
  keeps_for_each [OF preorder] keeps_if keeps_case_option keeps_case_sum keeps_case_prod keeps_case_list
  keeps_Let

lemma loopp_frame: "keeps R (loopp m)"
  by (auto simp: keeps_def loopp_def loop split: prod.splits)

lemma sos_frame: "keeps R (sos f)"
  by (simp add: sos_def loopp_frame)

lemma recorded_frame:
  "(\<And>s. R s (s\<lparr>ext_trace := ext_trace s @ [c]\<rparr>)) \<Longrightarrow> keeps R (ext E c)"
  unfolding ext_def by (intro combine sos_frame keeps_modp)

lemma notice_frame:
  "is_notice c \<Longrightarrow> keeps R (ext E c)" "is_notice c \<Longrightarrow> keeps R (modp (\<lambda>s. s\<lparr>ext_trace := ext_trace s @ [c]\<rparr>))"
  by (simp_all add: recorded_frame keeps_modp notice)

lemma queue_frame: "keeps R (run_on_looper E fn)" "keeps R check_looper"
  unfolding run_on_looper_def check_looper_def by (rule loopp_frame)+

lemma with_transport_frame: "(\<And>t. keeps R (k t)) \<Longrightarrow> keeps R (with_transport p k)"
  unfolding with_transport_def by (intro combine pure)

lemmas quiet_basic = pure loopp_frame sos_frame queue_frame with_transport_frame

lemma transports_of_frame: "keeps R (transports_of ps)"
  unfolding transports_of_def by (intro combine quiet_basic)

lemma list_transports_frame: "keeps R (list_transports E kind)"
  unfolding list_transports_def by (intro combine quiet_basic transports_of_frame)

lemma tracker_frame: "keeps R (device_tracker_remove p)" "(\<And>d. keeps R (k d)) \<Longrightarrow> keeps R (with_tracker p k)"
  "keeps R (device_tracker_send E p str)"
proof -
  show remove: "keeps R (device_tracker_remove p)"
    unfolding device_tracker_remove_def by (rule keeps_modp) (rule trackers)
  show use: "(\<And>d. keeps R (k d)) \<Longrightarrow> keeps R (with_tracker p k)" for p k
    unfolding with_tracker_def by (intro combine quiet_basic)
  show "keeps R (device_tracker_send E p str)"
    unfolding device_tracker_send_def by (intro use combine quiet_basic notice_frame remove) (simp add: is_notice_def)
qed

lemma iterate_frame: "(\<And>p t. keeps R (f p t)) \<Longrightarrow> keeps R (iterate_transports f)"
  unfolding iterate_transports_def by (intro combine quiet_basic)

lemma update_transports_frame: "keeps R (update_transport_status E)" "keeps R (update_transports E)"
proof -
  show status: "keeps R (update_transport_status E)"
    unfolding update_transport_status_def update_transport_status_real_def
    by (intro combine quiet_basic iterate_frame keeps_modp ready notice_frame) (simp add: is_notice_def)
  show "keeps R (update_transports E)"
    unfolding update_transports_def
    by (intro combine quiet_basic tracker_frame list_transports_frame status)
qed

end

text \<open>\<open>server_frame\<close> allows every call to be recorded.\<close>

locale server_frame = notice_frame +
  assumes trace: "R s (s\<lparr>ext_trace := x\<rparr>)"
begin

lemma trace_frame: "keeps R (modp (\<lambda>s. s\<lparr>ext_trace := f s\<rparr>))"
  by (rule keeps_modp) (rule trace)

lemma ext_frame: "keeps R (ext E c)"
  by (rule recorded_frame) (rule trace)

lemmas basic = quiet_basic trace_frame ext_frame

end

text \<open>The objects of the server: all but what a notification changes.\<close>

definition same_objects :: "'w server \<Rightarrow> 'w server \<Rightarrow> bool" where
  "same_objects s s' \<longleftrightarrow> transports s' = transports s \<and> transport_list s' = transport_list s \<and>
     pending_list s' = pending_list s \<and> listener_list s' = listener_list s \<and>
     next_listener s' = next_listener s \<and> next_tptr s' = next_tptr s \<and> established s' = established s \<and>
     reconnect_running s' = reconnect_running s \<and> reconnect_queue s' = reconnect_queue s"

interpretation objects: server_frame same_objects
  by unfold_locales (auto simp: preorder_on_states_def same_objects_def)

text \<open>\<open>transport_frame\<close> adds the transports, their lists and the reconnect queue.\<close>

locale transport_frame = server_frame +
  assumes objects: "R s (s\<lparr>transports := ts\<rparr>)" "R s (s\<lparr>established := e\<rparr>)"
      "R s (s\<lparr>transport_list := lst\<rparr>)" "R s (s\<lparr>pending_list := pl\<rparr>)"
    and queue: "R s (s\<lparr>reconnect_queue := q\<rparr>)"
begin

lemma both_lists: "R s (s\<lparr>pending_list := pl, transport_list := lst\<rparr>)"
    "R s (s\<lparr>transport_list := lst, pending_list := pl\<rparr>)"
  using preorder objects(3) [of "s\<lparr>pending_list := pl\<rparr>" lst] objects(4) [of s pl]
    objects(4) [of "s\<lparr>transport_list := lst\<rparr>" pl] objects(3) [of s lst]
  unfolding preorder_on_states_def by blast+

lemma mod_frame: "(\<And>s. R s (f s)) \<Longrightarrow> keeps R (modp f)"
  by (rule keeps_modp)

lemma upd_transport_frame: "keeps R (upd_transport p g)"
  unfolding upd_transport_def by (intro basic mod_frame objects)

lemma SetConnectionState_frame: "keeps R (SetConnectionState E p st)"
  unfolding SetConnectionState_def by (intro combine basic upd_transport_frame update_transports_frame)

lemma established_frame: "keeps R (SetConnectionEstablished p b)"
  unfolding SetConnectionEstablished_def
  by (rule mod_frame) (use preorder objects(2) in \<open>auto simp: preorder_on_states_def\<close>)

lemma kick_frame: "keeps R (Kick E p)" "keeps R (ResetTransport E p)" "keeps R (kick_where E P reset)"
  unfolding Kick_def ResetTransport_def kick_where_def kick_or_reset_def
  by (intro combine basic upd_transport_frame)+

lemma send_frame: "keeps R (send_packet E q p)" "keeps R (send_connect E p)" "keeps R (send_ready E a b p c)"
  "keeps R (send_close E a b p)" "keeps R (send_tls_request E p)"
  unfolding send_packet_def send_connect_def send_ready_def send_close_def send_tls_request_def
  by (intro combine basic kick_frame)+

lemma remove_transport_frame: "keeps R (remove_transport E p)" "keeps R (TrackTransport E p)"
  "keeps R (transport_destroy E p)"
proof -
  show remove: "keeps R (remove_transport E p)" unfolding remove_transport_def by (rule basic)
  show track: "keeps R (TrackTransport E p)"
    unfolding TrackTransport_def by (intro combine basic mod_frame queue)
  show "keeps R (transport_destroy E p)"
    unfolding transport_destroy_def by (intro combine basic upd_transport_frame remove track)
qed

lemma registration_frame: "keeps R (fdevent_register_transport E p)" "keeps R (fdevent_unregister_transport E p)"
proof -
  show "keeps R (fdevent_register_transport E p)"
    unfolding fdevent_register_transport_def
    by (intro combine basic SetConnectionState_frame send_frame update_transports_frame mod_frame)
      (use preorder both_lists in \<open>auto simp: preorder_on_states_def\<close>)
  have "keeps R (delete_transport p)"
    unfolding delete_transport_def by (intro combine basic established_frame mod_frame objects)
  then show "keeps R (fdevent_unregister_transport E p)"
    unfolding fdevent_unregister_transport_def
    by (intro combine basic mod_frame objects update_transports_frame)
qed

end

text \<open>\<open>operation_frame\<close> adds every other field that the packets, the queued functions and the start of a
  server change: all but \<open>one_device\<close>, the reconnect handler's flag, the counters and the launch. \<open>start_frame\<close>
  adds the first of them, \<open>launch_frame\<close> what only a launch changes.\<close>

locale operation_frame = transport_frame +
  assumes listeners: "R s (s\<lparr>listener_list := ls\<rparr>)" "R s (s\<lparr>next_listener := n\<rparr>)"
    and flags: "R s (s\<lparr>device_scan_complete := b\<rparr>)"
      "R s (s\<lparr>g_reject_kill_server := b\<rparr>)" "R s (s\<lparr>reconnect_initialized := b\<rparr>)"
begin

lemma erase_listener_frame: "keeps R (erase_listener l)"
  unfolding erase_listener_def alistener_dtor_def
  by (intro combine basic mod_frame listeners upd_transport_frame)

lemma RunDisconnects_frame: "keeps R (RunDisconnects E p)"
  unfolding RunDisconnects_def listener_disconnect_def
  by (intro combine basic upd_transport_frame)
    (auto split: adisconnect.splits intro!: combine basic erase_listener_frame)

lemma handle_offline_frame: "keeps R (handle_offline E p)"
  unfolding handle_offline_def
  by (intro combine basic SetConnectionState_frame upd_transport_frame RunDisconnects_frame)

lemma packet_frame: "keeps R (handle_packet E pkt p)"
  unfolding handle_packet_def handle_new_connection_def parse_banner_def handle_online_def handle_auth_def
    handle_open_def handle_okay_def handle_close_def handle_write_def
  by (intro combine basic handle_offline_frame upd_transport_frame SetConnectionState_frame established_frame
      send_frame)

lemma fde_set_frame: "keeps R (fde_set fde ev)"
  unfolding fde_set_def by (intro combine basic)

lemma server_fn_frame: "keeps R (run_server_fn E fn)"
proof -
  have "keeps R (enable_server_sockets E)"
    unfolding enable_server_sockets_def by (intro combine basic fde_set_frame)
  then show ?thesis
    unfolding run_server_fn_def
    by (auto split: server_fn.splits
        intro!: combine packet_frame handle_offline_frame remove_transport_frame registration_frame)
qed

lemma flush_frame: "keeps R (flush_run_queue E n)"
proof (induction n)
  case 0
  show ?case by (simp add: basic)
next
  case (Suc n)
  show ?case unfolding flush_run_queue.simps by (intro combine basic server_fn_frame Suc)
qed

lemma install_frame: "keeps R (install_listener E name c transport flags)"
proof -
  have "keeps R (set_listener l)" for l
    unfolding set_listener_def by (intro mod_frame listeners)
  then show ?thesis
    unfolding install_listener_def rebind_listener_def new_listener_def Let_def
    by (intro combine basic upd_transport_frame fde_set_frame mod_frame listeners)
qed

lemma install_smartsocket_frame: "keeps R (install_smartsocket E fuel start spec)"
proof (induction fuel)
  case 0
  show ?case by (simp add: basic)
next
  case (Suc fuel)
  show ?case unfolding install_smartsocket.simps by (intro combine basic install_frame Suc)
qed

lemma process_frame: "keeps R (process m)"
  unfolding process_def by (rule loopp_frame)

lemma services_frame: "keeps R (server_start E fuel is_daemon spec None)"
  unfolding server_start_def server_options_def option.case adb_set_reject_kill_server_def
    init_reconnect_handler_def adb_notify_device_scan_complete_def
  by (intro combine basic mod_frame flags update_transports_frame install_smartsocket_frame process_frame)

end

locale start_frame = operation_frame +
  assumes device: "R s (s\<lparr>one_device := od\<rparr>)"
begin

lemma server_start_frame: "keeps R (server_start E fuel is_daemon spec device)"
  unfolding server_start_def server_options_def transport_set_one_device_def adb_set_reject_kill_server_def
    init_reconnect_handler_def adb_notify_device_scan_complete_def
  by (intro combine basic mod_frame flags device update_transports_frame install_smartsocket_frame process_frame)

end

locale launch_frame = operation_frame +
  assumes running: "R s (s\<lparr>reconnect_running := b\<rparr>)"
    and launch: "R s (s\<lparr>launched := b\<rparr>)" "R s (s\<lparr>server_pipe := q\<rparr>)"
begin

lemma clear_frame: "keeps R (clear_transport_list E)"
  unfolding clear_transport_list_def by (intro keeps_thenp [OF preorder] kick_frame keeps_modp both_lists)

lemma cleanup_frame: "keeps R (launch_cleanup E)"
  unfolding launch_cleanup_def adb_server_cleanup_def close_smartsockets_def kick_all_transports_def reconnect_Stop_def
  by (intro combine basic mod_frame running queue launch kick_frame erase_listener_frame remove_transport_frame
      clear_frame)

lemma launch_server_frame: "keeps R (launch_server E fuel spec device)"
  unfolding launch_server_def fill_pipe_def launch_server_thread_def notify_ready_def
  by (intro combine basic mod_frame launch cleanup_frame process_frame services_frame)

end

end
