(* ===== verification/ListenerProperties.thy ===== *)
theory ListenerProperties
  imports ServerFrames
begin

text \<open>
  Listeners and the transports they forward to refer to each other: a listener points to its
  transport, and the transport's list of disconnects holds the listener. \<open>listeners_wf\<close> says that the
  two agree; every packet from a device and every forwarding request keeps it.
\<close>

definition held :: "'w server \<Rightarrow> tptr \<Rightarrow> lptr set" where
  "held s p = {q. \<exists>l \<in> set (listener_list s). al_ptr l = q \<and> al_transport l = Some p}"

definition disc :: "transport \<Rightarrow> lptr set" where
  "disc t = {q. ListenerDisconnect q \<in> set (t_disconnects t)}"

definition listed_wf :: "'w server \<Rightarrow> bool" where
  "listed_wf s \<longleftrightarrow> distinct (map al_ptr (listener_list s)) \<and>
     (\<forall>l \<in> set (listener_list s). al_ptr l < next_listener s \<and>
        (\<forall>p. al_transport l = Some p \<longrightarrow> transports s p \<noteq> None))"

definition listeners_wf :: "'w server \<Rightarrow> bool" where
  "listeners_wf s \<longleftrightarrow> listed_wf s \<and> (\<forall>p t. transports s p = Some t \<longrightarrow> disc t = held s p)"

lemma disc_simps [simp]:
  "disc (AddDisconnect (ListenerDisconnect q) t) = insert q (disc t)"
  "disc (RemoveDisconnect (ListenerDisconnect q) t) = disc t - {q}"
  by (auto simp: disc_def AddDisconnect_def RemoveDisconnect_def)

section \<open>Rules\<close>

lemma returns_objects:
  assumes "keeps same_objects m" "\<And>s s'. same_objects s s' \<Longrightarrow> P s \<Longrightarrow> P s'"
  shows "returns P m (\<lambda>_. P)"
  using assms by (auto simp: returns_def dest: keepsD)

lemma returns_fold_prog:
  assumes "\<And>x xs acc. returns (I (x # xs)) (f x acc) (\<lambda>_. I xs)"
  shows "returns (I xs) (fold_prog f xs acc) (\<lambda>_. I [])"
proof (induction xs arbitrary: acc)
  case Nil
  then show ?case by (simp add: returns_ret)
next
  case (Cons x xs)
  show ?case unfolding fold_prog.simps
    by (rule returns_bindp [OF assms Cons])
qed

lemma returns_modp: "(\<And>s. P s \<Longrightarrow> Q (f s)) \<Longrightarrow> returns P (modp f) (\<lambda>_. Q)"
  by (auto simp: returns_def)

lemma returns_with_transport:
  "(\<And>t. returns (\<lambda>s. P s \<and> transports s p = Some t) (k t) Q) \<Longrightarrow> returns P (with_transport p k) Q"
  unfolding with_transport_def
  by (intro returns_getp_bind returns_case_option returns_stop) (auto elim: returns_pre)

lemma returns_upd_transport:
  "(\<And>s t. P s \<Longrightarrow> transports s p = Some t \<Longrightarrow>
      Q (s\<lparr>transports := (transports s)(p := Some (g t))\<rparr>)) \<Longrightarrow>
   returns P (upd_transport p g) (\<lambda>_. Q)"
  unfolding upd_transport_def by (rule returns_with_transport, rule returns_modp) simp

text \<open>An update of a transport that leaves its disconnects alone.\<close>

lemma upd_transport_wf:
  "(\<And>t. t_disconnects (g t) = t_disconnects t) \<Longrightarrow>
   returns listeners_wf (upd_transport p g) (\<lambda>_. listeners_wf)"
  by (rule returns_upd_transport)
    (auto simp: listeners_wf_def listed_wf_def held_def disc_def split: if_splits)

lemma same_objects_wf: "same_objects s s' \<Longrightarrow> listeners_wf s \<Longrightarrow> listeners_wf s'"
  by (simp add: same_objects_def listeners_wf_def listed_wf_def held_def)

lemma objects_wf: "keeps same_objects m \<Longrightarrow> returns listeners_wf m (\<lambda>_. listeners_wf)"
  by (rule returns_objects) (auto intro: same_objects_wf)

named_theorems wf_steps \<open>operations that keep the listeners well formed\<close>

lemmas [wf_steps] = objects_wf [OF objects.ext_frame] objects_wf [OF objects.sos_frame]
  objects_wf [OF objects.loopp_frame] objects_wf [OF objects.queue_frame(1)]
  objects_wf [OF objects.queue_frame(2)] objects_wf [OF objects.update_transports_frame(1)]
  objects_wf [OF objects.update_transports_frame(2)] objects_wf [OF objects.trace_frame]

section \<open>Erasing a listener\<close>

definition without :: "lptr \<Rightarrow> 'w server \<Rightarrow> 'w server" where
  "without q s = s\<lparr>listener_list := filter (\<lambda>k. al_ptr k \<noteq> q) (listener_list s)\<rparr>"

lemma held_without [simp]: "held (without q s) p = held s p - {q}"
  by (auto simp: held_def without_def)

lemma listed_without: "listed_wf s \<Longrightarrow> listed_wf (without q s)"
  by (auto simp: listed_wf_def without_def distinct_map intro: inj_on_subset)

lemma held_unique:
  assumes "listed_wf s" "l \<in> set (listener_list s)" "al_ptr l \<in> held s p"
  shows "al_transport l = Some p"
proof -
  obtain k where k: "k \<in> set (listener_list s)" "al_ptr k = al_ptr l" "al_transport k = Some p"
    using assms(3) by (auto simp: held_def)
  have "inj_on al_ptr (set (listener_list s))" using assms(1) by (simp add: listed_wf_def distinct_map)
  with k assms(2) have "k = l" by (auto dest: inj_onD)
  with k show ?thesis by simp
qed

text \<open>Between the erasure and the end of the destructor the disconnect may be left over.\<close>

definition erased :: "alistener \<Rightarrow> 'w server \<Rightarrow> bool" where
  "erased l s \<longleftrightarrow> listed_wf s \<and> (\<forall>p t. transports s p = Some t \<longrightarrow>
     held s p = disc t - {al_ptr l} \<and> (al_ptr l \<in> disc t \<longrightarrow> al_transport l = Some p))"

lemma same_objects_held: "same_objects s s' \<Longrightarrow> held s' = held s"
  by (rule ext) (simp add: same_objects_def held_def)

lemma same_objects_listed: "same_objects s s' \<Longrightarrow> listed_wf s \<Longrightarrow> listed_wf s'"
  by (simp add: same_objects_def listed_wf_def)

lemma same_objects_transports: "same_objects s s' \<Longrightarrow> transports s' = transports s"
  by (simp add: same_objects_def)

lemmas same_objects_simps = same_objects_held same_objects_listed same_objects_transports

lemma destructor_start:
  assumes "\<And>s s'. same_objects s s' \<Longrightarrow> P s \<Longrightarrow> P s'"
  shows "returns P (loopp (thenp (fdevent_Destroy fde) (ret ()))) (\<lambda>_. P)"
  by (rule returns_objects [OF objects.loopp_frame]) (rule assms)

lemma without_erased:
  assumes "listeners_wf s" "l \<in> set (listener_list s)"
  shows "erased l (without (al_ptr l) s)"
proof -
  have "transports (without (al_ptr l) s) = transports s" by (simp add: without_def)
  with assms show ?thesis
    using listed_without [of s "al_ptr l"] held_unique [of s l]
    by (auto simp: erased_def listeners_wf_def)
qed

lemma dtor_wf: "returns (erased l) (alistener_dtor l) (\<lambda>_. listeners_wf)"
proof -
  have same: "erased l s'" if "same_objects s s'" "erased l s" for s s'
    using that by (simp add: erased_def same_objects_simps)
  show ?thesis
    unfolding alistener_dtor_def
  proof (rule returns_thenp [OF destructor_start [OF same]], assumption, assumption)
    show "returns (erased l) (case al_transport l of None \<Rightarrow> ret ()
        | Some p \<Rightarrow> upd_transport p (RemoveDisconnect (ListenerDisconnect (al_ptr l)))) (\<lambda>_. listeners_wf)"
    proof (cases "al_transport l")
      case None
      then show ?thesis by (auto simp: erased_def listeners_wf_def intro!: returns_ret)
    next
      case (Some p)
      then show ?thesis
        by (auto simp: erased_def listeners_wf_def listed_wf_def held_def intro!: returns_upd_transport)
    qed
  qed
qed

lemma erase_listener_wf:
  "returns (\<lambda>s. listeners_wf s \<and> l \<in> set (listener_list s)) (erase_listener l) (\<lambda>_. listeners_wf)"
  unfolding erase_listener_def
  by (rule returns_thenp [OF returns_modp dtor_wf])
     (auto dest: without_erased simp: without_def)

section \<open>Operations on the list\<close>

lemma found_in_list: "find P xs = Some x \<Longrightarrow> x \<in> set xs \<and> P x"
  by (auto simp: find_Some_iff)

lemma remove_listener_wf: "returns listeners_wf (remove_listener name) (\<lambda>_. listeners_wf)"
  unfolding remove_listener_def
  by (intro returns_getp_bind returns_case_option returns_ret
      returns_thenp [OF returns_pre [OF erase_listener_wf]])
     (auto dest: found_in_list)

text \<open>A walk over the list that erases some of it: what is ahead is still there.\<close>

definition ahead :: "alistener list \<Rightarrow> 'w server \<Rightarrow> bool" where
  "ahead ls s \<longleftrightarrow> listeners_wf s \<and> set ls \<subseteq> set (listener_list s) \<and> distinct (map al_ptr ls)"

lemma erase_ahead:
  "returns (ahead (l # ls)) (erase_listener l) (\<lambda>_. ahead ls)"
proof (rule returnsI)
  fix s a s' assume s: "ahead (l # ls) s" "erase_listener l s = (Ok a, s')"
  then have "listeners_wf s'" using returnsD [OF erase_listener_wf] by (auto simp: ahead_def)
  moreover have "listener_list s' = listener_list (without (al_ptr l) s)"
  proof -
    have kept: "keeps (\<lambda>s s'. listener_list s' = listener_list s) (alistener_dtor l)"
    proof -
      have pre: "preorder_on_states (\<lambda>s s'. listener_list s' = listener_list s)"
        by (simp add: preorder_on_states_def)
      show ?thesis
        unfolding alistener_dtor_def upd_transport_def with_transport_def loopp_def
        by (intro keeps_thenp [OF pre] keeps_bindp [OF pre] keeps_case_option keeps_pure [OF pre] keeps_modp)
           (auto simp: keeps_def split: prod.splits)
    qed
    show ?thesis
      using s(2) by (auto simp: erase_listener_def without_def dest!: keepsD [OF kept])
  qed
  ultimately show "ahead ls s'"
    using s(1) unfolding ahead_def without_def by (auto simp: image_iff)
qed

lemma ahead_skip: "returns (ahead (l # ls)) (ret a) (\<lambda>_. ahead ls)"
  by (rule returns_ret) (auto simp: ahead_def)

lemma walk_wf:
  "returns listeners_wf (bindp (getp listener_list) (\<lambda>ls.
     fold_prog (\<lambda>l _. if P l then erase_listener l else ret ()) ls ())) (\<lambda>_. listeners_wf)"
proof (rule returns_getp_bind)
  fix ls
  have "returns (ahead ls) (fold_prog (\<lambda>l _. if P l then erase_listener l else ret ()) ls ()) (\<lambda>_. ahead [])"
    by (rule returns_fold_prog, rule returns_if) (rule erase_ahead ahead_skip)+
  then show "returns (\<lambda>s. listeners_wf s \<and> listener_list s = ls)
      (fold_prog (\<lambda>l _. if P l then erase_listener l else ret ()) ls ()) (\<lambda>_. listeners_wf)"
    by (rule returns_post [OF returns_pre])
       (auto simp: ahead_def listeners_wf_def listed_wf_def)
qed

lemma if_not: "(if \<not> b then x else y) = (if b then y else x)"
  by simp

lemma remove_all_wf: "returns listeners_wf remove_all_listeners (\<lambda>_. listeners_wf)"
  using walk_wf [of "\<lambda>l. \<not> never_removed l"] unfolding remove_all_listeners_def if_not .

lemma close_smartsockets_wf: "returns listeners_wf (close_smartsockets E) (\<lambda>_. listeners_wf)"
  unfolding close_smartsockets_def by (rule walk_wf)

text \<open>Rebinding: the disconnect moves from the old transport to the new one.\<close>

definition half_bound :: "alistener \<Rightarrow> 'w server \<Rightarrow> bool" where
  "half_bound l s \<longleftrightarrow> distinct (map al_ptr (listener_list s)) \<and> l \<in> set (listener_list s) \<and>
     (\<forall>k \<in> set (listener_list s). al_ptr k < next_listener s \<and>
        (k \<noteq> l \<longrightarrow> (\<forall>p. al_transport k = Some p \<longrightarrow> transports s p \<noteq> None))) \<and>
     (\<forall>p t. transports s p = Some t \<longrightarrow> disc t = held s p - {al_ptr l})"

lemma same_ptr:
  "distinct (map al_ptr ls) \<Longrightarrow> k \<in> set ls \<Longrightarrow> l \<in> set ls \<Longrightarrow> al_ptr k = al_ptr l \<longleftrightarrow> k = l"
  by (auto simp: distinct_map dest: inj_onD)

lemma set_listener_image:
  assumes "distinct (map al_ptr ls)" "l \<in> set ls" "al_ptr l' = al_ptr l"
  shows "set (map (\<lambda>k. if al_ptr k = al_ptr l' then l' else k) ls) = insert l' (set ls - {l})"
    "map al_ptr (map (\<lambda>k. if al_ptr k = al_ptr l' then l' else k) ls) = map al_ptr ls"
  using assms by (auto simp: same_ptr [OF assms(1)] image_def split: if_splits)

abbreviation replaced :: "alistener \<Rightarrow> 'w server \<Rightarrow> 'w server" where
  "replaced l s \<equiv> s\<lparr>listener_list :=
     map (\<lambda>k. if al_ptr k = al_ptr l then l else k) (listener_list s)\<rparr>"

lemma set_listener_half:
  assumes "half_bound l s" "al_ptr l' = al_ptr l"
  shows "half_bound l' (replaced l' s)" (is "half_bound l' ?s")
proof -
  have d: "distinct (map al_ptr (listener_list s))" "l \<in> set (listener_list s)"
    using assms(1) by (auto simp: half_bound_def)
  note image = set_listener_image [OF d assms(2)]
  have "held ?s p - {al_ptr l'} = held s p - {al_ptr l}" for p
    unfolding held_def using image(1) same_ptr [OF d(1) _ d(2)] assms(2) by auto
  moreover have "l' \<noteq> k" if "k \<in> set (listener_list s)" "k \<noteq> l" for k
    using same_ptr [OF d(1) that(1) d(2)] that assms(2) by auto
  moreover obtain ls where ls: "listener_list ?s = ls" "set ls = insert l' (set (listener_list s) - {l})"
    "map al_ptr ls = map al_ptr (listener_list s)" using image by simp
  ultimately show ?thesis
    using assms d unfolding half_bound_def ls(1) by (auto simp: ls(2,3))
qed

lemma set_listener_wf:
  assumes "listeners_wf s" "l \<in> set (listener_list s)" "al_ptr l' = al_ptr l" "al_transport l' = al_transport l"
  shows "listeners_wf (replaced l' s)" "l' \<in> set (listener_list (replaced l' s))"
proof -
  let ?s = "replaced l' s"
  have d: "distinct (map al_ptr (listener_list s))"
    using assms(1) by (simp add: listeners_wf_def listed_wf_def)
  note image = set_listener_image [OF d assms(2,3)]
  have "held ?s p = held s p" for p
    unfolding held_def using image(1) same_ptr [OF d _ assms(2)] assms(2-4) by auto
  moreover obtain ls where ls: "listener_list ?s = ls" "set ls = insert l' (set (listener_list s) - {l})"
    "map al_ptr ls = map al_ptr (listener_list s)" using image by simp
  ultimately show "listeners_wf ?s"
    using assms unfolding listeners_wf_def listed_wf_def ls(1) by (auto simp: ls(2,3))
  show "l' \<in> set (listener_list ?s)" using ls by simp
qed

lemma unbind_half:
  assumes "listeners_wf s" "l \<in> set (listener_list s)" "al_transport l = Some p" "transports s p = Some t"
  shows "half_bound l (s\<lparr>transports := (transports s)(p := Some (RemoveDisconnect (ListenerDisconnect (al_ptr l)) t))\<rparr>)"
  using assms held_unique [of s l]
  by (auto simp: half_bound_def listeners_wf_def listed_wf_def held_def)

lemma bind_wf:
  assumes "half_bound l s" "al_transport l = Some p" "transports s p = Some t"
  shows "listeners_wf (s\<lparr>transports := (transports s)(p := Some (AddDisconnect (ListenerDisconnect (al_ptr l)) t))\<rparr>)"
    (is "listeners_wf ?s")
proof -
  have listed: "listed_wf s" "l \<in> set (listener_list s)" using assms by (auto simp: half_bound_def listed_wf_def)
  then have "al_ptr l \<in> held s p" using assms by (auto simp: held_def)
  moreover have "held ?s = held s" by (rule ext) (simp add: held_def)
  moreover have "listed_wf ?s" using listed by (auto simp: listed_wf_def)
  moreover have "al_ptr l \<notin> held s q" if "q \<noteq> p" for q
    using held_unique [OF listed, of q] assms(2) that by auto
  ultimately show ?thesis
    using assms by (auto simp: listeners_wf_def half_bound_def)
qed

lemma rebind_wf:
  "returns (\<lambda>s. listeners_wf s \<and> l \<in> set (listener_list s)) (rebind_listener l c t) (\<lambda>_. listeners_wf)"
proof -
  let ?l = "l\<lparr>al_connect_to := c\<rparr>"
  let ?k = "?l\<lparr>al_transport := t\<rparr>"
  have bound: "al_ptr ?k = al_ptr ?l" by simp
  show ?thesis
    unfolding rebind_listener_def Let_def set_listener_def
  proof (rule returns_thenp [OF returns_modp [where Q = "\<lambda>s. listeners_wf s \<and> ?l \<in> set (listener_list s)"]],
      goal_cases)
    case (1 s)
    then show ?case using set_listener_wf [of s l ?l] by auto
  next
    case 2
    show ?case
    proof (rule returns_if, goal_cases)
      case 1
      show ?case by (rule returns_ret) simp
    next
      case 2
      show ?case
      proof (rule returns_thenp [where Q' = "half_bound ?l"], goal_cases)
        case 1
        show ?case
          by (intro returns_case_option returns_stop returns_upd_transport) (use unbind_half [of _ ?l] in auto)
      next
        case 2
        show ?case
        proof (rule returns_thenp [where Q' = "half_bound ?k"], goal_cases)
          case 1
          show ?case by (rule returns_modp) (use set_listener_half [OF _ bound] in simp)
        next
          case 2
          show ?case
            by (intro returns_case_option returns_stop returns_upd_transport) (use bind_wf [of ?k] in auto)
        qed
      qed
    qed
  qed
qed

text \<open>A new listener: its pointer is fresh, then its transport knows it, then the list holds it.\<close>

definition fresh_listener :: "lptr \<Rightarrow> 'w server \<Rightarrow> bool" where
  "fresh_listener q s \<longleftrightarrow> listeners_wf s \<and> q < next_listener s \<and> q \<notin> al_ptr ` set (listener_list s)"

definition announced :: "lptr \<Rightarrow> tptr option \<Rightarrow> 'w server \<Rightarrow> bool" where
  "announced q transport s \<longleftrightarrow> listed_wf s \<and> q < next_listener s \<and> q \<notin> al_ptr ` set (listener_list s) \<and>
     (\<forall>p. transport = Some p \<longrightarrow> transports s p \<noteq> None) \<and>
     (\<forall>p t. transports s p = Some t \<longrightarrow> disc t = held s p \<union> (if transport = Some p then {q} else {}))"

lemma same_objects_fresh: "same_objects s s' \<Longrightarrow> fresh_listener q s \<Longrightarrow> fresh_listener q s'"
  using same_objects_wf [of s s'] by (auto simp: fresh_listener_def same_objects_def)

lemma fde_set_same_objects: "keeps same_objects (fde_set fde ev)"
  unfolding fde_set_def by (intro objects.combine objects.basic)

lemma append_wf:
  assumes "announced q transport s" "al_ptr l = q" "al_transport l = transport"
  shows "listeners_wf (s\<lparr>listener_list := listener_list s @ [l]\<rparr>)"
proof -
  have "held (s\<lparr>listener_list := listener_list s @ [l]\<rparr>) p = held s p \<union> (if transport = Some p then {q} else {})" for p
    using assms(2,3) by (auto simp: held_def)
  with assms show ?thesis by (auto simp: announced_def listeners_wf_def listed_wf_def)
qed

lemma new_listener_wf: "returns listeners_wf (new_listener E name c transport flags fd) (\<lambda>_. listeners_wf)"
  unfolding new_listener_def Let_def
proof (rule returns_getp_bind, goal_cases)
  case (1 q)
  note fresh = returns_objects [where P = "fresh_listener q", OF _ same_objects_fresh]
  show ?case
  proof (rule returns_thenp [where Q' = "fresh_listener q"], goal_cases)
    case 1
    show ?case
      by (rule returns_modp) (auto simp: fresh_listener_def listeners_wf_def listed_wf_def held_def less_Suc_eq)
  next
    case 2
    show ?case
    proof (rule returns_thenp [OF fresh [OF objects.ext_frame]], assumption, assumption,
        rule returns_bindp [OF fresh [OF objects.loopp_frame]], assumption, assumption, goal_cases)
      case (1 fde)
      have "keeps same_objects (if flags AND INSTALL_LISTENER_DISABLED E = 0 then fde_set (Some fde) FDE_READ
        else ret ())" by (intro objects.combine fde_set_same_objects objects.pure)
      note set = returns_thenp [OF fresh [OF this]]
      show ?case
      proof (rule set, assumption, assumption, rule returns_thenp [where Q' = "announced q transport"], goal_cases)
        case 1
        show ?case
          by (intro returns_case_option returns_ret returns_upd_transport)
             (auto simp: fresh_listener_def announced_def listeners_wf_def listed_wf_def held_def split: if_splits)
      next
        case 2
        show ?case by (rule returns_modp) (simp add: append_wf)
      qed
    qed
  qed
qed

lemma install_listener_wf: "returns listeners_wf (install_listener E name c transport flags) (\<lambda>_. listeners_wf)"
  unfolding install_listener_def
proof (rule returns_getp_bind, rule returns_case_option, goal_cases)
  case (1 r)
  note listen = returns_pre [OF returns_bindp [OF objects_wf [OF objects.sos_frame]]]
  show ?case
    by (rule listen)
       (auto intro!: returns_case_prod returns_ret returns_if returns_thenp [OF new_listener_wf] split: sum.splits)
next
  case (2 r l)
  then show ?case
    by (intro returns_if returns_ret returns_thenp [OF returns_pre [OF rebind_wf]])
       (auto dest: found_in_list)
qed

section \<open>Disconnecting a transport\<close>

text \<open>The disconnects of a transport that are still to run: the listeners left are among them.\<close>

definition disconnecting :: "tptr \<Rightarrow> adisconnect list \<Rightarrow> 'w server \<Rightarrow> bool" where
  "disconnecting p ds s \<longleftrightarrow> listed_wf s \<and> (\<forall>p' t. p' \<noteq> p \<longrightarrow> transports s p' = Some t \<longrightarrow> disc t = held s p') \<and>
     held s p \<subseteq> {q. ListenerDisconnect q \<in> set ds} \<and>
     (\<forall>l \<in> set (listener_list s). ListenerDisconnect (al_ptr l) \<in> set ds \<longrightarrow> al_transport l = Some p)"

lemma same_objects_disconnecting: "same_objects s s' \<Longrightarrow> disconnecting p ds s \<Longrightarrow> disconnecting p ds s'"
  by (auto simp: disconnecting_def same_objects_simps) (auto simp: same_objects_def)

lemma without_disconnecting:
  assumes "disconnecting p (ListenerDisconnect q # ds) s" "l \<in> set (listener_list s)" "al_ptr l = q"
  shows "disconnecting p ds (without q s)"
proof -
  have "q \<notin> held s p'" if "p' \<noteq> p" for p'
  proof
    assume "q \<in> held s p'"
    then have "al_transport l = Some p'" using held_unique [of s l p'] assms by (auto simp: disconnecting_def)
    moreover have "al_transport l = Some p" using assms by (auto simp: disconnecting_def)
    ultimately show False using that by simp
  qed
  moreover have "transports (without q s) = transports s" "set (listener_list (without q s)) \<subseteq> set (listener_list s)"
    by (auto simp: without_def)
  moreover have "listed_wf s" "held s p \<subseteq> insert q {q. ListenerDisconnect q \<in> set ds}"
    "\<And>p' t. p' \<noteq> p \<Longrightarrow> transports s p' = Some t \<Longrightarrow> disc t = held s p'"
    "\<And>l. l \<in> set (listener_list s) \<Longrightarrow> ListenerDisconnect (al_ptr l) \<in> set ds \<Longrightarrow> al_transport l = Some p"
    using assms(1) unfolding disconnecting_def by auto
  ultimately show ?thesis
    using listed_without [of s q] unfolding disconnecting_def
    by (simp add: subset_insert_iff subset_iff) blast
qed

lemma skip_disconnecting:
  assumes "disconnecting p (d # ds) s" "\<And>l. l \<in> set (listener_list s) \<Longrightarrow> d \<noteq> ListenerDisconnect (al_ptr l)"
  shows "disconnecting p ds s"
  using assms by (fastforce simp: disconnecting_def held_def)

lemma run_one_disconnect:
  "returns (disconnecting p (d # ds)) (case d of ListenerDisconnect l \<Rightarrow> listener_disconnect l
      | OtherDisconnect n \<Rightarrow> ext E (RunOtherDisconnect n p)) (\<lambda>_. disconnecting p ds)"
proof (cases d)
  case (OtherDisconnect n)
  show ?thesis
    unfolding OtherDisconnect adisconnect.case
    by (rule returns_post [OF returns_objects [OF objects.ext_frame same_objects_disconnecting]],
        assumption, assumption, erule skip_disconnecting) simp
next
  case (ListenerDisconnect q)
  show ?thesis
    unfolding ListenerDisconnect adisconnect.case listener_disconnect_def
  proof (rule returns_getp_bind, rule returns_case_option, goal_cases)
    case (1 r)
    show ?case
      by (rule returns_ret, elim conjE, rule skip_disconnecting, assumption)
        (use 1 in \<open>auto simp: find_None_iff\<close>)
  next
    case (2 r l)
    show ?case
      unfolding erase_listener_def alistener_dtor_def
    proof (rule returns_thenp [OF returns_modp [where Q = "disconnecting p ds"]], goal_cases)
      case (1 s)
      then have l: "l \<in> set (listener_list s)" "al_ptr l = q" using 2 by (auto dest: found_in_list)
      with 1 without_disconnecting [of p q ds s l] show ?case by (simp add: without_def)
    next
      case 2
      show ?case
        by (rule returns_thenp [OF returns_objects [OF objects.loopp_frame same_objects_disconnecting]],
            assumption, assumption) (simp add: returns_ret)
    qed
  qed
qed

lemma RunDisconnects_wf: "returns listeners_wf (RunDisconnects E p) (\<lambda>_. listeners_wf)"
  unfolding RunDisconnects_def
proof (rule returns_with_transport, goal_cases)
  case (1 t)
  show ?case
  proof (rule returns_thenp [OF returns_pre [OF returns_fold_prog [where I = "disconnecting p", OF run_one_disconnect]]], goal_cases)
    case (1 s)
    then have s: "listed_wf s" "disc t = held s p" "\<And>p' t. transports s p' = Some t \<Longrightarrow> disc t = held s p'"
      by (auto simp: listeners_wf_def)
    from s(2) held_unique [OF s(1)] have "al_transport l = Some p"
      if "l \<in> set (listener_list s)" "ListenerDisconnect (al_ptr l) \<in> set (t_disconnects t)" for l
      using that by (auto simp: disc_def)
    with s show ?case by (auto simp: disconnecting_def disc_def)
  next
    case 2
    show ?case
      by (rule returns_upd_transport)
         (auto simp: disconnecting_def listeners_wf_def listed_wf_def held_def disc_def split: if_splits)
  qed
qed

text \<open>Composition of operations that keep the invariant.\<close>

lemma with_transport_wf:
  "(\<And>t. returns listeners_wf (k t) (\<lambda>_. listeners_wf)) \<Longrightarrow>
   returns listeners_wf (with_transport p k) (\<lambda>_. listeners_wf)"
  by (rule returns_with_transport, rule returns_pre [where P' = listeners_wf]) auto

lemma ret_wf: "returns listeners_wf (ret a) (\<lambda>_. listeners_wf)"
  by (rule returns_ret)

lemma bindp_wf:
  "returns listeners_wf m (\<lambda>_. listeners_wf) \<Longrightarrow> (\<And>a. returns listeners_wf (f a) (\<lambda>_. listeners_wf)) \<Longrightarrow>
   returns listeners_wf (bindp m f) (\<lambda>_. listeners_wf)"
  by (rule returns_bindp)

lemma getp_wf: "returns listeners_wf (getp f) (\<lambda>_. listeners_wf)"
  by (auto simp: returns_def getp_def)

lemmas [wf_steps] = bindp_wf returns_thenp [where Q' = listeners_wf] ret_wf getp_wf with_transport_wf
  returns_if returns_case_option returns_stop returns_case_prod

lemma SetConnectionState_wf [wf_steps]: "returns listeners_wf (SetConnectionState E p st) (\<lambda>_. listeners_wf)"
  unfolding SetConnectionState_def by (intro wf_steps upd_transport_wf) simp

lemma handle_offline_wf [wf_steps]: "returns listeners_wf (handle_offline E p) (\<lambda>_. listeners_wf)"
  unfolding handle_offline_def by (intro wf_steps upd_transport_wf RunDisconnects_wf) simp

section \<open>Packets\<close>

lemma Kick_wf [wf_steps]: "returns listeners_wf (Kick E p) (\<lambda>_. listeners_wf)"
  unfolding Kick_def by (intro wf_steps upd_transport_wf) simp

lemma send_packet_wf [wf_steps]: "returns listeners_wf (send_packet E q p) (\<lambda>_. listeners_wf)"
  unfolding send_packet_def Let_def by (intro wf_steps)

lemma send_wf [wf_steps]: "returns listeners_wf (send_ready E a b p c) (\<lambda>_. listeners_wf)"
  "returns listeners_wf (send_close E a b p) (\<lambda>_. listeners_wf)"
  "returns listeners_wf (send_tls_request E p) (\<lambda>_. listeners_wf)"
  unfolding send_ready_def send_close_def send_tls_request_def by (intro wf_steps)+

lemma banner_disconnects: "t_disconnects (banner_props E banner t) = t_disconnects t"
proof -
  have one: "t_disconnects (banner_prop E x t) = t_disconnects t" for x t
    by (simp add: banner_prop_def SetFeatures_def Let_def split: list.splits)
  have "t_disconnects (fold (banner_prop E) xs t) = t_disconnects t" for xs t
    by (induction xs arbitrary: t) (simp_all add: one)
  then show ?thesis by (simp add: banner_props_def SetFeatures_def Let_def)
qed

lemma handle_new_connection_wf [wf_steps]:
  "returns listeners_wf (handle_new_connection E p pkt) (\<lambda>_. listeners_wf)"
  unfolding handle_new_connection_def parse_banner_def handle_online_def SetConnectionEstablished_def
  by (intro wf_steps upd_transport_wf banner_disconnects returns_modp)
     (auto simp: update_version_def listeners_wf_def listed_wf_def held_def)

lemma handle_auth_wf [wf_steps]: "returns listeners_wf (handle_auth E pkt p) (\<lambda>_. listeners_wf)"
  unfolding handle_auth_def by (intro wf_steps)

lemma handle_open_wf [wf_steps]: "returns listeners_wf (handle_open E pkt p) (\<lambda>_. listeners_wf)"
  unfolding handle_open_def Let_def by (intro wf_steps)

lemma handle_okay_wf [wf_steps]: "returns listeners_wf (handle_okay E pkt p) (\<lambda>_. listeners_wf)"
  unfolding handle_okay_def Let_def by (intro wf_steps)

lemma handle_close_wf [wf_steps]: "returns listeners_wf (handle_close E pkt p) (\<lambda>_. listeners_wf)"
  unfolding handle_close_def Let_def by (intro wf_steps)

lemma handle_write_wf [wf_steps]: "returns listeners_wf (handle_write E pkt p) (\<lambda>_. listeners_wf)"
  unfolding handle_write_def Let_def by (intro wf_steps)

lemma handle_packet_wf: "returns listeners_wf (handle_packet E pkt p) (\<lambda>_. listeners_wf)"
  unfolding handle_packet_def Let_def by (intro wf_steps upd_transport_wf) simp

section \<open>Forwarding requests\<close>

lemma acquire_wf [wf_steps]: "returns listeners_wf (acquire_one_transport E ty sn tid any) (\<lambda>_. listeners_wf)"
  unfolding acquire_one_transport_def
  by (rule objects_wf) (intro objects.combine objects.basic objects.transports_of_frame)

lemma forward_acquirer_wf [wf_steps]: "returns listeners_wf (forward_acquirer E st sel) (\<lambda>_. listeners_wf)"
  unfolding forward_acquirer_def socket_or_acquire_def by (intro wf_steps)

lemma forward_reply_wf [wf_steps]: "returns listeners_wf (forward_reply E fd service res e) (\<lambda>_. listeners_wf)"
  unfolding forward_reply_def by (intro wf_steps)

lemma forward_add_wf [wf_steps]: "returns listeners_wf (forward_add E p fd service e) (\<lambda>_. listeners_wf)"
  unfolding forward_add_def Let_def
  by (auto intro!: wf_steps install_listener_wf split: list.splits)

lemma forward_kill_wf [wf_steps]: "returns listeners_wf (forward_kill E fd service e) (\<lambda>_. listeners_wf)"
  unfolding forward_kill_def
  by (auto intro!: wf_steps remove_listener_wf split: list.splits)

lemma format_listeners_wf: "returns listeners_wf (format_listeners E) (\<lambda>_. listeners_wf)"
  unfolding format_listeners_def
  by (rule objects_wf) (intro objects.combine objects.basic)

lemma handle_forward_request_wf:
  "returns listeners_wf (handle_forward_request E service (forward_acquirer E st sel) fd) (\<lambda>_. listeners_wf)"
  unfolding handle_forward_request_def
  by (intro wf_steps format_listeners_wf remove_all_wf)

end
