(* ===== verification/ServerProperties.thy ===== *)
theory ServerProperties
  imports ListenerProperties
begin

text \<open>
  Properties of the server: ownership of listeners, rejected authentication, the reverse-forward
  table and the connections a device may open, the choice of a transport, listings and trackers,
  the reconnect handler, relaunching.
\<close>

section \<open>Listeners\<close>

lemma format_listeners_live:
  assumes "listed_wf s"
  shows "fst (format_listeners E s) \<noteq> Abort ''dangling transport''"
proof -
  let ?f = "\<lambda>l acc. if isSmartSocket E l then ret acc
       else case al_transport l of
           None \<Rightarrow> abortp ''null transport''
         | Some p \<Rightarrow> with_transport p (\<lambda>t. ret (acc @ format_listener t l))"
  have "fst (fold_prog ?f ls acc s) \<noteq> Abort ''dangling transport''"
    if "set ls \<subseteq> set (listener_list s)" for ls acc
    using that
  proof (induction ls arbitrary: acc)
    case Nil
    then show ?case by (simp add: ret_def)
  next
    case (Cons l ls)
    have step: "fst (?f l acc s) \<noteq> Abort ''dangling transport'' \<and> snd (?f l acc s) = s"
      using assms Cons.prems by (auto simp: listed_wf_def with_transport_def prog_defs split: option.splits)
    obtain r where r: "?f l acc s = (r, s)" "r \<noteq> Abort ''dangling transport''" using step by (cases "?f l acc s") auto
    then show ?case using Cons by (cases r) (auto simp: bindp_def)
  qed
  then show ?thesis by (simp add: format_listeners_def)
qed

text \<open>A server that forwards a local port to a USB device.\<close>

definition forwarding_ref :: "int server" where
  "forwarding_ref = server_ref\<lparr>transport_list := [0],
     transports := (\<lambda>_. None)(0 := Some ((device_ref 1 ''usb'')\<lparr>t_type := kTransportUsb,
       t_disconnects := [ListenerDisconnect 0]\<rparr>)),
     listener_list := [\<lparr>al_ptr = 0, al_fde = None, al_fd = 9, al_local_name = ''tcp:1'',
       al_connect_to = ''tcp:2'', al_transport = Some 0\<rparr>], next_listener := 1\<rparr>"

lemma forwarding_ref_wf: "listeners_wf forwarding_ref"
  by (simp add: listeners_wf_def listed_wf_def forwarding_ref_def disc_def held_def)

text \<open>C20: whatever a device sends and whatever forwarding a client asks for, a listener and its transport
  agree on each other: every transport holds the disconnects of exactly the listeners that forward to it,
  and no listing of the listeners touches a deleted transport.\<close>

theorem listeners_and_transports_agree:
  assumes "listeners_wf s"
    and "handle_packet E pkt p s = (Ok (), s') \<or>
      handle_forward_request E service (forward_acquirer E st sel) fd s = (Ok handled, s')"
  shows "listeners_wf s' \<and> fst (format_listeners E s') \<noteq> Abort ''dangling transport''"
proof -
  have "listeners_wf s'"
    using assms(2) returnsD [OF handle_packet_wf assms(1)] returnsD [OF handle_forward_request_wf assms(1)]
    by blast
  with format_listeners_live show ?thesis by (auto simp: listeners_wf_def)
qed

theorem listeners_and_transports_agree_witness:
  "listeners_wf (snd (handle_forward_request core_ref ''killforward-all'' (forward_acquirer core_ref None
     \<lparr>hs_type = kTransportAny, hs_serial = None, hs_id = 0\<rparr>) 5 forwarding_ref))"
proof -
  have "\<exists>s'. handle_forward_request core_ref ''killforward-all'' (forward_acquirer core_ref None
     \<lparr>hs_type = kTransportAny, hs_serial = None, hs_id = 0\<rparr>) 5 forwarding_ref = (Ok True, s')"
    by (simp add: handle_forward_request_def forwarding_ref_def remove_all_listeners_def never_removed_def
        erase_listener_def alistener_dtor_def upd_transport_def with_transport_def loopp_def fdevent_Destroy_def
        ext_def sos_def fdos_def prog_defs server_ref_defs)
  then obtain s' where "handle_forward_request core_ref ''killforward-all'' (forward_acquirer core_ref None
     \<lparr>hs_type = kTransportAny, hs_serial = None, hs_id = 0\<rparr>) 5 forwarding_ref = (Ok True, s')" by blast
  with listeners_and_transports_agree [OF forwarding_ref_wf disjI2 [OF this]] show ?thesis by simp
qed

section \<open>A rejected authentication\<close>

lemma SetConnectionState_result:
  assumes "SetConnectionState E p st s = (Ok u, s')" "transports s p = Some t"
  shows "same_objects (s\<lparr>transports := (transports s)(p := Some (t\<lparr>t_state := st\<rparr>))\<rparr>) s'"
proof -
  obtain s1 where 1: "check_looper s = (Ok (), s1)"
    "thenp (upd_transport p (\<lambda>t. t\<lparr>t_state := st\<rparr>)) (update_transports E) s1 = (Ok u, s')"
    using assms(1) by (auto simp: SetConnectionState_def thenp_Ok_iff)
  have same: "same_objects s s1" using keepsD [OF objects.queue_frame(2) 1(1)] .
  then have "transports s1 p = Some t" using assms(2) by (simp add: same_objects_def)
  then have "upd_transport p (\<lambda>t. t\<lparr>t_state := st\<rparr>) s1 =
      (Ok (), s1\<lparr>transports := (transports s1)(p := Some (t\<lparr>t_state := st\<rparr>))\<rparr>)"
    by (simp add: upd_transport_def with_transport_def modp_def)
  then have "update_transports E (s1\<lparr>transports := (transports s1)(p := Some (t\<lparr>t_state := st\<rparr>))\<rparr>) = (Ok u, s')"
    using 1(2) by (simp add: thenp_Ok)
  from keepsD [OF objects.update_transports_frame(2) this] same show ?thesis
    by (simp add: same_objects_def)
qed

text \<open>\<open>sockets_left p\<close>: in between, nobody closes the sockets of the transport \<open>p\<close> or runs one of its disconnects.\<close>

definition ends_sockets :: "tptr \<Rightarrow> ext_call \<Rightarrow> bool" where
  "ends_sockets p c \<longleftrightarrow> c = CloseAllSockets p \<or> (\<exists>n. c = RunOtherDisconnect n p)"

definition sockets_left :: "tptr \<Rightarrow> 'w server \<Rightarrow> 'w server \<Rightarrow> bool" where
  "sockets_left p s s' \<longleftrightarrow>
     (\<exists>cs. ext_trace s' = ext_trace s @ cs \<and> list_all (\<lambda>c. \<not> ends_sockets p c) cs)"

lemma sockets_left_same: "ext_trace s' = ext_trace s \<Longrightarrow> sockets_left p s s'"
  by (simp add: sockets_left_def)

lemma sockets_left_call: "\<not> ends_sockets p c \<Longrightarrow> sockets_left p s (s\<lparr>ext_trace := ext_trace s @ [c]\<rparr>)"
  by (simp add: sockets_left_def)

interpretation left: notice_frame "sockets_left p" for p
proof
  show "preorder_on_states (sockets_left p)" for p :: tptr
    by (fastforce simp: preorder_on_states_def sockets_left_def)
  show "is_notice c \<Longrightarrow> sockets_left p s (s\<lparr>ext_trace := ext_trace s @ [c]\<rparr>)" for p c and s :: "'a server"
    by (rule sockets_left_call) (auto simp: is_notice_def ends_sockets_def)
qed (simp_all add: sockets_left_same)

lemma state_leaves_sockets: "keeps (sockets_left p) (SetConnectionState E q st)"
  unfolding SetConnectionState_def upd_transport_def
  by (intro left.combine left.quiet_basic left.update_transports_frame keeps_modp sockets_left_same) simp

lemma destroy_leaves_sockets: "keeps (sockets_left p) (transport_destroy E q)"
proof -
  have stop: "keeps (sockets_left p) (ext E (ConnStop q))"
    by (rule left.recorded_frame [OF sockets_left_call]) (simp add: ends_sockets_def)
  show ?thesis
    unfolding transport_destroy_def TrackTransport_def remove_transport_def upd_transport_def
    by (intro left.combine left.quiet_basic stop keeps_modp sockets_left_same) simp_all
qed

lemma unregister_leaves_sockets: "keeps (sockets_left p) (fdevent_unregister_transport E q)"
  unfolding fdevent_unregister_transport_def delete_transport_def SetConnectionEstablished_def
  by (intro left.combine left.quiet_basic left.update_transports_frame keeps_modp sockets_left_same) simp_all

lemma unregister_result:
  assumes "fdevent_unregister_transport E p s = (Ok u, s')"
  shows "listener_list s' = listener_list s \<and> transports s' = (transports s)(p := None)"
proof -
  obtain s1 where 1: "delete_transport p (s\<lparr>transport_list := removeAll p (transport_list s)\<rparr>) = (Ok (), s1)"
    "update_transports E s1 = (Ok u, s')"
    using assms by (auto simp: fdevent_unregister_transport_def thenp_Ok_iff modp_def)
  have "listener_list s1 = listener_list s \<and> transports s1 = (transports s)(p := None)"
    using 1(1) by (auto simp: delete_transport_def with_transport_def SetConnectionEstablished_def prog_defs
        split: option.splits if_splits)
  with keepsD [OF objects.update_transports_frame(2) 1(2)] show ?thesis by (simp add: same_objects_def)
qed

interpretation same_listeners: transport_frame "\<lambda>s s'. listener_list s' = listener_list s"
  by unfold_locales (auto simp: preorder_on_states_def)

lemma dangling_listing:
  assumes "\<forall>l \<in> set (listener_list s). isSmartSocket E l \<or> (\<exists>q. al_transport l = Some q)"
    and "l \<in> set (listener_list s)" "\<not> isSmartSocket E l" "al_transport l = Some p" "transports s p = None"
  shows "fst (format_listeners E s) = Abort ''dangling transport''"
proof -
  let ?f = "\<lambda>l acc. if isSmartSocket E l then ret acc
       else case al_transport l of
           None \<Rightarrow> abortp ''null transport''
         | Some p \<Rightarrow> with_transport p (\<lambda>t. ret (acc @ format_listener t l))"
  have "fst (fold_prog ?f ls acc s) = Abort ''dangling transport''"
    if "set ls \<subseteq> set (listener_list s)" "l \<in> set ls" for ls acc
    using that
  proof (induction ls arbitrary: acc)
    case (Cons k ls)
    show ?case
    proof (cases "\<exists>acc'. ?f k acc s = (Ok acc', s)")
      case True
      then obtain acc' where f: "?f k acc s = (Ok acc', s)" by blast
      then have "k \<noteq> l" using assms(3-5) by (auto simp: with_transport_def prog_defs)
      with Cons f show ?thesis by (simp add: bindp_def)
    next
      case False
      then have "fst (?f k acc s) = Abort ''dangling transport''"
        using assms(1) Cons.prems by (cases "isSmartSocket E k") (auto simp: with_transport_def prog_defs split: option.splits)
      then obtain s1 where "?f k acc s = (Abort ''dangling transport'', s1)" by (cases "?f k acc s") auto
      then show ?thesis by (simp add: bindp_def)
    qed
  qed simp
  with assms(2) show ?thesis by (simp add: format_listeners_def prog_defs)
qed

text \<open>C21: an \<^verbatim>\<open>A_AUTH\<close> that is not a token sets the state to offline first, so that the handler for going
  offline does nothing, neither then nor if it is called again while the state stands: the transport keeps its
  online flag and its disconnects, its listeners stay, and nobody closes its sockets. If the connection fails
  next and the transport is unregistered, this is still so, with the transport gone: the next listing of the
  listeners, if one of them forwards to it, uses the deleted transport.\<close>

theorem rejected_auth_skips_cleanup:
  assumes "transports s p = Some t" "\<not> t_use_tls t" "msg_arg0 (pkt_msg pkt) \<noteq> ADB_AUTH_TOKEN E"
    and "handle_auth E pkt p s = (Ok u, s')"
  shows "transports s' p = Some (t\<lparr>t_state := kCsOffline\<rparr>) \<and> listener_list s' = listener_list s \<and>
    sockets_left p s s' \<and> handle_offline E p s' = (Ok (), s') \<and>
    (\<forall>v w s2 s3. run_server_fn E (OfflineAndDestroy p) s' = (Ok v, s2) \<and>
        run_server_fn E (UnregisterTransport p) s2 = (Ok w, s3) \<longrightarrow>
      transports s3 p = None \<and> listener_list s3 = listener_list s \<and> sockets_left p s s3 \<and>
      ((\<forall>l \<in> set (listener_list s). isSmartSocket E l \<or> (\<exists>q. al_transport l = Some q)) \<and>
       (\<exists>l \<in> set (listener_list s). \<not> isSmartSocket E l \<and> al_transport l = Some p) \<longrightarrow>
         fst (format_listeners E s3) = Abort ''dangling transport''))"
proof -
  have "thenp (SetConnectionState E p kCsOffline) (handle_offline E p) s = (Ok u, s')"
    using assms by (simp add: handle_auth_def with_transport_def)
  then obtain v s1 where 1: "SetConnectionState E p kCsOffline s = (Ok v, s1)" "handle_offline E p s1 = (Ok u, s')"
    by (auto simp: thenp_Ok_iff)
  have 2: "transports s1 p = Some (t\<lparr>t_state := kCsOffline\<rparr>)" "listener_list s1 = listener_list s"
    using SetConnectionState_result [OF 1(1) assms(1)] by (simp_all add: same_objects_def)
  then have off: "handle_offline E p s1 = (Ok (), s1)"
    by (simp add: handle_offline_def with_transport_def ret_def)
  with 1(2) have s': "s' = s1" by simp
  have left: "sockets_left p s s'" using keepsD [OF state_leaves_sockets 1(1)] s' by simp
  have later: "transports s3 p = None \<and> listener_list s3 = listener_list s \<and> sockets_left p s s3"
    if run: "run_server_fn E (OfflineAndDestroy p) s' = (Ok v, s2)" "run_server_fn E (UnregisterTransport p) s2 = (Ok w, s3)"
    for v w s2 s3
  proof -
    have "transport_destroy E p s' = (Ok v, s2)" "fdevent_unregister_transport E p s2 = (Ok w, s3)"
      using run off s' by (simp_all add: run_server_fn_def thenp_Ok)
    with unregister_result [OF this(2)] keepsD [OF same_listeners.remove_transport_frame(3) this(1)] 2(2) s'
      left keepsD [OF destroy_leaves_sockets this(1)] keepsD [OF unregister_leaves_sockets this(2)]
    show ?thesis using left.preorder unfolding preorder_on_states_def by (metis fun_upd_same)
  qed
  have listing: "fst (format_listeners E s3) = Abort ''dangling transport''"
    if "transports s3 p = None" "listener_list s3 = listener_list s" "l \<in> set (listener_list s)"
      "\<forall>l \<in> set (listener_list s). isSmartSocket E l \<or> (\<exists>q. al_transport l = Some q)"
      "\<not> isSmartSocket E l" "al_transport l = Some p" for s3 l
    by (rule dangling_listing) (use that in auto)
  show ?thesis
    using 2 off left unfolding s' [symmetric]
    by (intro conjI allI impI) (auto dest: later intro: listing)
qed

text \<open>The whole run: the device rejects the authentication, its connection fails, the transport is
  destroyed, and the listener is left with a pointer to it.\<close>

definition auth_ref :: apacket where
  "auth_ref = make_packet 0x48545541 3 0 []"

lemmas server_eval = loopp_def sos_def fdos_def ext_def check_looper_def CheckLooperThread_def run_on_looper_def
  fdevent_Run_def upd_transport_def with_transport_def with_tracker_def SetConnectionState_def update_transports_def
  update_transport_status_def update_transport_status_real_def iterate_transports_def state_string_def
  prog_defs server_ref_defs

lemma rejected_auth_run:
  "\<exists>s1 s2 s3. handle_auth core_ref auth_ref 0 forwarding_ref = (Ok (), s1) \<and>
     run_server_fn core_ref (OfflineAndDestroy 0) s1 = (Ok (), s2) \<and>
     run_queue (loop s2) = [UnregisterTransport 0] \<and>
     run_server_fn core_ref (UnregisterTransport 0) s2 = (Ok (), s3)"
  by (simp add: handle_auth_def auth_ref_def make_packet_def forwarding_ref_def handle_offline_def
    run_server_fn_def transport_destroy_def remove_transport_def fdevent_unregister_transport_def
    delete_transport_def SetConnectionEstablished_def Interrupt_def server_eval)

theorem rejected_auth_skips_cleanup_witness:
  "\<exists>s1 s2 s3. handle_offline core_ref 0 s1 = (Ok (), s1) \<and>
     run_server_fn core_ref (OfflineAndDestroy 0) s1 = (Ok (), s2) \<and>
     run_server_fn core_ref (UnregisterTransport 0) s2 = (Ok (), s3) \<and>
     fst (format_listeners core_ref s3) = Abort ''dangling transport''"
proof -
  obtain s1 s2 s3 where run: "handle_auth core_ref auth_ref 0 forwarding_ref = (Ok (), s1)"
    "run_server_fn core_ref (OfflineAndDestroy 0) s1 = (Ok (), s2)"
    "run_server_fn core_ref (UnregisterTransport 0) s2 = (Ok (), s3)"
    using rejected_auth_run by blast
  have "transports forwarding_ref 0 = Some ((device_ref 1 ''usb'')\<lparr>t_type := kTransportUsb,
      t_disconnects := [ListenerDisconnect 0]\<rparr>)" by (simp add: forwarding_ref_def)
  from rejected_auth_skips_cleanup [OF this _ _ run(1)] run(2,3)
  have "handle_offline core_ref 0 s1 = (Ok (), s1)" "fst (format_listeners core_ref s3) = Abort ''dangling transport''"
    by (auto simp: device_ref_def auth_ref_def make_packet_def forwarding_ref_def isSmartSocket_def server_ref_defs)
  with run show ?thesis by blast
qed

section \<open>Reverse forwards\<close>

text \<open>What a client asks of the reverse table of a device, and what it means for the table.\<close>

datatype reverse_request = Forward bool string string | KillForward string | KillAll | ListForwards

definition semicolon :: string where "semicolon = [CHR 0x3B]"

fun reverse_text :: "reverse_request \<Rightarrow> string" where
  "reverse_text (Forward norebind remote local) =
     ''reverse:forward:'' @ (if norebind then ''norebind:'' else []) @ remote @ semicolon @ local"
| "reverse_text (KillForward remote) = ''reverse:killforward:'' @ remote"
| "reverse_text KillAll = ''reverse:killforward-all''"
| "reverse_text ListForwards = ''reverse:list-forward''"

fun proper_request :: "reverse_request \<Rightarrow> bool" where
  "proper_request (Forward norebind remote local) \<longleftrightarrow> CHR 0x3B \<notin> set remote \<and>
     (norebind \<or> \<not> prefix ''norebind:'' (remote @ semicolon @ local))"
| "proper_request (KillForward remote) \<longleftrightarrow> CHR 0x3B \<notin> set remote"
| "proper_request _ = True"

fun reverse_spec :: "reverse_request \<Rightarrow> (string \<rightharpoonup> string) \<Rightarrow> (string \<rightharpoonup> string)" where
  "reverse_spec (Forward norebind remote local) m =
     (if norebind \<and> m remote \<noteq> None then m else m(remote \<mapsto> local))"
| "reverse_spec (KillForward remote) m = m(remote := None)"
| "reverse_spec KillAll m = Map.empty"
| "reverse_spec ListForwards m = m"

definition reverse_next :: "('w, 'x) srv_env_scheme \<Rightarrow> reverse_request \<Rightarrow> (string \<times> string) list \<Rightarrow> (string \<times> string) list" where
  "reverse_next E r m = (case r of
       Forward norebind remote local \<Rightarrow>
         reverse_forward E ((if norebind then ''norebind:'' else []) @ remote @ semicolon @ local) m
     | KillForward remote \<Rightarrow> erase_reverse remote m
     | KillAll \<Rightarrow> []
     | ListForwards \<Rightarrow> m)"

lemma before_after_semicolon:
  "CHR 0x3B \<notin> set a \<Longrightarrow> before_semicolon (a @ semicolon @ b) = a"
  "CHR 0x3B \<notin> set a \<Longrightarrow> after_semicolon (a @ semicolon @ b) = b"
proof -
  assume a: "CHR 0x3B \<notin> set a"
  then have "takeWhile (\<lambda>c. c \<noteq> CHR 0x3B) (a @ semicolon @ b) = a @ takeWhile (\<lambda>c. c \<noteq> CHR 0x3B) (semicolon @ b)"
    "dropWhile (\<lambda>c. c \<noteq> CHR 0x3B) (a @ semicolon @ b) = dropWhile (\<lambda>c. c \<noteq> CHR 0x3B) (semicolon @ b)"
    by (auto intro!: takeWhile_append2 dropWhile_append2)
  then show "before_semicolon (a @ semicolon @ b) = a" "after_semicolon (a @ semicolon @ b) = b"
    by (simp_all add: before_semicolon_def after_semicolon_def semicolon_def)
qed

lemma map_of_filter_ne: "map_of (filter (\<lambda>(r, _). r \<noteq> k) m) = (map_of m)(k := None)"
  by (induction m) (auto simp: fun_eq_iff)

lemma reverse_next_spec:
  assumes "Prefix_doc E" "proper_request r"
  shows "map_of (reverse_next E r m) = reverse_spec r (map_of m)"
proof (cases r)
  case (Forward norebind remote local)
  let ?a = "remote @ semicolon @ local"
  have in_set: "CHR 0x3B \<in> set ?a" by (simp add: semicolon_def)
  have "ConsumePrefix E ((if norebind then ''norebind:'' else []) @ ?a) ''norebind:'' =
      (if norebind then Some ?a else None)"
    using assms Forward by (auto simp: Prefix_doc_def)
  then have "reverse_forward E ((if norebind then ''norebind:'' else []) @ ?a) m =
      (if norebind \<and> map_of m remote \<noteq> None then m else set_reverse remote local m)"
    using assms Forward in_set by (auto simp: reverse_forward_def before_after_semicolon)
  then show ?thesis
    using Forward by (auto simp: reverse_next_def set_reverse_def map_of_filter_ne)
next
  case (KillForward remote)
  then show ?thesis by (simp add: reverse_next_def erase_reverse_def map_of_filter_ne)
qed (simp_all add: reverse_next_def)

lemma reverse_next_distinct:
  "distinct (map fst m) \<Longrightarrow> distinct (map fst (reverse_next E r m))"
  by (auto simp: reverse_next_def reverse_forward_def set_reverse_def erase_reverse_def Let_def distinct_map
      case_prod_unfold split: reverse_request.splits option.splits intro: inj_on_subset)

lemma UpdateReverseConfig_text:
  assumes "Prefix_doc E" "proper_request r"
  shows "UpdateReverseConfig E p (reverse_text r) = thenp check_looper
     (if r = ListForwards then ret ()
      else upd_transport p (\<lambda>t. t\<lparr>t_reverse_forwards := reverse_next E r (t_reverse_forwards t)\<rparr>))"
proof -
  have consume: "ConsumePrefix E s q = (if prefix q s then Some (drop (length q) s) else None)" for s q
    using assms(1) by (simp add: Prefix_doc_def)
  show ?thesis
    by (cases r) (use assms(2) in \<open>auto simp: UpdateReverseConfig_def consume reverse_next_def semicolon_def\<close>)
qed

text \<open>The state of one transport through a list of requests.\<close>

lemma check_looper_state: "check_looper s = (Ok (), s') \<Longrightarrow> s' = s"
  by (auto simp: check_looper_def loopp_def CheckLooperThread_def prog_defs
      split: prod.splits option.splits if_splits)

lemma UpdateReverseConfig_step:
  assumes "Prefix_doc E" "proper_request r" "transports s p = Some t"
    "UpdateReverseConfig E p (reverse_text r) s = (Ok (), s')"
  shows "transports s' p = Some (t\<lparr>t_reverse_forwards := reverse_next E r (t_reverse_forwards t)\<rparr>)"
proof -
  obtain s1 where "check_looper s = (Ok (), s1)" "(if r = ListForwards then ret ()
      else upd_transport p (\<lambda>t. t\<lparr>t_reverse_forwards := reverse_next E r (t_reverse_forwards t)\<rparr>)) s1 = (Ok (), s')"
    using assms(4) unfolding UpdateReverseConfig_text [OF assms(1,2)] thenp_Ok_iff by auto
  with check_looper_state [of s s1] assms(3) show ?thesis
    by (cases "r = ListForwards") (auto simp: upd_transport_def with_transport_def reverse_next_def)
qed

definition reverse_requests :: "('w, 'x) srv_env_scheme \<Rightarrow> tptr \<Rightarrow> reverse_request list \<Rightarrow> ('w, unit) sprog" where
  "reverse_requests E p rs = fold_prog (\<lambda>r _. UpdateReverseConfig E p (reverse_text r)) rs ()"

lemma reverse_requests_state:
  assumes "Prefix_doc E"
  shows "\<lbrakk>list_all proper_request rs; transports s p = Some t; reverse_requests E p rs s = (Ok (), s')\<rbrakk> \<Longrightarrow>
    transports s' p = Some (t\<lparr>t_reverse_forwards := fold (reverse_next E) rs (t_reverse_forwards t)\<rparr>)"
proof (induction rs arbitrary: s t)
  case Nil
  then show ?case by (simp add: reverse_requests_def)
next
  case (Cons r rs)
  then obtain s1 where s1: "UpdateReverseConfig E p (reverse_text r) s = (Ok (), s1)"
    "reverse_requests E p rs s1 = (Ok (), s')"
    by (auto simp: reverse_requests_def bindp_Ok_iff)
  from Cons.IH [OF _ UpdateReverseConfig_step [OF assms _ Cons.prems(2) s1(1)] s1(2)] Cons.prems
  show ?case by simp
qed

lemma reverse_requests_table:
  assumes "Prefix_doc E" "list_all proper_request rs" "transports s p = Some t"
    "distinct (map fst (t_reverse_forwards t))" "reverse_requests E p rs s = (Ok (), s')"
  obtains t' where "transports s' p = Some t'" "t_online t' = t_online t" "t_delayed_ack t' = t_delayed_ack t"
    "map_of (t_reverse_forwards t') = fold reverse_spec rs (map_of (t_reverse_forwards t))"
    "\<And>a. IsReverseConfigured t' a \<longleftrightarrow> a \<in> ran (fold reverse_spec rs (map_of (t_reverse_forwards t)))"
proof -
  let ?t = "t\<lparr>t_reverse_forwards := fold (reverse_next E) rs (t_reverse_forwards t)\<rparr>"
  have "map_of (fold (reverse_next E) rs m) = fold reverse_spec rs (map_of m) \<and>
      distinct (map fst (fold (reverse_next E) rs m))" if "distinct (map fst m)" for m
    using assms(2) that
    by (induction rs arbitrary: m) (simp_all add: reverse_next_spec [OF assms(1)] reverse_next_distinct)
  note table = this [OF assms(4)]
  have "snd ` set m = ran (map_of m)" if "distinct (map fst m)" for m :: "(string \<times> string) list"
    using ran_distinct [OF that] by simp
  with table have "IsReverseConfigured ?t a \<longleftrightarrow> a \<in> ran (fold reverse_spec rs (map_of (t_reverse_forwards t)))" for a
    by (auto simp: IsReverseConfigured_def)
  with reverse_requests_state [OF assms(1-3,5)] table show thesis by (intro that [of ?t]) simp_all
qed

text \<open>C22: the table of reverse forwards of a device is the map that the requests of the clients describe:
  a forward sets an entry unless it must not rebind one, a kill removes it, and an address is allowed
  exactly when some entry leads to it.\<close>

theorem reverse_table_refines:
  assumes "Prefix_doc E" "list_all proper_request rs" "transports s p = Some t"
    "distinct (map fst (t_reverse_forwards t))" "reverse_requests E p rs s = (Ok (), s')"
  shows "\<exists>t'. transports s' p = Some t' \<and>
    map_of (t_reverse_forwards t') = fold reverse_spec rs (map_of (t_reverse_forwards t)) \<and>
    (\<forall>a. IsReverseConfigured t' a \<longleftrightarrow> a \<in> ran (fold reverse_spec rs (map_of (t_reverse_forwards t))))"
  by (rule reverse_requests_table [OF assms]) blast

theorem reverse_table_refines_witness:
  "\<exists>s' t'. reverse_requests core_ref 0 [Forward True ''tcp:1'' ''tcp:9'', Forward False ''tcp:3'' ''tcp:4'',
       KillForward ''tcp:1''] server_ref = (Ok (), s') \<and> transports s' 0 = Some t' \<and>
     map_of (t_reverse_forwards t') = [''tcp:3'' \<mapsto> ''tcp:4''] \<and> \<not> IsReverseConfigured t' ''tcp:2''"
proof -
  let ?rs = "[Forward True ''tcp:1'' ''tcp:9'', Forward False ''tcp:3'' ''tcp:4'', KillForward ''tcp:1'']"
  have "\<exists>s'. reverse_requests core_ref 0 ?rs server_ref = (Ok (), s')"
    by (simp add: reverse_requests_def UpdateReverseConfig_def server_eval)
  then obtain s' where s': "reverse_requests core_ref 0 ?rs server_ref = (Ok (), s')" by blast
  have "transports server_ref 0 = Some (device_ref 1 ''emulator-5554'')" by (simp add: server_ref_def)
  from reverse_table_refines [OF core_ref_doc(3) _ this _ s'] s' show ?thesis
    by (fastforce simp: semicolon_def device_ref_def ran_def)
qed







end
