(* ===== verification/SelectProperties.thy ===== *)
theory SelectProperties
  imports ServerProperties "HOL-Library.Multiset"
begin

text \<open>
  Properties of the choice of a transport and of the answers about transports: the loop of
  \<^verbatim>\<open>acquire_one_transport\<close> against a declarative choice, a forwarding request that finds no device,
  the listing of the transports and the messages of the device trackers.
\<close>

section \<open>Choosing a transport\<close>

text \<open>The transports a request may mean, and the one it gets.\<close>

definition accessible :: "'w server \<Rightarrow> (tptr \<times> transport) list" where
  "accessible s = filter (\<lambda>(p, t). t_state t \<noteq> kCsNoPerm)
     (map (\<lambda>p. (p, the (transports s p))) (transport_list s))"

definition meant ::
    "('w, 'x) srv_env_scheme \<Rightarrow> TransportType \<Rightarrow> string option \<Rightarrow> u64 \<Rightarrow> (tptr \<times> transport) list \<Rightarrow> tptr list" where
  "meant E type serial tid ts = map fst (filter (\<lambda>(p, t).
     if tid \<noteq> 0 then t_id t = tid else selects E type serial t) ts)"

definition choice ::
    "('w, 'x) srv_env_scheme \<Rightarrow> TransportType \<Rightarrow> string option \<Rightarrow> u64 \<Rightarrow> (tptr \<times> transport) list \<Rightarrow> tptr option" where
  "choice E type serial tid ts = (case meant E type serial tid ts of
       [] \<Rightarrow> None
     | p # ps \<Rightarrow> if tid \<noteq> 0 \<or> ps = [] then Some p else None)"

lemma with_transport_Ok_iff:
  "with_transport p k s = (Ok a, s') \<longleftrightarrow> (\<exists>t. transports s p = Some t \<and> k t s = (Ok a, s'))"
  by (auto simp: with_transport_def split: option.splits)

lemma transports_of_acc:
  "fold_prog (\<lambda>p acc. with_transport p (\<lambda>t. ret (acc @ [t]))) ps acc s = (Ok ts, s') \<Longrightarrow>
   s' = s \<and> (\<exists>us. ts = acc @ us \<and> map (transports s) ps = map Some us)"
proof (induction ps arbitrary: acc)
  case (Cons p ps)
  then obtain t where t: "transports s p = Some t"
    "fold_prog (\<lambda>p acc. with_transport p (\<lambda>t. ret (acc @ [t]))) ps (acc @ [t]) s = (Ok ts, s')"
    by (auto simp: bindp_Ok_iff with_transport_Ok_iff)
  from Cons.IH [OF t(2)] t(1) show ?case by auto
qed simp

lemma transports_of_Ok:
  assumes "transports_of ps s = (Ok ts, s')"
  shows "s' = s" "ts = map (\<lambda>p. the (transports s p)) ps"
    "zip ps ts = map (\<lambda>p. (p, the (transports s p))) ps"
proof -
  obtain us where us: "s' = s" "ts = us" "map (transports s) ps = map Some us"
    using transports_of_acc [OF assms [unfolded transports_of_def]] by auto
  show "s' = s" by (rule us)
  have "us = map (\<lambda>p. the (transports s p)) ps" using arg_cong [OF us(3), of "map the"] by (simp add: comp_def)
  then show "ts = map (\<lambda>p. the (transports s p)) ps"
    "zip ps ts = map (\<lambda>p. (p, the (transports s p))) ps"
    by (simp_all add: us(2) zip_map2 zip_same_conv_map)
qed

lemma acquire_loop_by_id:
  assumes "tid \<noteq> 0" "aq_result a = None"
  shows "aq_result (acquire_loop E type serial tid ts a) =
      choice E type serial tid (filter (\<lambda>(p, t). t_state t \<noteq> kCsNoPerm) ts) \<and>
    aq_ambiguous (acquire_loop E type serial tid ts a) = aq_ambiguous a"
  using assms
proof (induction ts arbitrary: a)
  case Nil
  then show ?case by (simp add: choice_def meant_def)
next
  case (Cons x ts)
  obtain p t where x: "x = (p, t)" by (cases x)
  show ?case
    using Cons by (cases "t_state t = kCsNoPerm"; cases "t_id t = tid") (auto simp: x choice_def meant_def)
qed

lemma acquire_loop_by_target:
  assumes "tid = 0"
  shows "aq_result (acquire_loop E type serial tid ts a) =
      (case (case aq_result a of None \<Rightarrow> [] | Some q \<Rightarrow> [q]) @
          meant E type serial tid (filter (\<lambda>(p, t). t_state t \<noteq> kCsNoPerm) ts) of
        [q] \<Rightarrow> Some q | _ \<Rightarrow> None) \<and>
    aq_ambiguous (acquire_loop E type serial tid ts a) = (aq_ambiguous a \<or>
      1 < length ((case aq_result a of None \<Rightarrow> [] | Some q \<Rightarrow> [q]) @
          meant E type serial tid (filter (\<lambda>(p, t). t_state t \<noteq> kCsNoPerm) ts)))"
  using assms
proof (induction ts arbitrary: a)
  case Nil
  then show ?case by (auto simp: meant_def split: option.splits)
next
  case (Cons x ts)
  obtain p t where x: "x = (p, t)" by (cases x)
  show ?case
    using Cons by (cases "aq_result a") (auto simp: x meant_def split: list.splits)
qed

lemma acquire_Ok:
  assumes "acquire_one_transport E type serial tid any s = (Ok a, s')"
  shows "s' = s \<and>
    aq_result a = (case choice E type serial tid (accessible s) of
      None \<Rightarrow> None
    | Some p \<Rightarrow> if any \<or> inactive_text E (t_state (the (transports s p))) = None then Some p else None) \<and>
    aq_ambiguous a = (tid = 0 \<and> 1 < length (meant E type serial tid (accessible s))) \<and>
    (aq_result a = None \<or> aq_error a = ''success'')"
proof -
  let ?a = "\<lparr>aq_result = None, aq_error = not_found_text type serial tid, aq_ambiguous = False\<rparr>"
  obtain ts s1 where ts: "transports_of (transport_list s) s = (Ok ts, s1)"
    "a = acquire_check E any (transports s1) (acquire_loop E type serial tid (zip (transport_list s) ts) ?a)" "s' = s1"
    using assms by (auto simp: acquire_one_transport_def bindp_Ok_iff)
  note ts1 = transports_of_Ok [OF ts(1)]
  let ?ts = "map (\<lambda>p. (p, the (transports s p))) (transport_list s)"
  have loop: "aq_result (acquire_loop E type serial tid ?ts ?a) = choice E type serial tid (accessible s) \<and>
      aq_ambiguous (acquire_loop E type serial tid ?ts ?a) = (tid = 0 \<and> 1 < length (meant E type serial tid (accessible s)))"
  proof (cases "tid = 0")
    case True
    then show ?thesis
      using acquire_loop_by_target [OF True, of E type serial ?ts ?a]
      by (auto simp: choice_def accessible_def split: list.splits)
  next
    case False
    then show ?thesis using acquire_loop_by_id [OF False, of ?a E type serial ?ts] by (simp add: accessible_def)
  qed
  show ?thesis
    using loop ts1 ts(2,3) by (auto simp: acquire_check_def split: option.splits)
qed

text \<open>C24: the loop with its early exits chooses what the request describes: the first transport with the
  id, or the only accessible one that matches; several matches are reported as ambiguous; and the answer
  is given up exactly when it is not in a usable state.\<close>

theorem acquire_is_the_choice:
  assumes "acquire_one_transport E type serial tid any s = (Ok a, s')"
  shows "s' = s \<and>
    aq_result a = (case choice E type serial tid (accessible s) of
      None \<Rightarrow> None
    | Some p \<Rightarrow> if any \<or> inactive_text E (t_state (the (transports s p))) = None then Some p else None) \<and>
    aq_ambiguous a = (tid = 0 \<and> 1 < length (meant E type serial tid (accessible s))) \<and>
    (aq_result a = None \<or> aq_error a = ''success'')"
  using assms by (rule acquire_Ok)

theorem acquire_is_the_choice_witness:
  "\<exists>a. acquire_one_transport core_ref kTransportAny None 0 False server_ref = (Ok a, server_ref) \<and>
     aq_result a = None \<and> aq_ambiguous a"
proof -
  have "\<exists>a. acquire_one_transport core_ref kTransportAny None 0 False server_ref = (Ok a, server_ref)"
    by (simp add: acquire_one_transport_def transports_of_def server_eval)
  then obtain a where a: "acquire_one_transport core_ref kTransportAny None 0 False server_ref = (Ok a, server_ref)" by blast
  from acquire_is_the_choice [OF a] a show ?thesis
    by (simp add: accessible_def meant_def choice_def selects_def server_ref_defs)
qed

section \<open>Forwarding without a device\<close>

text \<open>When no device can be chosen, a forwarding request fails with an empty text, because the lambda
  that chooses the device keeps the reason to itself; \<^verbatim>\<open>get-state\<close> in the same situation names it.\<close>

theorem forward_without_device_says_nothing:
  assumes "Prefix_doc E" "acquire_one_transport E (hs_type sel) (hs_serial sel) (hs_id sel) False s = (Ok a, s)"
    "aq_result a = None"
  shows "handle_host_request E (''forward:'' @ x) sel fd sock None s =
      thenp (ext E (ReplyFail fd [])) (ret Handled) s \<and>
    handle_host_request E ''get-state'' sel fd sock None s =
      thenp (ext E (ReplyFail fd (aq_error a))) (ret Handled) s"
proof -
  have consume: "ConsumePrefix E (''forward:'' @ x) ''emulator:'' = None"
    using assms(1) by (simp add: Prefix_doc_def)
  have address: "c_str (''forward:'' @ x) = ''forward:'' @ c_str x" by (simp add: c_str_def)
  have chosen: "socket_or_acquire E None sel False s = (Ok (None, aq_error a), s)"
    using assms(2,3) by (simp add: socket_or_acquire_def bindp_Ok ret_def)
  have acquirer: "forward_acquirer E None sel s = (Ok (None, []), s)"
    using chosen by (simp add: forward_acquirer_def bindp_Ok ret_def)
  have forward: "handle_forward_request E (''forward:'' @ c_str x) (forward_acquirer E None sel) fd s =
      thenp (ext E (ReplyFail fd [])) (ret True) s"
    by (simp add: handle_forward_request_def bindp_def acquirer)
  have "bindp (handle_forward_request E (''forward:'' @ c_str x) (forward_acquirer E None sel) fd)
      (\<lambda>handled. ret (if handled then Handled else Unhandled)) s = thenp (ext E (ReplyFail fd [])) (ret Handled) s"
    using forward by (auto simp: bindp_def thenp_def ret_def split: prod.splits res.splits)
  then have 1: "handle_host_request E (''forward:'' @ x) sel fd sock None s =
      thenp (ext E (ReplyFail fd [])) (ret Handled) s"
    using consume address by (simp add: handle_host_request_def host_dispatch_def Let_def thenp_def)
  have 2: "handle_host_request E ''get-state'' sel fd sock None s =
      thenp (ext E (ReplyFail fd (aq_error a))) (ret Handled) s"
    by (simp add: handle_host_request_def host_dispatch_def Let_def thenp_def answer_for_def bindp_def getp_def chosen)
  from 1 2 show ?thesis by simp
qed

theorem forward_without_device_says_nothing_witness:
  "\<exists>e. e \<noteq> [] \<and> ext_trace (snd (handle_host_request core_ref ''forward:tcp:1;tcp:2''
      \<lparr>hs_type = kTransportAny, hs_serial = None, hs_id = 0\<rparr> 5 6 None server_ref)) = [ReplyFail 5 []] \<and>
    ext_trace (snd (handle_host_request core_ref ''get-state''
      \<lparr>hs_type = kTransportAny, hs_serial = None, hs_id = 0\<rparr> 5 6 None server_ref)) = [ReplyFail 5 e]"
proof -
  have "acquire_one_transport core_ref kTransportAny None 0 False server_ref =
      (Ok \<lparr>aq_result = None, aq_error = ''more than one device/emulator'', aq_ambiguous = True\<rparr>, server_ref)"
    by (simp add: acquire_one_transport_def transports_of_def acquire_check_def selects_def more_than_one_text_def
        server_eval)
  from forward_without_device_says_nothing [OF core_ref_doc(3), of "\<lparr>hs_type = kTransportAny, hs_serial = None, hs_id = 0\<rparr>",
      simplified, OF this, of "''tcp:1;tcp:2''" 5 6]
  show ?thesis by (simp add: server_eval)
qed

section \<open>Listings\<close>

abbreviation newline_char :: char where "newline_char \<equiv> CHR 0x0A"

definition line_count :: "string \<Rightarrow> nat" where
  "line_count s = length (filter (\<lambda>c. c = newline_char) s)"

lemma line_count_append [simp]: "line_count (s @ t) = line_count s + line_count t"
  by (simp add: line_count_def)

lemma line_count_Cons [simp]: "line_count (c # s) = (if c = newline_char then 1 else 0) + line_count s"
  by (simp add: line_count_def)

lemma line_count_Nil [simp]: "line_count [] = 0"
  by (simp add: line_count_def)

lemma line_count_0: "newline_char \<notin> set s \<Longrightarrow> line_count s = 0"
  by (auto simp: line_count_def filter_empty_conv)

lemma sanitize_no_newline: "newline_char \<notin> set (sanitize v b)"
proof
  assume "newline_char \<in> set (sanitize v b)"
  then obtain c where "c \<in> set v" "newline_char =
      (if (if b then \<not> is_alnum c else c = newline_char) then CHR ''_'' else c)"
    by (auto simp: sanitize_def)
  then show False by (cases b) (auto simp: is_alnum_def split: if_splits)
qed

lemma show_nat_no_newline: "newline_char \<notin> set (show_nat n)"
proof
  assume "newline_char \<in> set (show_nat n)"
  then have "is_digit newline_char" using all_digits_show_nat [of n] by (auto simp: list_all_iff)
  then show False by (simp add: is_digit_def)
qed

lemma append_info_lines:
  "newline_char \<notin> set key \<Longrightarrow> line_count (append_transport_info key v b) = 0"
  by (simp add: append_transport_info_def line_count_0 sanitize_no_newline)

lemma append_transport_one_line:
  assumes "newline_char \<notin> set (t_serial t)" "newline_char \<notin> set (no_permission_short E)"
  shows "line_count (append_transport E long t) = 1"
proof -
  have serial: "newline_char \<notin> set (shown_serial t)" using assms(1) by (simp add: shown_serial_def)
  have state: "newline_char \<notin> set (state_string E (t_state t))"
    using assms(2) by (simp add: state_string_def split: ConnectionState.splits)
  have "line_count (c_str v) = 0" if "newline_char \<notin> set v" for v
    using that set_c_str [of v] by (intro line_count_0) auto
  with serial state show ?thesis
    by (simp add: append_transport_def pad_right_def append_info_lines line_count_0 show_nat_no_newline)
qed

text \<open>C39: a text listing has one line for each transport of the server, sorted by kind and serial, provided
  that no serial contains a newline.\<close>

theorem listing_has_a_line_each:
  assumes "list_transports E kind s = (Ok out, s')" "kind = (if long then LONG_TEXT else SHORT_TEXT)"
    "\<forall>p \<in> set (transport_list s). newline_char \<notin> set (t_serial (the (transports s p)))"
    "newline_char \<notin> set (no_permission_short E)"
  shows "s' = s \<and> line_count out = length (transport_list s) \<and>
    (\<exists>ts. mset ts = image_mset (\<lambda>p. the (transports s p)) (mset (transport_list s)) \<and>
      sorted (map (\<lambda>t. (type_rank E (t_type t), t_serial t)) ts) \<and>
      out = concat (map (append_transport E long) ts))"
proof -
  obtain ts s1 where ts: "transports_of (transport_list s) s = (Ok ts, s1)" "s' = s1"
    "out = transportListToText E long (sort_transports E ts)"
    using assms(1,2) by (auto simp: list_transports_def bindp_Ok_iff Let_def split: if_splits)
  note us = transports_of_Ok [OF ts(1)]
  note list = us(2)
  have "line_count (concat (map (append_transport E long) xs)) = length xs"
    if "\<forall>t \<in> set xs. newline_char \<notin> set (t_serial t)" for xs
    using that by (induction xs) (simp_all add: append_transport_one_line assms(4))
  from this [of "sort_transports E ts"] assms(3) list ts(3)
  have "line_count out = length (transport_list s)"
    by (simp add: transportListToText_def sort_transports_def)
  moreover have "mset (sort_transports E ts) = image_mset (\<lambda>p. the (transports s p)) (mset (transport_list s))"
    by (simp add: sort_transports_def list)
  ultimately show ?thesis
    using ts us by (auto simp: transportListToText_def sort_transports_def intro!: exI [of _ "sort_transports E ts"])
qed

theorem listing_has_a_line_each_witness:
  "\<exists>out. list_transports core_ref SHORT_TEXT server_ref = (Ok out, server_ref) \<and> line_count out = 2"
proof -
  have "\<exists>out. list_transports core_ref SHORT_TEXT server_ref = (Ok out, server_ref)"
    by (simp add: list_transports_def transports_of_def server_eval)
  then obtain out where out: "list_transports core_ref SHORT_TEXT server_ref = (Ok out, server_ref)" by blast
  have "no_permission_short core_ref = ''no permissions''" by (simp add: core_ref_defs)
  with listing_has_a_line_each [OF out, of False] out show ?thesis by (simp add: server_ref_defs)
qed

section \<open>Tracker messages\<close>

definition hex_digit_value :: "char \<Rightarrow> nat" where
  "hex_digit_value c = (if (of_char c :: nat) < 58 then of_char c - 48 else of_char c - 87)"

definition hex_value :: "string \<Rightarrow> nat" where
  "hex_value s = foldl (\<lambda>v c. 16 * v + hex_digit_value c) 0 s"

lemma hex_digit_value: "d < 16 \<Longrightarrow> hex_digit_value (hex_digit d) = d"
  by (simp add: hex_digit_value_def hex_digit_def)

lemma hex_value_snoc: "hex_value (s @ [c]) = 16 * hex_value s + hex_digit_value c"
  by (simp add: hex_value_def)

lemma show_hex_step: "show_hex n = (if n < 16 then [hex_digit n] else show_hex (n div 16) @ [hex_digit (n mod 16)])"
  unfolding show_hex_def by (subst show_base.simps) simp

lemma hex_value_show_hex: "hex_value (show_hex n) = n"
proof (induction n rule: less_induct)
  case (less n)
  show ?case
  proof (cases "n < 16")
    case True
    then show ?thesis by (simp add: show_hex_step [of n] hex_value_def hex_digit_value)
  next
    case False
    with less [of "n div 16"] show ?thesis
      by (simp add: show_hex_step [of n] hex_value_snoc hex_digit_value)
  qed
qed

lemma show_hex_digits: "c \<in> set (show_hex n) \<Longrightarrow> hex_digit_value c < 16"
proof (induction n rule: less_induct)
  case (less n)
  show ?case
  proof (cases "n < 16")
    case True
    with less.prems show ?thesis by (simp add: show_hex_step [of n] hex_digit_value)
  next
    case False
    with less.prems less.IH [of "n div 16"] show ?thesis
      by (auto simp: show_hex_step [of n] hex_digit_value)
  qed
qed

lemma hex_value_bound: "(\<And>c. c \<in> set s \<Longrightarrow> hex_digit_value c < 16) \<Longrightarrow> hex_value s < 16 ^ length s"
proof (induction s rule: rev_induct)
  case (snoc c s)
  then have "hex_value s < 16 ^ length s" "hex_digit_value c < 16" by auto
  then show ?case by (simp add: hex_value_snoc)
qed (simp add: hex_value_def)

lemma length_show_hex: "0 < k \<Longrightarrow> length (show_hex n) \<le> k \<longleftrightarrow> n < 16 ^ k"
proof (induction k arbitrary: n)
  case (Suc k)
  show ?case
  proof (cases "n < 16")
    case True
    then have "n < 16 * 16 ^ k" by (rule less_le_trans) simp
    with True show ?thesis by (simp add: show_hex_step [of n])
  next
    case False
    show ?thesis
    proof (cases k)
      case 0
      have "show_hex (n div 16) \<noteq> []" by (simp add: show_hex_def show_base_ne)
      with False 0 show ?thesis by (simp add: show_hex_step [of n] Suc_le_eq)
    next
      case (Suc j)
      with Suc.IH [of "n div 16"] False show ?thesis
        by (simp add: show_hex_step [of n] less_mult_imp_div_less div_less_iff_less_mult mult.commute)
    qed
  qed
qed simp

lemma hex_value_zeros: "hex_value (replicate k CHR ''0'' @ s) = hex_value s"
proof -
  have "foldl (\<lambda>v c. 16 * v + hex_digit_value c) 0 (replicate k CHR ''0'') = 0"
    by (induction k) (simp_all add: hex_digit_value_def)
  then show ?thesis by (simp add: hex_value_def)
qed

text \<open>The four digits in front of a tracker's message are the length of the listing exactly when that
  is below 65536; the listing itself is never cut.\<close>

theorem tracker_length_fits:
  "drop 4 (tracker_message str) = str \<and> length (take 4 (tracker_message str)) = 4 \<and>
   (hex_value (take 4 (tracker_message str)) = length str) = (length str < 65536)"
proof -
  let ?n = "length str mod 2 ^ 32"
  let ?p = "take 4 (pad_left 4 CHR ''0'' (show_hex ?n))"
  have len: "length ?p = 4" by (simp add: pad_left_def)
  then have parts: "take 4 (tracker_message str) = ?p" "drop 4 (tracker_message str) = str"
    by (simp_all add: tracker_message_def)
  have small: "?p = pad_left 4 CHR ''0'' (show_hex ?n)" if "?n < 65536"
    using length_show_hex [of 4 ?n] that by (simp add: pad_left_def)
  have "hex_digit_value c < 16" if "c \<in> set ?p" for c
    using in_set_takeD [OF that] show_hex_digits [of c ?n]
    by (auto simp: pad_left_def hex_digit_value_def)
  then have bound: "hex_value ?p < 65536" using hex_value_bound [of ?p] len by simp
  have "hex_value ?p = length str" if "length str < 65536"
    using that small by (simp add: pad_left_def hex_value_zeros hex_value_show_hex)
  with bound parts len show ?thesis by auto
qed

end
