(* ===== verification/LifeProperties.thy ===== *)
theory LifeProperties
  imports SelectProperties
begin

text \<open>
  Properties of the life of transports: the reconnect handler gives up on each transport after a bounded
  number of attempts and loses none; a relaunch of the server.
\<close>

section \<open>The reconnect handler\<close>

definition tracked :: "'w server \<Rightarrow> tptr \<Rightarrow> bool" where
  "tracked s p \<longleftrightarrow> p \<in> ra_transport ` set (reconnect_queue s)"

definition settled :: "'w server \<Rightarrow> tptr \<Rightarrow> bool" where
  "settled s p \<longleftrightarrow> RegisterTransport p \<in> set (run_queue (loop s)) \<or> UnregisterTransport p \<in> set (run_queue (loop s))"

text \<open>The attempts that the queue still allows for a transport.\<close>

definition due_at :: "tptr \<Rightarrow> reconnect_attempt list \<Rightarrow> nat" where
  "due_at p q = sum_list (map (\<lambda>a. Suc (ra_attempts_left a)) (filter (\<lambda>a. ra_transport a = p) q))"

abbreviation attempts_due :: "tptr \<Rightarrow> 'w server \<Rightarrow> nat" where
  "attempts_due p s \<equiv> due_at p (reconnect_queue s)"

lemma due_at_simps [simp]:
  "due_at p [] = 0" "due_at p (a # q) = (if ra_transport a = p then Suc (ra_attempts_left a) else 0) + due_at p q"
  by (simp_all add: due_at_def)

lemma due_at_removeAll: "due_at p (removeAll a q) \<le> due_at p q"
  by (induction q) auto

lemma due_at_pos: "a \<in> set q \<Longrightarrow> 0 < due_at (ra_transport a) q"
  by (induction q) auto

lemma due_at_bound:
  "list_all (\<lambda>a. ra_attempts_left a \<le> kMaxAttempts) q \<Longrightarrow>
   due_at p q \<le> 21 * length (filter (\<lambda>a. ra_transport a = p) q)"
  by (induction q) (auto simp: kMaxAttempts_def)

definition none_lost :: "'w server \<Rightarrow> 'w server \<Rightarrow> bool" where
  "none_lost s s' \<longleftrightarrow> (\<forall>p. tracked s p \<or> settled s p \<longrightarrow> tracked s' p \<or> settled s' p) \<and>
     (\<forall>p. attempts_due p s' \<le> attempts_due p s)"

lemma none_lost_preorder: "preorder_on_states none_lost"
  unfolding preorder_on_states_def none_lost_def by (meson order_refl order_trans)

lemma run_on_looper_result:
  "\<exists>l. run_on_looper E fn s = (Ok (), s\<lparr>loop := l\<rparr>) \<and> run_queue l = run_queue (loop s) @ [fn]"
  by (auto simp: run_on_looper_def loopp_def fdevent_Run_def Interrupt_def fdos_def fd_logs_def prog_defs
      split: prod.splits sum.splits)

lemma remove_kicked_frame: "keeps none_lost (remove_kicked E)"
proof -
  have one: "keeps none_lost (with_transport (ra_transport a) (\<lambda>t. if t_kicked t
      then thenp (remove_transport E (ra_transport a))
        (modp (\<lambda>s. s\<lparr>reconnect_queue := removeAll a (reconnect_queue s)\<rparr>)) else ret ()))" for a
    unfolding keeps_def
  proof
    fix s
    obtain l where l: "run_on_looper E (UnregisterTransport (ra_transport a)) s = (Ok (), s\<lparr>loop := l\<rparr>)"
      "run_queue l = run_queue (loop s) @ [UnregisterTransport (ra_transport a)]"
      using run_on_looper_result by blast
    have "none_lost s (s\<lparr>loop := l, reconnect_queue := removeAll a (reconnect_queue s)\<rparr>)"
      using l(2) by (auto simp: none_lost_def tracked_def settled_def due_at_removeAll)
    moreover have "none_lost s s" by (simp add: none_lost_def)
    ultimately show "none_lost s (snd (with_transport (ra_transport a) (\<lambda>t. if t_kicked t
        then thenp (remove_transport E (ra_transport a))
          (modp (\<lambda>s. s\<lparr>reconnect_queue := removeAll a (reconnect_queue s)\<rparr>)) else ret ()) s))"
      by (simp add: with_transport_def remove_transport_def prog_defs l(1) split: option.splits)
  qed
  show ?thesis
    unfolding remove_kicked_def
    by (intro keeps_bindp [OF none_lost_preorder] keeps_fold_prog [OF none_lost_preorder] keeps_pure(2)
        none_lost_preorder one)
qed

lemma insert_attempt_due:
  "due_at p (insert_attempt a q) \<le> (if ra_transport a = p then Suc (ra_attempts_left a) else 0) + due_at p q"
  by (induction q) auto

lemma insert_attempt_tracked: "ra_transport ` set (insert_attempt a q) = insert (ra_transport a) (ra_transport ` set q)"
  by (induction q) auto

lemma sos_result: "sos f s = (Ok (fst (f (fd_world (loop s)))), s\<lparr>loop := (loop s)\<lparr>fd_world := snd (f (fd_world (loop s)))\<rparr>\<rparr>)"
  by (simp add: sos_def loopp_def fdos_def split: prod.splits)

lemma take_result:
  assumes "reconnect_take E s = (Ok (Inr a), s')"
  shows "(\<forall>p. attempts_due p s' + (if ra_transport a = p then Suc (ra_attempts_left a) else 0) \<le> attempts_due p s) \<and>
    (\<forall>p. tracked s p \<or> settled s p \<longrightarrow> tracked s' p \<or> settled s' p \<or> p = ra_transport a)"
proof -
  obtain s1 where 1: "remove_kicked E s = (Ok (), s1)" "(case reconnect_queue s1 of
         [] \<Rightarrow> ret (Inl True)
       | a # rest \<Rightarrow> bindp (sos (os_clock (srv_fd E))) (\<lambda>now.
           if ra_time a > now then ret (Inl True)
           else thenp (modp (\<lambda>s. s\<lparr>reconnect_queue := rest\<rparr>)) (ret (Inr a)))) s1 = (Ok (Inr a), s')"
    using assms by (auto simp: reconnect_take_def thenp_Ok_iff split: if_splits)
  then obtain rest w where 2: "reconnect_queue s1 = a # rest"
    "s' = s1\<lparr>loop := (loop s1)\<lparr>fd_world := w\<rparr>, reconnect_queue := rest\<rparr>"
    by (cases "reconnect_queue s1") (auto simp: bindp_Ok_iff thenp_Ok_iff sos_result split: if_splits)
  have "none_lost s s1" using keepsD [OF remove_kicked_frame 1(1)] .
  then show ?thesis using 2 by (auto simp: none_lost_def tracked_def settled_def add_ac split: if_splits)
qed

lemma finish_result:
  assumes "reconnect_finish E a s = (Ok u, s')"
  shows "(\<forall>p. attempts_due p s' \<le> attempts_due p s + (if ra_transport a = p then ra_attempts_left a else 0)) \<and> (tracked s' (ra_transport a) \<or> settled s' (ra_transport a)) \<and>
    (\<forall>p. tracked s p \<or> settled s p \<longrightarrow> tracked s' p \<or> settled s' p)"
proof -
  obtain r w where r: "os_reconnect E (ra_transport a) (fd_world (loop s)) = (r, w)" by force
  let ?s = "s\<lparr>loop := (loop s)\<lparr>fd_world := w\<rparr>\<rparr>"
  have queue: "?thesis" if "run_on_looper E fn ?s = (Ok u, s')"
    "fn = RegisterTransport (ra_transport a) \<or> fn = UnregisterTransport (ra_transport a)" for fn
    using run_on_looper_result [of E fn ?s] that
    by (auto simp: tracked_def settled_def)
  have start: "sos (os_reconnect E (ra_transport a)) s = (Ok r, ?s)"
    using r by (simp add: sos_result)
  show ?thesis
  proof (cases "r = Retry \<and> ra_attempts_left a \<noteq> 0")
    case True
    obtain now w' where c: "os_clock (srv_fd E) w = (now, w')" by force
    let ?a = "\<lparr>ra_transport = ra_transport a, ra_time = now + kDefaultTimeout, ra_attempts_left = ra_attempts_left a - 1\<rparr>"
    have "s' = s\<lparr>loop := (loop s)\<lparr>fd_world := w'\<rparr>, reconnect_queue := insert_attempt ?a (reconnect_queue s)\<rparr>"
      using assms True c
      by (simp add: reconnect_finish_def bindp_def [of "sos (os_reconnect E (ra_transport a))"] start)
        (auto simp: bindp_Ok_iff sos_result)
    moreover have "due_at p (insert_attempt ?a (reconnect_queue s))
        \<le> attempts_due p s + (if ra_transport a = p then ra_attempts_left a else 0)" for p
      using insert_attempt_due [of p ?a "reconnect_queue s"] True by (auto split: if_splits)
    ultimately show ?thesis using insert_attempt_tracked [of ?a "reconnect_queue s"]
      by (auto simp: tracked_def settled_def)
  next
    case False
    then have "run_on_looper E (if r = Success then RegisterTransport (ra_transport a)
        else UnregisterTransport (ra_transport a)) ?s = (Ok u, s')"
      using assms by (cases r) (simp_all add: reconnect_finish_def bindp_def start
          remove_transport_def register_transport_def)
    then show ?thesis by (rule queue) simp
  qed
qed

lemma none_lost_world: "none_lost s s1 \<Longrightarrow> none_lost s (s1\<lparr>loop := (loop s1)\<lparr>fd_world := w\<rparr>\<rparr>)"
  by (simp add: none_lost_def tracked_def settled_def)

lemma take_waits:
  assumes "reconnect_take E s = (Ok (Inl go), s')"
  shows "none_lost s s'"
proof (cases "reconnect_running s")
  case False
  with assms show ?thesis by (simp add: reconnect_take_def none_lost_def)
next
  case True
  then obtain s1 where 1: "remove_kicked E s = (Ok (), s1)" "(case reconnect_queue s1 of
         [] \<Rightarrow> ret (Inl True)
       | a # rest \<Rightarrow> bindp (sos (os_clock (srv_fd E))) (\<lambda>now.
           if ra_time a > now then ret (Inl True)
           else thenp (modp (\<lambda>s. s\<lparr>reconnect_queue := rest\<rparr>)) (ret (Inr a)))) s1 = (Ok (Inl go), s')"
    using assms by (auto simp: reconnect_take_def thenp_Ok_iff split: if_splits)
  have "none_lost s s1" using keepsD [OF remove_kicked_frame 1(1)] .
  with 1(2) show ?thesis
    by (cases "reconnect_queue s1")
      (auto simp: bindp_Ok_iff thenp_Ok_iff sos_result intro: none_lost_world split: if_splits)
qed

text \<open>Whether a turn of the handler tries to reconnect a transport, how often \<open>n\<close> turns do, and the turns.\<close>

definition makes_attempt :: "('w, 'x) srv_env_scheme \<Rightarrow> tptr \<Rightarrow> 'w server \<Rightarrow> bool" where
  "makes_attempt E p s = (case fst (reconnect_take E s) of Ok (Inr a) \<Rightarrow> ra_transport a = p | _ \<Rightarrow> False)"

fun attempts_made :: "('w, 'x) srv_env_scheme \<Rightarrow> tptr \<Rightarrow> nat \<Rightarrow> 'w server \<Rightarrow> nat" where
  "attempts_made E p 0 s = 0"
| "attempts_made E p (Suc n) s = (case reconnect_turn E s of
       (Ok _, s') \<Rightarrow> (if makes_attempt E p s then 1 else 0) + attempts_made E p n s'
     | _ \<Rightarrow> 0)"

fun reconnect_turns :: "('w, 'x) srv_env_scheme \<Rightarrow> nat \<Rightarrow> ('w, unit) sprog" where
  "reconnect_turns E 0 = ret ()"
| "reconnect_turns E (Suc n) = thenp (reconnect_turn E) (reconnect_turns E n)"

lemma turn_result:
  assumes "reconnect_turn E s = (Ok go, s')"
  shows "none_lost s s' \<and> (makes_attempt E p s \<longrightarrow> attempts_due p s' < attempts_due p s)"
proof -
  obtain r s1 where 1: "reconnect_take E s = (Ok r, s1)"
    "(case r of Inl go \<Rightarrow> ret go | Inr a \<Rightarrow> thenp (reconnect_finish E a) (ret True)) s1 = (Ok go, s')"
    using assms by (auto simp: reconnect_turn_def bindp_Ok_iff)
  show ?thesis
  proof (cases r)
    case (Inl b)
    with 1 take_waits [of E s b s1] show ?thesis by (simp add: makes_attempt_def)
  next
    case (Inr a)
    with 1 obtain u where fin: "reconnect_finish E a s1 = (Ok u, s')" by (auto simp: thenp_Ok_iff)
    have take: "attempts_due q s1 + (if ra_transport a = q then Suc (ra_attempts_left a) else 0) \<le> attempts_due q s" for q
      using take_result [of E s a s1] 1(1) Inr by blast
    have finish: "attempts_due q s' \<le> attempts_due q s1 + (if ra_transport a = q then ra_attempts_left a else 0)" for q
      using finish_result [OF fin] by blast
    have less: "attempts_due q s' + (if ra_transport a = q then 1 else 0) \<le> attempts_due q s" for q
      using take [of q] finish [of q] by (auto split: if_splits)
    then have "\<forall>q. attempts_due q s' \<le> attempts_due q s" by (meson add_leD1)
    then have "none_lost s s'"
      using take_result [of E s a s1] finish_result [OF fin] 1(1) Inr by (auto simp: none_lost_def)
    moreover have "makes_attempt E p s \<longleftrightarrow> ra_transport a = p" using 1(1) Inr by (simp add: makes_attempt_def)
    ultimately show ?thesis using less [of p] by auto
  qed
qed

lemma attempts_made_due: "attempts_made E p n s \<le> attempts_due p s"
proof (induction n arbitrary: s)
  case (Suc n)
  obtain r s' where r: "reconnect_turn E s = (r, s')" by (cases "reconnect_turn E s")
  show ?case
  proof (cases r)
    case (Ok go)
    then have "makes_attempt E p s \<longrightarrow> attempts_due p s' < attempts_due p s" "attempts_due p s' \<le> attempts_due p s"
      using r turn_result [of E s go s' p] by (auto simp: none_lost_def)
    with Suc [of s'] show ?thesis by (auto simp: r Ok)
  qed (simp_all add: r)
qed simp

lemma turns_result:
  "reconnect_turns E n s = (Ok u, s') \<Longrightarrow>
   none_lost s s' \<and> attempts_made E p n s + attempts_due p s' \<le> attempts_due p s"
proof (induction n arbitrary: s)
  case 0
  then show ?case by (simp add: ret_def none_lost_def)
next
  case (Suc n)
  then obtain go s1 where 1: "reconnect_turn E s = (Ok go, s1)" "reconnect_turns E n s1 = (Ok u, s')"
    by (auto simp: thenp_Ok_iff)
  have "makes_attempt E p s \<longrightarrow> attempts_due p s1 < attempts_due p s" "attempts_due p s1 \<le> attempts_due p s"
    using turn_result [OF 1(1), of p] by (auto simp: none_lost_def)
  moreover have "none_lost s s'"
    using turn_result [OF 1(1)] Suc.IH [OF 1(2)] none_lost_preorder unfolding preorder_on_states_def by blast
  ultimately show ?case using Suc.IH [OF 1(2)] 1(1) by auto
qed

text \<open>C29: however many turns the handler makes, it tries to reconnect each transport at most 21 times for each
  time the transport was queued. After that many attempts the transport is not in the queue any more; and no
  number of turns loses one: it stays in the queue or is handed to the looper, to be registered again or
  removed.\<close>

theorem reconnect_gives_up:
  fixes p :: tptr
  assumes "list_all (\<lambda>a. ra_attempts_left a \<le> kMaxAttempts) (reconnect_queue s)"
  defines "entries \<equiv> length (filter (\<lambda>a. ra_transport a = p) (reconnect_queue s))"
  shows "attempts_made E p n s \<le> 21 * entries \<and>
    (\<forall>s'. reconnect_turns E n s = (Ok (), s') \<longrightarrow>
      (attempts_made E p n s = 21 * entries \<longrightarrow> \<not> tracked s' p) \<and>
      (tracked s p \<longrightarrow> tracked s' p \<or> settled s' p))"
proof -
  have due: "attempts_due p s \<le> 21 * entries" using due_at_bound [OF assms(1)] by (simp add: entries_def)
  have "(attempts_made E p n s = 21 * entries \<longrightarrow> \<not> tracked s' p) \<and> (tracked s p \<longrightarrow> tracked s' p \<or> settled s' p)"
    if "reconnect_turns E n s = (Ok (), s')" for s'
  proof -
    have "0 < attempts_due p s'" if "tracked s' p" using that due_at_pos by (auto simp: tracked_def)
    with turns_result [OF that, of p] due show ?thesis by (auto simp: none_lost_def)
  qed
  with due attempts_made_due [of E p n s] show ?thesis by auto
qed

text \<open>A transport whose attempts have been used up to the last.\<close>

definition retry_ref :: "int server" where
  "retry_ref = server_ref\<lparr>reconnect_queue :=
     [\<lparr>ra_transport = 0, ra_time = 0, ra_attempts_left = 0\<rparr>]\<rparr>"

theorem reconnect_gives_up_witness:
  "attempts_made core_ref 0 100 retry_ref \<le> 21 \<and> (\<exists>s'. reconnect_turns core_ref 2 retry_ref = (Ok (), s') \<and>
     settled s' 0)"
proof -
  have "\<exists>s'. reconnect_turns core_ref 2 retry_ref = (Ok (), s') \<and> reconnect_queue s' = []"
    by (simp add: numeral_2_eq_2 reconnect_turn_def reconnect_take_def remove_kicked_def retry_ref_def reconnect_finish_def
        remove_transport_def Interrupt_def server_eval)
  then obtain s' where s': "reconnect_turns core_ref 2 retry_ref = (Ok (), s')" "reconnect_queue s' = []" by blast
  have max: "list_all (\<lambda>a. ra_attempts_left a \<le> kMaxAttempts) (reconnect_queue retry_ref)" "tracked retry_ref 0"
    by (simp_all add: tracked_def retry_ref_def)
  show ?thesis
    using reconnect_gives_up [OF max(1), where p = 0 and E = core_ref and n = 100]
      reconnect_gives_up [OF max(1), where p = 0 and E = core_ref and n = 2] s' max(2)
    by (auto simp: retry_ref_def tracked_def)
qed

section \<open>Relaunching\<close>

interpretation halted: start_frame "\<lambda>s s'. reconnect_running s' \<longrightarrow> reconnect_running s"
  by unfold_locales (auto simp: preorder_on_states_def)

lemma erase_listener_list:
  assumes "erase_listener l s = (Ok u, s')"
  shows "listener_list s' = filter (\<lambda>k. al_ptr k \<noteq> al_ptr l) (listener_list s)"
proof -
  have dtor: "keeps (\<lambda>s s'. listener_list s' = listener_list s) (alistener_dtor l)"
    unfolding alistener_dtor_def
    by (intro same_listeners.combine same_listeners.basic same_listeners.upd_transport_frame)
  have "alistener_dtor l (s\<lparr>listener_list := filter (\<lambda>k. al_ptr k \<noteq> al_ptr l) (listener_list s)\<rparr>) = (Ok u, s')"
    using assms by (simp add: erase_listener_def)
  from keepsD [OF dtor this] show ?thesis by simp
qed

lemma close_smartsockets_list:
  assumes "close_smartsockets E s = (Ok u, s')" "distinct (map al_ptr (listener_list s))"
  shows "listener_list s' = filter (\<lambda>l. \<not> isSmartSocket E l) (listener_list s)"
proof -
  let ?f = "\<lambda>l _. if isSmartSocket E l then erase_listener l else ret ()"
  have walk: "listener_list s' = filter (\<lambda>k. \<forall>l \<in> set ls. isSmartSocket E l \<longrightarrow> al_ptr k \<noteq> al_ptr l) (listener_list s)"
    if "fold_prog ?f ls () s = (Ok u, s')" for ls s and u :: unit
    using that
  proof (induction ls arbitrary: s)
    case (Cons l ls)
    then obtain s1 where 1: "?f l () s = (Ok (), s1)" "fold_prog ?f ls () s1 = (Ok u, s')"
      by (auto simp: bindp_Ok_iff)
    have "listener_list s1 = (if isSmartSocket E l then filter (\<lambda>k. al_ptr k \<noteq> al_ptr l) (listener_list s)
        else listener_list s)"
      using 1(1) erase_listener_list by (auto split: if_splits)
    with Cons.IH [OF 1(2)] show ?case by (auto intro: filter_cong)
  qed simp
  have "listener_list s' = filter (\<lambda>k. \<forall>l \<in> set (listener_list s). isSmartSocket E l \<longrightarrow> al_ptr k \<noteq> al_ptr l)
      (listener_list s)"
    using walk assms(1) by (simp add: close_smartsockets_def)
  also have "\<dots> = filter (\<lambda>l. \<not> isSmartSocket E l) (listener_list s)"
    using same_ptr [OF assms(2)] by (intro filter_cong) auto
  finally show ?thesis .
qed

lemma reconnect_Stop_result:
  assumes "reconnect_Stop E s = (Ok u, s')"
  shows "\<not> reconnect_running s' \<and> listener_list s' = listener_list s"
proof -
  let ?drain = "bindp (getp reconnect_queue) (\<lambda>q.
        fold_prog (\<lambda>a _. thenp (modp (\<lambda>s. s\<lparr>reconnect_queue := tl (reconnect_queue s)\<rparr>))
          (remove_transport E (ra_transport a))) q ())"
  obtain s1 where 1: "check_looper s = (Ok (), s1)" "?drain (s1\<lparr>reconnect_running := False\<rparr>) = (Ok u, s')"
    using assms by (auto simp: reconnect_Stop_def thenp_Ok_iff)
  have running: "keeps (\<lambda>s s'. reconnect_running s' \<longrightarrow> reconnect_running s) ?drain"
    by (intro halted.combine halted.basic halted.mod_frame halted.remove_transport_frame halted.queue)
  have list: "keeps (\<lambda>s s'. listener_list s' = listener_list s) ?drain"
    by (intro same_listeners.combine same_listeners.basic same_listeners.mod_frame
        same_listeners.remove_transport_frame same_listeners.queue)
  show ?thesis
    using keepsD [OF running 1(2)] keepsD [OF list 1(2)] check_looper_state [OF 1(1)] by simp
qed

lemma launch_cleanup_result:
  assumes "launched s" "distinct (map al_ptr (listener_list s))" "launch_cleanup E s = (Ok u, s')"
  shows "transport_list s' = [] \<and> pending_list s' = [] \<and> \<not> reconnect_running s' \<and>
    listener_list s' = filter (\<lambda>l. \<not> isSmartSocket E l) (listener_list s)"
proof -
  let ?quit = "thenp (loopp (TerminateLoop (srv_fd E))) (loopp NotifyLoopExit)"
  let ?reset = "thenp (loopp (fdevent_reset (srv_fd E))) (modp (\<lambda>s. s\<lparr>launched := True\<rparr>))"
  obtain s1 where 1: "?quit s = (Ok (), s1)" "thenp (adb_server_cleanup E) (thenp (clear_transport_list E) ?reset) s1 = (Ok u, s')"
    using assms(1,3) by (auto simp: launch_cleanup_def thenp_Ok_iff)
  obtain s2 s3 where 2: "close_smartsockets E s1 = (Ok (), s2)" "reconnect_Stop E s2 = (Ok (), s3)"
    "thenp (kick_where E (\<lambda>_. True) False) (thenp (kick_where E (\<lambda>_. True) False) (thenp (modp (\<lambda>s. s\<lparr>transport_list := [], pending_list := []\<rparr>)) ?reset)) s3 = (Ok u, s')"
    using 1(2) by (auto simp: adb_server_cleanup_def kick_all_transports_def clear_transport_list_def thenp_Ok_iff)
  obtain s4 where 3: "thenp (kick_where E (\<lambda>_. True) False) (kick_where E (\<lambda>_. True) False) s3 = (Ok (), s4)"
    "?reset (s4\<lparr>transport_list := [], pending_list := []\<rparr>) = (Ok u, s')"
    using 2(3) by (auto simp: thenp_Ok_iff)
  have "listener_list s1 = listener_list s"
    using keepsD [OF same_listeners.combine(2) 1(1)] same_listeners.basic by blast
  moreover have "listener_list s4 = listener_list s3" "reconnect_running s4 \<longrightarrow> reconnect_running s3"
    using keepsD [OF same_listeners.combine(2) 3(1)] keepsD [OF halted.combine(2) 3(1)]
      same_listeners.kick_frame halted.kick_frame by blast+
  moreover have "transport_list s' = [] \<and> pending_list s' = [] \<and> listener_list s' = listener_list s4 \<and>
      reconnect_running s' = reconnect_running s4"
    using 3(2) by (auto simp: thenp_Ok_iff loopp_def split: prod.splits)
  moreover note reconnect_Stop_result [OF 2(2)] close_smartsockets_list [OF 2(1)]
  ultimately show ?thesis using assms(2) by simp
qed

text \<open>C30: tearing the old server down for a new launch switches the reconnect handler off for good: whatever
  the new server does, a transport that is to be tracked is dropped. The lists of transports are emptied,
  but the listeners that are not smartsockets stay, although their fdevents belong to the destroyed context.\<close>

theorem relaunch_ends_reconnecting:
  assumes "launched s" "distinct (map al_ptr (listener_list s))" "launch_cleanup E s = (Ok u, s1)"
    and "server_start E fuel is_daemon spec device s1 = (Ok v, s2)" "flush_run_queue E n s2 = (r, s3)"
  shows "transport_list s1 = [] \<and> pending_list s1 = [] \<and>
    listener_list s1 = filter (\<lambda>l. \<not> isSmartSocket E l) (listener_list s) \<and>
    \<not> reconnect_running s3 \<and> TrackTransport E p s3 = (fst (check_looper s3), s3)"
proof -
  have "\<not> reconnect_running s3"
    using launch_cleanup_result [OF assms(1-3)] keepsD [OF halted.server_start_frame assms(4)]
      keepsD [OF halted.flush_frame assms(5)] by blast
  moreover from this have "TrackTransport E p s3 = (fst (check_looper s3), s3)"
    by (auto simp: TrackTransport_def check_looper_def loopp_def CheckLooperThread_def prog_defs
        split: prod.splits res.splits option.splits)
  ultimately show ?thesis using launch_cleanup_result [OF assms(1-3)] by simp
qed

lemma relaunch_run:
  "\<exists>s1 s2 s3. launch_cleanup main_ref forwarding_ref = (Ok (), s1) \<and>
     server_start main_ref 1 False ''tcp:5037'' None s1 = (Ok (), s2) \<and> flush_run_queue main_ref 1 s2 = (Ok (), s3)"
  by (simp add: forwarding_ref_def isSmartSocket_def launch_cleanup_def TerminateLoop_def NotifyLoopExit_def adb_server_cleanup_def close_smartsockets_def
      kick_all_transports_def reconnect_Stop_def kick_where_def kick_or_reset_def Kick_def clear_transport_list_def
      fdevent_reset_def fresh_ctx_def fdevent_context_poll_ctor_def server_start_def server_options_def process_def syscallp_def init_reconnect_handler_def
      adb_notify_device_scan_complete_def install_listener_def new_listener_def fde_set_def fdevent_Create_def
      install_fde_def Interrupt_def fdevent_Add_def fdevent_Set_def with_fde_def deref_def update_fde_def fde_defs
      server_eval)

theorem relaunch_ends_reconnecting_witness:
  "\<exists>s1 s2 s3. launch_cleanup main_ref forwarding_ref = (Ok (), s1) \<and>
     server_start main_ref 1 False ''tcp:5037'' None s1 = (Ok (), s2) \<and> flush_run_queue main_ref 1 s2 = (Ok (), s3) \<and>
     length (listener_list s1) = 1 \<and> \<not> reconnect_running s3"
proof -
  obtain s1 s2 s3 where run: "launch_cleanup main_ref forwarding_ref = (Ok (), s1)"
    "server_start main_ref 1 False ''tcp:5037'' None s1 = (Ok (), s2)" "flush_run_queue main_ref 1 s2 = (Ok (), s3)"
    using relaunch_run by blast
  have "launched forwarding_ref" "distinct (map al_ptr (listener_list forwarding_ref))"
    by (simp_all add: forwarding_ref_def server_ref_def)
  from relaunch_ends_reconnecting [OF this run, of 0] run show ?thesis
    by (simp add: forwarding_ref_def isSmartSocket_def)
qed

end
