(* ===== verification/Getopt.thy ===== *)
theory Getopt
  imports Prelude
begin

text \<open>
  POSIX \<^verbatim>\<open>getopt\<close> as the commands \<^verbatim>\<open>shell\<close> and \<^verbatim>\<open>sync\<close> use it: options come before the first operand, a
  cluster of letters is read one per call, and the two static variables \<^verbatim>\<open>optind\<close> and the rest of the
  current cluster survive from call to call and from command to command. \<open>spec c\<close> tells whether the option
  string has the letter \<open>c\<close> and whether it takes an argument.
\<close>

record getopt_state =
  optind :: nat
  optnext :: string

datatype getopt_result = EndOpts | Option char "string option" | BadOption

definition getopt_init :: getopt_state where
  "getopt_init = \<lparr>optind = 1, optnext = []\<rparr>"

definition getopt_letter ::
    "(char \<Rightarrow> bool option) \<Rightarrow> string list \<Rightarrow> char \<Rightarrow> string \<Rightarrow> nat \<Rightarrow> getopt_result \<times> getopt_state" where
  "getopt_letter spec argv c rest i =
     (let after = (if rest = [] then \<lparr>optind = i + 1, optnext = []\<rparr> else \<lparr>optind = i, optnext = rest\<rparr>)
      in case spec c of
           None \<Rightarrow> (BadOption, after)
         | Some False \<Rightarrow> (Option c None, after)
         | Some True \<Rightarrow>
             if rest \<noteq> [] then (Option c (Some rest), \<lparr>optind = i + 1, optnext = []\<rparr>)
             else if i + 1 < length argv
             then (Option c (Some (argv ! (i + 1))), \<lparr>optind = i + 2, optnext = []\<rparr>)
             else (BadOption, \<lparr>optind = i + 1, optnext = []\<rparr>))"

definition getopt :: "(char \<Rightarrow> bool option) \<Rightarrow> string list \<Rightarrow> getopt_state \<Rightarrow> getopt_result \<times> getopt_state" where
  "getopt spec argv g = (case optnext g of
       c # rest \<Rightarrow> getopt_letter spec argv c rest (optind g)
     | [] \<Rightarrow>
         if length argv \<le> optind g then (EndOpts, g)
         else (case argv ! optind g of
             c # d # rest \<Rightarrow>
               if c \<noteq> CHR ''-'' then (EndOpts, g)
               else if d # rest = ''-'' then (EndOpts, g\<lparr>optind := optind g + 1\<rparr>)
               else getopt_letter spec argv d rest (optind g)
           | _ \<Rightarrow> (EndOpts, g)))"

text \<open>What is left to read: it gets less with every option.\<close>

definition getopt_left :: "string list \<Rightarrow> getopt_state \<Rightarrow> nat" where
  "getopt_left argv g =
     (if optnext g = [] then sum_list (map (Suc \<circ> length) (drop (optind g) argv))
      else length (optnext g) + sum_list (map (Suc \<circ> length) (drop (optind g + 1) argv)))"

lemma sum_list_drop_le: "i \<le> j \<Longrightarrow> sum_list (map f (drop j xs)) \<le> sum_list (map (f :: 'a \<Rightarrow> nat) (drop i xs))"
proof -
  assume "i \<le> j"
  then have "drop j xs = drop (j - i) (drop i xs)" by simp
  moreover have "sum_list (map f (drop n ys)) \<le> sum_list (map f ys)" for n and ys :: "'a list"
    by (metis append_take_drop_id le_add2 map_append sum_list.append)
  ultimately show ?thesis by metis
qed

lemma getopt_letter_left:
  "fst (getopt_letter spec argv c rest i) \<noteq> EndOpts \<and>
   getopt_left argv (snd (getopt_letter spec argv c rest i))
     \<le> length rest + sum_list (map (Suc \<circ> length) (drop (Suc i) argv))"
  using sum_list_drop_le [of "Suc i" "Suc (Suc i)" "Suc \<circ> length" argv]
  by (auto simp: getopt_letter_def getopt_left_def Let_def split: option.splits bool.splits)

lemma getopt_less:
  assumes "getopt spec argv g = (r, g')" "r \<noteq> EndOpts"
  shows "getopt_left argv g' < getopt_left argv g"
proof (cases "optnext g")
  case (Cons c rest)
  with assms getopt_letter_left [of spec argv c rest "optind g"] show ?thesis
    by (auto simp: getopt_def getopt_left_def)
next
  case Nil
  with assms obtain c d rest where w: "optind g < length argv" "argv ! optind g = c # d # rest"
    "getopt_letter spec argv d rest (optind g) = (r, g')"
    by (auto simp: getopt_def split: list.splits if_splits)
  have "drop (optind g) argv = (c # d # rest) # drop (Suc (optind g)) argv"
    using w by (metis Cons_nth_drop_Suc)
  with w Nil getopt_letter_left [of spec argv d rest "optind g"] show ?thesis
    by (simp add: getopt_left_def)
qed

text \<open>A \<^verbatim>\<open>while\<close> loop over the options; the handler stops it with \<open>Inl\<close>.\<close>

function getopt_loop ::
    "(char \<Rightarrow> bool option) \<Rightarrow> string list \<Rightarrow> (getopt_result \<Rightarrow> 'a \<Rightarrow> ('s, 'e + 'a) prog) \<Rightarrow> 'a
     \<Rightarrow> getopt_state \<Rightarrow> ('s, ('e + 'a) \<times> getopt_state) prog" where
  "getopt_loop spec argv h a g = (case getopt spec argv g of (r, g') \<Rightarrow>
     if r = EndOpts then ret (Inr a, g')
     else bindp (h r a) (\<lambda>x. case x of Inl e \<Rightarrow> ret (Inl e, g')
                                    | Inr b \<Rightarrow> getopt_loop spec argv h b g'))"
  by pat_completeness auto
termination
  by (relation "measure (\<lambda>(spec, argv, h, a, g). getopt_left argv g)") (auto dest!: getopt_less [OF sym])

declare getopt_loop.simps [simp del]

end
