(* ===== verification/AdbClient.thy ===== *)
theory AdbClient
  imports ServerState Shell Getopt "HOL-Library.State_Monad"
begin

text \<open>
  The client's side of a connection to the adb server (\<^verbatim>\<open>client/adb_client.cpp\<close>): the transport the
  user selected, the handshake, the check of the server's version, queries, and the feature set.

  The file's static variables, the static of \<^verbatim>\<open>adb_get_feature_set\<close> and what it prints to
  \<^verbatim>\<open>stderr\<close> are the record \<open>client\<close>, which also has the other statics of the client process the
  commands use (those of \<^verbatim>\<open>getopt\<close>, the default callback's flag, \<^verbatim>\<open>gListenAll\<close>); none of these functions can exit, so they are values of
  the library's state monad. A null pointer is \<open>None\<close>. The parameter \<^verbatim>\<open>error\<close> of a function is an
  argument (the string before the call) and part of the result. Sockets, \<^verbatim>\<open>adb_io\<close>, socket
  specifications and the start of a server (\<^verbatim>\<open>launch_server\<close>, whose work on the server's state is in
  \<open>ServerMain\<close>) are operations on the world: fields of \<open>client_env\<close>. \<^verbatim>\<open>unique_fd\<close> closes its descriptor
  unless it is -1. The code is the one without the Linux-only re-execution of the server's binary.
\<close>

record 'w client =
  cl_transport :: TransportType
  cl_serial :: "string option"
  cl_transport_id :: u64
  cl_socket_spec :: "string option"
  cl_one_device :: "string option"
  cl_features :: "feature_set option"
  cl_err :: string
  cl_timeouts :: "nat list"
  cl_getopt :: getopt_state
  cl_return_errors :: bool
  cl_listen_all :: bool
  cl_world :: 'w

type_synonym ('w, 'a) cl = "('w client, 'a) state"

record 'w client_env = libbase +
  cl_MAX_PAYLOAD :: nat
  cl_SERVER_VERSION :: int
  cl_char_signed :: bool
  cl_is_local_spec :: "string option \<Rightarrow> bool"
  cl_one_device_mandatory :: bool
  cl_connect :: "string option \<Rightarrow> 'w \<Rightarrow> (string + int) \<times> 'w"
  cl_send_protocol :: "int \<Rightarrow> string \<Rightarrow> 'w \<Rightarrow> bool \<times> 'w"
  cl_read_exactly :: "int \<Rightarrow> nat \<Rightarrow> 'w \<Rightarrow> string option \<times> 'w"
  cl_read_protocol :: "int \<Rightarrow> 'w \<Rightarrow> (string + string) \<times> 'w"
  cl_read_shutdown :: "int \<Rightarrow> 'w \<Rightarrow> unit \<times> 'w"
  cl_close :: "int \<Rightarrow> 'w \<Rightarrow> unit \<times> 'w"
  cl_strerror :: "'w \<Rightarrow> string \<times> 'w"
  cl_launch_server :: "string option \<Rightarrow> string option \<Rightarrow> 'w \<Rightarrow> int \<times> 'w"

section \<open>Operations\<close>

definition wop :: "('w \<Rightarrow> 'a \<times> 'w) \<Rightarrow> ('w, 'a) cl" where
  "wop f = State (\<lambda>s. case f (cl_world s) of (a, w) \<Rightarrow> (a, s\<lparr>cl_world := w\<rparr>))"

definition gets :: "('s \<Rightarrow> 'a) \<Rightarrow> ('s, 'a) state" where
  "gets f = State (\<lambda>s. (f s, s))"

definition modify :: "('s \<Rightarrow> 's) \<Rightarrow> ('s, unit) state" where
  "modify f = State (\<lambda>s. ((), f s))"

definition client_print :: "string \<Rightarrow> ('w, unit) cl" where
  "client_print m = modify (\<lambda>s. s\<lparr>cl_err := cl_err s @ m\<rparr>)"

text \<open>\<^verbatim>\<open>perror_str\<close>, the end of a \<^verbatim>\<open>unique_fd\<close>, and \<^verbatim>\<open>%s\<close> of a pointer that may be null.\<close>

definition perror_str :: "('w, 'x) client_env_scheme \<Rightarrow> string \<Rightarrow> ('w, string) cl" where
  "perror_str C m = do { e \<leftarrow> wop (cl_strerror C); State_Monad.return (m @ '': '' @ e) }"

definition close_fd :: "('w, 'x) client_env_scheme \<Rightarrow> int \<Rightarrow> ('w, unit) cl" where
  "close_fd C sock = (if sock = -1 then State_Monad.return () else wop (cl_close C sock))"

definition or_null :: "string option \<Rightarrow> string" where
  "or_null s = (case s of None \<Rightarrow> ''(null)'' | Some t \<Rightarrow> c_str t)"

definition adb_set_transport :: "TransportType \<Rightarrow> string option \<Rightarrow> u64 \<Rightarrow> ('w, unit) cl" where
  "adb_set_transport type serial tid =
     modify (\<lambda>s. s\<lparr>cl_transport := type, cl_serial := serial, cl_transport_id := tid\<rparr>)"

definition adb_get_transport :: "('w, TransportType \<times> string option \<times> u64) cl" where
  "adb_get_transport = gets (\<lambda>s. (cl_transport s, cl_serial s, cl_transport_id s))"

definition adb_set_socket_spec :: "string \<Rightarrow> ('w, unit) cl" where
  "adb_set_socket_spec spec = modify (\<lambda>s. s\<lparr>cl_socket_spec := Some spec\<rparr>)"

definition adb_set_one_device :: "string option \<Rightarrow> ('w, unit) cl" where
  "adb_set_one_device d = modify (\<lambda>s. s\<lparr>cl_one_device := d\<rparr>)"

section \<open>Status replies\<close>

text \<open>\<^verbatim>\<open>%02x\<close> of a \<^verbatim>\<open>char\<close>: where \<^verbatim>\<open>char\<close> is signed, bytes from 128 on print as negative 32-bit numbers.\<close>

definition status_byte :: "('w, 'x) client_env_scheme \<Rightarrow> char \<Rightarrow> string" where
  "status_byte C c = (let n = of_char c :: nat
     in pad_left 2 CHR ''0'' (show_hex (if cl_char_signed C \<and> 128 \<le> n then 2 ^ 32 - 256 + n else n)))"

definition adb_status ::
    "('w, 'x) client_env_scheme \<Rightarrow> int \<Rightarrow> string \<Rightarrow> ('w, bool \<times> string) cl" where
  "adb_status C sock err = do {
     r \<leftarrow> wop (cl_read_exactly C sock 4);
     case r of
       None \<Rightarrow> do { e \<leftarrow> perror_str C ''protocol fault (couldn't read status)'';
                    State_Monad.return (False, e) }
     | Some buf \<Rightarrow>
         if buf = ''OKAY'' then State_Monad.return (True, err)
         else if buf \<noteq> ''FAIL'' then
           State_Monad.return (False, ''protocol fault (status '' @ status_byte C (buf ! 0) @ '' ''
             @ status_byte C (buf ! 1) @ '' '' @ status_byte C (buf ! 2) @ '' ''
             @ status_byte C (buf ! 3) @ ''?!)'')
         else do { m \<leftarrow> wop (cl_read_protocol C sock);
                   State_Monad.return (False, case m of Inl e \<Rightarrow> e | Inr e \<Rightarrow> e) }
   }"

section \<open>Choosing the device\<close>

text \<open>The request of \<^verbatim>\<open>switch_socket_transport\<close> (\<open>None\<close>: no switch is necessary), and whether the server
  answers it with the id of the transport.\<close>

definition switch_service :: "'w client \<Rightarrow> (string \<times> bool) option" where
  "switch_service s =
     (if cl_transport_id s \<noteq> 0 then
        Some (''host:transport-id:'' @ show_nat (unat (cl_transport_id s)), False)
      else case cl_serial s of
          Some sn \<Rightarrow> Some (''host:tport:serial:'' @ c_str sn, True)
        | None \<Rightarrow> (case cl_transport s of
              kTransportUsb \<Rightarrow> Some (''host:tport:usb'', True)
            | kTransportLocal \<Rightarrow> Some (''host:tport:local'', True)
            | kTransportAny \<Rightarrow> Some (''host:tport:any'', True)
            | kTransportHost \<Rightarrow> None))"

definition switch_socket_transport ::
    "('w, 'x) client_env_scheme \<Rightarrow> int \<Rightarrow> string \<Rightarrow> ('w, u64 option \<times> string) cl" where
  "switch_socket_transport C sock err = do {
     sw \<leftarrow> gets switch_service;
     case sw of
       None \<Rightarrow> State_Monad.return (Some 0, err)
     | Some (service, read_transport) \<Rightarrow> do {
         sent \<leftarrow> wop (cl_send_protocol C sock service);
         if \<not> sent then do {
           e \<leftarrow> perror_str C ''write failure during connection'';
           State_Monad.return (None, e)
         } else do {
           (ok, err) \<leftarrow> adb_status C sock err;
           if \<not> ok then State_Monad.return (None, err)
           else if \<not> read_transport then do {
             tid \<leftarrow> gets cl_transport_id;
             State_Monad.return (Some tid, err)
           } else do {
             r \<leftarrow> wop (cl_read_exactly C sock 8);
             State_Monad.return (case r of
                 None \<Rightarrow> (None, ''failed to read transport id from server'')
               | Some b \<Rightarrow> (Some (get64 b), err))
           }
         }
       }
   }"

definition format_host_command :: "'w client \<Rightarrow> string \<Rightarrow> string" where
  "format_host_command s command =
     (if cl_transport_id s \<noteq> 0 then
        ''host-transport-id:'' @ show_nat (unat (cl_transport_id s)) @ '':'' @ command
      else case cl_serial s of
          Some sn \<Rightarrow> ''host-serial:'' @ c_str sn @ '':'' @ command
        | None \<Rightarrow> (case cl_transport s of kTransportUsb \<Rightarrow> ''host-usb''
              | kTransportLocal \<Rightarrow> ''host-local'' | _ \<Rightarrow> ''host'') @ '':'' @ command)"

section \<open>Connecting\<close>

text \<open>The result is the descriptor (-2: no server, -1: another failure), the id written to
  \<^verbatim>\<open>*transport\<close> (\<open>None\<close>: untouched) and the error string.\<close>

definition connect_service ::
    "('w, 'x) client_env_scheme \<Rightarrow> string \<Rightarrow> bool \<Rightarrow> int \<Rightarrow> string \<Rightarrow> ('w, int \<times> u64 option \<times> string) cl" where
  "connect_service C service force_switch sock err = do {
     (switched, tid, err) \<leftarrow>
       (if take 4 service \<noteq> ''host'' \<or> force_switch
        then do { (tid, err) \<leftarrow> switch_socket_transport C sock err;
                  State_Monad.return (tid \<noteq> None, tid, err) }
        else State_Monad.return (True, None, err));
     if \<not> switched then do { close_fd C sock; State_Monad.return (-1, None, err) }
     else do {
       sent \<leftarrow> wop (cl_send_protocol C sock service);
       if \<not> sent then do {
         e \<leftarrow> perror_str C ''write failure during connection'';
         close_fd C sock; State_Monad.return (-1, tid, e)
       } else do {
         (ok, err) \<leftarrow> adb_status C sock err;
         if \<not> ok then do { close_fd C sock; State_Monad.return (-1, tid, err) }
         else State_Monad.return (sock, tid, err)
       }
     }
   }"

definition adb_connect_once ::
    "('w, 'x) client_env_scheme \<Rightarrow> string \<Rightarrow> bool \<Rightarrow> string \<Rightarrow> ('w, int \<times> u64 option \<times> string) cl" where
  "adb_connect_once C service force_switch err =
     (if service = [] \<or> cl_MAX_PAYLOAD C < length service then
        State_Monad.return (-1, None, ''bad service name length ('' @ show_nat (length service) @ '')'')
      else do {
        spec \<leftarrow> gets cl_socket_spec;
        r \<leftarrow> wop (cl_connect C spec);
        case r of
          Inl reason \<Rightarrow> State_Monad.return
            (-2, None, ''cannot connect to daemon at '' @ or_null spec @ '': '' @ c_str reason)
        | Inr sock \<Rightarrow> connect_service C service force_switch sock err
      })"

section \<open>The server's version\<close>

definition kill_reply :: "('w, 'x) client_env_scheme \<Rightarrow> int \<Rightarrow> ('w, bool) cl" where
  "kill_reply C sock = do {
     r \<leftarrow> wop (cl_read_exactly C sock 4);
     case r of
       None \<Rightarrow> do { client_print (''error: failed to read response from server'' @ newline);
                    State_Monad.return False }
     | Some buf \<Rightarrow>
         if buf = ''FAIL'' then do {
           m \<leftarrow> wop (cl_read_protocol C sock);
           client_print (''error: '' @ c_str (case m of Inl e \<Rightarrow> e | Inr e \<Rightarrow> e) @ newline);
           State_Monad.return False
         } else do {
           wop (cl_read_shutdown C sock);
           State_Monad.return True
         }
   }"

definition adb_kill_server :: "('w, 'x) client_env_scheme \<Rightarrow> ('w, bool) cl" where
  "adb_kill_server C = do {
     spec \<leftarrow> gets cl_socket_spec;
     r \<leftarrow> wop (cl_connect C spec);
     case r of
       Inl reason \<Rightarrow> do {
         client_print (''cannot connect to daemon at '' @ or_null spec @ '': '' @ c_str reason @ newline);
         State_Monad.return True }
     | Inr sock \<Rightarrow> do {
         sent \<leftarrow> wop (cl_send_protocol C sock ''host:kill'');
         if \<not> sent then do {
           e \<leftarrow> wop (cl_strerror C);
           client_print (''error: write failure during connection: '' @ e @ newline);
           close_fd C sock;
           State_Monad.return False
         } else do { ok \<leftarrow> kill_reply C sock; close_fd C sock; State_Monad.return ok }
       }
   }"

text \<open>\<^verbatim>\<open>sscanf(s, "%04x", &version)\<close>: at most four characters after the blanks, with an optional sign and
  \<^verbatim>\<open>0x\<close>.\<close>

definition scan_digit :: "char \<Rightarrow> nat option" where
  "scan_digit c = (let n = of_char c :: nat in
     if 48 \<le> n \<and> n \<le> 57 then Some (n - 48)
     else if 97 \<le> n \<and> n \<le> 102 then Some (n - 87)
     else if 65 \<le> n \<and> n \<le> 70 then Some (n - 55) else None)"

definition scan_hex4 :: "string \<Rightarrow> int option" where
  "scan_hex4 s =
     (let t = take 4 (dropWhile is_space (c_str s));
          neg = (t \<noteq> [] \<and> hd t = CHR ''-'');
          u = (if t \<noteq> [] \<and> (hd t = CHR ''-'' \<or> hd t = CHR ''+'') then tl t else t);
          v = (if take 2 u \<in> {''0x'', ''0X''} then drop 2 u else u);
          ds = takeWhile (\<lambda>c. scan_digit c \<noteq> None) v;
          n = int (foldl (\<lambda>a c. 16 * a + the (scan_digit c)) 0 ds)
      in if ds = [] then None else Some (if neg then - n else n))"

definition start_server :: "('w, 'x) client_env_scheme \<Rightarrow> string \<Rightarrow> ('w, bool \<times> string) cl" where
  "start_server C err = do {
     spec \<leftarrow> gets cl_socket_spec;
     device \<leftarrow> gets (\<lambda>s. if cl_one_device s = None \<and> cl_one_device_mandatory C
                         then cl_serial s else cl_one_device s);
     r \<leftarrow> wop (cl_launch_server C spec device);
     if r \<noteq> 0 then do {
       client_print (''* failed to start daemon'' @ newline);
       State_Monad.return (False, ''cannot connect to daemon'')
     } else do {
       client_print (''* daemon started successfully'' @ newline);
       State_Monad.return (True, err)
     }
   }"

text \<open>The version of the server that answers on \<open>sock\<close>; 0 for one that does not know the request.
  \<open>Inl\<close>: the check fails with this error.\<close>

definition running_version ::
    "('w, 'x) client_env_scheme \<Rightarrow> int \<Rightarrow> string \<Rightarrow> ('w, string + int) cl" where
  "running_version C sock err =
     (if 0 \<le> sock then do {
        r \<leftarrow> wop (cl_read_protocol C sock);
        case r of
          Inl e \<Rightarrow> State_Monad.return (Inl e)
        | Inr version_string \<Rightarrow> do {
            wop (cl_read_shutdown C sock);
            State_Monad.return (case scan_hex4 version_string of
                None \<Rightarrow> Inl (''cannot parse version string: '' @ c_str version_string)
              | Some v \<Rightarrow> Inr v)
          }
      } else State_Monad.return (if err \<noteq> ''unknown host service'' then Inl err else Inr 0))"

definition check_server_version :: "('w, 'x) client_env_scheme \<Rightarrow> ('w, bool \<times> string) cl" where
  "check_server_version C = do {
     (sock, _, err) \<leftarrow> adb_connect_once C ''host:version'' False [];
     spec \<leftarrow> gets cl_socket_spec;
     r \<leftarrow> (if sock = -2 \<and> \<not> cl_is_local_spec C spec then do {
         client_print (''* cannot start server on remote host'' @ newline);
         State_Monad.return (False, err)
       } else if sock = -2 then do {
         client_print (''* daemon not running; starting now at '' @ or_null spec @ newline);
         start_server C err
       } else do {
         v \<leftarrow> running_version C sock err;
         case v of
           Inl e \<Rightarrow> State_Monad.return (False, e)
         | Inr version \<Rightarrow>
             if version \<noteq> cl_SERVER_VERSION C then do {
               client_print (''adb server version ('' @ show_int version
                 @ '') doesn't match this client ('' @ show_int (cl_SERVER_VERSION C)
                 @ ''); killing...'' @ newline);
               adb_kill_server C;
               start_server C err
             } else State_Monad.return (True, err)
       });
     close_fd C sock;
     State_Monad.return r
   }"

text \<open>\<^verbatim>\<open>adb_check_server_version\<close> without the \<^verbatim>\<open>call_once\<close> that is commented out.\<close>

definition adb_check_server_version :: "('w, 'x) client_env_scheme \<Rightarrow> ('w, bool \<times> string) cl" where
  "adb_check_server_version C = check_server_version C"

section \<open>Requests\<close>

definition adb_connect ::
    "('w, 'x) client_env_scheme \<Rightarrow> string \<Rightarrow> bool \<Rightarrow> ('w, int \<times> u64 option \<times> string) cl" where
  "adb_connect C service force_switch = do {
     (ok, err) \<leftarrow> adb_check_server_version C;
     if \<not> ok then State_Monad.return (-1, None, err)
     else if service = ''host:start-server'' then State_Monad.return (0, None, err)
     else do {
       (sock, tid, err) \<leftarrow> adb_connect_once C service force_switch err;
       (if sock = -2 then client_print (''* daemon still not running'' @ newline)
        else State_Monad.return ());
       State_Monad.return (sock, tid, err)
     }
   }"

definition adb_command :: "('w, 'x) client_env_scheme \<Rightarrow> string \<Rightarrow> ('w, bool) cl" where
  "adb_command C service = do {
     (sock, _, err) \<leftarrow> adb_connect C service False;
     if sock < 0 then do {
       client_print (''error: '' @ c_str err @ newline); close_fd C sock; State_Monad.return False
     } else do {
       (ok, err) \<leftarrow> adb_status C sock err;
       if \<not> ok then do {
         client_print (''error: '' @ c_str err @ newline); close_fd C sock; State_Monad.return False
       } else do { wop (cl_read_shutdown C sock); close_fd C sock; State_Monad.return True }
     }
   }"

text \<open>\<open>Inl\<close>: failed, with the error.\<close>

definition adb_query ::
    "('w, 'x) client_env_scheme \<Rightarrow> string \<Rightarrow> bool \<Rightarrow> ('w, string + string) cl" where
  "adb_query C service force_switch_device = do {
     (sock, _, err) \<leftarrow> adb_connect C service force_switch_device;
     if sock < 0 then do { close_fd C sock; State_Monad.return (Inl err) }
     else do {
       r \<leftarrow> wop (cl_read_protocol C sock);
       case r of
         Inl e \<Rightarrow> do { close_fd C sock; State_Monad.return (Inl e) }
       | Inr result \<Rightarrow> do {
           wop (cl_read_shutdown C sock); close_fd C sock; State_Monad.return (Inr result) }
     }
   }"

definition adb_get_feature_set ::
    "('w, 'x) client_env_scheme \<Rightarrow> ('w, string + feature_set) cl" where
  "adb_get_feature_set C = do {
     cached \<leftarrow> gets cl_features;
     case cached of
       Some fs \<Rightarrow> State_Monad.return (Inr fs)
     | None \<Rightarrow> do {
         service \<leftarrow> gets (\<lambda>s. format_host_command s ''features'');
         r \<leftarrow> adb_query C service False;
         case r of
           Inl e \<Rightarrow> State_Monad.return (Inl e)
         | Inr result \<Rightarrow> do {
             modify (\<lambda>s. s\<lparr>cl_features := Some (StringToFeatureSet C result)\<rparr>);
             State_Monad.return (Inr (StringToFeatureSet C result))
           }
       }
   }"

section \<open>Waiting for a device\<close>

text \<open>\<^verbatim>\<open>wait_for_device\<close> of \<^verbatim>\<open>client/commandline.cpp\<close>. A timeout starts a detached thread that ends the
  process when the time is over; nothing stops it: \<open>cl_timeouts\<close> are the threads started.\<close>

definition wait_components :: "TransportType \<Rightarrow> string list \<Rightarrow> string list" where
  "wait_components t cs =
     (if cs ! 2 \<in> {''usb'', ''local'', ''any''} then cs
      else take 2 cs @ [case t of kTransportUsb \<Rightarrow> ''usb'' | kTransportLocal \<Rightarrow> ''local'' | _ \<Rightarrow> ''any'']
        @ drop 2 cs)"

definition wait_for_device ::
    "('w, 'x) client_env_scheme \<Rightarrow> string \<Rightarrow> nat option \<Rightarrow> ('w, bool) cl" where
  "wait_for_device C service timeout =
     (let cs = Split C service ''-''
      in if length cs < 3 then do {
           client_print (''adb: couldn't parse 'wait-for' command: '' @ service @ newline);
           State_Monad.return False
         } else do {
           cmd \<leftarrow> gets (\<lambda>s. format_host_command s
                     (c_str (Join C (wait_components (cl_transport s) cs) ''-'')));
           modify (\<lambda>s. s\<lparr>cl_timeouts := cl_timeouts s @ (case timeout of None \<Rightarrow> [] | Some ms \<Rightarrow> [ms])\<rparr>);
           adb_command C cmd
         })"

section \<open>The client as the environment of the commands\<close>

text \<open>The connections, the feature set and the wait the file-sync client and the shell commands use
  are the ones of this theory: their world holds the client.\<close>

definition link_sync :: "('v, 'x) client_env_scheme \<Rightarrow> ('v client) sync_env \<Rightarrow> ('v client) sync_env" where
  "link_sync C E = E\<lparr>os_features := run_state (adb_get_feature_set C),
     os_connect := (\<lambda>service. run_state (do { (sock, _, err) \<leftarrow> adb_connect C service False;
                                               State_Monad.return (sock, err) }))\<rparr>"

definition link_shell :: "('v, 'x) client_env_scheme \<Rightarrow> ('v client) shell_env \<Rightarrow> ('v client) shell_env" where
  "link_shell C E = E\<lparr>sh_base := link_sync C (sh_base E),
     sh_wait_for_device := (\<lambda>service. run_state (wait_for_device C service None))\<rparr>"

end
