(* ===== verification/Tools.thy ===== *)
theory Tools
  imports Bugreport
begin

text \<open>
  What the commands of \<^verbatim>\<open>client/commandline.cpp\<close> and \<^verbatim>\<open>client/adb_install.cpp\<close> share: descriptors,
  \<^verbatim>\<open>copy_to_file\<close>, the feature set that may be missing, \<^verbatim>\<open>send_shell_command\<close> with the default
  callback, \<^verbatim>\<open>abb_exec\<close>. \<open>tool_env\<close> adds to the environment of bug reports the descriptor
  operations of the system, the incremental installer and the constants of headers outside the
  repository. A dereference of an empty \<^verbatim>\<open>std::optional\<close> is an abort. An argument \<open>out\<close> tells
  whether a function got the caller's capture pointers or null ones.
\<close>

datatype stdin_event = StdinData string | StdinInterrupted | StdinFailed

text \<open>\<^verbatim>\<open>StdinReadArgs\<close>; the shell protocol object is on the same descriptor, if there is one.\<close>

record stdin_read_args =
  sr_write_fd :: int
  sr_raw_stdin :: bool
  sr_protocol :: bool
  sr_escape_char :: char

record 'w tool_env = "'w bug_env" +
  kShellServiceArgPty :: string
  kShellServiceArgRaw :: string
  kIdStdin :: u8
  kIdCloseStdin :: u8
  kIdWindowSizeChange :: u8
  shell_capacity :: nat
  ABB_ARG_DELIMETER :: string
  tl_MAX_PAYLOAD_V1 :: nat
  CHUNK_SIZE :: nat
  ExitSuccess :: string
  ExitFailure :: string
  env_path_separator :: string
  ParseBool :: "string \<Rightarrow> bool option"
  fd_read :: "int \<Rightarrow> nat \<Rightarrow> 'w \<Rightarrow> (errno + string) \<times> 'w"
  fd_write :: "int \<Rightarrow> string \<Rightarrow> 'w \<Rightarrow> int \<times> 'w"
  fd_read_exactly :: "int \<Rightarrow> nat \<Rightarrow> 'w \<Rightarrow> (errno + string) \<times> 'w"
  fd_write_exactly :: "int \<Rightarrow> string \<Rightarrow> 'w \<Rightarrow> (errno + unit) \<times> 'w"
  fd_open :: "string \<Rightarrow> 'w \<Rightarrow> (errno + int) \<times> 'w"
  fd_creat :: "string \<Rightarrow> 'w \<Rightarrow> (errno + int) \<times> 'w"
  fd_lseek :: "int \<Rightarrow> int \<Rightarrow> 'w \<Rightarrow> (errno + int) \<times> 'w"
  fd_close :: "int \<Rightarrow> 'w \<Rightarrow> unit \<times> 'w"
  fd_status :: "int \<Rightarrow> 'w \<Rightarrow> (string + unit) \<times> 'w"
  fd_send_buffer :: "int \<Rightarrow> nat \<Rightarrow> 'w \<Rightarrow> unit \<times> 'w"
  stdin_raw :: "bool \<Rightarrow> 'w \<Rightarrow> unit \<times> 'w"
  stdin_isatty :: "'w \<Rightarrow> bool \<times> 'w"
  stdin_close :: "'w \<Rightarrow> unit \<times> 'w"
  stdin_dup :: "int \<Rightarrow> 'w \<Rightarrow> unit \<times> 'w"
  stdin_interruptible :: "nat \<Rightarrow> 'w \<Rightarrow> stdin_event \<times> 'w"
  stdin_thread :: "stdin_read_args \<Rightarrow> 'w \<Rightarrow> unit \<times> 'w"
  window_size :: "'w \<Rightarrow> (nat \<times> nat \<times> nat \<times> nat) option \<times> 'w"
  shell_write :: "int \<Rightarrow> u8 \<Rightarrow> string \<Rightarrow> 'w \<Rightarrow> bool \<times> 'w"
  inc_can_install :: "string list \<Rightarrow> 'w \<Rightarrow> bool \<times> 'w"
  inc_install :: "string list \<Rightarrow> string list \<Rightarrow> bool \<Rightarrow> 'w \<Rightarrow> nat option \<times> 'w"
  inc_wait :: "nat \<Rightarrow> 'w \<Rightarrow> unit \<times> 'w"
  clock_ns :: "'w \<Rightarrow> int \<times> 'w"
  fmt_ratio :: "int \<Rightarrow> int \<Rightarrow> string"
  server_status_text :: "string \<Rightarrow> string"
  track_app_text :: "string \<Rightarrow> int \<times> string"
  fd_shutdown_write :: "int \<Rightarrow> 'w \<Rightarrow> unit \<times> 'w"
  fd_is_open :: "int \<Rightarrow> 'w \<Rightarrow> bool \<times> 'w"
  thread_schedule :: "nat \<Rightarrow> bool"
  forward_targets_are_valid :: "string \<Rightarrow> string \<Rightarrow> string option"

abbreviation tl_sync :: "('w, 'x) tool_env_scheme \<Rightarrow> 'w sync_env" where
  "tl_sync T \<equiv> sh_base (bug_shell T)"

definition tsys :: "('w \<Rightarrow> (errno + 'a) \<times> 'w) \<Rightarrow> ('w, 'a option) hprog" where
  "tsys f = connp (syscall f)"

definition tos :: "('w \<Rightarrow> 'a \<times> 'w) \<Rightarrow> ('w, 'a) hprog" where
  "tos f = connp (osop f)"

definition errno_text :: "('w, 'x) tool_env_scheme \<Rightarrow> ('w, string) hprog" where
  "errno_text T = connp (strerror_now (tl_sync T))"

definition capture_to :: "('w, 'x) tool_env_scheme \<Rightarrow> bool \<Rightarrow> string \<Rightarrow> ('w, unit) hprog" where
  "capture_to T out msg = (if out then connp (capture (tl_sync T) msg) else ret ())"

text \<open>A call with null capture pointers.\<close>

definition null_out :: "('w, 'a) hprog \<Rightarrow> ('w, 'a) hprog" where
  "null_out m h = (case without_capture (hostp m) ((), h) of (r, (_, h')) \<Rightarrow> (r, h'))"

text \<open>The end of a \<^verbatim>\<open>unique_fd\<close>; a process that exits or aborts runs no destructor.\<close>

definition drop_fd :: "('w, 'x) tool_env_scheme \<Rightarrow> int \<Rightarrow> ('w, unit) hprog" where
  "drop_fd T sock = (if sock = -1 then ret () else tos (fd_close T sock))"

definition with_fd :: "('w, 'x) tool_env_scheme \<Rightarrow> int \<Rightarrow> ('w, 'a) hprog \<Rightarrow> ('w, 'a) hprog" where
  "with_fd T sock m = bindp m (\<lambda>r. thenp (drop_fd T sock) (ret r))"

text \<open>\<^verbatim>\<open>adb_connect\<close>: the descriptor and the error.\<close>

definition connect :: "('w, 'x) tool_env_scheme \<Rightarrow> string \<Rightarrow> ('w, int \<times> string) hprog" where
  "connect T service = tos (os_connect (tl_sync T) service)"

section \<open>Copying between descriptors\<close>

definition copy_buffer :: nat where "copy_buffer = 64 * 1024"

fun copy_loop :: "('w, 'x) tool_env_scheme \<Rightarrow> nat \<Rightarrow> int \<Rightarrow> int \<Rightarrow> ('w, bool) hprog" where
  "copy_loop T 0 inFd outFd = nofuel"
| "copy_loop T (Suc fuel) inFd outFd =
     bindp (tsys (fd_read T inFd copy_buffer)) (\<lambda>r. case r of
         None \<Rightarrow> ret False
       | Some buf \<Rightarrow>
           if buf = [] then ret True
           else thenp (if outFd = 1 then thenp (fwrite_stream (bug_shell T) False buf) (ret ())
                       else thenp (tos (fd_write T outFd buf)) (ret ()))
                  (copy_loop T fuel inFd outFd))"

definition copy_to_file :: "('w, 'x) tool_env_scheme \<Rightarrow> int \<Rightarrow> int \<Rightarrow> ('w, bool) hprog" where
  "copy_to_file T inFd outFd =
     thenp (if inFd = 0 then tos (stdin_raw T True) else ret ())
     (bindp (copy_loop T (loop_fuel (tl_sync T)) inFd outFd) (\<lambda>result.
        thenp (if inFd = 0 then tos (stdin_raw T False) else ret ()) (ret result)))"

definition write_zeros :: "('w, 'x) tool_env_scheme \<Rightarrow> nat \<Rightarrow> int \<Rightarrow> ('w, unit) hprog" where
  "write_zeros T bytes sock =
     (let buf = replicate bytes (CHR 0x00)
      in if sock = 1 then thenp (fwrite_stream (bug_shell T) False buf) (ret ())
         else thenp (tos (fd_write T sock buf)) (ret ()))"

section \<open>Features\<close>

definition adb_get_feature_set_or_die ::
    "('w, 'x) tool_env_scheme \<Rightarrow> bool \<Rightarrow> ('w, feature_set option) hprog" where
  "adb_get_feature_set_or_die T out = bindp (tos (os_features (tl_sync T))) (\<lambda>r. case r of
       Inl e \<Rightarrow> thenp (capture_to T out (c_str e @ newline)) (ret None)
     | Inr fs \<Rightarrow> ret (Some fs))"

text \<open>\<^verbatim>\<open>CanUseFeature(*features, f)\<close>\<close>

definition deref_can_use ::
    "('w, 'x) tool_env_scheme \<Rightarrow> feature_set option \<Rightarrow> string \<Rightarrow> ('w, bool) hprog" where
  "deref_can_use T fs f = (case fs of
       None \<Rightarrow> abortp ''empty optional'' | Some fs \<Rightarrow> ret (can_use (tl_sync T) fs f))"

definition device_can :: "('w, 'x) tool_env_scheme \<Rightarrow> string \<Rightarrow> ('w, bool) hprog" where
  "device_can T f = bindp (adb_get_feature_set_or_die T False) (\<lambda>fs. deref_can_use T fs f)"

section \<open>Commands on the device\<close>

definition shell_command :: "('w, 'x) tool_env_scheme \<Rightarrow> string \<Rightarrow> ('w, int) hprog" where
  "shell_command T command = bindp (with_object (default_streams (bug_shell T))
       (send_shell_command (bug_shell T) (loop_fuel (tl_sync T)) command False
          (DefaultStandardStreamsCallback (bug_shell T)))) (\<lambda>(status, _). ret status)"

text \<open>\<^verbatim>\<open>cmd += " " + escape_arg(*argv++)\<close> for all arguments.\<close>

definition escaped_args :: "('w, 'x) tool_env_scheme \<Rightarrow> string list \<Rightarrow> string" where
  "escaped_args T argv = concat (map (\<lambda>a. '' '' @ escape_arg (tl_sync T) a) argv)"

definition send_abb_exec_command ::
    "('w, 'x) tool_env_scheme \<Rightarrow> string list \<Rightarrow> ('w, int \<times> string) hprog" where
  "send_abb_exec_command T args =
     bindp (connect T (''abb_exec:'' @ Join (tl_sync T) args (ABB_ARG_DELIMETER T))) (\<lambda>(sock, err).
       if sock < 0 then
         thenp (print_err (''adb: failed to run abb_exec. Error: '' @ c_str err @ newline))
         (thenp (drop_fd T sock) (ret (-1, err)))
       else ret (sock, err))"

end
