(* ===== verification/Install.thy ===== *)
theory Install
  imports Tools
begin

text \<open>
  Installing and removing applications (\<^verbatim>\<open>client/adb_install.cpp\<close>): the choice of an install mode, the
  four ways to install, and the sessions of \<^verbatim>\<open>install-multiple\<close> and \<^verbatim>\<open>install-multi-package\<close>. The macro
  \<^verbatim>\<open>ENABLE_FASTDEPLOY\<close> is not defined by the build. Arguments are C strings; the command name is the
  first argument where the code has it. A \<^verbatim>\<open>goto\<close> to the end of a session leaves the loop.
\<close>

datatype InstallMode = INSTALL_DEFAULT | INSTALL_PUSH | INSTALL_STREAM | INSTALL_INCREMENTAL

datatype CmdlineOption = OptNone | OptEnable | OptDisable

datatype FastDeployUpdate =
  FastDeploy_AgentUpdateAlways | FastDeploy_AgentUpdateNewerTimeStamp | FastDeploy_AgentUpdateDifferentVersion

definition is_apk :: "('w, 'x) tool_env_scheme \<Rightarrow> string \<Rightarrow> bool" where
  "is_apk T f = EndsWithIgnoreCase (tl_sync T) f ''.apk''"

definition is_apex_file :: "('w, 'x) tool_env_scheme \<Rightarrow> string \<Rightarrow> bool" where
  "is_apex_file T f = EndsWithIgnoreCase (tl_sync T) f ''.apex''"

section \<open>What the device supports\<close>

definition best_install_mode :: "('w, 'x) tool_env_scheme \<Rightarrow> ('w, InstallMode) hprog" where
  "best_install_mode T = bindp (device_can T kFeatureCmd)
     (\<lambda>cmd. ret (if cmd then INSTALL_STREAM else INSTALL_PUSH))"

definition is_apex_supported :: "('w, 'x) tool_env_scheme \<Rightarrow> ('w, bool) hprog" where
  "is_apex_supported T = device_can T kFeatureApex"

definition is_abb_exec_supported :: "('w, 'x) tool_env_scheme \<Rightarrow> ('w, bool) hprog" where
  "is_abb_exec_supported T = device_can T kFeatureAbbExec"

section \<open>Removing\<close>

definition keep_data_text :: "string \<Rightarrow> string" where
  "keep_data_text cmd =
     ''The -k option uninstalls the application while retaining the data/cache.'' @ newline
     @ ''At the moment, there is no way to remove the remaining data.'' @ newline
     @ ''You will have to reinstall the application with the same signature, and fully uninstall it.''
     @ newline @ ''If you truly wish to continue, execute 'adb shell '' @ cmd"

definition pm_command :: "('w, 'x) tool_env_scheme \<Rightarrow> string list \<Rightarrow> ('w, int) hprog" where
  "pm_command T argv = shell_command T (''pm'' @ escaped_args T argv)"

definition uninstall_app_streamed :: "('w, 'x) tool_env_scheme \<Rightarrow> string list \<Rightarrow> ('w, int) hprog" where
  "uninstall_app_streamed T argv =
     (if ''-k'' \<in> set argv then
        thenp (print_out (keep_data_text (''cmd package uninstall -k'' @ [CHR 0x27] @ ''.'' @ newline))) (ret 1)
      else shell_command T (''cmd package'' @ escaped_args T argv))"

definition uninstall_app_legacy :: "('w, 'x) tool_env_scheme \<Rightarrow> string list \<Rightarrow> ('w, int) hprog" where
  "uninstall_app_legacy T argv =
     (if ''-k'' \<in> set (tl argv) then
        thenp (print_out (keep_data_text (''pm uninstall -k'' @ [CHR 0x27] @ newline @ ''.''))) (ret 1)
      else pm_command T argv)"

definition uninstall_app :: "('w, 'x) tool_env_scheme \<Rightarrow> string list \<Rightarrow> ('w, int) hprog" where
  "uninstall_app T argv = bindp (best_install_mode T) (\<lambda>m.
     if m = INSTALL_PUSH then uninstall_app_legacy T argv else uninstall_app_streamed T argv)"

definition delete_device_file :: "('w, 'x) tool_env_scheme \<Rightarrow> string \<Rightarrow> ('w, int) hprog" where
  "delete_device_file T filename =
     shell_command T (''rm '' @ escape_arg (tl_sync T) filename @ '' </dev/null'')"

section \<open>Talking to the package manager\<close>

fun read_status :: "('w, 'x) tool_env_scheme \<Rightarrow> nat \<Rightarrow> int \<Rightarrow> nat \<Rightarrow> string \<Rightarrow> ('w, string) hprog" where
  "read_status T 0 sock count buf = nofuel"
| "read_status T (Suc fuel) sock count buf =
     (if count = 0 then ret buf
      else bindp (tsys (fd_read T sock count)) (\<lambda>r. case r of
          None \<Rightarrow> ret buf
        | Some b \<Rightarrow> if b = [] then ret buf
            else read_status T fuel sock (count - length b) (buf @ b)))"

text \<open>The C string left in a buffer of \<^verbatim>\<open>BUFSIZ\<close> bytes.\<close>

definition read_status_line :: "('w, 'x) tool_env_scheme \<Rightarrow> int \<Rightarrow> ('w, string) hprog" where
  "read_status_line T sock = bindp
     (read_status T (loop_fuel (tl_sync T)) sock (shell_BUFSIZ (bug_shell T) - 1) []) (\<lambda>b. ret (c_str b))"

definition is_success :: "string \<Rightarrow> bool" where
  "is_success buf \<longleftrightarrow> take 7 buf = ''Success''"

definition send_command :: "('w, 'x) tool_env_scheme \<Rightarrow> string list \<Rightarrow> ('w, int \<times> string) hprog" where
  "send_command T cmd_args = bindp (is_abb_exec_supported T) (\<lambda>abb.
     if abb then send_abb_exec_command T cmd_args
     else connect T (Join (tl_sync T) cmd_args '' ''))"

text \<open>A command and its status line; \<open>None\<close>: no connection, with the message printed.\<close>

definition command_status ::
    "('w, 'x) tool_env_scheme \<Rightarrow> string \<Rightarrow> string list \<Rightarrow> ('w, string option) hprog" where
  "command_status T what cmd_args = bindp (send_command T cmd_args) (\<lambda>(sock, err).
     if sock < 0 then
       thenp (print_err (''adb: connect error for '' @ what @ '': '' @ c_str err @ newline))
         (with_fd T sock (ret None))
     else with_fd T sock (bindp (read_status_line T sock) (\<lambda>buf. ret (Some buf))))"

text \<open>\<^verbatim>\<open>strtol(s, nullptr, 10)\<close> stored in an \<^verbatim>\<open>int\<close>.\<close>

definition strtol_int :: "string \<Rightarrow> int" where
  "strtol_int s = (case scan_int s of None \<Rightarrow> 0
     | Some (v, _) \<Rightarrow> to_int (max (- (2 ^ 63)) (min (2 ^ 63 - 1) v)))"

text \<open>The session id between the last brackets of a success message, -1 without one; the closing
  bracket ends the buffer afterwards.\<close>

definition session_id_of :: "string \<Rightarrow> int \<times> string" where
  "session_id_of buf =
     (if is_success buf then
        (case (rfind ''['' buf, rfind '']'' buf) of
           (Some i, Some j) \<Rightarrow>
             (strtol_int (if i < j then take (j - (i + 1)) (drop (i + 1) buf) else drop (i + 1) buf), take j buf)
         | _ \<Rightarrow> (-1, buf))
      else (-1, buf))"

section \<open>Streamed and pushed installation\<close>

definition local_size :: "('w, 'x) tool_env_scheme \<Rightarrow> string \<Rightarrow> ('w, int option) hprog" where
  "local_size T file = bindp (tsys (os_stat (tl_sync T) file))
     (\<lambda>r. ret (case r of None \<Rightarrow> None | Some sb \<Rightarrow> Some (sint (st_size sb))))"

definition command_args :: "('w, 'x) tool_env_scheme \<Rightarrow> bool \<Rightarrow> string list \<Rightarrow> string list" where
  "command_args T use_abb_exec args =
     (if use_abb_exec then args else map (escape_arg (tl_sync T)) args)"

definition package_command :: "bool \<Rightarrow> string" where
  "package_command use_abb_exec = (if use_abb_exec then ''package'' else ''exec:cmd package'')"

text \<open>The part of \<^verbatim>\<open>install_app_streamed\<close> once the file is open.\<close>

definition stream_apk ::
    "('w, 'x) tool_env_scheme \<Rightarrow> string list \<Rightarrow> string \<Rightarrow> bool \<Rightarrow> int \<Rightarrow> int \<Rightarrow> ('w, int) hprog" where
  "stream_apk T args file is_apex len local_fd =
     bindp (is_abb_exec_supported T) (\<lambda>use_abb_exec.
     bindp (send_command T ([package_command use_abb_exec] @ command_args T use_abb_exec args
              @ [''-S'', show_nat (nat (len mod 2 ^ 64))] @ (if is_apex then [''--apex''] else [])))
       (\<lambda>(remote_fd, err).
       if remote_fd < 0 then
         thenp (print_err (''adb: connect error for write: '' @ c_str err @ newline))
           (with_fd T remote_fd (ret 1))
       else with_fd T remote_fd (bindp (copy_to_file T local_fd remote_fd) (\<lambda>ok.
         if \<not> ok then bindp (errno_text T) (\<lambda>e.
           thenp (print_err (''adb: failed to install: copy_to_file: '' @ file @ '': '' @ e)) (ret 1))
         else bindp (read_status_line T remote_fd) (\<lambda>buf.
           if \<not> is_success buf then
             thenp (print_err (''adb: failed to install '' @ file @ '': '' @ buf)) (ret 1)
           else thenp (print_out buf) (ret 0))))))"

definition install_app_streamed ::
    "('w, 'x) tool_env_scheme \<Rightarrow> string list \<Rightarrow> bool \<Rightarrow> ('w, int) hprog" where
  "install_app_streamed T argv use_fastdeploy =
     (let file = last argv; is_apex = is_apex_file T file
      in thenp (print_out (''Performing Streamed Install'' @ newline))
        (if \<not> is_apk T file \<and> \<not> is_apex
         then error_exit (bug_shell T) (''filename doesn't end .apk or .apex: '' @ file)
         else bindp (if is_apex then is_apex_supported T else ret True) (\<lambda>supported.
           if \<not> supported then error_exit (bug_shell T) ''.apex is not supported on the target device''
           else if is_apex \<and> use_fastdeploy
           then error_exit (bug_shell T) ''--fastdeploy doesn't support .apex files''
           else if use_fastdeploy then error_exit (bug_shell T) ''fastdeploy is disabled''
           else bindp (local_size T file) (\<lambda>r. case r of
               None \<Rightarrow> bindp (errno_text T) (\<lambda>e. thenp (print_err
                 (''adb: failed to stat '' @ file @ '': '' @ e @ newline)) (ret 1))
             | Some len \<Rightarrow> bindp (tsys (fd_open T file)) (\<lambda>r. case r of
                   None \<Rightarrow> bindp (errno_text T) (\<lambda>e. thenp (print_err
                     (''adb: failed to open '' @ file @ '': '' @ e @ newline)) (ret 1))
                 | Some local_fd \<Rightarrow> with_fd T local_fd
                     (stream_apk T (butlast argv) file is_apex len local_fd))))))"

text \<open>The loop from the end: the index of the last APK; an APEX file on the way is an error (\<open>Inl\<close>).\<close>

fun find_last_apk :: "('w, 'x) tool_env_scheme \<Rightarrow> string list \<Rightarrow> unit + nat option" where
  "find_last_apk T [] = Inr None"
| "find_last_apk T (a # rest) =
     (if is_apex_file T a then Inl ()
      else if is_apk T a then Inr (Some (length rest)) else find_last_apk T rest)"

definition install_app_legacy ::
    "('w, 'x) tool_env_scheme \<Rightarrow> string list \<Rightarrow> bool \<Rightarrow> ('w, int) hprog" where
  "install_app_legacy T argv use_fastdeploy =
     thenp (print_out (''Performing Push Install'' @ newline))
     (case find_last_apk T (rev argv) of
        Inl _ \<Rightarrow> error_exit (bug_shell T) ''APEX packages are only compatible with Streamed Install''
      | Inr None \<Rightarrow> error_exit (bug_shell T) ''need APK file on command line''
      | Inr (Some last_apk) \<Rightarrow>
          let apk_file = argv ! last_apk;
              apk_dest = ''/data/local/tmp/'' @ Basename (tl_sync T) apk_file
          in if use_fastdeploy then error_exit (bug_shell T) ''fastdeploy is disabled''
             else bindp (null_out (connp (do_sync_push (tl_sync T) [apk_file] (c_str apk_dest) False
                     CompAny False False))) (\<lambda>ok.
               if ok then bindp (pm_command T (argv[last_apk := c_str apk_dest])) (\<lambda>result.
                 thenp (delete_device_file T apk_dest) (ret result))
               else ret (-1)))"

section \<open>Incremental installation\<close>

definition ms_between :: "int \<Rightarrow> int \<Rightarrow> int" where
  "ms_between t0 t1 = to_int (sgn (t1 - t0) * (\<bar>t1 - t0\<bar> div 1000000))"

definition apk_indices :: "('w, 'x) tool_env_scheme \<Rightarrow> string list \<Rightarrow> nat list" where
  "apk_indices T argv = filter (\<lambda>i. is_apk T (argv ! i)) [0..<length argv]"

definition incremental_passthrough :: "('w, 'x) tool_env_scheme \<Rightarrow> string list \<Rightarrow> string list" where
  "incremental_passthrough T argv = filter (\<lambda>a. \<not> is_apk T a \<and> take 7 a \<noteq> ''install'') argv"

definition install_app_incremental ::
    "('w, 'x) tool_env_scheme \<Rightarrow> string list \<Rightarrow> bool \<Rightarrow> bool \<Rightarrow> ('w, int) hprog" where
  "install_app_incremental T argv wait silent =
     bindp (tos (clock_ns T)) (\<lambda>t0. case apk_indices T argv of
         [] \<Rightarrow> thenp (if silent then ret ()
                   else print_err (''error: need at least one APK file on command line'' @ newline)) (ret (-1))
       | first_apk # others \<Rightarrow>
           let files = take (last (first_apk # others) + 1 - first_apk) (drop first_apk argv)
           in bindp (if silent then tos (inc_can_install T files) else ret True) (\<lambda>can.
             if \<not> can then ret (-1)
             else thenp (print_out (''Performing Incremental Install'' @ newline))
               (bindp (tos (inc_install T files (incremental_passthrough T argv) silent)) (\<lambda>r. case r of
                  None \<Rightarrow> ret (-1)
                | Some server_process \<Rightarrow> bindp (tos (clock_ns T)) (\<lambda>t1.
                    thenp (print_out (''Install command complete in '' @ show_int (ms_between t0 t1)
                             @ '' ms'' @ newline))
                    (thenp (if wait then tos (inc_wait T server_process) else ret ()) (ret 0)))))))"

section \<open>Choosing the mode\<close>

definition default_incremental_setting :: "string list" where
  "default_incremental_setting =
     [''settings'', ''get'', ''global'', ''enable_adb_incremental_install_default'']"

text \<open>The device's own setting turns incremental installation off, or leaves it open.\<close>

definition device_incremental_default ::
    "('w, 'x) tool_env_scheme \<Rightarrow> ('w, CmdlineOption) hprog" where
  "device_incremental_default T =
     bindp (send_abb_exec_command T default_incremental_setting) (\<lambda>(sock, err).
       if sock < 0 then thenp (print_err
           (''adb: retrieving the default device installation mode failed: '' @ c_str err)) (ret OptNone)
       else with_fd T sock (bindp (read_status_line T sock) (\<lambda>buf.
         ret (if ParseBool T buf = Some False then OptDisable else OptNone))))"

definition incremental_default ::
    "('w, 'x) tool_env_scheme \<Rightarrow> CmdlineOption \<Rightarrow> ('w, CmdlineOption) hprog" where
  "incremental_default T request =
     (if request \<noteq> OptNone then ret request
      else if (case env_getenv (tl_sync T) ''ADB_INSTALL_DEFAULT_INCREMENTAL'' of
                 None \<Rightarrow> False | Some v \<Rightarrow> ParseBool T v = Some False) then ret OptDisable
      else device_incremental_default T)"

definition calculate_install_mode ::
    "('w, 'x) tool_env_scheme \<Rightarrow> InstallMode \<Rightarrow> bool \<Rightarrow> CmdlineOption
     \<Rightarrow> ('w, InstallMode \<times> InstallMode option) hprog" where
  "calculate_install_mode T mode_from_args fastdeploy request =
     (if request = OptEnable \<and> fastdeploy then error_exit (bug_shell T)
        ''--incremental and --fast-deploy options are incompatible. Please choose one''
      else if mode_from_args \<noteq> INSTALL_DEFAULT then
        (if request = OptEnable
         then error_exit (bug_shell T) ''--incremental is not compatible with other installation modes''
         else ret (mode_from_args, None))
      else bindp (if request \<noteq> OptDisable then is_abb_exec_supported T else ret True) (\<lambda>supported.
        bindp (if supported then ret request
               else if request = OptNone then ret OptDisable
               else error_exit (bug_shell T) ''Device doesn't support incremental installations'')
        (\<lambda>request. bindp (incremental_default T request) (\<lambda>request.
           if request = OptEnable then ret (INSTALL_INCREMENTAL, None)
           else bindp (best_install_mode T) (\<lambda>best.
             ret (if request = OptNone then (INSTALL_INCREMENTAL, Some best) else (best, None)))))))"

record install_opts =
  io_mode :: InstallMode
  io_incremental :: CmdlineOption
  io_wait :: bool
  io_fastdeploy :: bool
  io_agent :: FastDeployUpdate
  io_args :: "string list"

definition default_opts :: install_opts where
  "default_opts = \<lparr>io_mode = INSTALL_DEFAULT, io_incremental = OptNone, io_wait = False,
     io_fastdeploy = False, io_agent = FastDeploy_AgentUpdateDifferentVersion, io_args = []\<rparr>"

fun install_mode_arg :: "string \<Rightarrow> install_opts \<Rightarrow> install_opts" where
  "install_mode_arg arg opts =
     (if arg = ''--streaming'' then opts\<lparr>io_mode := INSTALL_STREAM\<rparr>
      else if arg = ''--no-streaming'' then opts\<lparr>io_mode := INSTALL_PUSH\<rparr>
      else if 6 \<le> length arg \<and> prefix arg ''--incremental'' then opts\<lparr>io_incremental := OptEnable\<rparr>
      else if 9 \<le> length arg \<and> prefix arg ''--no-incremental'' then opts\<lparr>io_incremental := OptDisable\<rparr>
      else if arg = ''--wait'' then opts\<lparr>io_wait := True\<rparr>
      else opts\<lparr>io_args := io_args opts @ [arg]\<rparr>)"

definition parse_install_mode :: "string list \<Rightarrow> install_opts" where
  "parse_install_mode argv = fold install_mode_arg argv default_opts"

fun fast_deploy_arg :: "string \<Rightarrow> install_opts \<Rightarrow> install_opts" where
  "fast_deploy_arg arg opts =
     (if arg = ''--fastdeploy'' then opts\<lparr>io_fastdeploy := True\<rparr>
      else if arg = ''--no-fastdeploy'' then opts\<lparr>io_fastdeploy := False\<rparr>
      else if arg = ''--force-agent'' then opts\<lparr>io_agent := FastDeploy_AgentUpdateAlways\<rparr>
      else if arg = ''--date-check-agent'' then opts\<lparr>io_agent := FastDeploy_AgentUpdateNewerTimeStamp\<rparr>
      else if arg = ''--version-check-agent'' then opts\<lparr>io_agent := FastDeploy_AgentUpdateDifferentVersion\<rparr>
      else opts\<lparr>io_args := io_args opts @ [arg]\<rparr>)"

definition parse_fast_deploy_mode :: "install_opts \<Rightarrow> install_opts" where
  "parse_fast_deploy_mode opts = fold fast_deploy_arg (io_args opts) (opts\<lparr>io_fastdeploy := False,
     io_agent := FastDeploy_AgentUpdateDifferentVersion, io_args := []\<rparr>)"

text \<open>Streaming to a device that cannot is refused.\<close>

definition refuse_streaming ::
    "('w, 'x) tool_env_scheme \<Rightarrow> InstallMode \<Rightarrow> InstallMode option \<Rightarrow> ('w, unit) hprog" where
  "refuse_streaming T primary fallback =
     (if primary = INSTALL_STREAM \<or> fallback = Some INSTALL_STREAM then
        bindp (best_install_mode T) (\<lambda>best. if best = INSTALL_PUSH
          then error_exit (bug_shell T) ''Attempting to use streaming install on unsupported device''
          else ret ())
      else ret ())"

text \<open>The primary mode, silent if there is a fallback, and after a failure the fallback.\<close>

definition with_fallback ::
    "(InstallMode \<Rightarrow> bool \<Rightarrow> ('w, int) hprog) \<Rightarrow> InstallMode \<Rightarrow> InstallMode option \<Rightarrow> ('w, int) hprog" where
  "with_fallback run primary fallback =
     bindp (run primary (fallback \<noteq> None)) (\<lambda>res.
       if res \<noteq> 0 \<and> (case fallback of None \<Rightarrow> primary | Some m \<Rightarrow> m) \<noteq> primary
       then run (the fallback) False else ret res)"

definition run_install_mode ::
    "('w, 'x) tool_env_scheme \<Rightarrow> install_opts \<Rightarrow> InstallMode \<Rightarrow> bool \<Rightarrow> ('w, int) hprog" where
  "run_install_mode T opts mode silent = (case mode of
       INSTALL_PUSH \<Rightarrow> install_app_legacy T (io_args opts) (io_fastdeploy opts)
     | INSTALL_STREAM \<Rightarrow> install_app_streamed T (io_args opts) (io_fastdeploy opts)
     | INSTALL_INCREMENTAL \<Rightarrow> install_app_incremental T (io_args opts) (io_wait opts) silent
     | INSTALL_DEFAULT \<Rightarrow> error_exit (bug_shell T) ''invalid install mode'')"

definition install_app :: "('w, 'x) tool_env_scheme \<Rightarrow> string list \<Rightarrow> ('w, int) hprog" where
  "install_app T argv =
     (let opts = parse_fast_deploy_mode (parse_install_mode argv)
      in bindp (calculate_install_mode T (io_mode opts) (io_fastdeploy opts) (io_incremental opts))
        (\<lambda>(primary, fallback).
          thenp (refuse_streaming T primary fallback)
          (if length (io_args opts) < 2 then error_exit (bug_shell T) ''install requires an apk argument''
           else with_fallback (run_install_mode T opts) primary fallback)))"

end
