(* ===== verification/InstallSessions.thy ===== *)
theory InstallSessions
  imports Install
begin

text \<open>
  The install sessions of \<^verbatim>\<open>client/adb_install.cpp\<close>: \<^verbatim>\<open>install-multiple\<close> creates one, streams every file
  into it and commits or abandons it; \<^verbatim>\<open>install-multi-package\<close> does so for one session per file below
  a parent session, and abandons all of them when the commit fails. The bodies of the loops return
  false for a \<^verbatim>\<open>goto\<close> to the end.
\<close>

section \<open>Writing a file into a session\<close>

text \<open>\<^verbatim>\<open>quote\<close> is how the messages of the caller show the file: in quotes or plain.\<close>

definition write_to_session ::
    "('w, 'x) tool_env_scheme \<Rightarrow> (string \<Rightarrow> string) \<Rightarrow> string \<Rightarrow> int \<Rightarrow> string \<Rightarrow> string \<Rightarrow> ('w, bool) hprog" where
  "write_to_session T quote install_cmd session_id name file =
     (let failed = (\<lambda>what. bindp (errno_text T) (\<lambda>e. thenp (print_err
            (''adb: failed to '' @ what @ '' '' @ quote file @ '': '' @ e @ newline)) (ret False)))
      in bindp (local_size T file) (\<lambda>r. case r of
           None \<Rightarrow> failed ''stat''
         | Some len \<Rightarrow> bindp (tsys (fd_open T file)) (\<lambda>r. case r of
               None \<Rightarrow> failed ''open''
             | Some local_fd \<Rightarrow> with_fd T local_fd
                 (bindp (send_command T [install_cmd, ''install-write'', ''-S'', show_int len,
                           show_int session_id, name, ''-'']) (\<lambda>(remote_fd, err).
                    if remote_fd < 0 then
                      thenp (print_err (''adb: connect error for write: '' @ c_str err @ newline))
                        (with_fd T remote_fd (ret False))
                    else with_fd T remote_fd (bindp (copy_to_file T local_fd remote_fd) (\<lambda>ok.
                      if \<not> ok then failed ''write''
                      else bindp (read_status_line T remote_fd) (\<lambda>buf.
                        if \<not> is_success buf then
                          thenp (print_err (''adb: failed to write '' @ quote file @ newline @ buf))
                            (ret False)
                        else ret True))))))))"

definition double_quoted :: "string \<Rightarrow> string" where
  "double_quoted f = CHR 0x22 # f @ [CHR 0x22]"

section \<open>\<^verbatim>\<open>install-multiple\<close>\<close>

definition is_session_file :: "('w, 'x) tool_env_scheme \<Rightarrow> string \<Rightarrow> bool" where
  "is_session_file T f \<longleftrightarrow> is_apk T f \<or> EndsWithIgnoreCase (tl_sync T) f ''.dm''
     \<or> EndsWithIgnoreCase (tl_sync T) f ''.fsv_sig''"

text \<open>The loop from the end: the number of trailing files and their total size, which wraps.\<close>

fun count_session_files ::
    "('w, 'x) tool_env_scheme \<Rightarrow> string list \<Rightarrow> nat \<Rightarrow> u64 \<Rightarrow> ('w, nat \<times> u64) hprog" where
  "count_session_files T [] n bytes = ret (n, bytes)"
| "count_session_files T (file # rest) n bytes =
     (if is_apex_file T file then
        error_exit (bug_shell T) ''APEX packages are not compatible with install-multiple''
      else if is_session_file T file then
        bindp (tsys (os_stat (tl_sync T) file)) (\<lambda>r. case r of
            None \<Rightarrow> perror_exit (bug_shell T) (''failed to stat '' @ double_quoted file)
          | Some sb \<Rightarrow> count_session_files T rest (Suc n) (bytes + st_size sb))
      else ret (n, bytes))"

text \<open>\<^verbatim>\<open>finalize_session\<close>\<close>

definition finalize_session ::
    "('w, 'x) tool_env_scheme \<Rightarrow> string \<Rightarrow> int \<Rightarrow> bool \<Rightarrow> ('w, int) hprog" where
  "finalize_session T install_cmd session_id success =
     bindp (command_status T ''finalize'' [install_cmd,
         if success then ''install-commit'' else ''install-abandon'', show_int session_id]) (\<lambda>r. case r of
       None \<Rightarrow> ret 1
     | Some buf \<Rightarrow>
         if \<not> success then ret 1
         else if \<not> is_success buf then
           thenp (print_err (''adb: failed to finalize session'' @ newline @ buf)) (ret 1)
         else thenp (print_out buf) (ret 0))"

definition stream_session_files ::
    "('w, 'x) tool_env_scheme \<Rightarrow> string \<Rightarrow> int \<Rightarrow> string list \<Rightarrow> ('w, bool) hprog" where
  "stream_session_files T install_cmd session_id files =
     bindp (fold_while (\<lambda>file _. bindp (write_to_session T double_quoted install_cmd session_id
         (Basename (tl_sync T) file) file) (\<lambda>ok. ret (ok, ()))) files ()) (\<lambda>(ok, _). ret ok)"

definition session_install_cmd :: "('w, 'x) tool_env_scheme \<Rightarrow> bool \<Rightarrow> ('w, string) hprog" where
  "session_install_cmd T use_abb_exec =
     (if use_abb_exec then ret ''package''
      else bindp (best_install_mode T)
        (\<lambda>m. ret (if m = INSTALL_PUSH then ''exec:pm'' else ''exec:cmd package'')))"

definition install_multiple_app_streamed ::
    "('w, 'x) tool_env_scheme \<Rightarrow> string list \<Rightarrow> ('w, int) hprog" where
  "install_multiple_app_streamed T argv =
     bindp (count_session_files T (rev argv) 0 0) (\<lambda>(n, total_size).
       if n = 0 then error_exit (bug_shell T) ''need APK file on command line''
       else let first_apk = length argv - n
         in bindp (is_abb_exec_supported T) (\<lambda>use_abb_exec.
            bindp (session_install_cmd T use_abb_exec) (\<lambda>install_cmd.
            bindp (command_status T ''create'' ([install_cmd, ''install-create'', ''-S'',
                show_nat (unat total_size)] @ command_args T use_abb_exec (take first_apk argv))) (\<lambda>r.
              case r of
                None \<Rightarrow> ret 1
              | Some buf \<Rightarrow> (case session_id_of buf of (session_id, buf) \<Rightarrow>
                  if session_id < 0 then
                    thenp (print_err (''adb: failed to create session'' @ newline @ buf)) (ret 1)
                  else bindp (stream_session_files T install_cmd session_id (drop first_apk argv))
                    (finalize_session T install_cmd session_id))))))"

definition run_multiple_mode ::
    "('w, 'x) tool_env_scheme \<Rightarrow> install_opts \<Rightarrow> InstallMode \<Rightarrow> bool \<Rightarrow> ('w, int) hprog" where
  "run_multiple_mode T opts mode silent = (case mode of
       INSTALL_PUSH \<Rightarrow> install_multiple_app_streamed T (io_args opts)
     | INSTALL_STREAM \<Rightarrow> install_multiple_app_streamed T (io_args opts)
     | INSTALL_INCREMENTAL \<Rightarrow> install_app_incremental T (io_args opts) (io_wait opts) silent
     | INSTALL_DEFAULT \<Rightarrow> error_exit (bug_shell T) ''invalid install mode'')"

definition install_multiple_app :: "('w, 'x) tool_env_scheme \<Rightarrow> string list \<Rightarrow> ('w, int) hprog" where
  "install_multiple_app T argv =
     (let opts = parse_install_mode (tl argv)
      in bindp (calculate_install_mode T (io_mode opts) False (io_incremental opts)) (\<lambda>(primary, fallback).
          thenp (refuse_streaming T primary fallback)
            (with_fallback (run_multiple_mode T opts) primary fallback)))"

section \<open>\<^verbatim>\<open>install-multi-package\<close>\<close>

text \<open>The parameters the steps share: the command, its arguments, whether an APEX file is among the
  files, and the parent session.\<close>

record multi_package =
  mp_cmd :: string
  mp_args :: "string list"
  mp_apex :: bool
  mp_parent :: int

definition create_child_args :: "('w, 'x) tool_env_scheme \<Rightarrow> multi_package \<Rightarrow> string \<Rightarrow> string list" where
  "create_child_args T mp file = [mp_cmd mp, ''install-create''] @ mp_args mp
     @ (if mp_apex mp then [''--staged''] else []) @ (if is_apex_file T file then [''--apex''] else [])"

text \<open>One round of the loop over the files. The accumulator has the session ids and the arguments of
  \<^verbatim>\<open>install-add-session\<close>; the files of one argument are its parts between the path separators.\<close>

definition child_session ::
    "('w, 'x) tool_env_scheme \<Rightarrow> multi_package \<Rightarrow> nat \<times> string \<Rightarrow> int list \<times> string list
     \<Rightarrow> ('w, bool \<times> int list \<times> string list) hprog" where
  "child_session T mp = (\<lambda>(i, file) (ids, add_args).
     bindp (command_status T ''create'' (create_child_args T mp file)) (\<lambda>r. case r of
         None \<Rightarrow> ret (False, ids, add_args)
       | Some buf \<Rightarrow> (case session_id_of buf of (session_id, buf) \<Rightarrow>
           if session_id < 0 then
             thenp (print_err (''adb: failed to create multi-package session'' @ newline @ buf))
               (ret (False, ids, add_args))
           else thenp (print_out (''Created child session ID '' @ show_int session_id @ ''.'' @ newline))
             (bindp (fold_while (\<lambda>split _. bindp (write_to_session T id (mp_cmd mp) session_id
                  (show_nat i @ ''_'' @ c_str (Basename (tl_sync T) split)) split) (\<lambda>ok. ret (ok, ())))
                 (Split (tl_sync T) file (env_path_separator T)) ()) (\<lambda>(ok, _).
               ret (ok, ids @ [session_id],
                    if ok then add_args @ [show_int session_id] else add_args))))))"

text \<open>The loop and the \<^verbatim>\<open>install-add-session\<close> after it: whether everything went well, the session ids.\<close>

definition link_sessions ::
    "('w, 'x) tool_env_scheme \<Rightarrow> multi_package \<Rightarrow> (nat \<times> string) list \<Rightarrow> ('w, bool \<times> int list) hprog" where
  "link_sessions T mp files =
     bindp (fold_while (child_session T mp) files
         ([], [mp_cmd mp, ''install-add-session'', show_int (mp_parent mp)])) (\<lambda>(ok, ids, add_args).
       if \<not> ok then ret (False, ids)
       else bindp (command_status T ''install-add-session'' add_args) (\<lambda>r. case r of
           None \<Rightarrow> ret (False, ids)
         | Some buf \<Rightarrow>
             if \<not> is_success buf then
               thenp (print_err (''adb: failed to link sessions ('' @ c_str (Join (tl_sync T) add_args '' '')
                   @ '')'' @ newline @ buf)) (ret (False, ids))
             else ret (True, ids)))"

text \<open>The arguments forwarded to \<^verbatim>\<open>install-commit\<close>: every \<^verbatim>\<open>--staged-ready-timeout\<close> with its value.\<close>

fun staged_timeouts :: "string list \<Rightarrow> string list" where
  "staged_timeouts (a # b # rest) =
     (if a = ''--staged-ready-timeout'' then a # b # staged_timeouts rest else staged_timeouts (b # rest))"
| "staged_timeouts _ = []"

definition finalize_args :: "multi_package \<Rightarrow> string list \<Rightarrow> bool \<Rightarrow> string list" where
  "finalize_args mp args success =
     (if success then [mp_cmd mp, ''install-commit''] @ staged_timeouts args @ [show_int (mp_parent mp)]
      else [mp_cmd mp, ''install-abandon'', show_int (mp_parent mp)])"

definition abandon_sessions ::
    "('w, 'x) tool_env_scheme \<Rightarrow> multi_package \<Rightarrow> int list \<Rightarrow> ('w, unit) hprog" where
  "abandon_sessions T mp ids = fold_prog (\<lambda>i _.
     thenp (print_err (''Attempting to abandon session ID '' @ show_int i @ newline))
     (bindp (command_status T ''finalize'' [mp_cmd mp, ''install-abandon'', show_int i]) (\<lambda>_. ret ()))) ids ()"

text \<open>\<^verbatim>\<open>finalize_multi_package_session\<close>; \<open>args\<close> are the raw arguments before the files.\<close>

definition finalize_multi_package ::
    "('w, 'x) tool_env_scheme \<Rightarrow> multi_package \<Rightarrow> string list \<Rightarrow> bool \<Rightarrow> int list \<Rightarrow> ('w, int) hprog" where
  "finalize_multi_package T mp args success ids =
     bindp (command_status T ''finalize'' (finalize_args mp args success)) (\<lambda>r. case r of
         None \<Rightarrow> ret 1
       | Some buf \<Rightarrow>
           let abandon = thenp (abandon_sessions T mp (ids @ [mp_parent mp])) (ret 1)
           in if is_success buf then thenp (print_out buf) (if success then ret 0 else abandon)
              else thenp (print_err (''adb: failed to finalize session'' @ newline @ buf)) abandon)"

text \<open>The trailing files of the command line.\<close>

definition package_files :: "('w, 'x) tool_env_scheme \<Rightarrow> string list \<Rightarrow> string list" where
  "package_files T argv = rev (takeWhile (\<lambda>f. is_apk T f \<or> is_apex_file T f) (rev argv))"

definition install_multi_package :: "('w, 'x) tool_env_scheme \<Rightarrow> string list \<Rightarrow> ('w, int) hprog" where
  "install_multi_package T argv =
     (let files = package_files T argv; first_package = length argv - length files;
          apex_found = (\<exists>f \<in> set files. is_apex_file T f);
          raw = drop 1 (take first_package argv)
      in if files = [] then error_exit (bug_shell T) ''need APK or APEX files on command line''
         else bindp (best_install_mode T) (\<lambda>best.
           if best = INSTALL_PUSH then thenp (print_err
               (''adb: multi-package install is not supported on this device'' @ newline)) (ret 1)
           else bindp (is_abb_exec_supported T) (\<lambda>use_abb_exec.
             let cmd = package_command use_abb_exec; args = command_args T use_abb_exec raw
             in bindp (command_status T ''create multi-package'' ([cmd, ''install-create'', ''--multi-package'']
                   @ args @ (if apex_found then [''--staged''] else []))) (\<lambda>r. case r of
                 None \<Rightarrow> ret 1
               | Some buf \<Rightarrow> (case session_id_of buf of (parent, buf) \<Rightarrow>
                   if parent < 0 then thenp (print_err
                       (''adb: failed to create multi-package session'' @ newline @ buf)) (ret 1)
                   else let mp = \<lparr>mp_cmd = cmd, mp_args = args, mp_apex = apex_found, mp_parent = parent\<rparr>
                     in thenp (print_out (''Created parent session ID '' @ show_int parent @ ''.'' @ newline))
                        (bindp (link_sessions T mp (zip [first_package..<length argv] files))
                           (\<lambda>(success, ids). finalize_multi_package T mp raw success ids)))))))"

end
