(* ===== verification/ShellClient.thy ===== *)
theory ShellClient
  imports Tools Getopt
begin

text \<open>
  The interactive shell of \<^verbatim>\<open>client/commandline.cpp\<close>: the thread that reads the user's input with its
  escape sequences, \<^verbatim>\<open>RemoteShell\<close>, and the commands \<^verbatim>\<open>shell\<close> and \<^verbatim>\<open>abb\<close>. The thread is detached and runs
  beside the output loop; its start is an operation on the world (\<open>stdin_thread\<close>) and its body is
  \<open>stdin_read_thread_loop\<close>. Signal masks are left out: an interrupted read is an event.
\<close>

section \<open>The input thread\<close>

datatype EscapeState = kMidFlow | kStartOfLine | kInEscape

datatype escape_action = Swallow | Disconnect | Send string

definition escape_step :: "char \<Rightarrow> EscapeState \<Rightarrow> char \<Rightarrow> escape_action \<times> EscapeState" where
  "escape_step esc st ch =
     (if ch = esc then
        (if st = kStartOfLine then (Swallow, kInEscape) else (Send [ch], kMidFlow))
      else if st = kInEscape \<and> ch = CHR ''.'' then (Disconnect, st)
      else (Send (if st = kInEscape then [esc, ch] else [ch]),
            if ch = CHR 0x0A \<or> ch = CHR 0x0D then kStartOfLine else kMidFlow))"

definition send_window_size_change ::
    "('w, 'x) tool_env_scheme \<Rightarrow> stdin_read_args \<Rightarrow> ('w, unit) hprog" where
  "send_window_size_change T args =
     (if \<not> sr_protocol args then ret ()
      else bindp (tos (window_size T)) (\<lambda>r. case r of
          None \<Rightarrow> ret ()
        | Some (row, col, xpixel, ypixel) \<Rightarrow>
            thenp (tos (shell_write T (sr_write_fd args) (kIdWindowSizeChange T)
              (show_nat row @ ''x'' @ show_nat col @ '','' @ show_nat xpixel @ ''x'' @ show_nat ypixel
               @ [CHR 0x00]))) (ret ())))"

definition parses_escapes :: "stdin_read_args \<Rightarrow> bool" where
  "parses_escapes args \<longleftrightarrow> sr_raw_stdin args \<and> sr_escape_char args \<noteq> CHR 0x00"

definition stdin_buffer_size :: "('w, 'x) tool_env_scheme \<Rightarrow> stdin_read_args \<Rightarrow> nat" where
  "stdin_buffer_size T args =
     (if parses_escapes args then 1
      else if sr_protocol args then shell_capacity T else shell_BUFSIZ (bug_shell T))"

definition send_stdin :: "('w, 'x) tool_env_scheme \<Rightarrow> stdin_read_args \<Rightarrow> string \<Rightarrow> ('w, bool) hprog" where
  "send_stdin T args data =
     (if sr_protocol args then tos (shell_write T (sr_write_fd args) (kIdStdin T) data)
      else bindp (tsys (fd_write_exactly T (sr_write_fd args) data)) (\<lambda>r. ret (r \<noteq> None)))"

definition close_remote_stdin :: "('w, 'x) tool_env_scheme \<Rightarrow> stdin_read_args \<Rightarrow> ('w, unit) hprog" where
  "close_remote_stdin T args =
     (if sr_protocol args
      then thenp (tos (shell_write T (sr_write_fd args) (kIdCloseStdin T) [])) (ret ()) else ret ())"

fun stdin_loop ::
    "('w, 'x) tool_env_scheme \<Rightarrow> stdin_read_args \<Rightarrow> nat \<Rightarrow> EscapeState \<Rightarrow> ('w, unit) hprog" where
  "stdin_loop T args 0 st = nofuel"
| "stdin_loop T args (Suc fuel) st =
     bindp (tos (stdin_interruptible T (stdin_buffer_size T args))) (\<lambda>r. case r of
         StdinInterrupted \<Rightarrow> thenp (send_window_size_change T args) (stdin_loop T args fuel st)
       | StdinFailed \<Rightarrow> close_remote_stdin T args
       | StdinData data \<Rightarrow>
           if data = [] then close_remote_stdin T args
           else (case (if parses_escapes args then escape_step (sr_escape_char args) st (hd data)
                       else (Send data, st)) of
               (Swallow, st) \<Rightarrow> stdin_loop T args fuel st
             | (Disconnect, st) \<Rightarrow>
                 thenp (print_err ([CHR 0x0D] @ newline @ ''[ disconnected ]'' @ [CHR 0x0D] @ newline))
                   (thenp (tos (stdin_raw T False)) (exitp 0))
             | (Send s, st) \<Rightarrow> bindp (send_stdin T args s) (\<lambda>ok.
                 if ok then stdin_loop T args fuel st else ret ())))"

definition stdin_read_thread_loop ::
    "('w, 'x) tool_env_scheme \<Rightarrow> nat \<Rightarrow> stdin_read_args \<Rightarrow> ('w, unit) hprog" where
  "stdin_read_thread_loop T fuel args =
     thenp (send_window_size_change T args) (stdin_loop T args fuel kStartOfLine)"

section \<open>Connecting a shell\<close>

definition RemoteShell ::
    "('w, 'x) tool_env_scheme \<Rightarrow> bool \<Rightarrow> string \<Rightarrow> char \<Rightarrow> bool \<Rightarrow> string \<Rightarrow> ('w, int) hprog" where
  "RemoteShell T use_shell_protocol type_arg escape_char empty_command service_string =
     (if tl_MAX_PAYLOAD_V1 T < length service_string \<and> \<not> use_shell_protocol then
        thenp (print_err (''error: shell command too long'' @ newline)) (ret 1)
      else let raw_stdin = (type_arg = kShellServiceArgPty T \<or> type_arg = [] \<and> empty_command)
        in bindp (connect T service_string) (\<lambda>(sock, err).
          if sock < 0 then thenp (print_err (''error: '' @ c_str err @ newline)) (ret 1)
          else thenp (if raw_stdin then tos (stdin_raw T True) else ret ())
            (thenp (tos (stdin_thread T \<lparr>sr_write_fd = sock, sr_raw_stdin = raw_stdin,
                sr_protocol = use_shell_protocol, sr_escape_char = escape_char\<rparr>))
            (bindp (with_object (default_streams (bug_shell T)) (read_and_dump (bug_shell T)
                 (loop_fuel (tl_sync T)) (DefaultStandardStreamsCallback (bug_shell T)) sock
                 use_shell_protocol)) (\<lambda>(exit_code, _).
               thenp (if raw_stdin then tos (stdin_raw T False) else ret ()) (ret exit_code))))))"

section \<open>\<^verbatim>\<open>adb shell\<close>\<close>

datatype PtyAllocationMode = kPtyAuto | kPtyNo | kPtyYes | kPtyDefinitely

record shell_opts =
  sho_escape_char :: char
  sho_use_shell_protocol :: bool
  sho_tty :: PtyAllocationMode

definition shell_optstring :: "char \<Rightarrow> bool option" where
  "shell_optstring c = (if c = CHR ''e'' then Some True
     else if c \<in> set ''ntTx'' then Some False else None)"

text \<open>One option; \<open>Inl\<close>: the value \<^verbatim>\<open>adb_shell\<close> returns. \<^verbatim>\<open>getopt\<close> has reported an unknown option itself.\<close>

definition shell_option ::
    "('w, 'x) tool_env_scheme \<Rightarrow> bool \<Rightarrow> getopt_result \<Rightarrow> shell_opts \<Rightarrow> ('w, int + shell_opts) hprog" where
  "shell_option T out r opts = (case r of
       Option c optarg \<Rightarrow>
         if c = CHR ''e'' then
           (let arg = the optarg in
            if length arg = 1 \<or> arg = ''none''
            then ret (Inr (opts\<lparr>sho_escape_char := (if arg = ''none'' then CHR 0x00 else hd arg)\<rparr>))
            else thenp (capture_to T out
              (''error: -e requires a single-character argument or '' @ quoted ''none'' @ newline)) (ret (Inl 1)))
         else if c = CHR ''n'' then thenp (tos (stdin_close T)) (ret (Inr opts))
         else if c = CHR ''x'' then ret (Inr (opts\<lparr>sho_use_shell_protocol := False,
           sho_tty := kPtyDefinitely, sho_escape_char := CHR ''~''\<rparr>))
         else if c = CHR ''t'' then ret (Inr (opts\<lparr>sho_tty :=
           (if sho_tty opts = kPtyYes \<or> sho_tty opts = kPtyDefinitely then kPtyDefinitely else kPtyYes)\<rparr>))
         else ret (Inr (opts\<lparr>sho_tty := kPtyNo\<rparr>))
     | _ \<Rightarrow> ret (Inl 1))"

text \<open>The type of shell to ask for.\<close>

definition shell_type ::
    "('w, 'x) tool_env_scheme \<Rightarrow> PtyAllocationMode \<Rightarrow> bool \<Rightarrow> ('w, string) hprog" where
  "shell_type T tty is_interactive =
     (let pty = kShellServiceArgPty T; raw = kShellServiceArgRaw T
      in case tty of
           kPtyNo \<Rightarrow> ret raw
         | kPtyAuto \<Rightarrow> bindp (tos (stdin_isatty T)) (\<lambda>isatty.
             ret (if \<not> isatty \<or> \<not> is_interactive then raw else pty))
         | kPtyYes \<Rightarrow> bindp (tos (stdin_isatty T)) (\<lambda>isatty.
             if isatty then ret pty
             else thenp (print_err (''Remote PTY will not be allocated because stdin is not a terminal.''
                 @ newline @ ''Use multiple -t options to force remote PTY allocation.'' @ newline)) (ret raw))
         | kPtyDefinitely \<Rightarrow> ret pty)"

definition open_shell ::
    "('w, 'x) tool_env_scheme \<Rightarrow> feature_set \<Rightarrow> shell_opts \<Rightarrow> string list \<Rightarrow> ('w, int) hprog" where
  "open_shell T features opts operands =
     bindp (shell_type T (sho_tty opts) (operands = [])) (\<lambda>type_arg.
       if \<not> sho_use_shell_protocol opts \<and> type_arg \<noteq> kShellServiceArgPty T then
         thenp (print_err (''error: '' @ (if can_use (tl_sync T) features kFeatureShell2 then ''-x'' else ''device'')
           @ '' only supports allocating a pty'' @ newline)) (ret 1)
       else let type_arg = (if sho_use_shell_protocol opts then type_arg else []);
                command = Join (tl_sync T) operands '' ''
         in RemoteShell T (sho_use_shell_protocol opts) type_arg (sho_escape_char opts) (command = [])
              (ShellServiceString (bug_shell T) (sho_use_shell_protocol opts) type_arg command))"

definition adb_shell ::
    "('w, 'x) tool_env_scheme \<Rightarrow> bool \<Rightarrow> string list \<Rightarrow> getopt_state \<Rightarrow> ('w, int \<times> getopt_state) hprog" where
  "adb_shell T out argv g =
     bindp (adb_get_feature_set_or_die T out) (\<lambda>fs. case fs of
         None \<Rightarrow> ret (1, g)
       | Some features \<Rightarrow>
           let shell2 = can_use (tl_sync T) features kFeatureShell2
           in bindp (getopt_loop shell_optstring argv (shell_option T out)
                \<lparr>sho_escape_char = CHR ''~'', sho_use_shell_protocol = shell2,
                  sho_tty = (if shell2 then kPtyAuto else kPtyDefinitely)\<rparr> (g\<lparr>optind := 1\<rparr>)) (\<lambda>(r, g).
              case r of
                Inl code \<Rightarrow> ret (code, g)
              | Inr opts \<Rightarrow> bindp (open_shell T features opts (drop (optind g) argv))
                  (\<lambda>code. ret (code, g))))"

definition adb_abb :: "('w, 'x) tool_env_scheme \<Rightarrow> string list \<Rightarrow> ('w, int) hprog" where
  "adb_abb T argv = bindp (device_can T kFeatureAbb) (\<lambda>abb.
     if \<not> abb then ret 1
     else null_out (RemoteShell T True (kShellServiceArgRaw T) CHR ''~'' False
       (''abb:'' @ Join (tl_sync T) (tl argv) (ABB_ARG_DELIMETER T))))"

text \<open>\<^verbatim>\<open>/dev/null\<close> becomes the standard input; \<^verbatim>\<open>CHECK_NE\<close> fails if it got that number already.\<close>

definition adb_shell_noinput ::
    "('w, 'x) tool_env_scheme \<Rightarrow> string list \<Rightarrow> getopt_state \<Rightarrow> ('w, int \<times> getopt_state) hprog" where
  "adb_shell_noinput T argv g = bindp (tsys (fd_open T ''/dev/null'')) (\<lambda>r.
     let null_fd = (case r of None \<Rightarrow> -1 | Some f \<Rightarrow> f)
     in if null_fd = 0 then abortp ''CHECK_NE(STDIN_FILENO, fd)''
        else thenp (tos (stdin_dup T null_fd))
          (with_fd T null_fd (null_out (adb_shell T False argv g))))"

end
