(* ===== verification/DeviceCommands.thy ===== *)
theory DeviceCommands
  imports ShellClient
begin

text \<open>
  The commands of \<^verbatim>\<open>client/commandline.cpp\<close> that talk to one service of the device: sideload and rescue,
  logcat, backup and restore, the plain connections with their callbacks, and the arguments of push
  and pull. Arguments are lists with the command's name first, as the code has them. Descriptors of the
  system are integers, 0 and 1 the standard input and output.
\<close>

definition warn_both :: "('w, 'x) tool_env_scheme \<Rightarrow> bool \<Rightarrow> string \<Rightarrow> ('w, unit) hprog" where
  "warn_both T out m = thenp (capture_to T out m) (print_err m)"

definition say_both :: "('w, 'x) tool_env_scheme \<Rightarrow> bool \<Rightarrow> string \<Rightarrow> ('w, unit) hprog" where
  "say_both T out m = thenp (capture_to T out m) (print_out m)"

text \<open>The error after a failed write: \<^verbatim>\<open>adb_status\<close> leaves it empty if the device says OKAY.\<close>

definition status_error :: "('w, 'x) tool_env_scheme \<Rightarrow> int \<Rightarrow> ('w, string) hprog" where
  "status_error T sock = bindp (tos (fd_status T sock))
     (\<lambda>r. ret (case r of Inl e \<Rightarrow> e | Inr _ \<Rightarrow> []))"

section \<open>Sideload\<close>

definition sending_text :: "string \<Rightarrow> int \<Rightarrow> int \<Rightarrow> string" where
  "sending_text filename left bytes = ''sending: '' @ quoted filename @ '' ''
     @ pad_left 4 CHR '' '' (show_int (100 - 100 * left div bytes)) @ ''%    '' @ [CHR 0x0D]"

fun legacy_chunks ::
    "('w, 'x) tool_env_scheme \<Rightarrow> nat \<Rightarrow> string \<Rightarrow> int \<Rightarrow> int \<Rightarrow> int \<Rightarrow> int \<Rightarrow> ('w, bool) hprog" where
  "legacy_chunks T 0 filename in_fd out_fd bytes left = nofuel"
| "legacy_chunks T (Suc fuel) filename in_fd out_fd bytes left =
     (if left \<le> 0 then ret True
      else let xfer = min (nat left) (CHUNK_SIZE T)
        in bindp (tsys (fd_read_exactly T in_fd xfer)) (\<lambda>r. case r of
            None \<Rightarrow> bindp (errno_text T) (\<lambda>e. thenp (print_err
              (''adb: failed to read data from '' @ filename @ '': '' @ e @ newline)) (ret False))
          | Some buf \<Rightarrow> bindp (tsys (fd_write_exactly T out_fd buf)) (\<lambda>w. case w of
                None \<Rightarrow> bindp (status_error T out_fd) (\<lambda>e. thenp (print_err
                  (''adb: failed to write data: '' @ c_str e @ newline)) (ret False))
              | Some _ \<Rightarrow> thenp (print_out (sending_text filename (left - int xfer) bytes))
                  (legacy_chunks T fuel filename in_fd out_fd bytes (left - int xfer)))))"

definition adb_sideload_legacy ::
    "('w, 'x) tool_env_scheme \<Rightarrow> string \<Rightarrow> int \<Rightarrow> int \<Rightarrow> ('w, int) hprog" where
  "adb_sideload_legacy T filename in_fd len =
     bindp (connect T (''sideload:'' @ show_int len)) (\<lambda>(out_fd, err).
       if out_fd < 0 then
         thenp (print_err (''adb: pre-KitKat sideload connection failed: '' @ c_str err @ newline))
           (with_fd T out_fd (ret (-1)))
       else with_fd T out_fd (thenp (tos (fd_send_buffer T out_fd (CHUNK_SIZE T)))
         (bindp (legacy_chunks T (Suc (nat len)) filename in_fd out_fd len len) (\<lambda>ok.
            if \<not> ok then ret (-1)
            else thenp (print_out newline) (bindp (tos (fd_status T out_fd)) (\<lambda>r. case r of
                Inl e \<Rightarrow> thenp (print_err (''adb: error response: '' @ c_str e @ newline)) (ret (-1))
              | Inr _ \<Rightarrow> ret 0))))))"

definition strtoll :: "string \<Rightarrow> int" where
  "strtoll s = (case scan_int s of None \<Rightarrow> 0 | Some (v, _) \<Rightarrow> max (- (2 ^ 63)) (min (2 ^ 63 - 1) v))"

definition serving_percent :: "int \<Rightarrow> int \<Rightarrow> int" where
  "serving_percent xfer len = to_int (xfer * 47 div (if len = 0 then 1 else len))"

text \<open>What the device asked for is served, or (\<open>Inl\<close>) the value to return.\<close>

definition serve_block ::
    "('w, 'x) tool_env_scheme \<Rightarrow> bool \<Rightarrow> int \<Rightarrow> int \<Rightarrow> int \<Rightarrow> int \<Rightarrow> ('w, int + nat) hprog" where
  "serve_block T out package_fd device_fd len block =
     (let offset = block * int (CHUNK_SIZE T)
      in if len \<le> offset then
           thenp (warn_both T out (''adb: failed to read block '' @ show_int block @ '' at offset ''
             @ show_int offset @ '', past end '' @ show_int len @ newline)) (ret (Inl (-1)))
         else let to_write = (if len < offset + int (CHUNK_SIZE T) then nat (len - offset) else CHUNK_SIZE T);
                  failed = (\<lambda>m m'. bindp (errno_text T) (\<lambda>e.
                    thenp (capture_to T out (''adb: failed to '' @ m @ '': '' @ e @ newline))
                    (thenp (print_err (''adb: failed to '' @ m' @ '': '' @ e @ newline)) (ret (Inl (-1))))))
           in bindp (tsys (fd_lseek T package_fd offset)) (\<lambda>pos.
             if pos \<noteq> Some offset then failed ''seek to block'' ''seek to package block''
             else bindp (tsys (fd_read_exactly T package_fd to_write)) (\<lambda>r. case r of
                 None \<Rightarrow> failed ''read package block'' ''read package block''
               | Some buf \<Rightarrow> bindp (tsys (fd_write_exactly T device_fd buf)) (\<lambda>w. case w of
                     None \<Rightarrow> bindp (status_error T device_fd) (\<lambda>e.
                       thenp (capture_to T out (''adb: failed to write data '' @ quoted (c_str e) @ newline))
                       (thenp (print_err (''adb: failed to write data '' @ quoted (c_str e) @ '' *'' @ newline))
                         (ret (Inl (-1)))))
                   | Some _ \<Rightarrow> ret (Inr to_write)))))"

definition total_xfer_text :: "('w, 'x) tool_env_scheme \<Rightarrow> string \<Rightarrow> int \<Rightarrow> int \<Rightarrow> string" where
  "total_xfer_text T filename xfer len = CHR 0x0D # ''Total xfer: ''
     @ fmt_ratio T xfer (if len = 0 then 1 else len) @ ''x''
     @ replicate (length filename + 10) CHR '' '' @ newline"

fun serve_loop ::
    "('w, 'x) tool_env_scheme \<Rightarrow> bool \<Rightarrow> string \<Rightarrow> int \<Rightarrow> int \<Rightarrow> int \<Rightarrow> nat \<Rightarrow> int \<Rightarrow> int \<Rightarrow> ('w, int) hprog" where
  "serve_loop T out filename package_fd device_fd len 0 xfer last_percent = nofuel"
| "serve_loop T out filename package_fd device_fd len (Suc fuel) xfer last_percent =
     bindp (tsys (fd_read_exactly T device_fd 8)) (\<lambda>r. case r of
         None \<Rightarrow> bindp (errno_text T) (\<lambda>e. thenp (warn_both T out
           (''adb: failed to read command: '' @ e @ newline)) (ret (-1)))
       | Some b \<Rightarrow>
           let buf = c_str b
           in if buf = ExitSuccess T \<or> buf = ExitFailure T then
                thenp (say_both T out (total_xfer_text T filename xfer len))
                  (ret (if buf = ExitFailure T then 1 else 0))
              else bindp (serve_block T out package_fd device_fd len (strtoll buf)) (\<lambda>r. case r of
                  Inl code \<Rightarrow> ret code
                | Inr n \<Rightarrow>
                    let xfer = xfer + int n; percent = serving_percent xfer len
                    in thenp (if percent \<noteq> last_percent
                              then say_both T out (CHR 0x0D # ''serving: '' @ quoted filename @ ''  (~''
                                @ show_int percent @ ''%)    '') else ret ())
                         (serve_loop T out filename package_fd device_fd len fuel xfer percent)))"

definition sideload_connected ::
    "('w, 'x) tool_env_scheme \<Rightarrow> bool \<Rightarrow> string \<Rightarrow> bool \<Rightarrow> int \<Rightarrow> int \<Rightarrow> ('w, int) hprog" where
  "sideload_connected T out filename rescue_mode len package_fd =
     bindp (connect T ((if rescue_mode then ''rescue-install'' else ''sideload-host'') @ '':''
              @ show_int len @ '':'' @ show_nat (CHUNK_SIZE T))) (\<lambda>(device_fd, err).
       if device_fd < 0 then with_fd T device_fd
         (thenp (warn_both T out (''adb: sideload connection failed: '' @ c_str err @ newline))
         (if rescue_mode \<or> 2 ^ 31 - 1 < len then ret (-1)
          else thenp (warn_both T out (''adb: trying pre-KitKat sideload method...'' @ newline))
            (adb_sideload_legacy T filename package_fd len)))
       else with_fd T device_fd (thenp (tos (fd_send_buffer T device_fd (CHUNK_SIZE T)))
         (serve_loop T out filename package_fd device_fd len (loop_fuel (tl_sync T)) 0 (-1))))"

definition adb_sideload_install ::
    "('w, 'x) tool_env_scheme \<Rightarrow> bool \<Rightarrow> string \<Rightarrow> bool \<Rightarrow> ('w, int) hprog" where
  "adb_sideload_install T out filename rescue_mode =
     (let failed = (\<lambda>what. bindp (errno_text T) (\<lambda>e. thenp (warn_both T out (''adb: failed to '' @ what
            @ '' file '' @ filename @ '': '' @ e @ newline)) (ret (-1))))
      in bindp (tsys (os_stat (tl_sync T) filename)) (\<lambda>r. case r of
           None \<Rightarrow> failed ''stat''
         | Some sb \<Rightarrow> bindp (tsys (fd_open T filename)) (\<lambda>r. case r of
               None \<Rightarrow> failed ''open''
             | Some package_fd \<Rightarrow> with_fd T package_fd
                 (sideload_connected T out filename rescue_mode (sint (st_size sb)) package_fd))))"

definition adb_wipe_devices :: "('w, 'x) tool_env_scheme \<Rightarrow> ('w, int) hprog" where
  "adb_wipe_devices T =
     (let n = length (ExitSuccess T)
      in bindp (connect T (''rescue-wipe:userdata:'' @ show_nat n)) (\<lambda>(sock, err).
           if sock < 0 then with_fd T sock
             (thenp (print_err (''adb: wipe device connection failed: '' @ c_str err @ newline)) (ret 1))
           else with_fd T sock (bindp (tsys (fd_read_exactly T sock n)) (\<lambda>r. case r of
               None \<Rightarrow> bindp (errno_text T) (\<lambda>e. thenp (print_err
                 (''adb: failed to read wipe result: '' @ e @ newline)) (ret 1))
             | Some message \<Rightarrow>
                 if message = ExitSuccess T then ret 0
                 else thenp (if message \<noteq> ExitFailure T then print_err
                     (''adb: got unexpected message from rescue wipe '' @ c_str message @ newline) else ret ())
                   (ret 1)))))"

section \<open>Logcat, backup, restore\<close>

definition logcat :: "('w, 'x) tool_env_scheme \<Rightarrow> string list \<Rightarrow> ('w, int) hprog" where
  "logcat T argv =
     (let tags = escape_arg (tl_sync T)
            (case env_getenv (tl_sync T) ''ANDROID_LOG_TAGS'' of None \<Rightarrow> [] | Some t \<Rightarrow> t)
      in shell_command T (''export ANDROID_LOG_TAGS='' @ CHR 0x22 # tags @ CHR 0x22 # ''; exec logcat''
           @ (if hd argv = ''longcat'' then '' -v long'' else []) @ escaped_args T (tl argv)))"

text \<open>The loop over the arguments stops with the first \<^verbatim>\<open>-f\<close>: the shift leaves its index at the end.\<close>

fun backup_file :: "string list \<Rightarrow> (string \<times> string list) option" where
  "backup_file [] = Some (''backup.ab'', [])"
| "backup_file (a # rest) =
     (if a = ''-f'' then (case rest of [] \<Rightarrow> None | f # others \<Rightarrow> Some (f, others))
      else map_option (\<lambda>(f, others). (f, a # others)) (backup_file rest))"

definition backup :: "('w, 'x) tool_env_scheme \<Rightarrow> string list \<Rightarrow> ('w, int) hprog" where
  "backup T argv =
     thenp (print_out (''WARNING: adb backup is deprecated and may be removed in a future release'' @ newline))
     (case backup_file (tl argv) of
        None \<Rightarrow> error_exit (bug_shell T) ''backup -f passed with no filename''
      | Some (filename, args) \<Rightarrow>
          if args = [] then
            error_exit (bug_shell T) ''backup either needs a list of packages or -all/-shared''
          else thenp (tos (os_unlink (tl_sync T) filename))
            (bindp (tsys (fd_creat T filename)) (\<lambda>r. case r of
               None \<Rightarrow> bindp (errno_text T) (\<lambda>e. thenp (print_err (''adb: backup unable to create file ''
                 @ quoted filename @ '': '' @ e @ newline)) (ret 1))
             | Some out_fd \<Rightarrow> with_fd T out_fd
                 (bindp (connect T (''backup:'' @ escaped_args T args)) (\<lambda>(sock, err).
                   if sock < 0 then with_fd T sock
                     (thenp (print_err (''adb: unable to connect for backup: '' @ c_str err @ newline)) (ret 1))
                   else with_fd T sock
                     (thenp (print_out (''Now unlock your device and confirm the backup operation...'' @ newline))
                     (thenp (copy_to_file T sock out_fd) (ret 0))))))))"

definition restore :: "('w, 'x) tool_env_scheme \<Rightarrow> string list \<Rightarrow> ('w, int) hprog" where
  "restore T argv =
     thenp (print_out (''WARNING: adb restore is deprecated and may be removed in a future release'' @ newline))
     (case argv of
        _ # filename # args \<Rightarrow> bindp (tsys (fd_open T filename)) (\<lambda>r. case r of
            None \<Rightarrow> bindp (errno_text T) (\<lambda>e. thenp (print_err (''adb: unable to open file '' @ filename
              @ '': '' @ e @ newline)) (ret (-1)))
          | Some tar_fd \<Rightarrow> with_fd T tar_fd
              (bindp (connect T (''restore:'' @ escaped_args T args)) (\<lambda>(sock, err).
                if sock < 0 then with_fd T sock
                  (thenp (print_err (''adb: unable to connect for restore: '' @ c_str err @ newline)) (ret (-1)))
                else with_fd T sock
                  (thenp (print_out (''Now unlock your device and confirm the restore operation.'' @ newline))
                  (thenp (copy_to_file T tar_fd sock)
                  (thenp (write_zeros T (512 * 2) sock)
                  (thenp (copy_to_file T sock 1) (ret 0))))))))
      | _ \<Rightarrow> error_exit (bug_shell T) ''usage: adb restore FILENAME [ARG]...'')"

section \<open>Arguments of push and pull\<close>

definition parse_compression_type ::
    "('w, 'x) tool_env_scheme \<Rightarrow> string \<Rightarrow> bool \<Rightarrow> ('w, CompressionType) hprog" where
  "parse_compression_type T str allow_numbers =
     (if allow_numbers \<and> str = ''0'' then ret CompNone
      else if allow_numbers \<and> str = ''1'' then ret CompAny
      else if str = ''any'' then ret CompAny
      else if str = ''none'' then ret CompNone
      else if str = ''brotli'' then ret Brotli
      else if str = ''lz4'' then ret LZ4
      else if str = ''zstd'' then ret Zstd
      else error_exit (bug_shell T) (''unexpected compression type '' @ c_str str))"

text \<open>\<open>pp_sync\<close> and \<open>pp_dry_run\<close> are \<open>None\<close> where the caller passes a null pointer.\<close>

record push_pull =
  pp_srcs :: "string list"
  pp_dst :: "string option"
  pp_copy_attrs :: bool
  pp_sync :: "bool option"
  pp_quiet :: bool
  pp_compression :: CompressionType
  pp_dry_run :: "bool option"

fun push_pull_args ::
    "('w, 'x) tool_env_scheme \<Rightarrow> bool \<Rightarrow> string list \<Rightarrow> push_pull \<Rightarrow> ('w, push_pull) hprog" where
  "push_pull_args T ignore_flags [] p = ret p"
| "push_pull_args T ignore_flags (arg # args) p =
     (if ignore_flags \<or> take 1 arg \<noteq> ''-'' then
        push_pull_args T ignore_flags args (p\<lparr>pp_srcs := pp_srcs p @ [arg]\<rparr>)
      else if arg = ''-p'' then push_pull_args T ignore_flags args p
      else if arg = ''-a'' then push_pull_args T ignore_flags args (p\<lparr>pp_copy_attrs := True\<rparr>)
      else if arg = ''-z'' then (case args of
          [] \<Rightarrow> error_exit (bug_shell T) ''-z requires an argument''
        | z # args' \<Rightarrow> bindp (parse_compression_type T z False) (\<lambda>c.
            push_pull_args T ignore_flags args' (p\<lparr>pp_compression := c\<rparr>)))
      else if arg = ''-Z'' then push_pull_args T ignore_flags args (p\<lparr>pp_compression := CompNone\<rparr>)
      else if pp_dry_run p \<noteq> None \<and> arg = ''-n'' then
        push_pull_args T ignore_flags args (p\<lparr>pp_dry_run := Some True\<rparr>)
      else if arg = ''--sync'' then
        push_pull_args T ignore_flags args (p\<lparr>pp_sync := map_option (\<lambda>_. True) (pp_sync p)\<rparr>)
      else if arg = ''-q'' then push_pull_args T ignore_flags args (p\<lparr>pp_quiet := True\<rparr>)
      else if arg = ''--'' then push_pull_args T True args p
      else error_exit (bug_shell T) (''unrecognized option '' @ quoted arg))"

definition env_compression ::
    "('w, 'x) tool_env_scheme \<Rightarrow> CompressionType \<Rightarrow> ('w, CompressionType) hprog" where
  "env_compression T compression = (case env_getenv (tl_sync T) ''ADB_COMPRESSION'' of
       None \<Rightarrow> ret compression | Some c \<Rightarrow> parse_compression_type T c True)"

definition parse_push_pull_args ::
    "('w, 'x) tool_env_scheme \<Rightarrow> string list \<Rightarrow> push_pull \<Rightarrow> ('w, push_pull) hprog" where
  "parse_push_pull_args T args p =
     bindp (env_compression T (pp_compression p)) (\<lambda>c.
     bindp (push_pull_args T False args (p\<lparr>pp_copy_attrs := False, pp_compression := c, pp_srcs := []\<rparr>)) (\<lambda>p.
       ret (if 1 < length (pp_srcs p)
            then p\<lparr>pp_dst := Some (last (pp_srcs p)), pp_srcs := butlast (pp_srcs p)\<rparr> else p)))"

section \<open>Plain connections\<close>

definition adb_connect_with ::
    "('w, 'x) tool_env_scheme \<Rightarrow> string \<Rightarrow> ('o, 'w) streams_cb \<Rightarrow> 'o \<Rightarrow> ('w, int) hprog" where
  "adb_connect_with T command CB ob = bindp (connect T command) (\<lambda>(sock, err).
     if sock < 0 then with_fd T sock (thenp (print_err (''error: '' @ c_str err @ newline)) (ret 1))
     else with_fd T sock (bindp (null_out (with_object ob
       (read_and_dump (bug_shell T) (loop_fuel (tl_sync T)) CB sock False))) (\<lambda>_. ret 0)))"

definition adb_connect_command :: "('w, 'x) tool_env_scheme \<Rightarrow> string \<Rightarrow> ('w, int) hprog" where
  "adb_connect_command T command = adb_connect_with T command
     (DefaultStandardStreamsCallback (bug_shell T)) (default_streams (bug_shell T))"

text \<open>Both callbacks leave the error stream to their base class.\<close>

definition plain_OnStderr :: "('w, 'x) tool_env_scheme \<Rightarrow> string \<Rightarrow> ('o, 'w, bool) oprog" where
  "plain_OnStderr T buffer = hostp (bindp (OnStream (bug_shell T) None True buffer False) (\<lambda>(ok, _). ret ok))"

definition to_stdout :: "('w, 'x) tool_env_scheme \<Rightarrow> string \<Rightarrow> ('o, 'w, bool) oprog" where
  "to_stdout T text = hostp (bindp (OnStream (bug_shell T) None False text False) (\<lambda>(ok, _). ret ok))"

definition server_state_Done :: "('w, 'x) tool_env_scheme \<Rightarrow> int \<Rightarrow> (string, 'w, int) oprog" where
  "server_state_Done T status = bindp (getp fst) (\<lambda>output.
     bindp (to_stdout T (if length output < 4 then output else server_status_text T (drop 4 output)))
       (\<lambda>ok. ret (if ok then 1 else 0)))"

definition AdbServerStateStreamsCallback :: "('w, 'x) tool_env_scheme \<Rightarrow> (string, 'w) streams_cb" where
  "AdbServerStateStreamsCallback T = \<lparr>OnStdout = \<lambda>buffer. thenp (modo (\<lambda>output. output @ buffer)) (ret True),
     OnStderr = plain_OnStderr T, cb_Done = server_state_Done T\<rparr>"

text \<open>The summary goes through a buffer of 24 bytes; \<^verbatim>\<open>snprintf\<close> returns the length it would need.\<close>

definition track_app_summary :: "int \<Rightarrow> string option" where
  "track_app_summary n =
     (let text = ''Process count: '' @ show_int n @ newline
      in if length text < 24 then Some text
         else if length text = 24 then Some (take 23 text @ [CHR 0x00]) else None)"

definition track_app_OnStdout :: "('w, 'x) tool_env_scheme \<Rightarrow> string \<Rightarrow> ('o, 'w, bool) oprog" where
  "track_app_OnStdout T buffer =
     (if length buffer < 4 then ret True
      else case track_app_text T (drop 4 buffer) of (n, text) \<Rightarrow>
        (case track_app_summary n of
           None \<Rightarrow> abortp ''read past summary''
         | Some summary \<Rightarrow> bindp (to_stdout T summary) (\<lambda>ok.
             if \<not> ok then ret False else to_stdout T text)))"

definition TrackAppStreamsCallback :: "('w, 'x) tool_env_scheme \<Rightarrow> ('o, 'w) streams_cb" where
  "TrackAppStreamsCallback T = \<lparr>OnStdout = track_app_OnStdout T, OnStderr = plain_OnStderr T,
     cb_Done = \<lambda>status. ret status\<rparr>"

text \<open>One round of a forwarding thread; \<open>False\<close>: the thread is over. The exit ends the process.\<close>

definition forward_round ::
    "('w, 'x) tool_env_scheme \<Rightarrow> int \<Rightarrow> int \<Rightarrow> bool \<Rightarrow> ('w, bool) hprog" where
  "forward_round T src sink exit_on_end = bindp (tsys (fd_read T src 4096)) (\<lambda>r. case r of
       None \<Rightarrow> perror_exit (bug_shell T) ''read failed''
     | Some buf \<Rightarrow>
         if buf = [] then
           (if exit_on_end then exitp 0 else thenp (tos (fd_shutdown_write T sink)) (ret False))
         else bindp (tsys (fd_write_exactly T sink buf)) (\<lambda>w. case w of
             None \<Rightarrow> perror_exit (bug_shell T) ''write failed'' | Some _ \<Rightarrow> ret True))"

text \<open>The two threads take rounds in the order of \<open>thread_schedule\<close>; the first ends only with the process.\<close>

fun forward_both :: "('w, 'x) tool_env_scheme \<Rightarrow> nat \<Rightarrow> int \<Rightarrow> bool \<Rightarrow> ('w, int) hprog" where
  "forward_both T 0 sock writing = nofuel"
| "forward_both T (Suc fuel) sock writing =
     (if writing \<and> thread_schedule T fuel
      then bindp (forward_round T 0 sock False) (forward_both T fuel sock)
      else bindp (forward_round T sock 1 True) (\<lambda>_. forward_both T fuel sock writing))"

definition adb_connect_command_bidirectional :: "('w, 'x) tool_env_scheme \<Rightarrow> string \<Rightarrow> ('w, int) hprog" where
  "adb_connect_command_bidirectional T command = bindp (connect T command) (\<lambda>(sock, err).
     if sock < 0 then with_fd T sock (thenp (print_err (''error: '' @ c_str err @ newline)) (ret 1))
     else with_fd T sock (forward_both T (loop_fuel (tl_sync T)) sock True))"

section \<open>Helpers of the dispatcher\<close>

definition process_remount_or_verity_service ::
    "('w, 'x) tool_env_scheme \<Rightarrow> string list \<Rightarrow> getopt_state \<Rightarrow> ('w, int \<times> getopt_state) hprog" where
  "process_remount_or_verity_service T argv g =
     bindp (device_can T kFeatureRemountShell) (\<lambda>remount.
       if remount then adb_shell_noinput T (''shell'' # argv) g
       else bindp (adb_connect_command T (case argv of
           cmd # arg # _ \<Rightarrow> cmd @ '':'' @ arg | _ \<Rightarrow> hd argv @ '':'')) (\<lambda>r. ret (r, g)))"

definition is_valid_ack_reply_fd :: "int \<Rightarrow> bool" where
  "is_valid_ack_reply_fd ack_reply_fd \<longleftrightarrow> 2 < ack_reply_fd"

definition is_valid_os_fd :: "('w, 'x) tool_env_scheme \<Rightarrow> int \<Rightarrow> ('w, bool) hprog" where
  "is_valid_os_fd T sock = (if sock < 3 then ret False else tos (fd_is_open T sock))"

text \<open>\<open>Some\<close>: the error.\<close>

definition forward_dest_is_featured ::
    "('w, 'x) tool_env_scheme \<Rightarrow> string \<Rightarrow> ('w, string option) hprog" where
  "forward_dest_is_featured T dest =
     bindp (adb_get_feature_set_or_die T False) (\<lambda>features.
       if StartsWith (tl_sync T) dest ''dev-raw:'' then
         bindp (deref_can_use T features kFeatureDevRaw) (\<lambda>ok.
           ret (if ok then None else Some ''dev-raw is not supported by the device''))
       else ret None)"

end
