(* ===== verification/Commandline.thy ===== *)
theory Commandline
  imports AdbClient InstallSessions DeviceCommands
begin

text \<open>
  \<^verbatim>\<open>adb_commandline\<close> (\<^verbatim>\<open>client/commandline.cpp\<close>): the global options, the address of the server, and the
  dispatch to the commands. The world of the commands is the \<open>client\<close> of \<open>AdbClient\<close>, whose
  operations run inside as \<open>clp\<close>; \<open>linked\<close> makes the environment of every command use them. \<open>out\<close> is true:
  the caller's capture pointers are passed on (null pointers capture nothing). The text of \<^verbatim>\<open>help\<close>, the
  emulator console, key generation, the server's main function and the incremental server are fields.
\<close>

record 'v cmd_env = "('v client) tool_env" +
  cm_client :: "'v client_env"
  DEFAULT_ADB_PORT :: int
  ParseIntRange :: "string \<Rightarrow> int \<Rightarrow> int \<Rightarrow> int option"
  adb_version :: string
  help_text :: string
  uninit_bytes :: string
  read_line :: "'v client \<Rightarrow> string option \<times> 'v client"
  send_emulator_command :: "string list \<Rightarrow> string option \<Rightarrow> 'v client \<Rightarrow> int \<times> 'v client"
  auth_keygen :: "string \<Rightarrow> 'v client \<Rightarrow> int \<times> 'v client"
  auth_pubkey :: "string \<Rightarrow> 'v client \<Rightarrow> int \<times> 'v client"
  adb_server_main :: "bool \<Rightarrow> string \<Rightarrow> string option \<Rightarrow> int \<Rightarrow> 'v client \<Rightarrow> int \<times> 'v client"
  register_socket :: "int \<Rightarrow> 'v client \<Rightarrow> int \<times> 'v client"
  inc_serve :: "int \<Rightarrow> int \<Rightarrow> string list \<Rightarrow> 'v client \<Rightarrow> int \<times> 'v client"

type_synonym ('v, 'a) cmdprog = "('v client, 'a) hprog"

definition clp :: "('v, 'a) cl \<Rightarrow> ('v, 'a) cmdprog" where
  "clp m = tos (run_state m)"

definition status_result :: "'v client_env \<Rightarrow> int \<Rightarrow> ('v, string + unit) cl" where
  "status_result C sock = do {
     (ok, e) \<leftarrow> adb_status C sock [];
     State_Monad.return (if ok then Inr () else Inl e) }"

definition linked :: "('v, 'x) cmd_env_scheme \<Rightarrow> bool \<Rightarrow> ('v, 'x) cmd_env_scheme" where
  "linked T return_errors =
     T\<lparr>bug_shell := (link_shell (cm_client T) (bug_shell T))\<lparr>sh_return_errors := return_errors\<rparr>,
       fd_status := (\<lambda>sock. run_state (status_result (cm_client T) sock))\<rparr>"

definition captured_fail :: "('v, 'x) cmd_env_scheme \<Rightarrow> string \<Rightarrow> ('v, int) cmdprog" where
  "captured_fail T m = thenp (capture_to T True (m @ newline)) (ret 1)"

section \<open>Global options\<close>

record cmd_opts =
  co_no_daemon :: bool
  co_is_daemon :: bool
  co_is_server :: bool
  co_ack_reply_fd :: int
  co_transport :: TransportType
  co_serial :: "string option"
  co_transport_id :: u64
  co_host :: "string option"
  co_port :: "string option"
  co_socket :: "string option"
  co_one_device :: "string option"
  co_listen_all :: bool
  co_return_errors :: bool

definition no_opts :: cmd_opts where
  "no_opts = \<lparr>co_no_daemon = False, co_is_daemon = False, co_is_server = False, co_ack_reply_fd = -1,
     co_transport = kTransportAny, co_serial = None, co_transport_id = 0, co_host = None, co_port = None,
     co_socket = None, co_one_device = None, co_listen_all = False, co_return_errors = False\<rparr>"

text \<open>The value of an option: what follows its letter, or the next argument. \<open>with_digit\<close>: the value may
  only be glued to the letter if it starts with a digit.\<close>

definition opt_value :: "string \<Rightarrow> string list \<Rightarrow> bool \<Rightarrow> (string \<times> string list) option" where
  "opt_value arg rest with_digit =
     (if (if with_digit then 2 < length arg \<and> is_digit (arg ! 2) else 2 < length arg)
      then Some (drop 2 arg, rest)
      else if 2 < length arg then None
      else case rest of [] \<Rightarrow> None | v # rest \<Rightarrow> Some (v, rest))"

text \<open>\<^verbatim>\<open>strtoll(id, &id, 10)\<close> must read the whole argument.\<close>

definition parse_transport_id :: "string \<Rightarrow> u64 option" where
  "parse_transport_id s = (case scan_int s of
       None \<Rightarrow> if s = [] then Some 0 else None
     | Some (v, rest) \<Rightarrow>
         if rest = [] then Some (word_of_int (max (- (2 ^ 63)) (min (2 ^ 63 - 1) v))) else None)"

text \<open>The first word that is no option starts the command. The error is the captured text, and whether it
  is printed to \<^verbatim>\<open>stderr\<close> too.\<close>

function parse_globals ::
    "string list \<Rightarrow> cmd_opts \<Rightarrow> cmd_opts \<times> ((bool \<times> string) + string list)" where
  "parse_globals [] opts = (opts, Inr [])"
| "parse_globals (arg # rest) opts =
     (let needs = (\<lambda>opt. (opts, Inl (False, opt @ '' requires an argument'' @ newline)))
      in if arg = ''server'' then parse_globals rest (opts\<lparr>co_is_server := True\<rparr>)
         else if arg = ''nodaemon'' then parse_globals rest (opts\<lparr>co_no_daemon := True\<rparr>)
         else if arg = ''fork-server'' then parse_globals rest (opts\<lparr>co_is_daemon := True\<rparr>)
         else if arg = ''--reply-fd'' then (case rest of
             [] \<Rightarrow> needs ''--reply-fd''
           | v # rest' \<Rightarrow>
               if is_valid_ack_reply_fd (strtol_int v)
               then parse_globals rest' (opts\<lparr>co_ack_reply_fd := strtol_int v\<rparr>)
               else (opts\<lparr>co_ack_reply_fd := strtol_int v\<rparr>,
                     Inl (True, ''adb: invalid reply fd '' @ double_quoted v @ newline)))
         else if arg = ''--one-device'' then (case rest of
             [] \<Rightarrow> needs ''--one-device''
           | v # rest' \<Rightarrow> parse_globals rest' (opts\<lparr>co_one_device := Some v\<rparr>))
         else if prefix ''-s'' arg then (case opt_value arg rest True of
             None \<Rightarrow> needs ''-s''
           | Some (v, rest') \<Rightarrow> parse_globals rest' (opts\<lparr>co_serial := Some v\<rparr>))
         else if prefix ''-t'' arg then (case opt_value arg rest True of
             None \<Rightarrow> needs ''-t''
           | Some (v, rest') \<Rightarrow> (case parse_transport_id v of
                 None \<Rightarrow> (opts, Inl (False, ''invalid transport id'' @ newline))
               | Some i \<Rightarrow> parse_globals rest' (opts\<lparr>co_transport_id := i\<rparr>)))
         else if arg = ''-d'' then parse_globals rest (opts\<lparr>co_transport := kTransportUsb\<rparr>)
         else if arg = ''-e'' then parse_globals rest (opts\<lparr>co_transport := kTransportLocal\<rparr>)
         else if arg = ''-a'' then parse_globals rest (opts\<lparr>co_listen_all := True\<rparr>)
         else if prefix ''-H'' arg then (case opt_value arg rest False of
             None \<Rightarrow> needs ''-H''
           | Some (v, rest') \<Rightarrow> parse_globals rest' (opts\<lparr>co_host := Some v\<rparr>))
         else if prefix ''-P'' arg then (case opt_value arg rest False of
             None \<Rightarrow> needs ''-P''
           | Some (v, rest') \<Rightarrow> parse_globals rest' (opts\<lparr>co_port := Some v\<rparr>))
         else if arg = ''-L'' then (case rest of
             [] \<Rightarrow> needs ''-L''
           | v # rest' \<Rightarrow> parse_globals rest' (opts\<lparr>co_socket := Some v\<rparr>))
         else if arg = ''--exit-on-write-error''
         then parse_globals rest (opts\<lparr>co_return_errors := True\<rparr>)
         else (opts, Inr (arg # rest)))"
  by pat_completeness auto
termination
  by (relation "measure (length \<circ> fst)") (auto simp: opt_value_def split: if_splits list.splits)

text \<open>The address of the server: \<^verbatim>\<open>-L\<close>, or \<^verbatim>\<open>-H\<close> and \<^verbatim>\<open>-P\<close>, or the environment. \<open>Inl\<close>: the error.\<close>

definition first_of :: "string option \<Rightarrow> string option \<Rightarrow> string option" where
  "first_of a b = (case a of None \<Rightarrow> b | Some x \<Rightarrow> Some x)"

definition server_port :: "('v, 'x) cmd_env_scheme \<Rightarrow> string option \<Rightarrow> string + int" where
  "server_port T port = (case first_of port (env_getenv (tl_sync T) ''ANDROID_ADB_SERVER_PORT'') of
       None \<Rightarrow> Inr (DEFAULT_ADB_PORT T)
     | Some p \<Rightarrow>
         if p = [] then Inr (DEFAULT_ADB_PORT T)
         else (case ParseIntRange T p 1 65535 of
             None \<Rightarrow> Inl (''$ANDROID_ADB_SERVER_PORT must be a positive number less than 65535: got ''
               @ double_quoted p)
           | Some n \<Rightarrow> Inr n))"

definition server_socket :: "('v, 'x) cmd_env_scheme \<Rightarrow> cmd_opts \<Rightarrow> string + string" where
  "server_socket T opts =
     (if (co_host opts \<noteq> None \<or> co_port opts \<noteq> None) \<and> co_socket opts \<noteq> None
      then Inl ''-L is incompatible with -H or -P''
      else case (if co_host opts = None \<and> co_port opts = None
                 then first_of (co_socket opts) (env_getenv (tl_sync T) ''ADB_SERVER_SOCKET'')
                 else co_socket opts) of
          Some s \<Rightarrow> Inr s
        | None \<Rightarrow> (case server_port T (co_port opts) of
              Inl e \<Rightarrow> Inl e
            | Inr port \<Rightarrow> Inr (case first_of (co_host opts)
                  (env_getenv (tl_sync T) ''ANDROID_ADB_SERVER_ADDRESS'') of
                None \<Rightarrow> ''tcp:'' @ show_int port
              | Some host \<Rightarrow> ''tcp:'' @ host @ '':'' @ show_int port)))"

section \<open>Waiting and root\<close>

fun root_output :: "('v, 'x) cmd_env_scheme \<Rightarrow> nat \<Rightarrow> int \<Rightarrow> nat \<Rightarrow> string \<Rightarrow> ('v, string option) cmdprog" where
  "root_output T 0 sock left buf = nofuel"
| "root_output T (Suc fuel) sock left buf =
     (if left = 0 then ret (Some buf)
      else bindp (tsys (fd_read T sock left)) (\<lambda>r. case r of
          None \<Rightarrow> ret None
        | Some b \<Rightarrow> if b = [] then ret (Some buf)
            else root_output T fuel sock (left - length b) (buf @ b)))"

definition root_buffer :: nat where "root_buffer = 256"

text \<open>After the restart of the device's daemon: away, and back, unless a transport id was selected.\<close>

definition wait_for_restart :: "('v, 'x) client_env_scheme \<Rightarrow> u64 \<Rightarrow> ('v, bool) cl" where
  "wait_for_restart C tid = do {
     (previous_type, previous_serial, previous_id) \<leftarrow> adb_get_transport;
     adb_set_transport kTransportAny None tid;
     wait_for_device C ''wait-for-disconnect'' None;
     (if previous_id = 0 then do {
        adb_set_transport previous_type previous_serial 0;
        wait_for_device C ''wait-for-device'' (Some 12000);
        State_Monad.return ()
      } else State_Monad.return ());
     State_Monad.return True
   }"

definition adb_root :: "('v, 'x) cmd_env_scheme \<Rightarrow> string \<Rightarrow> ('v, bool) cmdprog" where
  "adb_root T command =
     bindp (clp (adb_connect (cm_client T) (command @ '':'') False)) (\<lambda>(sock, tid, err).
       with_fd T sock
         (if sock < 0 then thenp (print_err (''adb: unable to connect for '' @ command @ '': '' @ c_str err
              @ newline)) (ret False)
          else bindp (root_output T (loop_fuel (tl_sync T)) sock root_buffer []) (\<lambda>r. case r of
              None \<Rightarrow> bindp (errno_text T) (\<lambda>e. thenp (print_err
                (''adb: error while reading for '' @ command @ '': '' @ e @ newline)) (ret False))
            | Some buf \<Rightarrow>
                if length buf = root_buffer then thenp (print_err
                  (''adb: unexpected output length for '' @ command @ newline)) (ret False)
                else thenp (fwrite_stream (bug_shell T) False buf)
                  (if buf \<noteq> [] \<and> \<not> sublist ''restarting''
                        (c_str (buf @ take (root_buffer - length buf) (uninit_bytes T)))
                   then ret True
                   else case tid of None \<Rightarrow> abortp ''transport_id'' | Some tid \<Rightarrow>
                     clp (wait_for_restart (cm_client T) tid)))))"

end
