(* ===== verification/Dispatch.thy ===== *)
theory Dispatch
  imports Commandline
begin

text \<open>
  The dispatcher of \<^verbatim>\<open>adb_commandline\<close>: one definition per group of commands, then the chain of
  comparisons with the command's name. \<open>T\<close> is the environment with the client linked in. A branch of the
  chain that returns nothing falls through to the unknown command.
\<close>

definition unknown_command :: "('v, 'x) cmd_env_scheme \<Rightarrow> string \<Rightarrow> ('v, int) cmdprog" where
  "unknown_command T cmd = captured_fail T (''unknown command '' @ cmd)"

definition say_line :: "('v, 'x) cmd_env_scheme \<Rightarrow> string \<Rightarrow> ('v, unit) cmdprog" where
  "say_line T m = thenp (print_out (m @ newline)) (capture_to T True (m @ newline))"

definition adb_query_command :: "('v, 'x) cmd_env_scheme \<Rightarrow> string \<Rightarrow> ('v, int) cmdprog" where
  "adb_query_command T command = bindp (clp (adb_query (cm_client T) command False)) (\<lambda>r. case r of
       Inl e \<Rightarrow> thenp (print_err (''error: '' @ c_str e @ newline)) (ret 1)
     | Inr result \<Rightarrow> thenp (capture_to T True (c_str result @ newline)) (ret 0))"

text \<open>\<open>adb_query_command(format_host_command(argv[0]))\<close>\<close>

definition host_query_command :: "('v, 'x) cmd_env_scheme \<Rightarrow> string \<Rightarrow> ('v, int) cmdprog" where
  "host_query_command T command =
     bindp (clp (gets (\<lambda>s. format_host_command s command))) (adb_query_command T)"

definition version_checked :: "('v, 'x) cmd_env_scheme \<Rightarrow> ('v, int) cmdprog \<Rightarrow> ('v, int) cmdprog" where
  "version_checked T m = bindp (clp (adb_check_server_version (cm_client T))) (\<lambda>(ok, e).
     if ok then m else captured_fail T (''failed to check server version: '' @ c_str e))"

text \<open>\<open>with_getopt\<close> runs a command on the process's \<^verbatim>\<open>getopt\<close> variables.\<close>

definition with_getopt ::
    "(getopt_state \<Rightarrow> ('v, 'a \<times> getopt_state) cmdprog) \<Rightarrow> ('v, 'a) cmdprog" where
  "with_getopt m = bindp (clp (gets cl_getopt)) (\<lambda>g. bindp (m g) (\<lambda>(r, g).
     thenp (clp (modify (\<lambda>s. s\<lparr>cl_getopt := g\<rparr>))) (ret r)))"

section \<open>Commands of the server\<close>

definition cmd_devices :: "('v, 'x) cmd_env_scheme \<Rightarrow> string list \<Rightarrow> ('v, int) cmdprog" where
  "cmd_devices T argv =
     (if length argv < 2 \<or> length argv = 2 \<and> argv ! 1 = ''-l'' then
        version_checked T (thenp (say_line T ''List of devices attached'')
          (adb_query_command T (''host:'' @ hd argv @ (if length argv < 2 then [] else argv ! 1))))
      else captured_fail T ''adb devices [-l]'')"

definition cmd_transport_id :: "('v, 'x) cmd_env_scheme \<Rightarrow> ('v, int) cmdprog" where
  "cmd_transport_id T =
     bindp (clp (adb_connect (cm_client T) ''host:features'' True)) (\<lambda>(sock, tid, err).
       with_fd T sock (if sock = -1 then captured_fail T (c_str err)
         else case tid of None \<Rightarrow> abortp ''transport_id''
            | Some tid \<Rightarrow> thenp (say_line T (show_nat (unat tid))) (ret 0)))"

definition cmd_connect :: "('v, 'x) cmd_env_scheme \<Rightarrow> string list \<Rightarrow> ('v, int) cmdprog" where
  "cmd_connect T argv = (case argv of
       [_, host] \<Rightarrow> adb_query_command T (''host:connect:'' @ host)
     | _ \<Rightarrow> captured_fail T ''usage: adb connect HOST[:PORT]'')"

definition cmd_disconnect :: "('v, 'x) cmd_env_scheme \<Rightarrow> string list \<Rightarrow> ('v, int) cmdprog" where
  "cmd_disconnect T argv =
     (if 2 < length argv then captured_fail T ''usage: adb disconnect [HOST[:PORT]]''
      else adb_query_command T (''host:disconnect:'' @ (if length argv = 2 then argv ! 1 else [])))"

definition cmd_pair :: "('v, 'x) cmd_env_scheme \<Rightarrow> string list \<Rightarrow> ('v, int) cmdprog" where
  "cmd_pair T argv =
     (if length argv < 2 \<or> 3 < length argv
      then error_exit (bug_shell T) ''usage: adb pair HOST[:PORT] [PAIRING CODE]''
      else bindp (if length argv = 2 then
             thenp (say_both T True ''Enter pairing code: '') (tos (read_line T))
           else ret (Some (argv ! 2))) (\<lambda>password. case password of
             None \<Rightarrow> captured_fail T ''No pairing code provided''
           | Some p \<Rightarrow>
               if p = [] \<and> length argv = 2 then captured_fail T ''No pairing code provided''
               else adb_query_command T (''host:pair:'' @ c_str p @ '':'' @ argv ! 1)))"

definition cmd_exec :: "('v, 'x) cmd_env_scheme \<Rightarrow> string list \<Rightarrow> ('v, int) cmdprog" where
  "cmd_exec T argv = (case argv of
       name # cmd # args \<Rightarrow>
         bindp (connect T (''exec:'' @ cmd @ escaped_args T args)) (\<lambda>(sock, err).
           with_fd T sock
             (if sock < 0 then thenp (print_err (''error: '' @ c_str err @ newline))
                (thenp (capture_to T True (''error: '' @ c_str err @ newline)) (ret (-1)))
              else thenp (if name = ''exec-in'' then copy_to_file T 0 sock else copy_to_file T sock 1) (ret 0)))
     | _ \<Rightarrow> captured_fail T (''usage: adb '' @ hd argv @ '' command''))"

definition cmd_start_server :: "('v, 'x) cmd_env_scheme \<Rightarrow> ('v, int) cmdprog" where
  "cmd_start_server T = bindp (connect T ''host:start-server'') (\<lambda>(result, err).
     thenp (if result < 0 then warn_both T True (''error: '' @ c_str err @ newline) else ret ()) (ret result))"

definition cmd_mdns :: "('v, 'x) cmd_env_scheme \<Rightarrow> string list \<Rightarrow> ('v, int) cmdprog" where
  "cmd_mdns T argv = (case argv of
       _ # sub # more_args \<Rightarrow> version_checked T
         (if sub \<notin> {''check'', ''services''} then captured_fail T (''unknown mdns command ['' @ sub @ '']'')
          else if more_args \<noteq> [] then captured_fail T (''mdns '' @ sub @ '' doesn't take any arguments'')
          else thenp (if sub = ''services'' then say_line T ''List of discovered mdns services'' else ret ())
            (adb_query_command T (''host:mdns:'' @ sub)))
     | _ \<Rightarrow> captured_fail T ''mdns requires an argument'')"

definition cmd_attach :: "('v, 'x) cmd_env_scheme \<Rightarrow> string \<Rightarrow> ('v, int) cmdprog" where
  "cmd_attach T name = bindp (clp (adb_query (cm_client T)
       (if name = ''attach'' then ''host:attach'' else ''host:detach'') True)) (\<lambda>r. case r of
     Inl e \<Rightarrow> captured_fail T (''failed to '' @ name @ '': '' @ c_str e)
   | Inr result \<Rightarrow> thenp (say_line T (c_str result)) (ret 0))"

section \<open>Forwarding\<close>

text \<open>The request of \<^verbatim>\<open>forward\<close> and \<^verbatim>\<open>reverse\<close>: \<open>Inl\<close> the captured failure, or the command and the error
  of its check.\<close>

definition forward_check ::
    "('v, 'x) cmd_env_scheme \<Rightarrow> string \<Rightarrow> string \<Rightarrow> string \<Rightarrow> ('v, string + (string \<times> string)) cmdprog" where
  "forward_check T verb from_spec to_spec = (case forward_targets_are_valid T from_spec to_spec of
       Some e \<Rightarrow> ret (Inr ([], e))
     | None \<Rightarrow> bindp (forward_dest_is_featured T to_spec) (\<lambda>r. case r of
           Some e \<Rightarrow> ret (Inr ([], e))
         | None \<Rightarrow> ret (Inr (verb @ from_spec @ '';'' @ to_spec, []))))"

definition forward_request ::
    "('v, 'x) cmd_env_scheme \<Rightarrow> string list \<Rightarrow> ('v, string + (string \<times> string)) cmdprog" where
  "forward_request T args =
     (if hd args = ''--remove-all'' then
        ret (if length args = 1 then Inr (''killforward-all'', [])
             else Inl ''--remove-all doesn't take any arguments'')
      else if hd args = ''--remove'' then
        ret (if length args = 2 then Inr (''killforward:'' @ args ! 1, [])
             else Inl ''--remove requires an argument'')
      else if hd args = ''--no-rebind'' then
        (if length args = 3 then forward_check T ''forward:norebind:'' (args ! 1) (args ! 2)
         else ret (Inl ''--no-rebind takes two arguments''))
      else if length args = 2 then forward_check T ''forward:'' (args ! 0) (args ! 1)
      else ret (Inl ''forward takes two arguments''))"

definition send_forward :: "('v, 'x) cmd_env_scheme \<Rightarrow> string \<Rightarrow> ('v, int) cmdprog" where
  "send_forward T request =
     bindp (clp (adb_connect (cm_client T) request True)) (\<lambda>(sock, _, err).
       with_fd T sock
         (bindp (if sock < 0 then ret (False, err) else clp (adb_status (cm_client T) sock err)) (\<lambda>(ok, err).
            if \<not> ok then captured_fail T (''error: '' @ c_str err)
            else bindp (clp (wop (cl_read_protocol (cm_client T) sock))) (\<lambda>r.
              thenp (case r of Inl _ \<Rightarrow> ret ()
                | Inr resolved_port \<Rightarrow>
                    if resolved_port = [] then ret () else say_line T (c_str resolved_port))
              (thenp (clp (wop (cl_read_shutdown (cm_client T) sock))) (ret 0))))))"

definition cmd_forward :: "('v, 'x) cmd_env_scheme \<Rightarrow> string list \<Rightarrow> ('v, int) cmdprog" where
  "cmd_forward T argv = (case argv of
       name # arg # args \<Rightarrow>
         let host_prefix = (if name = ''reverse'' then ''reverse:'' else ''host:'')
         in if arg = ''--list'' then
              (if args \<noteq> [] then captured_fail T ''--list doesn't take any arguments''
               else adb_query_command T (host_prefix @ ''list-forward''))
            else bindp (forward_request T (arg # args)) (\<lambda>r. case r of
                Inl m \<Rightarrow> captured_fail T m
              | Inr (cmd, error_message) \<Rightarrow>
                  if error_message \<noteq> [] then captured_fail T (''error: '' @ c_str error_message)
                  else send_forward T (host_prefix @ cmd))
     | _ \<Rightarrow> captured_fail T (hd argv @ '' requires an argument''))"

section \<open>Commands of the device\<close>

definition cmd_sideload :: "('v, 'x) cmd_env_scheme \<Rightarrow> string list \<Rightarrow> ('v, int) cmdprog" where
  "cmd_sideload T argv = (case argv of
       [_, filename] \<Rightarrow> bindp (adb_sideload_install T True filename False) (\<lambda>r. ret (if r \<noteq> 0 then 1 else 0))
     | _ \<Rightarrow> captured_fail T ''sideload requires an argument'')"

definition cmd_rescue :: "('v, 'x) cmd_env_scheme \<Rightarrow> string list \<Rightarrow> ('v, int) cmdprog" where
  "cmd_rescue T argv =
     (if length argv < 2 then captured_fail T ''rescue requires at least one argument''
      else if argv ! 1 = ''getprop'' then
        (if length argv = 2 then adb_connect_command T ''rescue-getprop:''
         else if length argv = 3 then adb_connect_command T (''rescue-getprop:'' @ argv ! 2)
         else captured_fail T ''invalid rescue getprop arguments'')
      else if argv ! 1 = ''install'' then
        (if length argv \<noteq> 3 then captured_fail T ''rescue install requires two arguments''
         else bindp (adb_sideload_install T True (argv ! 2) True) (\<lambda>r. ret (if r \<noteq> 0 then 1 else 0)))
      else if argv ! 1 = ''wipe'' then
        (if length argv \<noteq> 3 \<or> argv ! 2 \<noteq> ''userdata'' then captured_fail T ''invalid rescue wipe arguments''
         else adb_wipe_devices T)
      else captured_fail T ''invalid rescue argument'')"

definition cmd_tcpip :: "('v, 'x) cmd_env_scheme \<Rightarrow> string list \<Rightarrow> ('v, int) cmdprog" where
  "cmd_tcpip T argv = (case argv of
       [_, arg] \<Rightarrow> (case ParseIntRange T arg 1 65535 of
           None \<Rightarrow> captured_fail T (''tcpip: invalid port: '' @ arg)
         | Some port \<Rightarrow> adb_connect_command T (''tcpip:'' @ show_int port))
     | _ \<Rightarrow> captured_fail T ''tcpip requires an argument'')"

definition cmd_reboot :: "('v, 'x) cmd_env_scheme \<Rightarrow> string list \<Rightarrow> ('v, int) cmdprog" where
  "cmd_reboot T argv = adb_connect_command T
     (if hd argv = ''reboot-bootloader'' then ''reboot:bootloader''
      else if hd argv = ''reboot-fastboot'' then ''reboot:fastboot''
      else hd argv @ '':'' @ (if 1 < length argv then argv ! 1 else []))"

definition cmd_track_app :: "('v, 'x) cmd_env_scheme \<Rightarrow> string list \<Rightarrow> ('v, int) cmdprog" where
  "cmd_track_app T argv =
     bindp (adb_get_feature_set_or_die T True) (\<lambda>features.
     bindp (deref_can_use T features kFeatureTrackApp) (\<lambda>supported.
       let text = adb_connect_with T ''track-app'' (TrackAppStreamsCallback T) ()
       in if \<not> supported then captured_fail T ''track-app is not supported by the device''
          else if length argv = 1 then text
          else if length argv = 2 then
            (if argv ! 1 = ''--proto-binary'' then adb_connect_command T ''track-app''
             else if argv ! 1 = ''--proto-text'' then text
             else unknown_command T (hd argv))
          else captured_fail T ''usage: adb track-app [--proto-binary][--proto-text]''))"

definition cmd_track_devices :: "('v, 'x) cmd_env_scheme \<Rightarrow> string list \<Rightarrow> ('v, int) cmdprog" where
  "cmd_track_devices T argv =
     (let track = (\<lambda>opt. adb_connect_command T (''host:track-devices'' @ opt))
      in if length argv < 2 then track []
         else if argv ! 1 = ''-l'' then track ''-l''
         else if argv ! 1 = ''--proto-text'' then track ''-proto-text''
         else if argv ! 1 = ''--proto-binary'' then track ''-proto-binary''
         else captured_fail T ''usage: adb track-devices [-l][--proto-text][--proto-binary]'')"

definition cmd_features :: "('v, 'x) cmd_env_scheme \<Rightarrow> ('v, int) cmdprog" where
  "cmd_features T = bindp (adb_get_feature_set_or_die T True) (\<lambda>features. case features of
       None \<Rightarrow> abortp ''empty optional''
     | Some fs \<Rightarrow> fold_prog (\<lambda>name _. if can_use (tl_sync T) fs name then thenp (say_line T (c_str name)) (ret 0)
         else ret 0) fs 0)"

definition cmd_reconnect :: "('v, 'x) cmd_env_scheme \<Rightarrow> string list \<Rightarrow> ('v, int) cmdprog" where
  "cmd_reconnect T argv =
     (if length argv = 1 then host_query_command T (hd argv)
      else if length argv = 2 then
        (if argv ! 1 = ''device'' then thenp (connect T ''reconnect'') (ret 0)
         else if argv ! 1 = ''offline'' then adb_query_command T ''host:reconnect-offline''
         else captured_fail T ''usage: adb reconnect [device|offline]'')
      else unknown_command T (hd argv))"

definition checked_socket ::
    "('v, 'x) cmd_env_scheme \<Rightarrow> string \<Rightarrow> string \<Rightarrow> (int \<Rightarrow> ('v, int) cmdprog) \<Rightarrow> ('v, int) cmdprog" where
  "checked_socket T name arg m = bindp (is_valid_os_fd T (strtol_int arg)) (\<lambda>ok.
     if \<not> ok then captured_fail T (''Invalid '' @ name @ '' number given: '' @ show_int (strtol_int arg))
     else bindp (tos (register_socket T (strtol_int arg))) m)"

definition cmd_inc_server :: "('v, 'x) cmd_env_scheme \<Rightarrow> string list \<Rightarrow> ('v, int) cmdprog" where
  "cmd_inc_server T argv =
     (if length argv < 4 then
        error_exit (bug_shell T) ''usage: adb inc-server CONNECTION_FD OUTPUT_FD FILE1 FILE2 ...''
      else checked_socket T ''connection_fd'' (argv ! 1) (\<lambda>connection_fd.
           checked_socket T ''output_fd'' (argv ! 2) (\<lambda>output_fd.
             tos (inc_serve T connection_fd output_fd (drop 3 argv)))))"

section \<open>Files\<close>

definition cmd_push :: "('v, 'x) cmd_env_scheme \<Rightarrow> string list \<Rightarrow> ('v, int) cmdprog" where
  "cmd_push T args = bindp (parse_push_pull_args T args \<lparr>pp_srcs = [], pp_dst = None, pp_copy_attrs = False,
       pp_sync = Some False, pp_quiet = False, pp_compression = CompAny, pp_dry_run = Some False\<rparr>) (\<lambda>p.
     case pp_dst p of
       Some dst \<Rightarrow>
         if pp_srcs p = [] then captured_fail T ''push requires <source> and <destination> arguments''
         else bindp (connp (do_sync_push (tl_sync T) (pp_srcs p) dst (pp_sync p = Some True)
                (pp_compression p) (pp_dry_run p = Some True) (pp_quiet p))) (\<lambda>ok. ret (if ok then 0 else 1))
     | None \<Rightarrow> captured_fail T ''push requires <source> and <destination> arguments'')"

definition cmd_pull :: "('v, 'x) cmd_env_scheme \<Rightarrow> string list \<Rightarrow> ('v, int) cmdprog" where
  "cmd_pull T args = bindp (parse_push_pull_args T args \<lparr>pp_srcs = [], pp_dst = Some ''.'', pp_copy_attrs = False,
       pp_sync = None, pp_quiet = False, pp_compression = CompNone, pp_dry_run = None\<rparr>) (\<lambda>p.
     if pp_srcs p = [] then captured_fail T ''pull requires an argument''
     else bindp (connp (do_sync_pull (tl_sync T) (pp_srcs p) (the (pp_dst p)) (pp_copy_attrs p)
            (pp_compression p) None (pp_quiet p))) (\<lambda>ok. ret (if ok then 0 else 1)))"

record sync_opts =
  sy_list_only :: bool
  sy_dry_run :: bool
  sy_quiet :: bool
  sy_compression :: CompressionType

definition sync_optstring :: "char \<Rightarrow> bool option" where
  "sync_optstring c = (if c = CHR ''z'' then Some True
     else if c \<in> set ''lnZq'' then Some False else None)"

definition sync_option ::
    "('w, 'x) tool_env_scheme \<Rightarrow> getopt_result \<Rightarrow> sync_opts \<Rightarrow> ('w, unit + sync_opts) hprog" where
  "sync_option T r opts = (case r of
       Option c optarg \<Rightarrow>
         if c = CHR ''l'' then ret (Inr (opts\<lparr>sy_list_only := True\<rparr>))
         else if c = CHR ''n'' then ret (Inr (opts\<lparr>sy_dry_run := True\<rparr>))
         else if c = CHR ''z'' then bindp (parse_compression_type T (the optarg) False)
           (\<lambda>z. ret (Inr (opts\<lparr>sy_compression := z\<rparr>)))
         else if c = CHR ''Z'' then ret (Inr (opts\<lparr>sy_compression := CompNone\<rparr>))
         else ret (Inr (opts\<lparr>sy_quiet := True\<rparr>))
     | _ \<Rightarrow> ret (Inl ()))"

definition sync_partitions :: "string list" where
  "sync_partitions = [''data'', ''odm'', ''oem'', ''product'', ''system'', ''system_ext'', ''vendor'']"

definition product_file :: "('w, 'x) tool_env_scheme \<Rightarrow> string \<Rightarrow> ('w, string) hprog" where
  "product_file T file = (case env_getenv (tl_sync T) ''ANDROID_PRODUCT_OUT'' of
       None \<Rightarrow> error_exit (bug_shell T) ''product directory not specified; set $ANDROID_PRODUCT_OUT''
     | Some dir \<Rightarrow> ret (dir @ [OS_PATH_SEPARATOR (tl_sync T)] @ file))"

definition sync_partition ::
    "('w, 'x) tool_env_scheme \<Rightarrow> sync_opts \<Rightarrow> string \<Rightarrow> string \<Rightarrow> bool \<Rightarrow> ('w, bool \<times> bool) hprog" where
  "sync_partition T opts src part found =
     (if src = ''all'' \<or> src = part then
        bindp (product_file T part) (\<lambda>src_dir.
        bindp (tos (os_directory_exists T src_dir)) (\<lambda>exists.
          if \<not> exists then ret (True, found)
          else bindp (connp (do_sync_sync (tl_sync T) src_dir (''/'' @ part) (sy_list_only opts)
                 (sy_compression opts) (sy_dry_run opts) (sy_quiet opts))) (\<lambda>ok. ret (ok, True))))
      else ret (True, found))"

definition sync_usage :: string where
  "sync_usage = ''usage: adb sync [-l] [-n] [-z ALGORITHM] [-Z] [-q] [PARTITION]''"

definition sync_run ::
    "('v, 'x) cmd_env_scheme \<Rightarrow> sync_opts \<Rightarrow> string \<Rightarrow> ('v, int) cmdprog" where
  "sync_run T opts src = bindp (fold_while (sync_partition T opts src) sync_partitions False) (\<lambda>(ok, found).
     if \<not> ok then ret 1
     else if \<not> found then captured_fail T (''don't know how to sync '' @ c_str src @ '' partition'')
     else ret 0)"

definition cmd_sync ::
    "('v, 'x) cmd_env_scheme \<Rightarrow> string list \<Rightarrow> getopt_state \<Rightarrow> ('v, int \<times> getopt_state) cmdprog" where
  "cmd_sync T argv g =
     bindp (env_compression T CompAny) (\<lambda>c.
     bindp (getopt_loop sync_optstring argv (sync_option T)
         \<lparr>sy_list_only = False, sy_dry_run = False, sy_quiet = False, sy_compression = c\<rparr> g) (\<lambda>(r, g).
     bindp (case r of
         Inl _ \<Rightarrow> captured_fail T ''usage: adb sync [-l] [-n]  [-z ALGORITHM] [-Z] [-q] [PARTITION]''
       | Inr opts \<Rightarrow>
           if optind g = length argv then sync_run T opts ''all''
           else if optind g + 1 = length argv then sync_run T opts (argv ! optind g)
           else captured_fail T sync_usage) (\<lambda>code. ret (code, g))))"

section \<open>The chain\<close>

text \<open>A command that requires at least one argument.\<close>

definition with_argument ::
    "('v, 'x) cmd_env_scheme \<Rightarrow> string list \<Rightarrow> (string list \<Rightarrow> ('v, int) cmdprog) \<Rightarrow> ('v, int) cmdprog" where
  "with_argument T argv m =
     (if length argv < 2 then captured_fail T (hd argv @ '' requires an argument'') else m argv)"

definition exactly_one ::
    "('v, 'x) cmd_env_scheme \<Rightarrow> string list \<Rightarrow> (string \<Rightarrow> ('v, int) cmdprog) \<Rightarrow> ('v, int) cmdprog" where
  "exactly_one T argv m = (case argv of [_, a] \<Rightarrow> m a
     | _ \<Rightarrow> captured_fail T (hd argv @ '' requires an argument''))"

definition dispatch_more ::
    "('v, 'x) cmd_env_scheme \<Rightarrow> string \<Rightarrow> string list \<Rightarrow> ('v, int) cmdprog" where
  "dispatch_more T cmd argv =
     (if cmd \<in> {''logcat'', ''lolcat'', ''longcat''} then logcat T argv
      else if cmd = ''start-server'' then cmd_start_server T
      else if cmd = ''backup'' then backup T argv
      else if cmd = ''restore'' then restore T argv
      else if cmd = ''keygen'' then exactly_one T argv (\<lambda>a. tos (auth_keygen T a))
      else if cmd = ''pubkey'' then exactly_one T argv (\<lambda>a. tos (auth_pubkey T a))
      else if cmd = ''jdwp'' \<or> cmd = ''track-jdwp'' then adb_connect_command T cmd
      else if cmd = ''track-app'' then cmd_track_app T argv
      else if cmd = ''track-devices'' then cmd_track_devices T argv
      else if cmd = ''raw'' then (case argv of [_, service] \<Rightarrow> adb_connect_command_bidirectional T service
          | _ \<Rightarrow> captured_fail T ''usage: adb raw SERVICE'')
      else if cmd \<in> {''--help'', ''help'', ''/?''} then thenp (print_out (help_text T)) (ret 0)
      else if cmd = ''--version'' \<or> cmd = ''version'' then
        thenp (print_out (c_str (adb_version T))) (thenp (capture_to T True (c_str (adb_version T))) (ret 0))
      else if cmd = ''features'' then cmd_features T
      else if cmd = ''host-features'' then adb_query_command T ''host:host-features''
      else if cmd = ''reconnect'' then cmd_reconnect T argv
      else if cmd = ''inc-server'' then cmd_inc_server T argv
      else if cmd = ''attach'' \<or> cmd = ''detach'' then cmd_attach T cmd
      else if cmd = ''server-status''
      then adb_connect_with T ''host:server-status'' (AdbServerStateStreamsCallback T) []
      else unknown_command T cmd)"

definition dispatch ::
    "('v, 'x) cmd_env_scheme \<Rightarrow> string option \<Rightarrow> string list \<Rightarrow> ('v, int) cmdprog" where
  "dispatch T serial argv =
     (let cmd = hd argv
      in if cmd = ''devices'' then cmd_devices T argv
         else if cmd = ''transport-id'' then cmd_transport_id T
         else if cmd = ''connect'' then cmd_connect T argv
         else if cmd = ''disconnect'' then cmd_disconnect T argv
         else if cmd = ''abb'' then adb_abb T argv
         else if cmd = ''pair'' then cmd_pair T argv
         else if cmd = ''emu'' then tos (send_emulator_command T argv serial)
         else if cmd = ''shell'' then with_getopt (adb_shell T True argv)
         else if cmd = ''exec-in'' \<or> cmd = ''exec-out'' then cmd_exec T argv
         else if cmd = ''kill-server'' then
           bindp (clp (adb_kill_server (cm_client T))) (\<lambda>ok. ret (if ok then 0 else 1))
         else if cmd = ''sideload'' then cmd_sideload T argv
         else if cmd = ''rescue'' then cmd_rescue T argv
         else if cmd = ''tcpip'' then cmd_tcpip T argv
         else if cmd \<in> {''remount'', ''disable-verity'', ''enable-verity''}
         then with_getopt (process_remount_or_verity_service T argv)
         else if cmd \<in> {''reboot'', ''reboot-bootloader'', ''reboot-fastboot'', ''usb''} then cmd_reboot T argv
         else if cmd = ''root'' \<or> cmd = ''unroot'' then
           bindp (adb_root T cmd) (\<lambda>ok. ret (if ok then 0 else 1))
         else if cmd = ''bugreport'' then
           DoIt T (loop_fuel (tl_sync T)) argv
         else if cmd = ''forward'' \<or> cmd = ''reverse'' then cmd_forward T argv
         else if cmd = ''mdns'' then cmd_mdns T argv
         else if cmd = ''ls'' then exactly_one T argv (\<lambda>path.
           bindp (connp (do_sync_ls (tl_sync T) path)) (\<lambda>ok. ret (if ok then 0 else 1)))
         else if cmd = ''push'' then cmd_push T (tl argv)
         else if cmd = ''pull'' then cmd_pull T (tl argv)
         else if cmd = ''install'' then with_argument T argv (install_app T)
         else if cmd = ''install-multiple'' then with_argument T argv (install_multiple_app T)
         else if cmd = ''install-multi-package'' then with_argument T argv (install_multi_package T)
         else if cmd = ''uninstall'' then with_argument T argv (uninstall_app T)
         else if cmd = ''sync'' then with_getopt (cmd_sync T argv)
         else if cmd \<in> {''get-state'', ''get-serialno'', ''get-devpath''} then host_query_command T cmd
         else dispatch_more T cmd argv)"

section \<open>\<^verbatim>\<open>adb_commandline\<close>\<close>

definition run_server :: "('v, 'x) cmd_env_scheme \<Rightarrow> cmd_opts \<Rightarrow> string \<Rightarrow> ('v, int) cmdprog" where
  "run_server T opts spec =
     (if (co_no_daemon opts \<or> co_is_daemon opts) \<and> co_is_daemon opts \<and> co_ack_reply_fd opts = -1 then
        thenp (warn_both T True (''reply fd for adb server to client communication not specified.'' @ newline)) (ret 1)
      else bindp (if co_no_daemon opts \<or> co_is_daemon opts
          then tos (adb_server_main T (co_is_daemon opts) spec (co_one_device opts) (co_ack_reply_fd opts))
          else clp (wop (cl_launch_server (cm_client T) (Some spec) (co_one_device opts)))) (\<lambda>r.
        thenp (if r \<noteq> 0 then warn_both T True (''* could not start server *'' @ newline) else ret ()) (ret r)))"

text \<open>The wait in front of a command; \<open>T\<close> has the client linked.\<close>

definition run_command :: "('v, 'x) cmd_env_scheme \<Rightarrow> string option \<Rightarrow> string list \<Rightarrow> ('v, int) cmdprog" where
  "run_command T serial argv = (case argv of
       [] \<Rightarrow> thenp (print_out (help_text T)) (ret 1)
     | cmd # rest \<Rightarrow>
         if prefix ''wait-for-'' cmd then
           bindp (clp (wait_for_device (cm_client T) cmd None)) (\<lambda>ok.
             if \<not> ok then ret 1 else if rest = [] then ret 0 else dispatch T serial rest)
         else dispatch T serial argv)"

definition configure_client :: "('v, 'x) cmd_env_scheme \<Rightarrow> cmd_opts \<Rightarrow> string \<Rightarrow> ('v, string option) cl" where
  "configure_client T opts spec = do {
     adb_set_one_device (co_one_device opts);
     adb_set_socket_spec spec;
     (let serial = (if co_transport opts = kTransportAny \<and> co_serial opts = None
                    then env_getenv (tl_sync T) ''ANDROID_SERIAL'' else co_serial opts)
      in do { adb_set_transport (co_transport opts) serial (co_transport_id opts);
              State_Monad.return serial }) }"

definition adb_commandline :: "('v, 'x) cmd_env_scheme \<Rightarrow> string list \<Rightarrow> ('v, int) cmdprog" where
  "adb_commandline T argv = (case parse_globals argv no_opts of (opts, parsed) \<Rightarrow>
     thenp (clp (modify (\<lambda>s. s\<lparr>cl_listen_all := cl_listen_all s \<or> co_listen_all opts,
                               cl_return_errors := cl_return_errors s \<or> co_return_errors opts\<rparr>)))
     (case parsed of
        Inl (to_stderr, m) \<Rightarrow> thenp (if to_stderr then print_err m else ret ())
          (thenp (capture_to T True m) (ret 1))
      | Inr argv \<Rightarrow> (case server_socket T opts of
            Inl e \<Rightarrow> captured_fail T e
          | Inr spec \<Rightarrow>
              if co_one_device opts \<noteq> None \<and> \<not> (co_is_daemon opts \<or> co_is_server opts
                  \<or> argv \<noteq> [] \<and> hd argv = ''start-server'')
              then captured_fail T ''--one-device is only allowed when starting a server.''
              else bindp (clp (configure_client T opts spec)) (\<lambda>serial.
                if co_is_server opts then run_server T opts spec
                else bindp (clp (gets cl_return_errors)) (\<lambda>return_errors.
                  run_command (linked T return_errors) serial argv)))))"

end
