(* ===== verification/ClientProperties.thy ===== *)
theory ClientProperties
  imports AdbClient HostServices SelectProperties
begin

text \<open>
  Properties of the client's side of a connection (\<^verbatim>\<open>client/adb_client.cpp\<close>): the choice of a device as
  the server of \<open>HostServices\<close> understands it, the descriptors of the requests, the cached feature set.
\<close>

section \<open>Reasoning about the client\<close>

definition ends :: "('s, 'a) state \<Rightarrow> 's \<Rightarrow> ('a \<Rightarrow> 's \<Rightarrow> bool) \<Rightarrow> bool" where
  "ends m s Q \<longleftrightarrow> (case run_state m s of (a, t) \<Rightarrow> Q a t)"

named_theorems ends_simps

lemma ends_pure [ends_simps]:
  "ends (State_Monad.return a) s Q \<longleftrightarrow> Q a s"
  "ends (gets f) s R \<longleftrightarrow> R (f s) s"
  "ends (modify g) s T \<longleftrightarrow> T () (g s)"
  "ends (wop h) c P \<longleftrightarrow> (case h (cl_world c) of (a, w) \<Rightarrow> P a (c\<lparr>cl_world := w\<rparr>))"
  by (simp_all add: ends_def gets_def modify_def wop_def split: prod.split)

lemma ends_bind [ends_simps]:
  "ends (State_Monad.bind m f) s Q \<longleftrightarrow> ends m s (\<lambda>a t. ends (f a) t Q)"
  by (simp add: ends_def split: prod.split)

lemma ends_mono: "ends m s Q \<Longrightarrow> (\<And>a t. Q a t \<Longrightarrow> Q' a t) \<Longrightarrow> ends m s Q'"
  by (auto simp: ends_def)

lemma endsD: "ends m s Q \<Longrightarrow> run_state m s = (a, t) \<Longrightarrow> Q a t"
  by (simp add: ends_def)

section \<open>The device both sides mean\<close>

text \<open>What the user selected: an id, or else a serial, or else a kind of transport.\<close>

definition client_selection :: "'w client \<Rightarrow> host_sel" where
  "client_selection c =
     (if cl_transport_id c \<noteq> 0
      then \<lparr>hs_type = kTransportAny, hs_serial = None, hs_id = cl_transport_id c\<rparr>
      else case cl_serial c of
          Some sn \<Rightarrow> \<lparr>hs_type = kTransportAny, hs_serial = Some (c_str sn), hs_id = 0\<rparr>
        | None \<Rightarrow> \<lparr>hs_type = cl_transport c, hs_serial = None, hs_id = 0\<rparr>)"

definition no_selection :: host_sel where
  "no_selection = \<lparr>hs_type = kTransportAny, hs_serial = None, hs_id = 0\<rparr>"

lemma request_parsed:
  assumes "Prefix_doc E" "ParseUint_doc E" "switch_service c = Some (service, reads_id)"
  shows "\<exists>rest. service = ''host:'' @ rest \<and> (take 9 rest = ''transport'' \<or> take 6 rest = ''tport:'') \<and>
    rest \<noteq> ''kill'' \<and> parse_selection E rest no_selection = (Some (client_selection c), \<not> reads_id)"
proof -
  have p: "ConsumePrefix E s p = (if prefix p s then Some (drop (length p) s) else None)" for s p
    using assms(1) by (simp add: Prefix_doc_def)
  have small: "unat (cl_transport_id c) < 2 ^ 64" using unsigned_less [of "cl_transport_id c"] by simp
  have n: "ParseUint E (show_nat k) = Some k" for k using assms(2) by (simp add: ParseUint_doc_def)
  consider "cl_transport_id c \<noteq> 0" | sn where "cl_transport_id c = 0" "cl_serial c = Some sn"
    | "cl_transport_id c = 0" "cl_serial c = None" by (cases "cl_serial c") auto
  then show ?thesis
  proof cases
    case 1
    with assms(3) have "service = ''host:'' @ ''transport-id:'' @ show_nat (unat (cl_transport_id c))" "\<not> reads_id"
      by (simp_all add: switch_service_def)
    with 1 small show ?thesis
      by (simp add: parse_selection_def p n client_selection_def no_selection_def)
  next
    case 2
    with assms(3) have "service = ''host:'' @ ''tport:serial:'' @ c_str sn" reads_id
      by (simp_all add: switch_service_def)
    with 2 show ?thesis by (simp add: parse_selection_def p client_selection_def no_selection_def)
  next
    case 3
    with assms(3) show ?thesis
      by (intro exI [of _ "drop 5 service"], cases "cl_transport c")
         (auto simp: switch_service_def parse_selection_def p client_selection_def no_selection_def)
  qed
qed

lemma ext_Ok: "\<exists>l. ext E x s = (Ok (), s\<lparr>ext_trace := ext_trace s @ [x], loop := l\<rparr>)"
  by (auto simp: ext_def thenp_def bindp_def modp_def sos_def loopp_def fdos_def split: prod.split)

text \<open>The bytes the replies of the server put on a descriptor; \<open>proto\<close> is the encoding of strings.\<close>

fun reply_wire :: "(string \<Rightarrow> string) \<Rightarrow> int \<Rightarrow> ext_call \<Rightarrow> string" where
  "reply_wire proto i (ReplyOkay j) = (if i = j then ''OKAY'' else [])"
| "reply_wire proto i (ReplyFail j m) = (if i = j then ''FAIL'' @ proto m else [])"
| "reply_wire proto i (ReplyString j m) = (if i = j then proto m else [])"
| "reply_wire proto i (ReplyBytes j b) = (if i = j then b else [])"
| "reply_wire proto i _ = []"

definition replies :: "(string \<Rightarrow> string) \<Rightarrow> int \<Rightarrow> 'w server \<Rightarrow> 'w server \<Rightarrow> string" where
  "replies proto i s s' = concat (map (reply_wire proto i) (drop (length (ext_trace s)) (ext_trace s')))"

text \<open>A descriptor from which the client reads the bytes \<open>unread w\<close> in order; the length of a string has four
  hexadecimal digits.\<close>

definition stream_doc ::
    "('v, 'x) client_env_scheme \<Rightarrow> int \<Rightarrow> (string \<Rightarrow> string) \<Rightarrow> ('v \<Rightarrow> string) \<Rightarrow> bool" where
  "stream_doc C sock proto unread \<longleftrightarrow>
     (\<forall>w n. n \<le> length (unread w) \<longrightarrow> fst (cl_read_exactly C sock n w) = Some (take n (unread w)) \<and>
        unread (snd (cl_read_exactly C sock n w)) = drop n (unread w)) \<and>
     (\<forall>w m rest. unread w = proto m @ rest \<longrightarrow> length m < 65536 \<longrightarrow>
        fst (cl_read_protocol C sock w) = Inr m \<and> unread (snd (cl_read_protocol C sock w)) = rest)"

lemma read_stream:
  assumes "stream_doc C sock proto unread" "n \<le> length (unread w)"
  shows "\<exists>w'. cl_read_exactly C sock n w = (Some (take n (unread w)), w') \<and> unread w' = drop n (unread w)"
  using assms unfolding stream_doc_def by (cases "cl_read_exactly C sock n w") (metis fst_conv snd_conv)

lemma read_string:
  assumes "stream_doc C sock proto unread" "unread w = proto m @ rest" "length m < 65536"
  shows "\<exists>w'. cl_read_protocol C sock w = (Inr m, w') \<and> unread w' = rest"
  using assms unfolding stream_doc_def by (cases "cl_read_protocol C sock w") (metis fst_conv snd_conv)

text \<open>What the server does with the request, and what it answers.\<close>

lemma switch_answers:
  assumes "Prefix_doc E" "ParseUint_doc E" "switch_service c = Some (''host:'' @ rest, reads_id)"
    and "handle_host_request E rest no_selection i s None srv = (Ok r, srv')"
  shows "\<exists>a. acquire_one_transport E (hs_type (client_selection c)) (hs_serial (client_selection c))
       (hs_id (client_selection c)) False srv = (Ok a, srv) \<and>
     (case aq_result a of
        None \<Rightarrow> r = Handled \<and> ReplyFail i (aq_error a) \<in> set (ext_trace srv') \<and>
            replies proto i srv srv' = ''FAIL'' @ proto (aq_error a)
      | Some p \<Rightarrow> r = SwitchedTransport \<and> (\<exists>t. transports srv p = Some t \<and> replies proto i srv srv'
          = ''OKAY'' @ (if reads_id then put64 (t_id t) else [])))"
proof -
  note r = request_parsed [OF assms(1-3)]
  let ?sel = "client_selection c"
  have sw: "switch_transport E rest no_selection i s srv = (Ok r, srv')"
    and parsed: "parse_selection E rest no_selection = (Some ?sel, \<not> reads_id)"
    using r assms(4) by (auto simp: handle_host_request_def thenp_def)
  then obtain a srv1 where a: "acquire_one_transport E (hs_type ?sel) (hs_serial ?sel) (hs_id ?sel) False srv
      = (Ok a, srv1)"
    by (auto simp: switch_transport_def bindp_Ok_iff)
  then have [simp]: "srv1 = srv" by (rule acquire_Ok [THEN conjunct1])
  show ?thesis
  proof (cases "aq_result a")
    case None
    obtain l where "ext E (ReplyFail i (aq_error a)) srv
        = (Ok (), srv\<lparr>ext_trace := ext_trace srv @ [ReplyFail i (aq_error a)], loop := l\<rparr>)"
      using ext_Ok by blast
    with sw parsed a None show ?thesis
      by (auto simp: switch_transport_def bindp_Ok thenp_Ok replies_def)
  next
    case (Some p)
    then obtain t where t: "transports srv p = Some t"
      using sw parsed a by (auto simp: switch_transport_def bindp_Ok with_transport_Ok_iff)
    obtain l where l: "ext E (SocketSetTransport s (Some p)) srv = (Ok (), srv\<lparr>ext_trace := ext_trace srv
        @ [SocketSetTransport s (Some p)], loop := l\<rparr>)" (is "_ = (_, ?s1)")
      using ext_Ok by blast
    obtain l where l2: "ext E (ReplyOkay i) ?s1 = (Ok (), ?s1\<lparr>ext_trace := ext_trace ?s1 @ [ReplyOkay i],
        loop := l\<rparr>)" (is "_ = (_, ?s2)")
      using ext_Ok by blast
    obtain l where l3: "ext E (ReplyBytes i (put64 (t_id t))) ?s2 = (Ok (), ?s2\<lparr>ext_trace := ext_trace ?s2
        @ [ReplyBytes i (put64 (t_id t))], loop := l\<rparr>)"
      using ext_Ok by blast
    from sw parsed a Some t l l2 l3 show ?thesis
      by (auto simp: switch_transport_def bindp_Ok thenp_Ok with_transport_def replies_def)
  qed
qed

text \<open>The client reads it all.\<close>

lemma reads_status:
  assumes "stream_doc C sock proto unread" "unread (cl_world c) = ''OKAY'' @ rest"
  shows "ends (adb_status C sock err) c (\<lambda>(ok, e) c'. ok \<and> e = err \<and> unread (cl_world c') = rest \<and>
    (\<exists>w. c' = c\<lparr>cl_world := w\<rparr>))"
  using read_stream [OF assms(1), of 4 "cl_world c"] assms(2)
  by (auto simp: adb_status_def ends_simps split: prod.splits)

lemma reads_failure:
  assumes "stream_doc C sock proto unread" "unread (cl_world c) = ''FAIL'' @ proto m @ rest" "length m < 65536"
  shows "ends (adb_status C sock err) c (\<lambda>(ok, e) c'. \<not> ok \<and> e = m \<and> unread (cl_world c') = rest \<and>
    (\<exists>w. c' = c\<lparr>cl_world := w\<rparr>))"
proof -
  obtain w where w: "cl_read_exactly C sock 4 (cl_world c) = (Some ''FAIL'', w)" "unread w = proto m @ rest"
    using read_stream [OF assms(1), of 4 "cl_world c"] assms(2) by auto
  obtain w' where "cl_read_protocol C sock w = (Inr m, w')" "unread w' = rest"
    using read_string [OF assms(1) w(2) assms(3)] by blast
  with w show ?thesis by (auto simp: adb_status_def ends_simps)
qed

text \<open>The transport the server gives to the request.\<close>

definition usable_choice :: "('w, 'x) srv_env_scheme \<Rightarrow> host_sel \<Rightarrow> 'w server \<Rightarrow> tptr option" where
  "usable_choice E sel srv = (case choice E (hs_type sel) (hs_serial sel) (hs_id sel) (accessible srv) of
       None \<Rightarrow> None
     | Some p \<Rightarrow> if inactive_text E (t_state (the (transports srv p))) = None then Some p else None)"

lemma usable_choice_id:
  "usable_choice E sel srv = Some p \<Longrightarrow> hs_id sel \<noteq> 0 \<Longrightarrow> t_id (the (transports srv p)) = hs_id sel"
proof -
  assume p: "usable_choice E sel srv = Some p" and sel: "hs_id sel \<noteq> 0"
  then have "p \<in> set (meant E (hs_type sel) (hs_serial sel) (hs_id sel) (accessible srv))"
    by (auto simp: usable_choice_def choice_def split: option.splits list.splits if_splits)
  with sel show ?thesis by (auto simp: meant_def accessible_def)
qed

text \<open>C9: the client asks for a device and the server finds one: they mean the same device. Whatever the
  user selected, the request parses at the server to that selection; the client learns the id of exactly
  the transport the server has attached to the socket (and does so whether the id is sent back or not), or
  it fails just when the server refuses, with the server's message; and no byte of the answer is left
  unread.\<close>

theorem both_mean_the_same_device:
  assumes "Prefix_doc E" "ParseUint_doc E" "stream_doc C sock proto unread"
    and sw: "switch_service c = Some (''host:'' @ rest, reads_id)"
    and host: "handle_host_request E rest no_selection i s None srv = (Ok r, srv')"
    and sent: "cl_send_protocol C sock (''host:'' @ rest) (cl_world c) = (True, w)"
      "unread w = replies proto i srv srv'"
    and short: "\<forall>m. ReplyFail i m \<in> set (ext_trace srv') \<longrightarrow> length m < 65536"
  shows "\<exists>tid e w'. run_state (switch_socket_transport C sock err) c = ((tid, e), c\<lparr>cl_world := w'\<rparr>) \<and>
    tid = map_option (\<lambda>p. t_id (the (transports srv p))) (usable_choice E (client_selection c) srv) \<and>
    (tid = None \<longleftrightarrow> r = Handled) \<and> (tid \<noteq> None \<longrightarrow> r = SwitchedTransport \<and> e = err) \<and>
    (tid = None \<longrightarrow> ReplyFail i e \<in> set (ext_trace srv')) \<and> unread w' = []"
proof -
  let ?sel = "client_selection c"
  obtain a where a: "acquire_one_transport E (hs_type ?sel) (hs_serial ?sel) (hs_id ?sel) False srv = (Ok a, srv)"
    and answer: "case aq_result a of
        None \<Rightarrow> r = Handled \<and> ReplyFail i (aq_error a) \<in> set (ext_trace srv') \<and>
            replies proto i srv srv' = ''FAIL'' @ proto (aq_error a)
      | Some p \<Rightarrow> r = SwitchedTransport \<and> (\<exists>t. transports srv p = Some t \<and> replies proto i srv srv'
          = ''OKAY'' @ (if reads_id then put64 (t_id t) else []))"
    using switch_answers [OF assms(1,2) sw host] by blast
  have result: "aq_result a = usable_choice E ?sel srv"
    using acquire_Ok [OF a] unfolding usable_choice_def by (auto split: option.splits)
  let ?c = "c\<lparr>cl_world := w\<rparr>"
  show ?thesis
  proof (cases "aq_result a")
    case None
    with answer sent(2) short have "ends (adb_status C sock err) ?c (\<lambda>(ok, e) c'. \<not> ok \<and> e = aq_error a \<and>
        unread (cl_world c') = [] \<and> (\<exists>w. c' = ?c\<lparr>cl_world := w\<rparr>))"
      by (intro reads_failure [OF assms(3)]) auto
    with None answer result sw sent(1) show ?thesis
      by (auto simp: ends_def switch_socket_transport_def gets_def wop_def split: prod.splits)
  next
    case (Some p)
    then obtain t where t: "transports srv p = Some t"
      "replies proto i srv srv' = ''OKAY'' @ (if reads_id then put64 (t_id t) else [])"
      "r = SwitchedTransport" using answer by auto
    let ?rest = "if reads_id then put64 (t_id t) else []"
    have "ends (adb_status C sock err) ?c (\<lambda>(ok, e) c'. ok \<and> e = err \<and> unread (cl_world c') = ?rest \<and>
        (\<exists>w. c' = ?c\<lparr>cl_world := w\<rparr>))"
      using t sent(2) by (intro reads_status [OF assms(3)]) auto
    then obtain w1 where w1: "run_state (adb_status C sock err) ?c = ((True, err), c\<lparr>cl_world := w1\<rparr>)"
      "unread w1 = ?rest" by (auto simp: ends_def split: prod.splits)
    have run: "run_state (switch_socket_transport C sock err) c = run_state (if \<not> reads_id then do {
             tid \<leftarrow> gets cl_transport_id; State_Monad.return (Some tid, err) }
           else do { r \<leftarrow> wop (cl_read_exactly C sock 8);
             State_Monad.return (case r of None \<Rightarrow> (None, ''failed to read transport id from server'')
               | Some b \<Rightarrow> (Some (get64 b), err)) }) (c\<lparr>cl_world := w1\<rparr>)"
      using sw sent(1) w1(1) by (simp add: switch_socket_transport_def gets_def wop_def)
    show ?thesis
    proof (cases reads_id)
      case True
      obtain w2 where "cl_read_exactly C sock 8 w1 = (Some (put64 (t_id t)), w2)" "unread w2 = []"
        using read_stream [OF assms(3), of 8 w1] w1(2) True by auto
      with True run Some result t show ?thesis
        using get64_put64 [of "t_id t" "[]"] by (auto simp: wop_def)
    next
      case False
      then have "cl_transport_id c \<noteq> 0" using sw by (auto simp: switch_service_def split: if_splits option.splits TransportType.splits)
      then have "hs_id ?sel \<noteq> 0" "hs_id ?sel = cl_transport_id c" by (simp_all add: client_selection_def)
      with usable_choice_id Some result have "t_id t = cl_transport_id c" by (metis option.sel t(1))
      with False run Some result t w1(2) show ?thesis by (auto simp: gets_def)
    qed
  qed
qed

text \<open>A concrete client: its world holds the server of \<open>ServerRef\<close>, what is unread, the open descriptors and
  a log of what was sent. \<open>cw_answers\<close> are the answers to services the server does not know.\<close>

record client_world =
  cw_server :: "int server"
  cw_unread :: string
  cw_open :: "int list"
  cw_next :: nat
  cw_sent :: "(int \<times> string) list"
  cw_answers :: "(string \<times> string) list"

definition proto_ref :: "string \<Rightarrow> string" where
  "proto_ref m = le_bytes 4 (length m) @ m"

definition client_send_ref :: "int \<Rightarrow> string \<Rightarrow> client_world \<Rightarrow> bool \<times> client_world" where
  "client_send_ref sock service w = (True, case map_of (cw_answers w) service of
       Some b \<Rightarrow> w\<lparr>cw_unread := b, cw_sent := cw_sent w @ [(sock, service)]\<rparr>
     | None \<Rightarrow> (case handle_host_request core_ref (drop 5 service) no_selection 9 0 None (cw_server w) of
         (_, srv) \<Rightarrow> w\<lparr>cw_unread := replies proto_ref 9 (cw_server w) srv, cw_server := srv,
           cw_sent := cw_sent w @ [(sock, service)]\<rparr>))"

definition client_read_ref :: "nat \<Rightarrow> client_world \<Rightarrow> string option \<times> client_world" where
  "client_read_ref n w = (if n \<le> length (cw_unread w)
     then (Some (take n (cw_unread w)), w\<lparr>cw_unread := drop n (cw_unread w)\<rparr>) else (None, w))"

definition client_string_ref :: "client_world \<Rightarrow> (string + string) \<times> client_world" where
  "client_string_ref w = (let n = le_nat (take 4 (cw_unread w)) in
     if length (cw_unread w) < 4 + n then (Inl ''protocol fault (couldn't read status)'', w)
     else (Inr (take n (drop 4 (cw_unread w))), w\<lparr>cw_unread := drop (4 + n) (cw_unread w)\<rparr>))"

definition client_env_ref :: "client_world client_env" where
  "client_env_ref = libbase.extend libbase_ref (client_env.fields 4096 41 True (\<lambda>_. True) False
     (\<lambda>_ w. (Inr (int (cw_next w)), w\<lparr>cw_open := int (cw_next w) # cw_open w, cw_next := cw_next w + 1\<rparr>))
     client_send_ref (\<lambda>_. client_read_ref) (\<lambda>_. client_string_ref) (\<lambda>_ w. ((), w\<lparr>cw_unread := []\<rparr>))
     (\<lambda>i w. ((), if i < 0 then w else w\<lparr>cw_open := remove1 i (cw_open w)\<rparr>)) (\<lambda>w. (''error'', w)) (\<lambda>_ _ w. (0, w)))"

lemma client_env_ref_simps [simp]:
  "cl_MAX_PAYLOAD client_env_ref = 4096" "cl_SERVER_VERSION client_env_ref = 41"
  "cl_is_local_spec client_env_ref = (\<lambda>_. True)" "cl_send_protocol client_env_ref = client_send_ref"
  "cl_read_exactly client_env_ref = (\<lambda>_. client_read_ref)"
  "cl_read_protocol client_env_ref = (\<lambda>_. client_string_ref)"
  "cl_connect client_env_ref
     = (\<lambda>_ w. (Inr (int (cw_next w)), w\<lparr>cw_open := int (cw_next w) # cw_open w, cw_next := cw_next w + 1\<rparr>))"
  "cl_read_shutdown client_env_ref = (\<lambda>_ w. ((), w\<lparr>cw_unread := []\<rparr>))"
  "cl_close client_env_ref = (\<lambda>i w. ((), if i < 0 then w else w\<lparr>cw_open := remove1 i (cw_open w)\<rparr>))"
  "Split client_env_ref = (\<lambda>s d. split_on (hd (d @ ''x'')) s)"
  "cl_strerror client_env_ref = (\<lambda>w. (''error'', w))" "cl_launch_server client_env_ref = (\<lambda>_ _ w. (0, w))"
  by (simp_all add: client_env_ref_def client_env.defs libbase_ref_def libbase.defs)

lemma client_stream_ref: "stream_doc client_env_ref sock proto_ref cw_unread"
  by (auto simp: stream_doc_def client_read_ref_def client_string_ref_def proto_ref_def le_nat_le_bytes Let_def)

definition client_ref :: "(string \<times> string) list \<Rightarrow> client_world client" where
  "client_ref answers = \<lparr>cl_transport = kTransportAny, cl_serial = Some ''10.0.0.1:5555'', cl_transport_id = 0,
     cl_socket_spec = Some ''tcp:5037'', cl_one_device = None, cl_features = None, cl_err = [],
     cl_timeouts = [], cl_getopt = getopt_init, cl_return_errors = False, cl_listen_all = False,
     cl_world = \<lparr>cw_server = server_ref, cw_unread = [], cw_open = [], cw_next = 3, cw_sent = [],
       cw_answers = answers\<rparr>\<rparr>"

lemma matches_ref:
  "MatchesTarget core_ref (device_ref 2 ''10.0.0.1:5555'') (c_str ''10.0.0.1:5555'')"
  "\<not> MatchesTarget core_ref (device_ref 1 ''emulator-5554'') (c_str ''10.0.0.1:5555'')"
  by (simp_all add: MatchesTarget_def device_ref_def c_str_def local_match_def local_target_def qual_match_def)

lemma switch_ref:
  "\<exists>srv'. handle_host_request core_ref ''tport:serial:10.0.0.1:5555'' no_selection 9 0 None server_ref
     = (Ok SwitchedTransport, srv') \<and> ext_trace srv' = [SocketSetTransport 0 (Some 1), ReplyOkay 9,
         ReplyBytes 9 (put64 2)]"
  using matches_ref by (simp add: handle_host_request_def switch_transport_def parse_selection_def no_selection_def
      acquire_one_transport_def transports_of_def acquire_check_def inactive_text_def server_eval selects_def)

theorem both_mean_the_same_device_witness:
  "\<exists>w'. run_state (switch_socket_transport client_env_ref 3 []) (client_ref [])
     = ((Some 2, []), (client_ref [])\<lparr>cl_world := w'\<rparr>) \<and> cw_unread w' = []"
proof -
  obtain srv' where srv': "handle_host_request core_ref ''tport:serial:10.0.0.1:5555'' no_selection 9 0 None
      server_ref = (Ok SwitchedTransport, srv')"
    "ext_trace srv' = [SocketSetTransport 0 (Some 1), ReplyOkay 9, ReplyBytes 9 (put64 2)]"
    using switch_ref by blast
  have sw: "switch_service (client_ref []) = Some (''host:'' @ ''tport:serial:10.0.0.1:5555'', True)"
    by (simp add: switch_service_def client_ref_def c_str_def)
  obtain w where w: "cl_send_protocol client_env_ref 3 (''host:'' @ ''tport:serial:10.0.0.1:5555'')
      (cl_world (client_ref [])) = (True, w)" "cw_unread w = replies proto_ref 9 server_ref srv'"
    using srv' by (simp add: client_send_ref_def client_ref_def)
  have "\<exists>p. usable_choice core_ref (client_selection (client_ref [])) server_ref = Some p \<and>
      t_id (the (transports server_ref p)) = 2"
    using matches_ref by (simp add: usable_choice_def choice_def meant_def accessible_def client_selection_def
        selects_def client_ref_def server_ref_defs inactive_text_def)
  then show ?thesis
    using both_mean_the_same_device [OF core_ref_doc(3,4) client_stream_ref sw srv'(1) w, of "[]"] srv'(2) by auto
qed

section \<open>Descriptors\<close>

text \<open>\<open>opens w\<close> are the open descriptors, \<open>left w\<close> those that launches of a server have left open in the
  process so far. A connection is a new descriptor, a close ends one; what a launch leaves is up to
  \<^verbatim>\<open>launch_server\<close>, which is modelled on the server's side and leaves the read end of its pipe, at least;
  nothing else changes either.\<close>

definition fd_held :: "int \<Rightarrow> int multiset" where
  "fd_held sock = (if sock < 0 then {#} else {#sock#})"

lemma fd_held_none [simp]: "fd_held (- 1) = {#}" "fd_held (- 2) = {#}"
  by (simp_all add: fd_held_def)

definition client_fds_doc ::
    "('v, 'x) client_env_scheme \<Rightarrow> ('v \<Rightarrow> int multiset) \<Rightarrow> ('v \<Rightarrow> int multiset) \<Rightarrow> bool" where
  "client_fds_doc C opens left \<longleftrightarrow>
     (\<forall>spec w. opens (snd (cl_connect C spec w)) = opens w +
        (case fst (cl_connect C spec w) of Inl _ \<Rightarrow> {#} | Inr sock \<Rightarrow> {#sock#}) \<and>
        left (snd (cl_connect C spec w)) = left w) \<and>
     (\<forall>spec w sock. fst (cl_connect C spec w) = Inr sock \<longrightarrow> 0 \<le> sock) \<and>
     (\<forall>sock w. opens (snd (cl_close C sock w)) = opens w - fd_held sock \<and>
        left (snd (cl_close C sock w)) = left w) \<and>
     (\<forall>sock m w. opens (snd (cl_send_protocol C sock m w)) = opens w \<and>
        left (snd (cl_send_protocol C sock m w)) = left w) \<and>
     (\<forall>sock n w. opens (snd (cl_read_exactly C sock n w)) = opens w \<and>
        left (snd (cl_read_exactly C sock n w)) = left w) \<and>
     (\<forall>sock w. opens (snd (cl_read_protocol C sock w)) = opens w \<and>
        left (snd (cl_read_protocol C sock w)) = left w) \<and>
     (\<forall>sock w. opens (snd (cl_read_shutdown C sock w)) = opens w \<and>
        left (snd (cl_read_shutdown C sock w)) = left w) \<and>
     (\<forall>w. opens (snd (cl_strerror C w)) = opens w \<and>
        left (snd (cl_strerror C w)) = left w) \<and>
     (\<forall>spec d w. \<exists>x. opens (snd (cl_launch_server C spec d w)) = opens w + x \<and>
        left (snd (cl_launch_server C spec d w)) = left w + x)"

text \<open>\<open>turns (opens, left) x m d\<close>: \<open>m\<close> uses up the descriptors \<open>x\<close> and leaves \<open>d a\<close> open instead, besides what
  launches left.\<close>

type_synonym 'v fd_views = "('v \<Rightarrow> int multiset) \<times> ('v \<Rightarrow> int multiset)"

definition fds_are :: "'v fd_views \<Rightarrow> 'v \<Rightarrow> int multiset \<Rightarrow> 'v \<Rightarrow> bool" where
  "fds_are V w M w' \<longleftrightarrow> (\<exists>y. snd V w' = snd V w + y \<and> fst V w' = M + y)"

definition turns :: "'v fd_views \<Rightarrow> int multiset \<Rightarrow> ('v, 'a) cl \<Rightarrow> ('a \<Rightarrow> int multiset) \<Rightarrow> bool" where
  "turns V x m d \<longleftrightarrow> (\<forall>M s. fst V (cl_world s) = M + x \<longrightarrow>
     ends m s (\<lambda>a t. fds_are V (cl_world s) (M + d a) (cl_world t)))"

lemma fds_are_refl [simp]: "fst V w = M \<Longrightarrow> fds_are V w M w"
  by (simp add: fds_are_def)

lemma turnsD: "turns V x m d \<Longrightarrow> fst V (cl_world s) = M + x \<Longrightarrow>
    ends m s (\<lambda>a t. fds_are V (cl_world s) (M + d a) (cl_world t))"
  by (simp add: turns_def)

named_theorems turns_intros

lemma turns_return [turns_intros]: "d a = x \<Longrightarrow> turns V x (State_Monad.return a) d"
  by (simp add: turns_def ends_simps)

lemma turns_gets [turns_intros]: "turns V x (gets f) (\<lambda>_. x)"
  by (simp add: turns_def ends_simps)

lemma turns_gets_bind: "(\<And>c. turns V x (h (f c)) d) \<Longrightarrow> turns V x (State_Monad.bind (gets f) h) d"
  by (simp add: turns_def ends_simps)

lemma turns_modify [turns_intros]:
  "(\<And>s. cl_world (f s) = cl_world s) \<Longrightarrow> turns V x (modify f) (\<lambda>_. x)"
  by (simp add: turns_def ends_simps)

lemma turns_bind [turns_intros]:
  fixes V :: "'v fd_views"
  shows "turns V x m d \<Longrightarrow> (\<And>a. turns V (d a) (f a) e) \<Longrightarrow> turns V x (State_Monad.bind m f) e"
  unfolding turns_def ends_bind
proof (intro allI impI)
  fix M and s :: "'v client"
  assume m: "\<forall>M s. fst V (cl_world s) = M + x \<longrightarrow> ends m s (\<lambda>a t. fds_are V (cl_world s) (M + d a) (cl_world t))"
    and f: "\<And>a. \<forall>M s. fst V (cl_world s) = M + d a \<longrightarrow>
      ends (f a) s (\<lambda>b t. fds_are V (cl_world s) (M + e b) (cl_world t))"
    and M: "fst V (cl_world s) = M + x"
  from m M have "ends m s (\<lambda>a t. fds_are V (cl_world s) (M + d a) (cl_world t))" by blast
  then show "ends m s (\<lambda>a t. ends (f a) t (\<lambda>b u. fds_are V (cl_world s) (M + e b) (cl_world u)))"
  proof (rule ends_mono)
    fix a and t :: "'v client"
    assume "fds_are V (cl_world s) (M + d a) (cl_world t)"
    then obtain y where y: "snd V (cl_world t) = snd V (cl_world s) + y" "fst V (cl_world t) = (M + y) + d a"
      by (auto simp: fds_are_def ac_simps)
    from f y(2) have "ends (f a) t (\<lambda>b u. fds_are V (cl_world t) (M + y + e b) (cl_world u))" by blast
    then show "ends (f a) t (\<lambda>b u. fds_are V (cl_world s) (M + e b) (cl_world u))"
    proof (rule ends_mono)
      fix b and u :: "'v client"
      assume "fds_are V (cl_world t) (M + y + e b) (cl_world u)"
      then obtain y' where "snd V (cl_world u) = snd V (cl_world t) + y'" "fst V (cl_world u) = M + y + e b + y'"
        by (auto simp: fds_are_def)
      with y(1) show "fds_are V (cl_world s) (M + e b) (cl_world u)"
        unfolding fds_are_def by (intro exI [of _ "y + y'"]) (simp add: ac_simps)
    qed
  qed
qed

lemma turns_split [turns_intros]:
  "(b \<Longrightarrow> turns V x m d) \<Longrightarrow> (\<not> b \<Longrightarrow> turns V x n d) \<Longrightarrow> turns V x (if b then m else n) d"
  "(y = None \<Longrightarrow> turns V x m d) \<Longrightarrow> (\<And>a. y = Some a \<Longrightarrow> turns V x (f a) d) \<Longrightarrow>
   turns V x (case y of None \<Rightarrow> m | Some a \<Rightarrow> f a) d"
  "(\<And>e. z = Inl e \<Longrightarrow> turns V x (g e) d) \<Longrightarrow> (\<And>a. z = Inr a \<Longrightarrow> turns V x (k a) d) \<Longrightarrow>
   turns V x (case z of Inl e \<Rightarrow> g e | Inr a \<Rightarrow> k a) d"
  "(\<And>a b. p = (a, b) \<Longrightarrow> turns V x (l a b) d) \<Longrightarrow> turns V x (case p of (a, b) \<Rightarrow> l a b) d"
  by (cases y; cases z; cases p; simp)+

lemma turns_print [turns_intros]: "turns V x (client_print m) (\<lambda>_. x)"
  unfolding client_print_def by (intro turns_intros) simp

lemma turns_wop:
  "(\<And>M w. fst V w = M + x \<Longrightarrow> fds_are V w (M + d (fst (h w))) (snd (h w))) \<Longrightarrow> turns V x (wop h) d"
  by (simp add: turns_def ends_simps case_prod_unfold)

lemma turns_steps [turns_intros]:
  assumes "client_fds_doc C opens left"
  shows "turns (opens, left) x (wop (cl_send_protocol C sock m)) (\<lambda>_. x)"
    "turns (opens, left) x (wop (cl_read_exactly C sock n)) (\<lambda>_. x)"
    "turns (opens, left) x (wop (cl_read_protocol C sock)) (\<lambda>_. x)"
    "turns (opens, left) x (wop (cl_read_shutdown C sock)) (\<lambda>_. x)"
    "turns (opens, left) x (wop (cl_strerror C)) (\<lambda>_. x)"
    "turns (opens, left) x (wop (cl_launch_server C spec d)) (\<lambda>_. x)"
    "turns (opens, left) (fd_held sock) (close_fd C sock) (\<lambda>_. {#})"
    "turns (opens, left) {#} (wop (cl_connect C spec)) (\<lambda>r. case r of Inl _ \<Rightarrow> {#} | Inr sock \<Rightarrow> fd_held sock)"
proof -
  have launch: "\<exists>y. left (snd (cl_launch_server C spec d w)) = left w + y \<and>
      opens (snd (cl_launch_server C spec d w)) = M + x + y" if "opens w = M + x" for M w
    using assms that unfolding client_fds_doc_def by (metis (no_types, lifting))
  show "turns (opens, left) x (wop (cl_launch_server C spec d)) (\<lambda>_. x)"
    using launch by (intro turns_wop) (simp add: fds_are_def)
qed (use assms in \<open>auto intro!: turns_wop turns_return simp: fds_are_def fd_held_def client_fds_doc_def close_fd_def
    simp flip: not_less split: sum.split\<close>)

lemma turns_weaken: "turns V x m d \<Longrightarrow> (\<And>a. d a = e a) \<Longrightarrow> turns V x m e"
  by (simp add: turns_def)

lemma turns_around: "turns V {#} m (\<lambda>_. {#}) \<Longrightarrow> turns V x m (\<lambda>_. x)"
  unfolding turns_def by (metis add.right_neutral)

lemma turns_status:
  assumes doc: "client_fds_doc C opens left"
  shows "turns (opens, left) x (adb_status C sock err) (\<lambda>_. x)"
  unfolding adb_status_def perror_str_def
  by (rule turns_steps [OF doc] turns_intros refl | simp)+

lemma turns_switch:
  assumes doc: "client_fds_doc C opens left"
  shows "turns (opens, left) x (switch_socket_transport C sock err) (\<lambda>_. x)"
  unfolding switch_socket_transport_def perror_str_def
  by (rule turns_steps [OF doc] turns_status [OF doc] turns_intros refl | simp)+

lemma turns_connect_service:
  assumes doc: "client_fds_doc C opens left" and sock: "0 \<le> sock"
  shows "turns (opens, left) (fd_held sock) (connect_service C service force_switch sock err) (\<lambda>(sock, _, _). fd_held sock)"
  unfolding connect_service_def perror_str_def
  by (rule turns_steps [OF doc] turns_status [OF doc] turns_switch [OF doc] turns_intros refl
     | simp add: fd_held_def)+

lemma connect_opens:
  assumes "client_fds_doc C opens left" "cl_connect C spec w = (r, w')"
  shows "opens w' = opens w + (case r of Inl _ \<Rightarrow> {#} | Inr sock \<Rightarrow> {#sock#}) \<and> left w' = left w"
    "r = Inr sock \<Longrightarrow> 0 \<le> sock"
proof -
  have "opens (snd (cl_connect C spec w)) = opens w +
      (case fst (cl_connect C spec w) of Inl _ \<Rightarrow> {#} | Inr sock \<Rightarrow> {#sock#}) \<and>
      left (snd (cl_connect C spec w)) = left w"
    using assms(1) unfolding client_fds_doc_def by simp
  with assms(2) show "opens w' = opens w + (case r of Inl _ \<Rightarrow> {#} | Inr sock \<Rightarrow> {#sock#}) \<and> left w' = left w"
    by simp
  show "r = Inr sock \<Longrightarrow> 0 \<le> sock"
    using assms unfolding client_fds_doc_def by (metis fst_conv)
qed

lemma turns_connecting:
  assumes doc: "client_fds_doc C opens left"
    and "\<And>e. turns (opens, left) {#} (f (Inl e)) d" "\<And>sock. 0 \<le> sock \<Longrightarrow> turns (opens, left) (fd_held sock) (f (Inr sock)) d"
  shows "turns (opens, left) {#} (State_Monad.bind (wop (cl_connect C spec)) f) d"
  unfolding turns_def ends_simps
proof (intro allI impI)
  fix M and s :: "'a client"
  assume M: "fst (opens, left) (cl_world s) = M + {#}"
  obtain r w where r: "cl_connect C spec (cl_world s) = (r, w)" by (cases "cl_connect C spec (cl_world s)")
  show "case cl_connect C spec (cl_world s) of (a, w) \<Rightarrow>
      ends (f a) (s\<lparr>cl_world := w\<rparr>) (\<lambda>b t. fds_are (opens, left) (cl_world s) (M + d b) (cl_world t))"
  proof (cases r)
    case (Inl e)
    then have w: "opens w = M + {#}" "left w = left (cl_world s)"
      using connect_opens(1) [OF doc r] M by simp_all
    with turnsD [OF assms(2) [of e], of "s\<lparr>cl_world := w\<rparr>" M] r Inl show ?thesis by (simp add: fds_are_def)
  next
    case (Inr sock)
    then have w: "opens w = M + fd_held sock" "left w = left (cl_world s)" "0 \<le> sock"
      using connect_opens [OF doc r] M by (simp_all add: fd_held_def)
    with turnsD [OF assms(3) [of sock], of "s\<lparr>cl_world := w\<rparr>" M] r Inr show ?thesis by (simp add: fds_are_def)
  qed
qed

lemma turns_connect_once:
  assumes doc: "client_fds_doc C opens left"
  shows "turns (opens, left) {#} (adb_connect_once C service force_switch err) (\<lambda>(sock, _, _). fd_held sock)"
  unfolding adb_connect_once_def
  by (rule turns_connecting [OF doc] turns_intros turns_connect_service [OF doc] refl | simp)+

lemma turns_kill:
  assumes doc: "client_fds_doc C opens left"
  shows "turns (opens, left) {#} (adb_kill_server C) (\<lambda>_. {#})"
  unfolding adb_kill_server_def kill_reply_def
  by (rule turns_steps [OF doc] turns_intros refl | simp)+

lemma turns_versions:
  assumes doc: "client_fds_doc C opens left"
  shows "turns (opens, left) x (start_server C err) (\<lambda>_. x)"
    "turns (opens, left) x (running_version C sock err) (\<lambda>_. x)"
  unfolding start_server_def running_version_def
  by (rule turns_steps [OF doc] turns_intros refl | simp)+

lemma turns_check:
  assumes doc: "client_fds_doc C opens left"
  shows "turns (opens, left) {#} (check_server_version C) (\<lambda>_. {#})"
  unfolding check_server_version_def
  by (rule turns_connect_once [OF doc] turns_steps [OF doc] turns_versions [OF doc] turns_kill [OF doc, THEN turns_around]
      turns_intros refl      | simp)+

lemma turns_connect:
  assumes doc: "client_fds_doc C opens left" and service: "service \<noteq> ''host:start-server''"
  shows "turns (opens, left) {#} (adb_connect C service force_switch) (\<lambda>(sock, _, _). fd_held sock)"
  unfolding adb_connect_def adb_check_server_version_def
  by (rule turns_connect_once [OF doc] turns_check [OF doc] turns_intros refl | simp add: service)+

lemma turns_requests:
  assumes doc: "client_fds_doc C opens left" and service: "service \<noteq> ''host:start-server''"
  shows "turns (opens, left) {#} (adb_command C service) (\<lambda>_. {#})"
    "turns (opens, left) {#} (adb_query C service force_switch) (\<lambda>_. {#})"
  unfolding adb_command_def adb_query_def
  by (rule turns_connect [OF assms] turns_steps [OF doc] turns_status [OF doc] turns_intros refl | simp)+

lemma turns_features:
  assumes doc: "client_fds_doc C opens left"
  shows "turns (opens, left) {#} (adb_get_feature_set C) (\<lambda>_. {#})"
proof -
  have host: "format_host_command c ''features'' \<noteq> ''host:start-server''" for c :: "'a client"
    by (simp add: format_host_command_def split: option.split TransportType.split)
  show ?thesis
    unfolding adb_get_feature_set_def
    by (rule turns_gets_bind turns_requests [OF doc host] turns_intros refl | simp)+
qed

lemma client_fds_ref: "client_fds_doc client_env_ref (\<lambda>w. mset (cw_open w)) (\<lambda>_. {#})"
  by (simp add: client_fds_doc_def fd_held_def client_send_ref_def client_read_ref_def client_string_ref_def Let_def
      split: option.split prod.split)

text \<open>From one state of the client to another, the descriptors \<open>x\<close> and those of launches have been opened.\<close>

definition opened ::
    "('v \<Rightarrow> int multiset) \<Rightarrow> ('v \<Rightarrow> int multiset) \<Rightarrow> 'v client \<Rightarrow> int multiset \<Rightarrow> 'v client \<Rightarrow> bool" where
  "opened opens left c x c' \<longleftrightarrow> (\<exists>launches. left (cl_world c') = left (cl_world c) + launches \<and>
     opens (cl_world c') = opens (cl_world c) + x + launches)"

text \<open>C13: the requests of the client leave no descriptor behind. However the server answers and whatever
  fails on the way, a query, a command, the feature set and \<^verbatim>\<open>kill-server\<close> end with the descriptors they
  started with, and a connection for any service but \<^verbatim>\<open>host:start-server\<close>, for which none is made, has exactly
  the one it returns, none if it returns an error. If the request launches a server, what the launch leaves
  open comes on top, and nothing else.\<close>

theorem requests_close_their_descriptors:
  assumes doc: "client_fds_doc C opens left" and service: "service \<noteq> ''host:start-server''"
  shows "ends (adb_connect C service force_switch) c (\<lambda>(sock, _, _). opened opens left c (fd_held sock)) \<and>
     ends (adb_query C service force_switch) c (\<lambda>_. opened opens left c {#}) \<and>
     ends (adb_command C service) c (\<lambda>_. opened opens left c {#}) \<and>
     ends (adb_get_feature_set C) c (\<lambda>_. opened opens left c {#}) \<and>
     ends (adb_kill_server C) c (\<lambda>_. opened opens left c {#})"
proof -
  have opened: "ends m c (\<lambda>a. opened opens left c (d a))" if "turns (opens, left) {#} m d"
    for m :: "('a, 'c) cl" and d
    using turnsD [OF that, of c "opens (cl_world c)"]
    by (auto elim!: ends_mono simp: opened_def fds_are_def)
  show ?thesis
    using opened [OF turns_connect [OF doc service]] turns_requests [OF doc service, THEN opened]
      turns_features [OF doc, THEN opened] turns_kill [OF doc, THEN opened]
    by (simp add: case_prod_unfold)
qed

theorem requests_close_their_descriptors_witness:
  "ends (adb_query client_env_ref ''host:devices'' False) (client_ref [])
     (\<lambda>_ c'. mset (cw_open (cl_world c')) = {#})"
proof -
  have "ends (adb_query client_env_ref ''host:devices'' False) (client_ref [])
      (\<lambda>_. opened (\<lambda>w. mset (cw_open w)) (\<lambda>_. {#}) (client_ref []) {#})"
    using requests_close_their_descriptors [OF client_fds_ref, of "''host:devices''" False "client_ref []"] by simp
  then show ?thesis by (rule ends_mono) (simp add: client_ref_def opened_def)
qed

section \<open>The cached feature set\<close>

text \<open>Everything a command can do with the client between two requests.\<close>

datatype client_call =
    SelectDevice TransportType "string option" u64
  | Request string
  | Query string bool
  | Features
  | KillServer
  | Wait string "nat option"

fun do_call :: "('v, 'x) client_env_scheme \<Rightarrow> client_call \<Rightarrow> ('v, unit) cl" where
  "do_call C (SelectDevice type serial tid) = adb_set_transport type serial tid"
| "do_call C (Request service) = do { adb_command C service; State_Monad.return () }"
| "do_call C (Query service force_switch) = do { adb_query C service force_switch; State_Monad.return () }"
| "do_call C Features = do { adb_get_feature_set C; State_Monad.return () }"
| "do_call C KillServer = do { adb_kill_server C; State_Monad.return () }"
| "do_call C (Wait service timeout) = do { wait_for_device C service timeout; State_Monad.return () }"

fun do_calls :: "('v, 'x) client_env_scheme \<Rightarrow> client_call list \<Rightarrow> ('v, unit) cl" where
  "do_calls C [] = State_Monad.return ()"
| "do_calls C (c # cs) = do { do_call C c; do_calls C cs }"

text \<open>What every request leaves alone: any relation that allows changes of the world and of what was printed.\<close>

named_theorems request_intros

lemma io_rel_split [request_intros]:
  "state_io_rel R m \<Longrightarrow> state_io_rel R n \<Longrightarrow> state_io_rel R (if b then m else n)"
  "state_io_rel R m \<Longrightarrow> (\<And>a. state_io_rel R (f a)) \<Longrightarrow> state_io_rel R (case y of None \<Rightarrow> m | Some a \<Rightarrow> f a)"
  "(\<And>e. state_io_rel R (g e)) \<Longrightarrow> (\<And>a. state_io_rel R (k a)) \<Longrightarrow>
   state_io_rel R (case z of Inl e \<Rightarrow> g e | Inr a \<Rightarrow> k a)"
  "(\<And>a b. state_io_rel R (l a b)) \<Longrightarrow> state_io_rel R (case p of (a, b) \<Rightarrow> l a b)"
  by (cases y; cases z; cases p; simp)+

lemmas client_defs = perror_str_def close_fd_def adb_status_def switch_socket_transport_def connect_service_def
  adb_connect_once_def adb_kill_server_def kill_reply_def start_server_def running_version_def
  check_server_version_def adb_check_server_version_def adb_connect_def adb_command_def adb_query_def

locale request_frame =
  fixes R :: "'v client \<Rightarrow> 'v client \<Rightarrow> bool"
  assumes refl: "R s s" and trans: "R s t \<Longrightarrow> R t u \<Longrightarrow> R s u"
    and world: "R s (s\<lparr>cl_world := w\<rparr>)" and printed: "R s (s\<lparr>cl_err := m\<rparr>)"
begin

lemma steps [request_intros]:
  "state_io_rel R (State_Monad.return a)" "state_io_rel R (gets f)" "state_io_rel R (wop h)"
  "state_io_rel R (client_print m)" "(\<And>s. R s (g s)) \<Longrightarrow> state_io_rel R (modify g)"
  using refl world printed
  by (auto simp: state_io_rel_def gets_def modify_def wop_def client_print_def split: prod.splits)

lemma bind [request_intros]:
  assumes "state_io_rel R m" "\<And>a. state_io_rel R (f a)"
  shows "state_io_rel R (State_Monad.bind m f)"
proof
  fix a s s'
  assume "run_state (State_Monad.bind m f) s = (a, s')"
  then obtain b t where "run_state m s = (b, t)" "run_state (f b) t = (a, s')" by (auto split: prod.splits)
  with assms trans show "R s s'" by blast
qed

lemma requests:
  "state_io_rel R (adb_kill_server C)" "state_io_rel R (adb_connect C service force_switch)"
  "state_io_rel R (adb_command C service)" "state_io_rel R (adb_query C service force_switch)"
  unfolding client_defs by (intro request_intros steps bind)+

end

definition features_fixed :: "'v client \<Rightarrow> 'v client \<Rightarrow> bool" where
  "features_fixed s t \<longleftrightarrow> (cl_features s \<noteq> None \<longrightarrow> cl_features t = cl_features s)"

interpretation features: request_frame features_fixed
  by unfold_locales (simp_all add: features_fixed_def)

definition selection_fixed :: "'v client \<Rightarrow> 'v client \<Rightarrow> bool" where
  "selection_fixed s t \<longleftrightarrow> run_state adb_get_transport t = (fst (run_state adb_get_transport s), t) \<and>
     cl_timeouts t = cl_timeouts s"

interpretation selection: request_frame selection_fixed
  by unfold_locales (simp_all add: selection_fixed_def adb_get_transport_def gets_def)

lemma fixed_features: "state_io_rel features_fixed (adb_get_feature_set C)"
proof
  fix a and s s' :: "'a client"
  assume run: "run_state (adb_get_feature_set C) s = (a, s')"
  show "features_fixed s s'"
  proof (cases "cl_features s")
    case None
    then show ?thesis by (simp add: features_fixed_def)
  next
    case (Some fs)
    with run show ?thesis by (simp add: adb_get_feature_set_def gets_def features_fixed_def)
  qed
qed

lemma fixed_calls: "state_io_rel features_fixed (do_calls C cs)"
proof (induction cs)
  case (Cons c cs)
  have "state_io_rel features_fixed (do_call C c)"
    by (cases c) (auto simp: adb_set_transport_def wait_for_device_def features_fixed_def Let_def
        intro!: features.steps features.bind features.requests fixed_features request_intros)
  with Cons show ?case by (simp add: features.bind)
qed (simp add: features.steps)

text \<open>C33: the feature set is asked for once in the life of the process. After the first success every
  further call returns the same set and sends nothing, whatever was done in between: a command for another
  device works with the features of the first one.\<close>

theorem features_outlive_the_device:
  assumes first: "run_state (adb_get_feature_set C) c = (Inr fs, c1)"
    and between: "run_state (do_calls C calls) c1 = ((), c2)"
  shows "run_state (adb_get_feature_set C) c2 = (Inr fs, c2)"
proof -
  have "cl_features c1 = Some fs"
    using first by (auto simp: adb_get_feature_set_def gets_def modify_def split: option.splits prod.splits sum.splits)
  then have "cl_features c2 = Some fs"
    using state_io_relD [OF fixed_calls between] by (simp add: features_fixed_def)
  then show ?thesis by (simp add: adb_get_feature_set_def gets_def)
qed

definition two_devices :: "(string \<times> string) list" where
  "two_devices = [(''host:version'', ''OKAY'' @ proto_ref ''0029''),
     (''host-serial:10.0.0.1:5555:features'', ''OKAY'' @ proto_ref ''shell_v2,cmd''),
     (''host-serial:emulator-5554:features'', ''OKAY'' @ proto_ref ''cmd'')]"

lemma client_reads_ref:
  "cw_unread w = CHR ''O'' # CHR ''K'' # CHR ''A'' # CHR ''Y'' # rest \<Longrightarrow>
   client_read_ref 4 w = (Some ''OKAY'', w\<lparr>cw_unread := rest\<rparr>)"
  "cw_unread w = proto_ref m \<Longrightarrow> length m < 65536 \<Longrightarrow>
   client_string_ref w = (Inr m, w\<lparr>cw_unread := []\<rparr>)"
  by (simp_all add: client_read_ref_def client_string_ref_def proto_ref_def le_nat_le_bytes Let_def)

lemma scan_version_ref: "scan_hex4 ''0029'' = Some 41"
  by (simp add: scan_hex4_def c_str_def scan_digit_def is_space_def Let_def)

lemmas client_eval = client_defs gets_def modify_def wop_def client_send_ref_def client_reads_ref scan_version_ref

lemma features_run_ref:
  "\<exists>c1. run_state (adb_get_feature_set client_env_ref) (client_ref two_devices)
     = (Inr [kFeatureShell2, kFeatureCmd], c1)"
  by (simp add: adb_get_feature_set_def client_eval client_ref_def two_devices_def format_host_command_def
      c_str_def StringToFeatureSet_def kFeatureShell2_def kFeatureCmd_def)

theorem features_outlive_the_device_witness:
  "\<exists>c1 c2. run_state (adb_get_feature_set client_env_ref) (client_ref two_devices)
       = (Inr [kFeatureShell2, kFeatureCmd], c1) \<and>
     run_state (do_calls client_env_ref [SelectDevice kTransportAny (Some ''emulator-5554'') 0]) c1 = ((), c2) \<and>
     cl_serial c2 = Some ''emulator-5554'' \<and>
     run_state (adb_get_feature_set client_env_ref) c2 = (Inr [kFeatureShell2, kFeatureCmd], c2)"
proof -
  obtain c1 where first: "run_state (adb_get_feature_set client_env_ref) (client_ref two_devices)
      = (Inr [kFeatureShell2, kFeatureCmd], c1)" using features_run_ref by blast
  let ?c2 = "c1\<lparr>cl_transport := kTransportAny, cl_serial := Some ''emulator-5554'', cl_transport_id := 0\<rparr>"
  have between: "run_state (do_calls client_env_ref [SelectDevice kTransportAny (Some ''emulator-5554'') 0]) c1
      = ((), ?c2)"
    by (simp add: adb_set_transport_def modify_def)
  show ?thesis
    using first between features_outlive_the_device [OF first between] by (intro exI [of _ c1] exI [of _ ?c2]) simp
qed

end
