(* ===== verification/ToolsRef.thy ===== *)
theory ToolsRef
  imports Tools BugreportProperties
begin

text \<open>
  A concrete environment for the commands. Its world is the one of \<open>SyncRef\<close>: the device answers the
  requests in the order of \<open>rlinks\<close> and the requests are recorded in \<open>rcommands\<close>; descriptor 3 is the socket,
  with the bytes \<open>inbox\<close> to read and \<open>outbox\<close> written; descriptor 4 is an open file (\<open>rhandles\<close>) with the
  rest \<open>rcodec\<close> unread; the user types \<open>inbox\<close>. Without features the device is unreachable.
\<close>

definition tool_connect_ref :: "string \<Rightarrow> rworld \<Rightarrow> (int \<times> string) \<times> rworld" where
  "tool_connect_ref service w = (case rlinks w of
       [] \<Rightarrow> ((-1, ''closed''), w\<lparr>rcommands := rcommands w @ [service]\<rparr>)
     | (_, answer) # later \<Rightarrow>
         ((3, []), w\<lparr>rcommands := rcommands w @ [service], rlinks := later, inbox := answer\<rparr>))"

definition tool_sync_ref :: "nat \<Rightarrow> feature_set option \<Rightarrow> rworld sync_env" where
  "tool_sync_ref fuel features = (sync_env_ref fuel [])\<lparr>os_connect := tool_connect_ref,
     os_features := \<lambda>w. (case features of None \<Rightarrow> Inl ''no device'' | Some fs \<Rightarrow> Inr fs, w)\<rparr>"

definition tool_read_ref :: "int \<Rightarrow> nat \<Rightarrow> rworld \<Rightarrow> (errno + string) \<times> rworld" where
  "tool_read_ref i n w =
     (if i = 3 then (Inr (take n (inbox w)), w\<lparr>inbox := drop n (inbox w)\<rparr>)
      else if i = 4 then (Inr (take n (rcodec w)), w\<lparr>rcodec := drop n (rcodec w)\<rparr>)
      else (Inl EPERM, w))"

definition tool_read_exactly_ref :: "int \<Rightarrow> nat \<Rightarrow> rworld \<Rightarrow> (errno + string) \<times> rworld" where
  "tool_read_exactly_ref i n w =
     (if n \<le> length (if i = 3 then inbox w else rcodec w) then tool_read_ref i n w else (Inl ECONNRESET, w))"

definition tool_open_ref :: "string \<Rightarrow> rworld \<Rightarrow> (errno + int) \<times> rworld" where
  "tool_open_ref p w = (case map_of (rfiles w) p of
       None \<Rightarrow> (Inl ENOENT, w) | Some c \<Rightarrow> (Inr 4, w\<lparr>rhandles := [(p, c)], rcodec := c\<rparr>))"

definition tool_seek_ref :: "int \<Rightarrow> int \<Rightarrow> rworld \<Rightarrow> (errno + int) \<times> rworld" where
  "tool_seek_ref i offset w = (case rhandles w of
       [] \<Rightarrow> (Inl EPERM, w)
     | (_, c) # _ \<Rightarrow> if offset < 0 then (Inl (EOTHER 22), w)
         else (Inr offset, w\<lparr>rcodec := drop (nat offset) c\<rparr>))"

definition tool_env_ref :: "nat \<Rightarrow> feature_set option \<Rightarrow> rworld tool_env" where
  "tool_env_ref fuel features = bug_env.extend
     ((bug_env_ref fuel)\<lparr>bug_shell := (shell_env_ref fuel)\<lparr>sh_base := tool_sync_ref fuel features\<rparr>\<rparr>)
     (tool_env.fields ''pty'' ''raw'' 0 3 5 4096 [CHR 0x00] 4096 4 ''DONEDONE'' ''FAILFAIL'' '':'' (\<lambda>_. None)
     tool_read_ref
     (\<lambda>_ b w. (int (length b), w\<lparr>outbox := outbox w @ b\<rparr>))
     tool_read_exactly_ref
     (\<lambda>_ b w. (Inr (), w\<lparr>outbox := outbox w @ b\<rparr>))
     tool_open_ref
     (\<lambda>_ w. (Inl EPERM, w))
     tool_seek_ref
     (\<lambda>_ w. ((), w)) (\<lambda>_ w. (Inr (), w)) (\<lambda>_ _ w. ((), w)) (\<lambda>_ w. ((), w)) (\<lambda>w. (True, w))
     (\<lambda>w. ((), w)) (\<lambda>_ w. ((), w))
     (\<lambda>n w. (StdinData (take n (inbox w)), w\<lparr>inbox := drop n (inbox w)\<rparr>))
     (\<lambda>_ w. ((), w)) (\<lambda>w. (None, w))
     (\<lambda>_ i b w. (True, w\<lparr>outbox := outbox w @ b\<rparr>))
     (\<lambda>_ w. (False, w)) (\<lambda>_ _ _ w. (None, w)) (\<lambda>_ w. ((), w)) (\<lambda>w. (0, w))
     (\<lambda>_ _. ''1.00'') id (\<lambda>s. (0, s)) (\<lambda>_ w. ((), w)) (\<lambda>_ w. (True, w)) (\<lambda>_. True) (\<lambda>_ _. None))"

lemmas tool_ref_defs = tool_env_ref_def tool_env.defs bug_env.defs bug_env_ref_def shell_env_ref_def tool_sync_ref_def

lemma tool_env_ref_simps [simp]:
  "bug_shell (tool_env_ref fuel fs) = (shell_env_ref fuel)\<lparr>sh_base := tool_sync_ref fuel fs\<rparr>"
  "CHUNK_SIZE (tool_env_ref fuel fs) = 4" "ExitSuccess (tool_env_ref fuel fs) = ''DONEDONE''"
  "ExitFailure (tool_env_ref fuel fs) = ''FAILFAIL''" "ABB_ARG_DELIMETER (tool_env_ref fuel fs) = [CHR 0x00]"
  "fd_read (tool_env_ref fuel fs) = tool_read_ref"
  "fd_write (tool_env_ref fuel fs) = (\<lambda>_ b w. (int (length b), w\<lparr>outbox := outbox w @ b\<rparr>))"
  "fd_read_exactly (tool_env_ref fuel fs) = tool_read_exactly_ref"
  "fd_write_exactly (tool_env_ref fuel fs) = (\<lambda>_ b w. (Inr (), w\<lparr>outbox := outbox w @ b\<rparr>))"
  "fd_open (tool_env_ref fuel fs) = tool_open_ref" "fd_lseek (tool_env_ref fuel fs) = tool_seek_ref"
  "fd_close (tool_env_ref fuel fs) = (\<lambda>_ w. ((), w))" "stdin_raw (tool_env_ref fuel fs) = (\<lambda>_ w. ((), w))"
  "stdin_interruptible (tool_env_ref fuel fs)
     = (\<lambda>n w. (StdinData (take n (inbox w)), w\<lparr>inbox := drop n (inbox w)\<rparr>))"
  "shell_write (tool_env_ref fuel fs) = (\<lambda>_ i b w. (True, w\<lparr>outbox := outbox w @ b\<rparr>))"
  "kIdStdin (tool_env_ref fuel fs) = 0" "kIdCloseStdin (tool_env_ref fuel fs) = 3"
  "fmt_ratio (tool_env_ref fuel fs) = (\<lambda>_ _. ''1.00'')"
  by (simp_all add: tool_ref_defs)

lemma tool_sync_ref_simps [simp]:
  "os_connect (tool_sync_ref fuel fs) = tool_connect_ref"
  "os_features (tool_sync_ref fuel fs)
     = (\<lambda>w. (case fs of None \<Rightarrow> Inl ''no device'' | Some fs \<Rightarrow> Inr fs, w))"
  "loop_fuel (tool_sync_ref fuel fs) = fuel" "Join (tool_sync_ref fuel fs) = (\<lambda>xs d. join_with d xs)"
  "Basename (tool_sync_ref fuel fs) = basename_ref" "EndsWithIgnoreCase (tool_sync_ref fuel fs) = ends_with_ci"
  "env_getenv (tool_sync_ref fuel fs) = (\<lambda>_. None)" "strerror (tool_sync_ref fuel fs) = (\<lambda>_. ''error'')"
  "os_stat (tool_sync_ref fuel fs) = ref_stat True"
  by (simp_all add: tool_sync_ref_def)

definition tool_host :: "(string \<times> string) list \<Rightarrow> string list \<Rightarrow> rworld host" where
  "tool_host files answers = host_ref []\<lparr>h_conn := (h_conn (host_ref []))\<lparr>world := rworld0\<lparr>rfiles := files,
     rlinks := map (Pair []) answers\<rparr>\<rparr>\<rparr>"

end
