(* ===== verification/InstallProperties.thy ===== *)
theory InstallProperties
  imports InstallSessions ToolsRef
begin

text \<open>
  Properties of the commands of \<^verbatim>\<open>client/adb_install.cpp\<close> and of the copies they make: what they ask of the
  device, in which order, and what they do when the device cannot be reached.
\<close>

section \<open>What a command asks of the device\<close>

text \<open>\<open>V w\<close> are the services of the device requested so far. Only \<^verbatim>\<open>adb_connect\<close> requests one: the feature
  set is a query that the server answers (\<^verbatim>\<open>host:features\<close>) and asks nothing of the device.\<close>

definition services_doc :: "('w, 'x) tool_env_scheme \<Rightarrow> ('w \<Rightarrow> string list) \<Rightarrow> bool" where
  "services_doc T V \<longleftrightarrow>
     (\<forall>s w. V (snd (os_connect (tl_sync T) s w)) = V w @ [s]) \<and>
     (\<forall>w. V (snd (os_features (tl_sync T) w)) = V w) \<and>
     (\<forall>p w. V (snd (os_stat (tl_sync T) p w)) = V w) \<and>
     (\<forall>p w. V (snd (fd_open T p w)) = V w) \<and>
     (\<forall>i n w. V (snd (fd_read T i n w)) = V w) \<and>
     (\<forall>i b w. V (snd (fd_write T i b w)) = V w) \<and>
     (\<forall>i w. V (snd (fd_close T i w)) = V w) \<and>
     (\<forall>b w. V (snd (stdin_raw T b w)) = V w) \<and>
     (\<forall>e b w. V (snd (sh_fwrite (bug_shell T) e b w)) = V w)"

abbreviation asked :: "('w \<Rightarrow> string list) \<Rightarrow> 'w host \<Rightarrow> string list" where
  "asked V h \<equiv> V (world (h_conn h))"

definition quiet :: "('w \<Rightarrow> string list) \<Rightarrow> 'w host \<Rightarrow> 'w host \<Rightarrow> bool" where
  "quiet V h h' \<longleftrightarrow> asked V h' = asked V h"

definition asks :: "('w \<Rightarrow> string list) \<Rightarrow> ('w, 'a) hprog \<Rightarrow> ('a \<Rightarrow> string list \<Rightarrow> bool) \<Rightarrow> bool" where
  "asks V m Q \<longleftrightarrow> (\<forall>h a h'. m h = (Ok a, h') \<longrightarrow> (\<exists>new. asked V h' = asked V h @ new \<and> Q a new))"

lemma quiet_preorder [simp]: "preorder_on_states (quiet V)"
  by (auto simp: preorder_on_states_def quiet_def)

lemma quiet_ops:
  "(\<And>w. V (snd (f w)) = V w) \<Longrightarrow> keeps (quiet V) (tos f)"
  "(\<And>w. V (snd (g w)) = V w) \<Longrightarrow> keeps (quiet V) (tsys g)"
  by (auto simp: keeps_def quiet_def tos_def tsys_def connp_def osop_def syscall_def split: prod.splits sum.splits)
    (metis snd_conv)+

lemma quiet_pure [keeps_intros]:
  "keeps (quiet V) (print_err m)" "keeps (quiet V) (print_out m)" "keeps (quiet V) (errno_text T)"
  "keeps (quiet V) (capture_to T out m)" "keeps (quiet V) (connp (getp f))"
  by (auto simp: keeps_def quiet_def print_err_def print_out_def errno_text_def capture_to_def connp_def capture_def
      strerror_now_def modp_def getp_def ret_def)

lemma quiet_exits [keeps_intros]:
  "keeps (quiet V) (error_exit E m)" "keeps (quiet V) (perror_exit E m)"
  unfolding error_exit_def perror_exit_def error_exit_va_def by (intro keeps_intros quiet_preorder)+

lemma asks_quiet: "keeps (quiet V) m \<Longrightarrow> asks V m (\<lambda>_ new. new = [])"
  unfolding asks_def quiet_def by (auto dest: keepsD)

lemma asks_ret: "Q a [] \<Longrightarrow> asks V (ret a) Q"
  by (simp add: asks_def)

lemma asks_mono: "asks V m Q \<Longrightarrow> (\<And>a new. Q a new \<Longrightarrow> R a new) \<Longrightarrow> asks V m R"
  unfolding asks_def by blast

lemma asks_bind:
  assumes "asks V m Q" "\<And>a. asks V (f a) (\<lambda>b new. \<forall>old. Q a old \<longrightarrow> R b (old @ new))"
  shows "asks V (bindp m f) R"
  unfolding asks_def
proof (intro allI impI)
  fix h b h'
  assume "bindp m f h = (Ok b, h')"
  then obtain a h1 where a: "m h = (Ok a, h1)" "f a h1 = (Ok b, h')" by (auto simp: bindp_Ok_iff)
  then obtain old new where "asked V h1 = asked V h @ old" "Q a old" "asked V h' = asked V h1 @ new"
    "\<forall>old. Q a old \<longrightarrow> R b (old @ new)" using assms unfolding asks_def by blast
  then show "\<exists>new. asked V h' = asked V h @ new \<and> R b new" by auto
qed

lemma asks_quiet_bind:
  assumes "keeps (quiet V) m" "\<And>a. asks V (f a) R"
  shows "asks V (bindp m f) R"
  using asks_bind [OF asks_quiet [OF assms(1)], of f R] assms(2) by simp

lemma asks_quiet_then: "keeps (quiet V) m \<Longrightarrow> asks V n R \<Longrightarrow> asks V (thenp m n) R"
  unfolding thenp_def by (rule asks_quiet_bind)

text \<open>The operations that request nothing.\<close>

lemma quiet_tools:
  assumes doc: "services_doc T V"
  shows "keeps (quiet V) (device_can T f)" "keeps (quiet V) (local_size T file)"
    "keeps (quiet V) (tsys (fd_open T file))" "keeps (quiet V) (drop_fd T sock)"
    "keeps (quiet V) (tsys (os_stat (tl_sync T) file))"
    "keeps (quiet V) (tsys (fd_read T sock n))" "keeps (quiet V) (tos (fd_write T sock b))"
    "keeps (quiet V) (fwrite_stream (bug_shell T) e b)" "keeps (quiet V) (tos (stdin_raw T on))"
  using doc unfolding services_doc_def
  by (simp_all add: quiet_ops device_can_def adb_get_feature_set_or_die_def deref_can_use_def local_size_def drop_fd_def
      fwrite_stream_def keeps_intros tos_def [symmetric])

lemma quiet_copies:
  assumes doc: "services_doc T V"
  shows "keeps (quiet V) (copy_to_file T i j)" "keeps (quiet V) (read_status_line T i)"
proof -
  note tools = quiet_tools [OF doc]
  have "keeps (quiet V) (copy_loop T fuel i j)" for fuel
    by (induction fuel) (auto intro!: keeps_intros tools)
  then show "keeps (quiet V) (copy_to_file T i j)"
    unfolding copy_to_file_def by (intro keeps_intros tools quiet_preorder)
  have "keeps (quiet V) (read_status T fuel i n buf)" for fuel n buf
    by (induction fuel arbitrary: n buf) (auto intro!: keeps_intros tools)
  then show "keeps (quiet V) (read_status_line T i)"
    unfolding read_status_line_def by (intro keeps_intros quiet_preorder)
qed

lemma asks_with_fd: "services_doc T V \<Longrightarrow> asks V m Q \<Longrightarrow> asks V (with_fd T sock m) Q"
  unfolding with_fd_def
  by (erule asks_bind) (auto intro!: asks_quiet_then quiet_tools asks_ret)

lemma quiet_with_fd: "services_doc T V \<Longrightarrow> keeps (quiet V) m \<Longrightarrow> keeps (quiet V) (with_fd T sock m)"
  unfolding with_fd_def by (intro keeps_intros quiet_tools quiet_preorder)

text \<open>The request for a command of the package manager, in the two forms devices understand.\<close>

definition request_of :: "('w, 'x) tool_env_scheme \<Rightarrow> string list \<Rightarrow> string \<Rightarrow> bool" where
  "request_of T args s \<longleftrightarrow> s = ''abb_exec:'' @ Join (tl_sync T) args (ABB_ARG_DELIMETER T) \<or>
     s = Join (tl_sync T) args '' ''"

lemma asks_connect:
  assumes "services_doc T V"
  shows "asks V (connect T s) (\<lambda>_ new. new = [s])"
  unfolding asks_def
proof (intro allI impI)
  fix h a h'
  assume run: "connect T s h = (Ok a, h')"
  have "V (snd (os_connect (tl_sync T) s (world (h_conn h)))) = asked V h @ [s]"
    using assms unfolding services_doc_def by blast
  with run show "\<exists>new. asked V h' = asked V h @ new \<and> new = [s]"
    by (auto simp: connect_def tos_def connp_def osop_def split: prod.splits)
qed

lemma asks_tail:
  assumes "asks V m Q" "\<And>a new. Q a new \<Longrightarrow> R new" "\<And>a. keeps (quiet V) (f a)"
  shows "asks V (bindp m f) (\<lambda>_. R)"
  by (rule asks_bind [OF assms(1)], rule asks_mono [OF asks_quiet [OF assms(3)]]) (use assms(2) in simp)

lemma asks_send_command:
  assumes doc: "services_doc T V"
  shows "asks V (send_command T args) (\<lambda>_ new. \<exists>s. new = [s] \<and> request_of T args s)"
proof -
  have plain: "asks V (connect T (Join (tl_sync T) args '' ''))
      (\<lambda>_ new. \<exists>s. new = [s] \<and> request_of T args s)"
    by (rule asks_mono [OF asks_connect [OF doc]]) (simp add: request_of_def)
  have abb: "asks V (send_abb_exec_command T args) (\<lambda>_ new. \<exists>s. new = [s] \<and> request_of T args s)"
    unfolding send_abb_exec_command_def
    by (rule asks_tail [OF asks_connect [OF doc]])
       (auto simp: request_of_def intro!: keeps_intros quiet_tools [OF doc] quiet_pure)
  show ?thesis
    unfolding send_command_def is_abb_exec_supported_def
    by (rule asks_quiet_bind [OF quiet_tools(1) [OF doc]]) (use plain abb in auto)
qed

lemma asks_command_status:
  assumes doc: "services_doc T V"
  shows "asks V (command_status T what args) (\<lambda>_ new. \<exists>s. new = [s] \<and> request_of T args s)"
  unfolding command_status_def
  by (rule asks_tail [OF asks_send_command [OF doc]])
     (auto intro!: keeps_intros quiet_copies [OF doc] quiet_with_fd [OF doc] quiet_pure)

text \<open>Writing a file into a session: nothing, or one request.\<close>

definition write_request :: "('w, 'x) tool_env_scheme \<Rightarrow> string \<Rightarrow> int \<Rightarrow> string \<Rightarrow> string \<Rightarrow> bool" where
  "write_request T cmd session file s \<longleftrightarrow> (\<exists>len. request_of T [cmd, ''install-write'', ''-S'', show_int len,
     show_int session, Basename (tl_sync T) file, ''-''] s)"

lemma asks_write:
  assumes doc: "services_doc T V"
  shows "asks V (write_to_session T shown cmd session (Basename (tl_sync T) file) file)
    (\<lambda>ok new. new = [] \<and> \<not> ok \<or> (\<exists>s. new = [s] \<and> write_request T cmd session file s))"
proof -
  let ?Q = "\<lambda>ok new. new = [] \<and> \<not> ok \<or> (\<exists>s. new = [s] \<and> write_request T cmd session file s)"
  have failed: "asks V (bindp (errno_text T) (\<lambda>e. thenp (print_err (m @ e @ newline)) (ret False))) ?Q" for m
    by (auto intro!: asks_quiet_bind asks_quiet_then quiet_pure asks_ret)
  have send: "asks V (bindp (send_command T [cmd, ''install-write'', ''-S'', show_int len, show_int session,
      Basename (tl_sync T) file, ''-'']) f) ?Q" if "\<And>a. keeps (quiet V) (f a)" for f :: "int \<times> string \<Rightarrow> _" and len
    by (rule asks_mono [OF asks_tail [where R = "\<lambda>new. \<exists>s. new = [s] \<and>
        write_request T cmd session file s", OF asks_send_command [OF doc]]]) (auto simp: write_request_def that)
  show ?thesis
    unfolding write_to_session_def Let_def append_assoc
    by (auto intro!: asks_quiet_bind quiet_tools [OF doc] asks_with_fd [OF doc] send quiet_with_fd [OF doc]
        quiet_copies [OF doc] keeps_intros quiet_pure asks_quiet_then asks_ret split: option.split)
qed

lemma asks_stream:
  assumes doc: "services_doc T V"
  shows "asks V (stream_session_files T cmd session files) (\<lambda>ok new. \<exists>k \<le> length files.
    (ok \<longrightarrow> k = length files) \<and> list_all2 (write_request T cmd session) (take k files) new)"
proof -
  let ?body = "\<lambda>file (_ :: unit). bindp (write_to_session T double_quoted cmd session
      (Basename (tl_sync T) file) file) (\<lambda>ok. ret (ok, ()))"
  have body: "asks V (?body f acc) (\<lambda>(ok, _) new. new = [] \<and> \<not> ok \<or>
      (\<exists>s. new = [s] \<and> write_request T cmd session f s))" for f acc
    by (rule asks_bind [OF asks_write [OF doc]]) (auto intro!: asks_ret)
  have "asks V (fold_while ?body files acc) (\<lambda>(ok, _) new. \<exists>k \<le> length files.
      (ok \<longrightarrow> k = length files) \<and> list_all2 (write_request T cmd session) (take k files) new)" for acc
  proof (induction files arbitrary: acc)
    case Nil
    then show ?case by (simp add: asks_ret)
  next
    case (Cons f files)
    show ?case
      unfolding fold_while.simps
    proof (rule asks_bind [OF body])
      fix p :: "bool \<times> unit"
      let ?P = "write_request T cmd session"
      have none: "\<exists>k \<le> Suc n. list_all2 ?P (take k (f # files)) []"
        and one: "?P f s \<Longrightarrow> \<exists>k \<le> Suc n. list_all2 ?P (take k (f # files)) [s]" for n s
        by (rule exI [of _ 0], simp) (rule exI [of _ 1], simp)
      show "asks V (case p of (ok, acc') \<Rightarrow> if ok then fold_while ?body files acc' else ret (False, acc'))
        (\<lambda>b new. \<forall>old. (case p of (ok, _) \<Rightarrow> \<lambda>new. new = [] \<and> \<not> ok \<or> (\<exists>s. new = [s] \<and> ?P f s)) old \<longrightarrow>
          (case b of (ok, _) \<Rightarrow> \<lambda>new. \<exists>k \<le> length (f # files). (ok \<longrightarrow> k = length (f # files)) \<and>
            list_all2 ?P (take k (f # files)) new) (old @ new))"
      proof (cases "fst p")
        case True
        then show ?thesis
          by (auto simp: case_prod_unfold intro!: asks_mono [OF Cons] exI [of _ "Suc _"])
      next
        case False
        then show ?thesis by (auto simp: case_prod_unfold intro!: asks_ret none one)
      qed
    qed
  qed
  then show ?thesis
    unfolding stream_session_files_def
    by (intro asks_bind) (auto intro!: asks_ret)
qed

lemma asks_finalize:
  assumes doc: "services_doc T V"
  shows "asks V (finalize_session T cmd session ok) (\<lambda>r new. (r = 0 \<longrightarrow> ok) \<and> (\<exists>s. new = [s] \<and>
    request_of T [cmd, if ok then ''install-commit'' else ''install-abandon'', show_int session] s))"
  unfolding finalize_session_def
  by (rule asks_bind [OF asks_command_status [OF doc]])
     (auto intro!: asks_ret asks_quiet_then quiet_pure split: option.split)

text \<open>The whole run of a session: the request that creates it, those that write the files \<open>files\<close> in order up to
  the first failure, and the one that ends it.\<close>

definition session_requests ::
    "('w, 'x) tool_env_scheme \<Rightarrow> string list \<Rightarrow> int \<Rightarrow> string list \<Rightarrow> bool" where
  "session_requests T files r new \<longleftrightarrow> (\<exists>cmd create. (\<exists>args. request_of T ([cmd, ''install-create''] @ args) create) \<and>
     (new = [create] \<and> r \<noteq> 0 \<or>
      (\<exists>session k writes end ok. new = create # writes @ [end] \<and>
         k \<le> length files \<and> list_all2 (write_request T cmd session) (take k files) writes \<and>
         (ok \<longrightarrow> k = length files) \<and> (r = 0 \<longrightarrow> ok) \<and> request_of T
           [cmd, if ok then ''install-commit'' else ''install-abandon'', show_int session] end)))"

lemma asks_transfer:
  assumes doc: "services_doc T V"
  shows "asks V (bindp (stream_session_files T cmd session files) (finalize_session T cmd session))
    (\<lambda>r new. \<exists>k writes end ok. new = writes @ [end] \<and> k \<le> length files \<and>
       list_all2 (write_request T cmd session) (take k files) writes \<and> (ok \<longrightarrow> k = length files) \<and>
       (r = 0 \<longrightarrow> ok) \<and> request_of T
         [cmd, if ok then ''install-commit'' else ''install-abandon'', show_int session] end)"
proof (rule asks_bind [OF asks_stream [OF doc]])
  fix ok
  show "asks V (finalize_session T cmd session ok) (\<lambda>r new. \<forall>old. (\<exists>k \<le> length files.
      (ok \<longrightarrow> k = length files) \<and> list_all2 (write_request T cmd session) (take k files) old) \<longrightarrow>
    (\<exists>k writes end ok. old @ new = writes @ [end] \<and> k \<le> length files \<and>
       list_all2 (write_request T cmd session) (take k files) writes \<and> (ok \<longrightarrow> k = length files) \<and>
       (r = 0 \<longrightarrow> ok) \<and> request_of T
         [cmd, if ok then ''install-commit'' else ''install-abandon'', show_int session] end))"
    by (rule asks_mono [OF asks_finalize [OF doc]]) blast
qed

lemma session_requestsI:
  assumes "request_of T ([cmd, ''install-create''] @ args) create" "k \<le> length files"
    and "list_all2 (write_request T cmd session) (take k files) writes" "ok \<longrightarrow> k = length files" "r = 0 \<longrightarrow> ok"
    and "request_of T [cmd, if ok then ''install-commit'' else ''install-abandon'', show_int session] end"
  shows "session_requests T files r (create # writes @ [end])"
  using assms unfolding session_requests_def by blast

lemma asks_session:
  assumes doc: "services_doc T V"
  shows "asks V (bindp (command_status T ''create'' ([cmd, ''install-create''] @ args)) (\<lambda>r. case r of
      None \<Rightarrow> ret 1
    | Some buf \<Rightarrow> (case session_id_of buf of (session, buf) \<Rightarrow>
        if session < 0 then thenp (print_err (m @ buf)) (ret 1)
        else bindp (stream_session_files T cmd session files) (finalize_session T cmd session))))
    (session_requests T files)"
proof (rule asks_bind [OF asks_command_status [OF doc]])
  fix a
  have stop: "asks V (ret 1) (\<lambda>b new. \<forall>old. (\<exists>s. old = [s] \<and> request_of T ([cmd, ''install-create''] @ args) s) \<longrightarrow>
      session_requests T files b (old @ new))"
    by (rule asks_ret) (auto simp: session_requests_def)
  have go: "asks V (bindp (stream_session_files T cmd session files) (finalize_session T cmd session))
      (\<lambda>b new. \<forall>old. (\<exists>s. old = [s] \<and> request_of T ([cmd, ''install-create''] @ args) s) \<longrightarrow>
        session_requests T files b (old @ new))" for session
  proof (rule asks_mono [OF asks_transfer [OF doc]], intro allI impI)
    fix b :: int and new old
    assume "\<exists>k writes end ok. new = writes @ [end] \<and> k \<le> length files \<and>
       list_all2 (write_request T cmd session) (take k files) writes \<and> (ok \<longrightarrow> k = length files) \<and>
       (b = 0 \<longrightarrow> ok) \<and> request_of T
         [cmd, if ok then ''install-commit'' else ''install-abandon'', show_int session] end"
      and "\<exists>s. old = [s] \<and> request_of T ([cmd, ''install-create''] @ args) s"
    then obtain k writes "end" ok s where parts: "new = writes @ [end]" "old = [s]"
      "request_of T ([cmd, ''install-create''] @ args) s" "k \<le> length files"
      "list_all2 (write_request T cmd session) (take k files) writes" "ok \<longrightarrow> k = length files" "b = 0 \<longrightarrow> ok"
      "request_of T [cmd, if ok then ''install-commit'' else ''install-abandon'', show_int session] end"
      by blast
    show "session_requests T files b (old @ new)"
      using session_requestsI [OF parts(3-8)] parts(1,2) by simp
  qed
  show "asks V (case a of None \<Rightarrow> ret 1
    | Some buf \<Rightarrow> (case session_id_of buf of (session, buf) \<Rightarrow>
        if session < 0 then thenp (print_err (m @ buf)) (ret 1)
        else bindp (stream_session_files T cmd session files) (finalize_session T cmd session)))
    (\<lambda>b new. \<forall>old. (\<exists>s. old = [s] \<and> request_of T ([cmd, ''install-create''] @ args) s) \<longrightarrow>
      session_requests T files b (old @ new))"
    by (auto intro!: stop [simplified] go [simplified] asks_quiet_then quiet_pure split: option.split prod.split)
qed

definition session_files :: "('w, 'x) tool_env_scheme \<Rightarrow> string list \<Rightarrow> string list" where
  "session_files T argv = rev (takeWhile (is_session_file T) (rev argv))"

lemma count_quiet: "services_doc T V \<Longrightarrow> keeps (quiet V) (count_session_files T fs n bytes)"
  by (induction fs arbitrary: n bytes) (auto intro!: keeps_intros quiet_tools)

lemma count_yields:
  "yields (count_session_files T fs n bytes) (\<lambda>(m, _) _. m = n + length (takeWhile (is_session_file T) fs))"
proof (induction fs arbitrary: n bytes)
  case Nil
  then show ?case by (auto intro: yields_ret)
next
  case (Cons f fs)
  have stop: "yields (error_exit E m) Q" "yields (perror_exit E m) Q" for E m Q
    unfolding error_exit_def perror_exit_def error_exit_va_def by (intro yields_intros)+
  have "yields (count_session_files T fs (Suc n) b) (\<lambda>(m, _) _. m = Suc (n + length (takeWhile (is_session_file T) fs)))"
    for b using Cons [of "Suc n" b] by simp
  then show ?case by (auto intro!: yields_intros stop yields_ret)
qed

lemma session_files_drop:
  "drop (length argv - length (takeWhile P (rev argv))) argv = rev (takeWhile P (rev argv))"
  by (metis (no_types, lifting) length_rev rev_rev_ident rev_take takeWhile_eq_take)

text \<open>C10: a session of \<^verbatim>\<open>install-multiple\<close> is committed only complete. Whatever fails, the requests of the
  command are: create the session, write a first part of the files in the order of the command line, end the
  session; the end is a commit only if a write was requested for every file, and only then can the command
  succeed; otherwise the session is abandoned.\<close>

theorem sessions_commit_only_complete:
  assumes doc: "services_doc T V" and run: "install_multiple_app_streamed T argv h = (Ok r, h')"
  shows "\<exists>new. asked V h' = asked V h @ new \<and> session_requests T (session_files T argv) r new"
proof -
  obtain n total h1 where count: "count_session_files T (rev argv) 0 0 h = (Ok (n, total), h1)"
    and rest: "(if n = 0 then error_exit (bug_shell T) ''need APK file on command line''
       else let first_apk = length argv - n
         in bindp (is_abb_exec_supported T) (\<lambda>use_abb_exec.
            bindp (session_install_cmd T use_abb_exec) (\<lambda>install_cmd.
            bindp (command_status T ''create'' ([install_cmd, ''install-create'', ''-S'',
                show_nat (unat total)] @ command_args T use_abb_exec (take first_apk argv))) (\<lambda>r.
              case r of
                None \<Rightarrow> ret 1
              | Some buf \<Rightarrow> (case session_id_of buf of (session_id, buf) \<Rightarrow>
                  if session_id < 0 then
                    thenp (print_err (''adb: failed to create session'' @ newline @ buf)) (ret 1)
                  else bindp (stream_session_files T install_cmd session_id (drop first_apk argv))
                    (finalize_session T install_cmd session_id)))))) h1 = (Ok r, h')"
    using run unfolding install_multiple_app_streamed_def bindp_Ok_iff by auto
  have quiet1: "asked V h1 = asked V h" using keepsD [OF count_quiet [OF doc] count] by (simp add: quiet_def)
  have n: "n = length (takeWhile (is_session_file T) (rev argv))"
    using yieldsD [OF count_yields count] by simp
  have install_cmd: "keeps (quiet V) (session_install_cmd T b)" for b
    unfolding session_install_cmd_def best_install_mode_def by (intro keeps_intros quiet_preorder quiet_tools [OF doc])
  have "n \<noteq> 0" using rest by (auto simp: error_exit_def error_exit_va_def thenp_Ok_iff split: if_splits)
  let ?rest = "bindp (is_abb_exec_supported T) (\<lambda>b. bindp (session_install_cmd T b) (\<lambda>cmd.
      bindp (command_status T ''create'' ([cmd, ''install-create''] @ [''-S'', show_nat (unat total)]
          @ command_args T b (take (length argv - n) argv))) (\<lambda>r. case r of
        None \<Rightarrow> ret 1
      | Some buf \<Rightarrow> (case session_id_of buf of (session, buf) \<Rightarrow>
          if session < 0 then thenp (print_err ((''adb: failed to create session'' @ newline) @ buf)) (ret 1)
          else bindp (stream_session_files T cmd session (drop (length argv - n) argv))
            (finalize_session T cmd session)))))"
  have "asks V ?rest (session_requests T (drop (length argv - n) argv))"
    unfolding is_abb_exec_supported_def
    by (intro asks_quiet_bind quiet_tools(1) [OF doc] install_cmd asks_session [OF doc])
  moreover have "?rest h1 = (Ok r, h')" using rest \<open>n \<noteq> 0\<close>
    by (simp only: Let_def if_False append_assoc append_Cons append_Nil)
  ultimately obtain new where "asked V h' = asked V h1 @ new"
    "session_requests T (drop (length argv - n) argv) r new" unfolding asks_def by blast
  then show ?thesis unfolding quiet1 session_files_def n session_files_drop by blast
qed

text \<open>Applied to a device that creates the session and then stops answering: the session is abandoned.\<close>

definition session_host :: "rworld host" where
  "session_host = tool_host [(''a.apk'', ''xyz'')] [''Success [7]'']"

lemma services_ref: "services_doc (tool_env_ref fuel fs) rcommands"
  by (simp add: services_doc_def tool_connect_ref_def tool_read_ref_def tool_open_ref_def ref_stat_def
      shell_env_ref_def split: list.split prod.split option.split)

lemma read_status_ref:
  assumes "inbox (world (h_conn h)) = s" "length s < 8191"
  shows "read_status_line (tool_env_ref (Suc (Suc n)) fs) 3 h =
    (Ok (c_str s), h\<lparr>h_conn := h_conn h\<lparr>world := world (h_conn h)\<lparr>inbox := []\<rparr>\<rparr>\<rparr>)"
  using assms by (simp add: read_status_line_def tsys_def connp_def syscall_def tool_read_ref_def bindp_def ret_def
      shell_env_ref_def)

lemma session_id_ref: "session_id_of (c_str ''Success [7]'') = (7, ''Success [7'')"
  by code_simp

lemmas tool_eval = tsys_def tos_def connp_def syscall_def osop_def prog_defs print_err_def drop_fd_def with_fd_def
  device_can_def adb_get_feature_set_or_die_def deref_can_use_def connect_def tool_connect_ref_def ref_stat_def
  tool_open_ref_def tool_host_def host_ref_def ready_conn_def rworld0_def

lemma session_run:
  "\<exists>h'. install_multiple_app_streamed (tool_env_ref 2 (Some [kFeatureCmd]))
     [''install-multiple'', ''-r'', ''a.apk''] session_host = (Ok 1, h')"
proof -
  have "\<exists>h'. install_multiple_app_streamed (tool_env_ref (Suc (Suc 0)) (Some [kFeatureCmd]))
     [''install-multiple'', ''-r'', ''a.apk''] session_host = (Ok 1, h')"
    by (simp add: install_multiple_app_streamed_def session_host_def is_apex_file_def is_session_file_def is_apk_def
        ends_with_ci_def to_lower_ascii_def suffix_def tool_eval is_abb_exec_supported_def session_install_cmd_def
        best_install_mode_def command_status_def send_command_def read_status_ref session_id_ref
        stream_session_files_def write_to_session_def local_size_def finalize_session_def
        send_abb_exec_command_def)
  then show ?thesis by (simp add: numeral_2_eq_2)
qed

theorem sessions_commit_only_complete_witness:
  "\<exists>h' new. install_multiple_app_streamed (tool_env_ref 2 (Some [kFeatureCmd]))
       [''install-multiple'', ''-r'', ''a.apk''] session_host = (Ok 1, h') \<and>
     asked rcommands h' = asked rcommands session_host @ new \<and>
     session_requests (tool_env_ref 2 (Some [kFeatureCmd]))
       (session_files (tool_env_ref 2 (Some [kFeatureCmd])) [''install-multiple'', ''-r'', ''a.apk'']) 1 new"
  using session_run sessions_commit_only_complete [OF services_ref] by blast

section \<open>Copying\<close>

text \<open>A source that has the pieces \<open>pieces w\<close> left to read, and a destination that got \<open>got w\<close>: a write appends
  as much of its data as it says, which may be less than all of it, and \<^verbatim>\<open>-1\<close> for nothing.\<close>

definition copy_doc ::
    "('w, 'x) tool_env_scheme \<Rightarrow> int \<Rightarrow> int \<Rightarrow> ('w \<Rightarrow> string list) \<Rightarrow> ('w \<Rightarrow> string) \<Rightarrow> bool" where
  "copy_doc T i j pieces got \<longleftrightarrow>
     (\<forall>w. got (snd (fd_read T i copy_buffer w)) = got w \<and> (case pieces w of
         [] \<Rightarrow> fst (fd_read T i copy_buffer w) = Inr []
       | p # ps \<Rightarrow> p \<noteq> [] \<and> fst (fd_read T i copy_buffer w) = Inr p \<and>
           pieces (snd (fd_read T i copy_buffer w)) = ps)) \<and>
     (\<forall>b w. pieces (snd (fd_write T j b w)) = pieces w \<and>
        got (snd (fd_write T j b w)) = got w @ take (nat (fst (fd_write T j b w))) b)"

lemma copy_step:
  assumes doc: "copy_doc T i j pieces got" and j: "j \<noteq> 1" and p: "pieces (world (h_conn h)) = p # ps"
  shows "\<exists>h1 n. copy_loop T (Suc fuel) i j h = copy_loop T fuel i j h1 \<and> pieces (world (h_conn h1)) = ps \<and>
    got (world (h_conn h1)) = got (world (h_conn h)) @ take n p \<and>
    (\<exists>w. n = nat (fst (fd_write T j p w)))"
proof -
  let ?w = "world (h_conn h)"
  obtain r w1 where r: "fd_read T i copy_buffer ?w = (r, w1)" by (cases "fd_read T i copy_buffer ?w")
  have r1: "r = Inr p" "p \<noteq> []" "pieces w1 = ps" "got w1 = got ?w"
    using doc p r unfolding copy_doc_def by (auto dest: spec [of _ ?w])
  obtain n w2 where n: "fd_write T j p w1 = (n, w2)" by (cases "fd_write T j p w1")
  have n1: "pieces w2 = ps" "got w2 = got ?w @ take (nat n) p"
    using doc n r1 unfolding copy_doc_def by (metis fst_conv snd_conv)+
  let ?h1 = "h\<lparr>h_conn := h_conn h\<lparr>world := w2\<rparr>\<rparr>"
  have "copy_loop T (Suc fuel) i j h = copy_loop T fuel i j ?h1"
    using r r1 n j by (simp add: tsys_def tos_def connp_def syscall_def osop_def bindp_def thenp_def ret_def)
  moreover have "nat n = nat (fst (fd_write T j p w1))" using n by simp
  ultimately show ?thesis using n1 by (intro exI [of _ ?h1] exI [of _ "nat n"]) auto
qed

lemma copy_runs:
  assumes doc: "copy_doc T i j pieces got" and j: "j \<noteq> 1"
  shows "pieces (world (h_conn h)) = ps \<Longrightarrow> length ps < fuel \<Longrightarrow>
    \<exists>h' ns. copy_loop T fuel i j h = (Ok True, h') \<and>
      list_all2 (\<lambda>n p. \<exists>w. n = nat (fst (fd_write T j p w))) ns ps \<and>
      got (world (h_conn h')) = got (world (h_conn h)) @ concat (map2 take ns ps)"
proof (induction ps arbitrary: fuel h)
  case Nil
  let ?w = "world (h_conn h)"
  obtain r w1 where r: "fd_read T i copy_buffer ?w = (r, w1)" by (cases "fd_read T i copy_buffer ?w")
  have r1: "r = Inr []" "got w1 = got ?w"
    using doc Nil(1) r unfolding copy_doc_def by (auto dest: spec [of _ ?w])
  obtain n where "fuel = Suc n" using Nil by (cases fuel) auto
  with r r1 show ?case
    by (intro exI [of _ "h\<lparr>h_conn := h_conn h\<lparr>world := w1\<rparr>\<rparr>"] exI [of _ "[]"])
       (simp add: tsys_def connp_def syscall_def bindp_def ret_def)
next
  case (Cons p ps)
  obtain m where m: "fuel = Suc m" "length ps < m" using Cons by (cases fuel) auto
  obtain h1 n where h1: "copy_loop T (Suc m) i j h = copy_loop T m i j h1" "pieces (world (h_conn h1)) = ps"
    "got (world (h_conn h1)) = got (world (h_conn h)) @ take n p"
    "\<exists>w. n = nat (fst (fd_write T j p w))"
    using copy_step [OF doc j Cons.prems(1), of m] by blast
  obtain h' ns where h': "copy_loop T m i j h1 = (Ok True, h')"
    "list_all2 (\<lambda>n p. \<exists>w. n = nat (fst (fd_write T j p w))) ns ps"
    "got (world (h_conn h')) = got (world (h_conn h1)) @ concat (map2 take ns ps)"
    using Cons.IH [OF h1(2) m(2)] by blast
  with h1 m(1) show ?case by (intro exI [of _ h'] exI [of _ "n # ns"]) simp
qed

text \<open>C34: a copy ends well as soon as the source does. Every piece that was read is written once and in order,
  and with complete writes the destination gets exactly the source; but the result is true even if the writes
  fail or are cut short, so that an install or a backup goes on with a truncated stream.\<close>

theorem copy_reports_only_the_source:
  assumes doc: "copy_doc T i j pieces got" and "i \<noteq> 0" "j \<noteq> 1"
    and "pieces (world (h_conn h)) = ps" "length ps < loop_fuel (tl_sync T)"
  shows "\<exists>h' ns. copy_to_file T i j h = (Ok True, h') \<and>
    list_all2 (\<lambda>n p. \<exists>w. n = nat (fst (fd_write T j p w))) ns ps \<and>
    got (world (h_conn h')) = got (world (h_conn h)) @ concat (map2 take ns ps) \<and>
    ((\<forall>b w. nat (fst (fd_write T j b w)) = length b) \<longrightarrow>
      got (world (h_conn h')) = got (world (h_conn h)) @ concat ps)"
proof -
  obtain h' ns where run: "copy_loop T (loop_fuel (tl_sync T)) i j h = (Ok True, h')"
    "list_all2 (\<lambda>n p. \<exists>w. n = nat (fst (fd_write T j p w))) ns ps"
    "got (world (h_conn h')) = got (world (h_conn h)) @ concat (map2 take ns ps)"
    using copy_runs [OF doc assms(3-5)] by blast
  have "concat (map2 take ns ps) = concat ps" if "\<forall>b w. nat (fst (fd_write T j b w)) = length b"
    using run(2) that by (induction rule: list_all2_induct) auto
  with run assms(2) show ?thesis by (auto simp: copy_to_file_def thenp_def bindp_def ret_def)
qed

text \<open>Applied to a device that refuses every write: the copy is a success that transfers nothing.\<close>

function pieces_ref :: "string \<Rightarrow> string list" where
  "pieces_ref s = (if s = [] then [] else take copy_buffer s # pieces_ref (drop copy_buffer s))"
  by auto
termination by (relation "measure length") (auto simp: copy_buffer_def)

declare pieces_ref.simps [simp del]

lemma pieces_ref_step: "case pieces_ref s of [] \<Rightarrow> take copy_buffer s = []
  | p # ps \<Rightarrow> p \<noteq> [] \<and> take copy_buffer s = p \<and> pieces_ref (drop copy_buffer s) = ps"
  by (subst pieces_ref.simps) (simp add: copy_buffer_def)

theorem copy_reports_only_the_source_witness:
  "\<exists>h'. copy_to_file ((tool_env_ref 2 None)\<lparr>fd_write := \<lambda>_ _ w. (-1, w)\<rparr>) 4 3
       (tool_host [] []\<lparr>h_conn := (h_conn (tool_host [] []))\<lparr>world := rworld0\<lparr>rcodec := ''abc''\<rparr>\<rparr>\<rparr>) = (Ok True, h') \<and>
     outbox (world (h_conn h')) = []"
proof -
  let ?T = "(tool_env_ref 2 None)\<lparr>fd_write := \<lambda>_ _ w. (-1, w)\<rparr>"
  let ?h = "tool_host [] []\<lparr>h_conn := (h_conn (tool_host [] []))\<lparr>world := rworld0\<lparr>rcodec := ''abc''\<rparr>\<rparr>\<rparr>"
  have doc: "copy_doc ?T 4 3 (\<lambda>w. pieces_ref (rcodec w)) outbox"
    unfolding copy_doc_def
  proof (intro conjI allI)
    fix w
    show "case pieces_ref (rcodec w) of [] \<Rightarrow> fst (fd_read ?T 4 copy_buffer w) = Inr []
      | p # ps \<Rightarrow> p \<noteq> [] \<and> fst (fd_read ?T 4 copy_buffer w) = Inr p \<and>
          pieces_ref (rcodec (snd (fd_read ?T 4 copy_buffer w))) = ps"
      using pieces_ref_step [of "rcodec w"]
      by (cases "pieces_ref (rcodec w)") (simp_all add: tool_read_ref_def)
  qed (simp_all add: tool_read_ref_def)
  have pieces: "pieces_ref (rcodec (world (h_conn ?h))) = [''abc'']"
    by (simp add: pieces_ref.simps copy_buffer_def)
  show ?thesis
    using copy_reports_only_the_source [OF doc _ _ pieces]
    by (auto simp: tool_host_def host_ref_def ready_conn_def rworld0_def list_all2_Cons2)
qed

end
