(* ===== verification/DeviceProperties.thy ===== *)
theory DeviceProperties
  imports DeviceCommands ToolsRef
begin

text \<open>
  Properties of the commands that talk to one service of the device (\<^verbatim>\<open>client/commandline.cpp\<close>): the escape
  sequences of the interactive shell, and the blocks of a package served during a sideload.
\<close>

section \<open>Typing to a remote shell\<close>

text \<open>How a user types \<open>s\<close>: the escape character is typed twice at the start of a line.\<close>

fun typing :: "char \<Rightarrow> bool \<Rightarrow> string \<Rightarrow> string" where
  "typing esc start [] = []"
| "typing esc start (c # s) = (if start \<and> c = esc then [esc, esc] else [c])
     @ typing esc (c \<noteq> esc \<and> (c = CHR 0x0A \<or> c = CHR 0x0D)) s"

text \<open>A keyboard with \<open>typed w\<close> left to read, one character at a time, and a device that has received \<open>recv w\<close>.\<close>

definition keyboard_doc ::
    "('w, 'x) tool_env_scheme \<Rightarrow> int \<Rightarrow> ('w \<Rightarrow> string) \<Rightarrow> ('w \<Rightarrow> string) \<Rightarrow> bool" where
  "keyboard_doc T sock typed recv \<longleftrightarrow>
     (\<forall>w. fst (stdin_interruptible T 1 w) = StdinData (take 1 (typed w)) \<and>
        typed (snd (stdin_interruptible T 1 w)) = drop 1 (typed w) \<and>
        recv (snd (stdin_interruptible T 1 w)) = recv w) \<and>
     (\<forall>b w. fst (shell_write T sock (kIdStdin T) b w) \<and>
        typed (snd (shell_write T sock (kIdStdin T) b w)) = typed w \<and>
        recv (snd (shell_write T sock (kIdStdin T) b w)) = recv w @ b) \<and>
     (\<forall>w. recv (snd (shell_write T sock (kIdCloseStdin T) [] w)) = recv w)"

lemma keyboard_step:
  assumes "keyboard_doc T sock typed recv" "typed (world (h_conn h)) = c # cs"
  shows "\<exists>h1. tos (stdin_interruptible T 1) h = (Ok (StdinData [c]), h1) \<and> typed (world (h_conn h1)) = cs \<and>
    recv (world (h_conn h1)) = recv (world (h_conn h))"
proof -
  let ?w = "world (h_conn h)"
  obtain r w where r: "stdin_interruptible T 1 ?w = (r, w)" by (cases "stdin_interruptible T 1 ?w")
  then have "r = StdinData [c]" "typed w = cs" "recv w = recv ?w"
    using assms unfolding keyboard_doc_def by (auto dest: spec [of _ ?w])
  with r show ?thesis by (simp add: tos_def connp_def osop_def)
qed

lemma keyboard_send:
  assumes "keyboard_doc T (sr_write_fd args) typed recv" "sr_protocol args"
  shows "\<exists>h1. send_stdin T args b h = (Ok True, h1) \<and>
    typed (world (h_conn h1)) = typed (world (h_conn h)) \<and> recv (world (h_conn h1)) = recv (world (h_conn h)) @ b"
proof -
  let ?w = "world (h_conn h)"
  obtain r w where r: "shell_write T (sr_write_fd args) (kIdStdin T) b ?w = (r, w)"
    by (cases "shell_write T (sr_write_fd args) (kIdStdin T) b ?w")
  then have "r = True" "typed w = typed ?w" "recv w = recv ?w @ b"
    using assms(1) unfolding keyboard_doc_def by (metis fst_conv snd_conv)+
  with r assms(2) show ?thesis by (simp add: send_stdin_def tos_def connp_def osop_def)
qed

lemma one_key:
  assumes doc: "keyboard_doc T (sr_write_fd args) typed recv" "sr_protocol args" "parses_escapes args"
    and "typed (world (h_conn h)) = c # cs"
  shows "\<exists>h1. typed (world (h_conn h1)) = cs \<and> (case escape_step (sr_escape_char args) st c of
      (Swallow, st') \<Rightarrow> stdin_loop T args (Suc fuel) st h = stdin_loop T args fuel st' h1 \<and>
        recv (world (h_conn h1)) = recv (world (h_conn h))
    | (Disconnect, _) \<Rightarrow> True
    | (Send s, st') \<Rightarrow> stdin_loop T args (Suc fuel) st h = stdin_loop T args fuel st' h1 \<and>
        recv (world (h_conn h1)) = recv (world (h_conn h)) @ s)"
proof -
  obtain h1 where h1: "tos (stdin_interruptible T 1) h = (Ok (StdinData [c]), h1)" "typed (world (h_conn h1)) = cs"
    "recv (world (h_conn h1)) = recv (world (h_conn h))"
    using keyboard_step [OF doc(1) assms(4)] by blast
  obtain act st' where act: "escape_step (sr_escape_char args) st c = (act, st')"
    by (cases "escape_step (sr_escape_char args) st c")
  have size1: "stdin_buffer_size T args = 1" using doc(3) by (simp add: stdin_buffer_size_def)
  show ?thesis
  proof (cases act)
    case (Send s)
    obtain h2 where h2: "send_stdin T args s h1 = (Ok True, h2)" "typed (world (h_conn h2)) = cs"
      "recv (world (h_conn h2)) = recv (world (h_conn h)) @ s"
      using keyboard_send [OF doc(1,2), of s h1] h1 by auto
    with h1 act Send doc(3) show ?thesis
      by (intro exI [of _ h2]) (simp add: size1 bindp_Ok)
  qed (use h1 act doc(3) in \<open>auto intro!: exI [of _ h1] simp: size1 bindp_Ok\<close>)
qed

lemma typing_runs:
  assumes doc: "keyboard_doc T (sr_write_fd args) typed recv" "sr_protocol args" "parses_escapes args"
  shows "typed (world (h_conn h)) = typing (sr_escape_char args) start s \<Longrightarrow>
    length (typing (sr_escape_char args) start s) < fuel \<Longrightarrow>
    \<exists>h'. stdin_loop T args fuel (if start then kStartOfLine else kMidFlow) h = (Ok (), h') \<and>
      recv (world (h_conn h')) = recv (world (h_conn h)) @ s"
proof (induction s arbitrary: start fuel h)
  case Nil
  let ?w = "world (h_conn h)"
  obtain r w where r: "stdin_interruptible T 1 ?w = (r, w)" by (cases "stdin_interruptible T 1 ?w")
  then have r1: "r = StdinData []" "recv w = recv ?w"
    using doc(1) Nil(1) unfolding keyboard_doc_def by (auto dest: spec [of _ ?w])
  obtain ok w' where w': "shell_write T (sr_write_fd args) (kIdCloseStdin T) [] w = (ok, w')"
    by (cases "shell_write T (sr_write_fd args) (kIdCloseStdin T) [] w")
  then have "recv w' = recv w" using doc(1) unfolding keyboard_doc_def by (metis snd_conv)
  moreover obtain n where "fuel = Suc n" using Nil by (cases fuel) auto
  ultimately show ?case
    using r r1 w' doc(2,3)
    by (simp add: stdin_buffer_size_def tos_def connp_def osop_def bindp_def thenp_def ret_def close_remote_stdin_def)
next
  case (Cons c s)
  let ?esc = "sr_escape_char args"
  define next_start where "next_start = (c \<noteq> ?esc \<and> (c = CHR 0x0A \<or> c = CHR 0x0D))"
  obtain m where m: "fuel = Suc m" using Cons.prems by (cases fuel) auto
  show ?case
  proof (cases "start \<and> c = ?esc")
    case True
    then have t: "typed (world (h_conn h)) = ?esc # ?esc # typing ?esc next_start s"
      and fuel: "Suc (Suc (length (typing ?esc next_start s))) < fuel"
      using Cons.prems by (simp_all add: next_start_def)
    obtain k where k: "m = Suc k" using fuel m by (cases m) auto
    obtain h1 where h1: "typed (world (h_conn h1)) = ?esc # typing ?esc next_start s"
      "stdin_loop T args (Suc m) kStartOfLine h = stdin_loop T args m kInEscape h1"
      "recv (world (h_conn h1)) = recv (world (h_conn h))"
      using one_key [OF doc t, where st = kStartOfLine and fuel = m] by (auto simp: escape_step_def)
    obtain h2 where h2: "typed (world (h_conn h2)) = typing ?esc next_start s"
      "stdin_loop T args (Suc k) kInEscape h1 = stdin_loop T args k kMidFlow h2"
      "recv (world (h_conn h2)) = recv (world (h_conn h1)) @ [c]"
      using one_key [OF doc h1(1), where st = kInEscape and fuel = k] True by (auto simp: escape_step_def)
    have "\<not> next_start" using True by (simp add: next_start_def)
    with Cons.IH [OF h2(1), of k] h1 h2 fuel m k True show ?thesis by auto
  next
    case False
    then have t: "typed (world (h_conn h)) = c # typing ?esc next_start s"
      and fuel: "Suc (length (typing ?esc next_start s)) < fuel"
      using Cons.prems by (auto simp: next_start_def)
    let ?st = "if start then kStartOfLine else kMidFlow"
    have step: "escape_step ?esc ?st c = (Send [c], if next_start then kStartOfLine else kMidFlow)"
      using False by (auto simp: escape_step_def next_start_def)
    obtain h1 where h1: "typed (world (h_conn h1)) = typing ?esc next_start s"
      "stdin_loop T args (Suc m) ?st h = stdin_loop T args m (if next_start then kStartOfLine else kMidFlow) h1"
      "recv (world (h_conn h1)) = recv (world (h_conn h)) @ [c]"
      using one_key [OF doc t, where st = ?st and fuel = m] step by auto
    with Cons.IH [OF h1(1), of m] fuel m show ?thesis by auto
  qed
qed

text \<open>C12: every text can be typed to a remote shell. If the user types the escape character twice at the start
  of a line, the device receives exactly the text and the shell stays connected until the input ends.\<close>

theorem typed_text_arrives:
  assumes "keyboard_doc T (sr_write_fd args) typed recv" "sr_protocol args" "parses_escapes args"
    and "typed (world (h_conn h)) = typing (sr_escape_char args) True s" "2 * length s < fuel"
  shows "\<exists>h'. stdin_loop T args fuel kStartOfLine h = (Ok (), h') \<and>
    recv (world (h_conn h')) = recv (world (h_conn h)) @ s"
proof -
  have "length (typing esc start s) \<le> 2 * length s" for esc start
    by (induction s arbitrary: start) (auto intro: le_SucI)
  then have "length (typing (sr_escape_char args) True s) < fuel" using assms(5) by (meson le_less_trans)
  from typing_runs [OF assms(1-4) this] show ?thesis by simp
qed

text \<open>The user types a line of dots after an escaped tilde: nothing is taken for a request to disconnect.\<close>

definition keys_ref :: stdin_read_args where
  "keys_ref = \<lparr>sr_write_fd = 3, sr_raw_stdin = True, sr_protocol = True, sr_escape_char = CHR ''~''\<rparr>"

lemma keyboard_ref: "keyboard_doc (tool_env_ref fuel fs) sock inbox outbox"
  by (simp add: keyboard_doc_def)

theorem typed_text_arrives_witness:
  "\<exists>h'. stdin_loop (tool_env_ref 9 None) keys_ref 9 kStartOfLine
       (tool_host [] []\<lparr>h_conn := (h_conn (tool_host [] []))\<lparr>world := rworld0\<lparr>inbox := ''~~.~.''\<rparr>\<rparr>\<rparr>) = (Ok (), h') \<and>
     outbox (world (h_conn h')) = ''~.~.''"
  using typed_text_arrives [OF keyboard_ref, of keys_ref
      "tool_host [] []\<lparr>h_conn := (h_conn (tool_host [] []))\<lparr>world := rworld0\<lparr>inbox := ''~~.~.''\<rparr>\<rparr>\<rparr>" "''~.~.''" 9 9 None]
  by (simp add: keys_ref_def parses_escapes_def rworld0_def)

section \<open>Sideload\<close>

text \<open>The package is \<open>package\<close>, read at the position \<open>at w\<close>; the device has the requests \<open>asked w\<close> left to send and
  has received \<open>recv w\<close>. A seek to a negative offset fails.\<close>

definition sideload_doc ::
    "('w, 'x) tool_env_scheme \<Rightarrow> int \<Rightarrow> int \<Rightarrow> string \<Rightarrow> ('w \<Rightarrow> nat) \<Rightarrow> ('w \<Rightarrow> string list) \<Rightarrow> ('w \<Rightarrow> string) \<Rightarrow> bool" where
  "sideload_doc T pfd dfd package at asked recv \<longleftrightarrow>
     (\<forall>offset w. (if 0 \<le> offset then fst (fd_lseek T pfd offset w) = Inr offset \<and>
            at (snd (fd_lseek T pfd offset w)) = nat offset
          else \<exists>e. fst (fd_lseek T pfd offset w) = Inl e) \<and>
        asked (snd (fd_lseek T pfd offset w)) = asked w \<and> recv (snd (fd_lseek T pfd offset w)) = recv w) \<and>
     (\<forall>n w. (at w + n \<le> length package \<longrightarrow>
          fst (fd_read_exactly T pfd n w) = Inr (take n (drop (at w) package))) \<and>
        asked (snd (fd_read_exactly T pfd n w)) = asked w \<and> recv (snd (fd_read_exactly T pfd n w)) = recv w) \<and>
     (\<forall>b w. fst (fd_write_exactly T dfd b w) = Inr () \<and>
        asked (snd (fd_write_exactly T dfd b w)) = asked w \<and> recv (snd (fd_write_exactly T dfd b w)) = recv w @ b) \<and>
     (\<forall>w. recv (snd (fd_read_exactly T dfd 8 w)) = recv w \<and> (case asked w of
          [] \<Rightarrow> \<exists>e. fst (fd_read_exactly T dfd 8 w) = Inl e
        | q # qs \<Rightarrow> fst (fd_read_exactly T dfd 8 w) = Inr q \<and> asked (snd (fd_read_exactly T dfd 8 w)) = qs))"

definition block_at :: "nat \<Rightarrow> string \<Rightarrow> int \<Rightarrow> string" where
  "block_at chunk package block = take chunk (drop (nat block * chunk) package)"

definition block_inside :: "nat \<Rightarrow> string \<Rightarrow> int \<Rightarrow> bool" where
  "block_inside chunk package block \<longleftrightarrow> 0 \<le> block \<and> nat block * chunk < length package"

lemma print_world:
  "\<exists>h1. warn_both T out m h = (Ok (), h1) \<and> world (h_conn h1) = world (h_conn h)"
  "\<exists>h1. say_both T out m h = (Ok (), h1) \<and> world (h_conn h1) = world (h_conn h)"
  "\<exists>h1. capture_to T out m h = (Ok (), h1) \<and> world (h_conn h1) = world (h_conn h)"
  "\<exists>h1. print_err m h = (Ok (), h1) \<and> world (h_conn h1) = world (h_conn h)"
  "\<exists>e. errno_text T h = (Ok e, h)"
  by (auto simp: warn_both_def say_both_def capture_to_def thenp_def bindp_def connp_def capture_def modp_def
      print_err_def print_out_def ret_def errno_text_def strerror_now_def getp_def)

lemma maybe_say: "\<exists>h1. (if b then say_both T out m else ret ()) h = (Ok (), h1) \<and> world (h_conn h1) = world (h_conn h)"
  using print_world(2) by (cases b) (auto simp: ret_def)

lemma tsys_run: "f (world (h_conn h)) = (r, w) \<Longrightarrow>
    \<exists>h1. tsys f h = (Ok (case r of Inl _ \<Rightarrow> None | Inr a \<Rightarrow> Some a), h1) \<and> world (h_conn h1) = w"
  by (cases r) (simp_all add: tsys_def connp_def syscall_def)

lemma serve_one:
  assumes doc: "sideload_doc T pfd dfd package at asked recv" and chunk: "0 < CHUNK_SIZE T"
  shows "\<exists>r h1. serve_block T out pfd dfd (int (length package)) block h = (Ok r, h1) \<and>
    asked (world (h_conn h1)) = asked (world (h_conn h)) \<and>
    (if block_inside (CHUNK_SIZE T) package block
     then (\<exists>n. r = Inr n) \<and> recv (world (h_conn h1)) = recv (world (h_conn h)) @ block_at (CHUNK_SIZE T) package block
     else r = Inl (-1) \<and> recv (world (h_conn h1)) = recv (world (h_conn h)))"
proof -
  let ?c = "CHUNK_SIZE T" and ?w = "world (h_conn h)"
  let ?offset = "block * int ?c"
  obtain s w1 where s: "fd_lseek T pfd ?offset ?w = (s, w1)" by (cases "fd_lseek T pfd ?offset ?w")
  obtain h1 where h1: "tsys (fd_lseek T pfd ?offset) h = (Ok (case s of Inl _ \<Rightarrow> None | Inr a \<Rightarrow> Some a), h1)"
    "world (h_conn h1) = w1" using tsys_run [where f = "fd_lseek T pfd ?offset" and h = h, OF s] by blast
  have s1: "asked w1 = asked ?w" "recv w1 = recv ?w"
    "if 0 \<le> ?offset then s = Inr ?offset \<and> at w1 = nat ?offset else (\<exists>e. s = Inl e)"
    using doc s unfolding sideload_doc_def by (metis fst_conv snd_conv)+
  have sign: "0 \<le> ?offset \<longleftrightarrow> 0 \<le> block" using chunk by (simp add: zero_le_mult_iff)
  have inside_iff: "block_inside ?c package block \<longleftrightarrow> 0 \<le> ?offset \<and> ?offset < int (length package)"
  proof (cases "0 \<le> block")
    case True
    then obtain b where b: "block = int b" by (rule nonneg_int_cases)
    then have "?offset = int (b * ?c)" by simp
    with b show ?thesis unfolding block_inside_def by (simp only: nat_int of_nat_0_le_iff of_nat_less_iff)
  next
    case False
    with sign show ?thesis by (simp add: block_inside_def)
  qed
  consider (past) "int (length package) \<le> ?offset" | (negative) "?offset < 0"
    | (inside) "0 \<le> ?offset" "?offset < int (length package)" by linarith
  then show ?thesis
  proof cases
    case past
    obtain h2 where "warn_both T out (''adb: failed to read block '' @ show_int block @ '' at offset ''
        @ show_int ?offset @ '', past end '' @ show_int (int (length package)) @ newline) h = (Ok (), h2)"
      "world (h_conn h2) = ?w" using print_world(1) by blast
    with past inside_iff show ?thesis
      by (simp add: serve_block_def Let_def thenp_def bindp_def ret_def)
  next
    case negative
    then obtain e where "s = Inl e" using s1(3) by auto
    with h1 have seek: "tsys (fd_lseek T pfd ?offset) h = (Ok None, h1)" by simp
    obtain e where e: "errno_text T h1 = (Ok e, h1)" using print_world(5) by blast
    obtain h2 where h2: "capture_to T out (''adb: failed to '' @ ''seek to block'' @ '': '' @ e @ newline) h1 = (Ok (), h2)"
      "world (h_conn h2) = w1" using print_world(3) h1(2) by metis
    obtain h3 where h3: "print_err (''adb: failed to '' @ ''seek to package block'' @ '': '' @ e @ newline) h2 = (Ok (), h3)"
      "world (h_conn h3) = w1" using print_world(4) h2(2) by metis
    have "\<not> int (length package) \<le> ?offset" using negative by linarith
    with negative inside_iff seek e h2 h3 s1 show ?thesis
      by (simp add: serve_block_def Let_def bindp_Ok thenp_Ok del: append_Cons)
  next
    case inside
    let ?n = "if int (length package) < ?offset + int ?c then nat (int (length package) - ?offset) else ?c"
    have s2: "s = Inr ?offset" "at w1 = nat ?offset" using s1(3) inside by auto
    with h1 have seek: "tsys (fd_lseek T pfd ?offset) h = (Ok (Some ?offset), h1)" by simp
    obtain r w2 where r: "fd_read_exactly T pfd ?n w1 = (r, w2)" by (cases "fd_read_exactly T pfd ?n w1")
    have le: "at w1 + ?n \<le> length package" using s2(2) inside by auto
    have r1: "r = Inr (take ?n (drop (at w1) package))" "asked w2 = asked w1" "recv w2 = recv w1"
      using doc r le unfolding sideload_doc_def by (metis fst_conv snd_conv)+
    obtain h2 where h2: "tsys (fd_read_exactly T pfd ?n) h1 = (Ok (Some (take ?n (drop (at w1) package))), h2)"
      "world (h_conn h2) = w2" 
      using tsys_run [where f = "fd_read_exactly T pfd ?n" and h = h1, unfolded h1(2), OF r] r1(1) by auto
    let ?buf = "take ?n (drop (at w1) package)"
    obtain q w3 where q: "fd_write_exactly T dfd ?buf w2 = (q, w3)" by (cases "fd_write_exactly T dfd ?buf w2")
    have q1: "q = Inr ()" "asked w3 = asked w2" "recv w3 = recv w2 @ ?buf"
      using doc q unfolding sideload_doc_def by (metis fst_conv snd_conv)+
    obtain h3 where h3: "tsys (fd_write_exactly T dfd ?buf) h2 = (Ok (Some ()), h3)" "world (h_conn h3) = w3"
      using tsys_run [where f = "fd_write_exactly T dfd ?buf" and h = h2, unfolded h2(2), OF q] q1(1) by auto
    have "nat ?offset = nat block * ?c" using inside(1) sign by (simp add: nat_mult_distrib)
    then have "?buf = block_at ?c package block"
      using s2(2) inside by (auto simp: block_at_def min_def)
    moreover have "serve_block T out pfd dfd (int (length package)) block h = (Ok (Inr ?n), h3)"
      using inside seek h2(1) h3(1) by (simp add: serve_block_def Let_def bindp_Ok)
    ultimately show ?thesis using inside inside_iff q1 r1 s1 h3 by auto
  qed
qed

text \<open>The requests that are served: those up to the first block outside the package.\<close>

definition served :: "('w, 'x) tool_env_scheme \<Rightarrow> string \<Rightarrow> string list \<Rightarrow> string list" where
  "served T package qs = takeWhile (\<lambda>q. block_inside (CHUNK_SIZE T) package (strtoll (c_str q))) qs"

definition no_result :: "('w, 'x) tool_env_scheme \<Rightarrow> string \<Rightarrow> bool" where
  "no_result T q \<longleftrightarrow> c_str q \<noteq> ExitSuccess T \<and> c_str q \<noteq> ExitFailure T"

lemma request_read:
  assumes "sideload_doc T pfd dfd package at asked recv" "asked (world (h_conn h)) = q # qs"
  shows "\<exists>h1. tsys (fd_read_exactly T dfd 8) h = (Ok (Some q), h1) \<and> asked (world (h_conn h1)) = qs \<and>
    recv (world (h_conn h1)) = recv (world (h_conn h))"
proof -
  let ?w = "world (h_conn h)"
  obtain r w where r: "fd_read_exactly T dfd 8 ?w = (r, w)" by (cases "fd_read_exactly T dfd 8 ?w")
  then have "r = Inr q" "asked w = qs" "recv w = recv ?w"
    using assms unfolding sideload_doc_def by (auto dest: spec [of _ ?w])
  then show ?thesis using tsys_run [where f = "fd_read_exactly T dfd 8" and h = h, OF r] by auto
qed

lemma request_fails:
  assumes "sideload_doc T pfd dfd package at asked recv" "asked (world (h_conn h)) = []"
  shows "\<exists>h1. tsys (fd_read_exactly T dfd 8) h = (Ok None, h1) \<and> recv (world (h_conn h1)) = recv (world (h_conn h))"
proof -
  let ?w = "world (h_conn h)"
  obtain r w where r: "fd_read_exactly T dfd 8 ?w = (r, w)" by (cases "fd_read_exactly T dfd 8 ?w")
  then have "\<exists>e. r = Inl e" "recv w = recv ?w"
    using assms unfolding sideload_doc_def by (auto dest: spec [of _ ?w])
  then show ?thesis using tsys_run [where f = "fd_read_exactly T dfd 8" and h = h, OF r] by auto
qed

text \<open>How the device ends: with the message of a success or a failure, or by closing the connection.\<close>

definition sideload_result :: "('w, 'x) tool_env_scheme \<Rightarrow> string list \<Rightarrow> int" where
  "sideload_result T fin = (case fin of [] \<Rightarrow> -1 | e # _ \<Rightarrow> if c_str e = ExitFailure T then 1 else 0)"

lemma serve_loop_runs:
  assumes doc: "sideload_doc T pfd dfd package at asked recv" and chunk: "0 < CHUNK_SIZE T"
    and final: "fin = [] \<or> \<not> no_result T (hd fin)"
  shows "asked (world (h_conn h)) = qs @ fin \<Longrightarrow> \<forall>q \<in> set qs. no_result T q \<Longrightarrow> length qs < fuel \<Longrightarrow>
    \<exists>h'. serve_loop T out name pfd dfd (int (length package)) fuel xfer percent h =
        (Ok (if served T package qs = qs then sideload_result T fin else -1), h') \<and>
      recv (world (h_conn h')) = recv (world (h_conn h)) @
        concat (map (\<lambda>q. block_at (CHUNK_SIZE T) package (strtoll (c_str q))) (served T package qs))"
proof (induction qs arbitrary: h fuel xfer percent)
  case Nil
  obtain m where m: "fuel = Suc m" using Nil by (cases fuel) auto
  show ?case
  proof (cases fin)
    case [simp]: Nil
    obtain h1 where h1: "tsys (fd_read_exactly T dfd 8) h = (Ok None, h1)"
      "recv (world (h_conn h1)) = recv (world (h_conn h))" using request_fails [OF doc, of h] Nil.prems by auto
    obtain e where e: "errno_text T h1 = (Ok e, h1)" using print_world(5) by blast
    obtain h2 where "warn_both T out (''adb: failed to read command: '' @ e @ newline) h1 = (Ok (), h2)"
      "world (h_conn h2) = world (h_conn h1)" using print_world(1) by blast
    with h1 e m show ?thesis by (simp add: served_def bindp_Ok thenp_Ok sideload_result_def)
  next
    case [simp]: (Cons e later)
    obtain h1 where h1: "tsys (fd_read_exactly T dfd 8) h = (Ok (Some e), h1)"
      "recv (world (h_conn h1)) = recv (world (h_conn h))" using request_read [OF doc, of h e later] Nil.prems by auto
    obtain h2 where "say_both T out (total_xfer_text T name xfer (int (length package))) h1 = (Ok (), h2)"
      "world (h_conn h2) = world (h_conn h1)" using print_world(2) by blast
    with h1 m final show ?thesis
      by (auto simp: served_def bindp_Ok thenp_Ok Let_def sideload_result_def no_result_def)
  qed
next
  case (Cons q qs)
  obtain m where m: "fuel = Suc m" "length qs < m" using Cons.prems by (cases fuel) auto
  obtain h1 where h1: "tsys (fd_read_exactly T dfd 8) h = (Ok (Some q), h1)"
    "asked (world (h_conn h1)) = qs @ fin"
    "recv (world (h_conn h1)) = recv (world (h_conn h))" using request_read [OF doc] Cons.prems(1) by fastforce
  have q: "c_str q \<noteq> ExitSuccess T" "c_str q \<noteq> ExitFailure T" using Cons.prems(2) by (auto simp: no_result_def)
  let ?block = "strtoll (c_str q)"
  obtain r h2 where h2: "serve_block T out pfd dfd (int (length package)) ?block h1 = (Ok r, h2)"
    "asked (world (h_conn h2)) = qs @ fin"
    "if block_inside (CHUNK_SIZE T) package ?block
     then (\<exists>n. r = Inr n) \<and> recv (world (h_conn h2)) = recv (world (h_conn h)) @ block_at (CHUNK_SIZE T) package ?block
     else r = Inl (-1) \<and> recv (world (h_conn h2)) = recv (world (h_conn h))"
    using serve_one [OF doc chunk, of out ?block h1] h1 by auto
  show ?case
  proof (cases "block_inside (CHUNK_SIZE T) package ?block")
    case False
    with h1(1) h2 q m(1) show ?thesis by (simp add: served_def bindp_Ok Let_def)
  next
    case True
    then obtain n where n: "r = Inr n" using h2(3) by auto
    let ?xfer = "xfer + int n"
    let ?percent = "serving_percent ?xfer (int (length package))"
    obtain h3 where h3: "(if ?percent \<noteq> percent then say_both T out (CHR 0x0D # ''serving: '' @ quoted name @ ''  (~''
        @ show_int ?percent @ ''%)    '') else ret ()) h2 = (Ok (), h3)" "world (h_conn h3) = world (h_conn h2)"
      using maybe_say by blast
    have "serve_loop T out name pfd dfd (int (length package)) fuel xfer percent h =
        serve_loop T out name pfd dfd (int (length package)) m ?xfer ?percent h3"
      using h1(1) h2(1) h3(1) q m(1) n by (simp add: bindp_Ok Let_def thenp_Ok del: append_Cons)
    moreover have "asked (world (h_conn h3)) = qs @ fin" using h2(2) h3(2) by simp
    ultimately show ?thesis
      using Cons.IH [of h3 m ?xfer ?percent] Cons.prems(2) m(2) h2(3) h3(2) True by (auto simp: served_def)
  qed
qed

text \<open>C11: a sideload serves what is asked and nothing else. Every request is answered with that block of the package,
  the last one with what is left of it; a block beyond the end or before the start is refused, nothing is sent
  for it, and the command fails; and if all blocks were inside, the command ends as the device says: with 0
  for its message of success, with 1 for that of a failure, and with -1 if it closes the connection.\<close>

theorem sideload_serves_the_package:
  assumes "sideload_doc T pfd dfd package at asked recv" "0 < CHUNK_SIZE T"
    and "fin = [] \<or> \<not> no_result T (hd fin)"
    and "asked (world (h_conn h)) = qs @ fin" "\<forall>q \<in> set qs. no_result T q" "length qs < fuel"
  shows "\<exists>h'. serve_loop T out name pfd dfd (int (length package)) fuel 0 (-1) h =
        (Ok (if served T package qs = qs
             then (case fin of [] \<Rightarrow> -1 | e # _ \<Rightarrow> if c_str e = ExitFailure T then 1 else 0) else -1), h') \<and>
      recv (world (h_conn h')) = recv (world (h_conn h)) @
        concat (map (\<lambda>q. block_at (CHUNK_SIZE T) package (strtoll (c_str q))) (served T package qs))"
  using serve_loop_runs [OF assms(1-6)] unfolding sideload_result_def .

text \<open>A package of ten bytes in blocks of four: the device asks for the third block, for the first, and for a
  fourth, which is past the end.\<close>

definition package_env :: "rworld tool_env" where
  "package_env = (tool_env_ref 9 None)\<lparr>
     fd_lseek := \<lambda>_ offset w. if offset < 0 then (Inl (EOTHER 22), w) else (Inr offset, w\<lparr>rclock := nat offset\<rparr>),
     fd_read_exactly := \<lambda>i n w. if i = 4 then (Inr (take n (drop (rclock w) ''0123456789'')), w)
       else tool_read_exactly_ref i n w\<rparr>"

function words_of :: "string \<Rightarrow> string list" where
  "words_of s = (if length s < 8 then [] else take 8 s # words_of (drop 8 s))"
  by auto
termination by (relation "measure length") auto

declare words_of.simps [simp del]

lemma package_doc: "sideload_doc package_env 4 3 ''0123456789'' rclock (\<lambda>w. words_of (inbox w)) outbox"
  unfolding sideload_doc_def
proof (intro conjI allI)
  fix w
  show "case words_of (inbox w) of [] \<Rightarrow> \<exists>e. fst (fd_read_exactly package_env 3 8 w) = Inl e
    | q # qs \<Rightarrow> fst (fd_read_exactly package_env 3 8 w) = Inr q \<and>
        words_of (inbox (snd (fd_read_exactly package_env 3 8 w))) = qs"
    by (subst words_of.simps) (simp add: package_env_def tool_read_exactly_ref_def tool_read_ref_def)
qed (auto simp: package_env_def tool_read_exactly_ref_def tool_read_ref_def)

definition device_requests :: "rworld host" where
  "device_requests = tool_host [] []\<lparr>h_conn := (h_conn (tool_host [] []))\<lparr>world := rworld0\<lparr>inbox :=
     ''00000002'' @ ''00000000'' @ ''00000003'' @ ''DONEDONE''\<rparr>\<rparr>\<rparr>"

lemma requests_ref: "strtoll (c_str ''00000002'') = 2" "strtoll (c_str ''00000000'') = 0"
  "strtoll (c_str ''00000003'') = 3" "strtoll ''00000002'' = 2" "strtoll ''00000000'' = 0"
  by code_simp+

theorem sideload_serves_the_package_witness:
  "\<exists>h'. serve_loop package_env False ''a.zip'' 4 3 10 9 0 (-1) device_requests = (Ok (-1), h') \<and>
     outbox (world (h_conn h')) = ''890123''"
proof -
  let ?qs = "[''00000002'', ''00000000'', ''00000003'']"
  have simps: "CHUNK_SIZE package_env = 4" "ExitSuccess package_env = ''DONEDONE''"
    "ExitFailure package_env = ''FAILFAIL''" by (simp_all add: package_env_def)
  have served: "served package_env ''0123456789'' ?qs = [''00000002'', ''00000000'']"
    by (simp add: served_def block_inside_def simps requests_ref)
  have asked: "words_of (inbox (world (h_conn device_requests))) = ?qs @ ExitSuccess package_env # []"
    by (simp add: device_requests_def words_of.simps simps)
  show ?thesis
    using sideload_serves_the_package [OF package_doc _ _ asked, of 9 False "''a.zip''"]
    by (simp add: served simps no_result_def c_str_def block_at_def requests_ref)
       (simp add: device_requests_def rworld0_def)
qed

end
