(* ===== verification/CommandProperties.thy ===== *)
theory CommandProperties
  imports Dispatch ClientProperties InstallProperties DeviceProperties
begin

text \<open>
  Properties of the commands as the dispatcher runs them, one after another in the same process: the wait
  after a restart of the device's daemon, the variables of \<^verbatim>\<open>getopt\<close>, a device that cannot be reached.
\<close>

section \<open>Restarting the daemon\<close>

lemma selected: "run_state adb_get_transport c = ((cl_transport c, cl_serial c, cl_transport_id c), c)"
  "ends adb_get_transport c Q \<longleftrightarrow> Q (cl_transport c, cl_serial c, cl_transport_id c) c"
  by (simp_all add: adb_get_transport_def gets_def ends_def)

lemma wait_runs:
  assumes "3 \<le> length (Split C service ''-'')"
  shows "ends (wait_for_device C service timeout) c (\<lambda>_ c'.
     run_state adb_get_transport c' = (fst (run_state adb_get_transport c), c') \<and>
     cl_timeouts c' = cl_timeouts c @ (case timeout of None \<Rightarrow> [] | Some ms \<Rightarrow> [ms]))"
proof -
  have fixed: "ends (adb_command C s) c1 (\<lambda>_ c2. selection_fixed c1 c2)" for s c1
    using state_io_relD [OF selection.requests(3) [of C s]] by (auto simp: ends_def split: prod.split)
  show ?thesis
    using assms by (auto simp: wait_for_device_def Let_def ends_simps selected
        intro!: ends_mono [OF fixed] simp: selection_fixed_def split: option.split)
qed

text \<open>C35: the wait after \<^verbatim>\<open>root\<close> or \<^verbatim>\<open>unroot\<close>. Without a transport id the user's choice of a device is restored, and a
  thread that ends the process after 12 seconds is left behind that nothing stops, whether the device came
  back or not; with an id the choice of the whole process is replaced by the transport that went away.\<close>

theorem restart_leaves_a_timer:
  assumes "Split_doc C"
  shows "ends (wait_for_restart C tid) c (\<lambda>ok c'. ok \<and>
    (if cl_transport_id c = 0
     then run_state adb_get_transport c' = (fst (run_state adb_get_transport c), c') \<and>
       cl_timeouts c' = cl_timeouts c @ [12000]
     else run_state adb_get_transport c' = ((kTransportAny, None, tid), c') \<and> cl_timeouts c' = cl_timeouts c))"
proof -
  have split: "3 \<le> length (Split C ''wait-for-disconnect'' ''-'')" "3 \<le> length (Split C ''wait-for-device'' ''-'')"
    using assms by (simp_all add: Split_doc_def)
  let ?c1 = "c\<lparr>cl_transport := kTransportAny, cl_serial := None, cl_transport_id := tid\<rparr>"
  have first: "ends (wait_for_device C ''wait-for-disconnect'' None) ?c1 (\<lambda>_ c'. cl_timeouts c' = cl_timeouts c \<and>
      run_state adb_get_transport c' = ((kTransportAny, None, tid), c'))"
    by (rule ends_mono [OF wait_runs [OF split(1)]]) (simp add: selected)
  have second: "ends (wait_for_device C ''wait-for-device'' (Some 12000))
      (c2\<lparr>cl_transport := cl_transport c, cl_serial := cl_serial c, cl_transport_id := 0\<rparr>) (\<lambda>_ c'.
        cl_timeouts c' = cl_timeouts c2 @ [12000] \<and>
        run_state adb_get_transport c' = ((cl_transport c, cl_serial c, 0), c'))" for c2
    by (rule ends_mono [OF wait_runs [OF split(2)]]) (simp add: selected)
  show ?thesis
    unfolding wait_for_restart_def
    by (cases "cl_transport_id c = 0")
       (auto simp: ends_simps selected adb_set_transport_def intro!: ends_mono [OF first] ends_mono [OF second])
qed

theorem restart_leaves_a_timer_witness:
  "ends (wait_for_restart client_env_ref 2) (client_ref []) (\<lambda>ok c'. ok \<and>
     cl_serial c' = Some ''10.0.0.1:5555'' \<and> cl_timeouts c' = [12000])"
proof -
  have "Split_doc client_env_ref" by (simp add: Split_doc_def)
  from restart_leaves_a_timer [OF this, of 2 "client_ref []"] show ?thesis
    by (rule ends_mono) (simp add: client_ref_def selected)
qed

section \<open>The variables of getopt\<close>

text \<open>\<open>sync\<close> as the user means it: with these options the partitions given, all without an operand, one after the
  other up to the first failure.\<close>

definition sync_one ::
    "('v, 'x) cmd_env_scheme \<Rightarrow> bool \<Rightarrow> bool \<Rightarrow> bool \<Rightarrow> CompressionType \<Rightarrow> string \<Rightarrow> ('v, bool option) cmdprog" where
  "sync_one T ls dry hush c part = bindp (product_file T part) (\<lambda>dir.
     bindp (tos (os_directory_exists T dir)) (\<lambda>there.
       if there then bindp (connp (do_sync_sync (tl_sync T) dir (''/'' @ part) ls c dry hush)) (\<lambda>ok. ret (Some ok))
       else ret None))"

fun sync_each ::
    "(string \<Rightarrow> ('v, bool option) cmdprog) \<Rightarrow> ('v, int) cmdprog \<Rightarrow> bool \<Rightarrow> string list \<Rightarrow> ('v, int) cmdprog" where
  "sync_each one none found [] = (if found then ret 0 else none)"
| "sync_each one none found (p # ps) = bindp (one p) (\<lambda>r. case r of
       None \<Rightarrow> sync_each one none found ps
     | Some ok \<Rightarrow> if ok then sync_each one none True ps else ret 1)"

definition sync_as ::
    "('v, 'x) cmd_env_scheme \<Rightarrow> bool \<Rightarrow> bool \<Rightarrow> bool \<Rightarrow> bool \<Rightarrow> string list \<Rightarrow> ('v, int) cmdprog" where
  "sync_as T ls dry hush uncompressed operands =
     (let what = (case operands of [] \<Rightarrow> ''all'' | p # _ \<Rightarrow> p)
      in bindp (env_compression T CompAny) (\<lambda>c.
           sync_each (sync_one T ls dry hush (if uncompressed then CompNone else c))
             (captured_fail T (''don't know how to sync '' @ c_str what @ '' partition'')) False
             (filter (\<lambda>p. what = ''all'' \<or> what = p) sync_partitions)))"

lemma fold_each:
  assumes step: "\<And>p found. g p found = (if sel p
     then bindp (one p) (\<lambda>r. ret (case r of None \<Rightarrow> (True, found) | Some ok \<Rightarrow> (ok, True))) else ret (True, found))"
  shows "bindp (fold_while g ps found) (\<lambda>(ok, found). if \<not> ok then ret 1 else if \<not> found then none else ret 0)
    = sync_each one none found (filter sel ps)"
proof (induction ps arbitrary: found)
  case (Cons p ps)
  show ?case
  proof (cases "sel p")
    case True
    then show ?thesis
      by (simp add: step [of p found] bindp_assoc, intro arg_cong2 [where f = bindp] ext refl)
        (simp add: Cons split: option.split)
  next
    case False
    with Cons show ?thesis by (simp add: step [of p found])
  qed
qed simp

lemma sync_run_each:
  "sync_run T opts src = sync_each (sync_one T (sy_list_only opts) (sy_dry_run opts) (sy_quiet opts) (sy_compression opts))
     (captured_fail T (''don't know how to sync '' @ c_str src @ '' partition'')) False
     (filter (\<lambda>p. src = ''all'' \<or> src = p) sync_partitions)"
proof -
  have chosen: "bindp (if b then m else n) f = (if b then bindp m f else bindp n f)" for b m n f by simp
  have swap: "(if \<not> b then m else n) = (if b then n else m)" for b m n by simp
  show ?thesis
    unfolding sync_run_def
    by (rule fold_each) (simp add: sync_partition_def sync_one_def bindp_assoc chosen swap cong: if_cong)
qed

text \<open>A word of one option without an argument, and what it sets.\<close>

definition sync_flags :: "string set" where
  "sync_flags = {''-l'', ''-n'', ''-q'', ''-Z''}"

definition set_flag :: "string \<Rightarrow> sync_opts \<Rightarrow> sync_opts" where
  "set_flag w a = (if w = ''-l'' then a\<lparr>sy_list_only := True\<rparr> else if w = ''-n'' then a\<lparr>sy_dry_run := True\<rparr>
     else if w = ''-q'' then a\<lparr>sy_quiet := True\<rparr> else a\<lparr>sy_compression := CompNone\<rparr>)"

lemma getopt_loop_option:
  "getopt spec argv g = (r, g') \<Longrightarrow> r \<noteq> EndOpts \<Longrightarrow> h r a = ret (Inr b) \<Longrightarrow>
   getopt_loop spec argv h a g = getopt_loop spec argv h b g'"
  by (subst getopt_loop.simps) (simp add: fun_eq_iff bindp_def ret_def)

lemma getopt_loop_end:
  "getopt spec argv g = (EndOpts, g') \<Longrightarrow> getopt_loop spec argv h a g = ret (Inr a, g')"
  by (subst getopt_loop.simps) simp

lemma flags_read:
  assumes "set ws \<subseteq> sync_flags" "operands = [] \<or> \<not> prefix ''-'' (hd operands)"
  shows "getopt_loop sync_optstring (pre @ ws @ operands) (sync_option T) a \<lparr>optind = length pre, optnext = []\<rparr>
    = ret (Inr (fold set_flag ws a), \<lparr>optind = length pre + length ws, optnext = []\<rparr>)"
  using assms(1)
proof (induction ws arbitrary: pre a)
  case Nil
  show ?case
    using assms(2) by (intro trans [OF getopt_loop_end])
      (auto simp: getopt_def nth_append neq_Nil_conv split: list.splits)
next
  case (Cons w ws)
  let ?argv = "pre @ (w # ws) @ operands" and ?g = "\<lparr>optind = length pre, optnext = []\<rparr>"
  obtain c where c: "w = [CHR ''-'', c]" "c \<in> set ''lnqZ''" using Cons.prems by (auto simp: sync_flags_def)
  have "getopt sync_optstring ?argv ?g = (Option c None, \<lparr>optind = Suc (length pre), optnext = []\<rparr>)"
    using c by (auto simp: getopt_def getopt_letter_def sync_optstring_def nth_append)
  moreover have "sync_option T (Option c None) a = ret (Inr (set_flag w a))"
    using c by (auto simp: sync_option_def set_flag_def)
  ultimately have "getopt_loop sync_optstring ?argv (sync_option T) a ?g
      = getopt_loop sync_optstring ?argv (sync_option T) (set_flag w a) \<lparr>optind = Suc (length pre), optnext = []\<rparr>"
    by (intro getopt_loop_option) simp_all
  then show ?case using Cons.IH [of "pre @ [w]" "set_flag w a"] Cons.prems by simp
qed

lemma fold_set_flag:
  "set ws \<subseteq> sync_flags \<Longrightarrow> fold set_flag ws a = \<lparr>sy_list_only = sy_list_only a \<or> ''-l'' \<in> set ws,
     sy_dry_run = sy_dry_run a \<or> ''-n'' \<in> set ws, sy_quiet = sy_quiet a \<or> ''-q'' \<in> set ws,
     sy_compression = (if ''-Z'' \<in> set ws then CompNone else sy_compression a)\<rparr>"
proof (induction ws arbitrary: a)
  case (Cons w ws)
  then have "w = ''-l'' \<or> w = ''-n'' \<or> w = ''-q'' \<or> w = ''-Z''" by (auto simp: sync_flags_def)
  with Cons show ?case by (elim disjE) (simp_all add: set_flag_def)
qed simp

lemma cmd_sync_reads:
  assumes "set ws \<subseteq> sync_flags" "operands = [] \<or> \<not> prefix ''-'' (hd operands)" "length operands \<le> 1"
  shows "cmd_sync T (pre @ ws @ operands) \<lparr>optind = length pre, optnext = []\<rparr>
    = bindp (sync_as T (''-l'' \<in> set ws) (''-n'' \<in> set ws) (''-q'' \<in> set ws) (''-Z'' \<in> set ws) operands)
        (\<lambda>code. ret (code, \<lparr>optind = length pre + length ws, optnext = []\<rparr>))"
proof (cases operands)
  case Nil
  then show ?thesis
    using flags_read [OF assms(1,2), of pre T]
    by (simp add: cmd_sync_def fold_set_flag [OF assms(1)] sync_as_def sync_run_each bindp_assoc cong: if_cong)
next
  case (Cons p ps)
  with assms(3) have p: "operands = [p]" by simp
  show ?thesis
    using flags_read [OF assms(1,2), of pre T]
    by (simp add: p cmd_sync_def fold_set_flag [OF assms(1)] sync_as_def sync_run_each bindp_assoc nth_append cong: if_cong)
qed

lemma dispatch_sync: "dispatch T serial (''sync'' # argv) = with_getopt (cmd_sync T (''sync'' # argv))"
  by (simp add: dispatch_def)

text \<open>The process's variables of \<^verbatim>\<open>getopt\<close> are set, and a command that reads them.\<close>

definition set_getopt :: "getopt_state \<Rightarrow> ('v, unit) cmdprog" where
  "set_getopt g = clp (modify (\<lambda>s. s\<lparr>cl_getopt := g\<rparr>))"

lemma with_getopt_set:
  "thenp (set_getopt g) (with_getopt m) = thenp (set_getopt g) (bindp (m g) (\<lambda>(r, g). thenp (set_getopt g) (ret r)))"
  by (rule ext) (simp add: with_getopt_def set_getopt_def clp_def tos_def connp_def osop_def prog_defs modify_def gets_def)

text \<open>C37: the options of \<^verbatim>\<open>sync\<close> count once per process. The first \<^verbatim>\<open>adb sync\<close> with any of \<open>-l\<close>, \<open>-n\<close>, \<open>-q\<close>, \<open>-Z\<close> syncs
  its partitions with exactly these options. It leaves \<^verbatim>\<open>optind\<close> behind them, nothing sets it back, and so
  the same command given once more in the process, as an app that embeds this code does, syncs the same
  partitions with none of them: a dry run is followed by one that stores.\<close>

theorem sync_options_count_once:
  fixes T :: "('v, 'x) cmd_env_scheme" and serial :: "string option"
  assumes "set ws \<subseteq> sync_flags" "operands = [] \<or> \<not> prefix ''-'' (hd operands)" "length operands \<le> 1"
  defines "command \<equiv> dispatch T serial (''sync'' # ws @ operands)"
    and "g \<equiv> \<lparr>optind = Suc (length ws), optnext = []\<rparr>"
  shows "thenp (set_getopt getopt_init) (thenp command command) =
    thenp (set_getopt getopt_init)
     (thenp (sync_as T (''-l'' \<in> set ws) (''-n'' \<in> set ws) (''-q'' \<in> set ws) (''-Z'' \<in> set ws) operands)
     (thenp (set_getopt g)
     (bindp (sync_as T False False False False operands) (\<lambda>code. thenp (set_getopt g) (ret code)))))"
proof -
  have first: "cmd_sync T (''sync'' # ws @ operands) getopt_init
      = bindp (sync_as T (''-l'' \<in> set ws) (''-n'' \<in> set ws) (''-q'' \<in> set ws) (''-Z'' \<in> set ws) operands)
          (\<lambda>code. ret (code, g))"
    using cmd_sync_reads [OF assms(1-3), of T "[''sync'']"] by (simp add: g_def getopt_init_def)
  have second: "cmd_sync T (''sync'' # ws @ operands) g
      = bindp (sync_as T False False False False operands) (\<lambda>code. ret (code, g))"
    using cmd_sync_reads [of "[]" operands T "''sync'' # ws"] assms(2,3) by (simp add: g_def)
  have again: "thenp (set_getopt g) command
      = thenp (set_getopt g) (bindp (sync_as T False False False False operands) (\<lambda>code. thenp (set_getopt g) (ret code)))"
    by (simp add: command_def dispatch_sync with_getopt_set second bindp_assoc)
  have "thenp (set_getopt getopt_init) (thenp command command)
      = thenp (thenp (set_getopt getopt_init) command) command"
    by (simp add: thenp_def bindp_assoc)
  also have "thenp (set_getopt getopt_init) command = thenp (set_getopt getopt_init) (bindp
      (sync_as T (''-l'' \<in> set ws) (''-n'' \<in> set ws) (''-q'' \<in> set ws) (''-Z'' \<in> set ws) operands)
      (\<lambda>code. thenp (set_getopt g) (ret code)))"
    by (simp add: command_def dispatch_sync with_getopt_set first bindp_assoc)
  finally show ?thesis
    using again by (simp add: thenp_def bindp_assoc)
qed

theorem sync_options_count_once_witness:
  "\<forall>T :: client_world cmd_env. let command = dispatch T None [''sync'', ''-n'', ''data''];
      g = \<lparr>optind = 2, optnext = []\<rparr>
    in thenp (set_getopt getopt_init) (thenp command command) = thenp (set_getopt getopt_init)
      (thenp (sync_as T False True False False [''data'']) (thenp (set_getopt g)
        (bindp (sync_as T False False False False [''data'']) (\<lambda>code. thenp (set_getopt g) (ret code)))))"
proof
  fix T :: "client_world cmd_env"
  show "let command = dispatch T None [''sync'', ''-n'', ''data''];
      g = \<lparr>optind = 2, optnext = []\<rparr>
    in thenp (set_getopt getopt_init) (thenp command command) = thenp (set_getopt getopt_init)
      (thenp (sync_as T False True False False [''data'']) (thenp (set_getopt g)
        (bindp (sync_as T False False False False [''data'']) (\<lambda>code. thenp (set_getopt g) (ret code)))))"
    using sync_options_count_once [of "[''-n'']" "[''data'']" T None] by (simp add: sync_flags_def numeral_2_eq_2)
qed

section \<open>A device that cannot be reached\<close>










section \<open>Global options\<close>

text \<open>The words that select options, and the words the options are parsed from.\<close>

definition is_global :: "string \<Rightarrow> bool" where
  "is_global w \<longleftrightarrow> w \<in> {''server'', ''nodaemon'', ''fork-server'', ''--reply-fd'', ''--one-device'', ''-d'', ''-e'',
     ''-a'', ''-L'', ''--exit-on-write-error''} \<or> prefix ''-s'' w \<or> prefix ''-t'' w \<or> prefix ''-H'' w \<or> prefix ''-P'' w"

definition flag :: "bool \<Rightarrow> string \<Rightarrow> string list" where
  "flag b w = (if b then [w] else [])"

definition valued :: "string option \<Rightarrow> string \<Rightarrow> string list" where
  "valued v w = (case v of None \<Rightarrow> [] | Some v \<Rightarrow> [w, v])"

definition option_words :: "cmd_opts \<Rightarrow> string list" where
  "option_words c =
     flag (co_is_server c) ''server'' @ flag (co_no_daemon c) ''nodaemon'' @ flag (co_is_daemon c) ''fork-server''
     @ valued (if co_ack_reply_fd c = -1 then None else Some (show_int (co_ack_reply_fd c))) ''--reply-fd''
     @ valued (co_one_device c) ''--one-device'' @ valued (co_serial c) ''-s''
     @ valued (if co_transport_id c = 0 then None else Some (show_nat (unat (co_transport_id c)))) ''-t''
     @ flag (co_transport c = kTransportUsb) ''-d'' @ flag (co_transport c = kTransportLocal) ''-e''
     @ flag (co_listen_all c) ''-a'' @ valued (co_host c) ''-H'' @ valued (co_port c) ''-P''
     @ valued (co_socket c) ''-L'' @ flag (co_return_errors c) ''--exit-on-write-error''"

lemma no_command: "cmd = [] \<or> \<not> is_global (hd cmd) \<Longrightarrow> parse_globals cmd c = (c, Inr cmd)"
  by (cases cmd) (auto simp: is_global_def Let_def)

lemma flags_parsed:
  "parse_globals (flag b ''server'' @ ws) c = parse_globals ws (c\<lparr>co_is_server := b \<or> co_is_server c\<rparr>)"
  "parse_globals (flag b ''nodaemon'' @ ws) c = parse_globals ws (c\<lparr>co_no_daemon := b \<or> co_no_daemon c\<rparr>)"
  "parse_globals (flag b ''fork-server'' @ ws) c = parse_globals ws (c\<lparr>co_is_daemon := b \<or> co_is_daemon c\<rparr>)"
  "parse_globals (flag b ''-a'' @ ws) c = parse_globals ws (c\<lparr>co_listen_all := b \<or> co_listen_all c\<rparr>)"
  "parse_globals (flag b ''--exit-on-write-error'' @ ws) c = parse_globals ws (c\<lparr>co_return_errors := b \<or> co_return_errors c\<rparr>)"
  "parse_globals (flag b ''-d'' @ ws) c
     = parse_globals ws (c\<lparr>co_transport := if b then kTransportUsb else co_transport c\<rparr>)"
  "parse_globals (flag b ''-e'' @ ws) c
     = parse_globals ws (c\<lparr>co_transport := if b then kTransportLocal else co_transport c\<rparr>)"
  by (simp_all add: flag_def Let_def)

lemma values_parsed:
  "parse_globals (valued v ''--one-device'' @ ws) c = parse_globals ws (c\<lparr>co_one_device := first_of v (co_one_device c)\<rparr>)"
  "parse_globals (valued v ''-s'' @ ws) c = parse_globals ws (c\<lparr>co_serial := first_of v (co_serial c)\<rparr>)"
  "parse_globals (valued v ''-H'' @ ws) c = parse_globals ws (c\<lparr>co_host := first_of v (co_host c)\<rparr>)"
  "parse_globals (valued v ''-P'' @ ws) c = parse_globals ws (c\<lparr>co_port := first_of v (co_port c)\<rparr>)"
  "parse_globals (valued v ''-L'' @ ws) c = parse_globals ws (c\<lparr>co_socket := first_of v (co_socket c)\<rparr>)"
  by (cases v; simp add: valued_def first_of_def Let_def opt_value_def)+

lemma defaults: "first_of v None = v" "(if x = y then y else x) = x"
  by (simp_all add: first_of_def split: option.split)

lemma numbers_parsed:
  assumes "i = -1 \<or> 2 < i \<and> i < 2 ^ 31" "tid < 2 ^ 63"
  shows "parse_globals (valued (if i = -1 then None else Some (show_int i)) ''--reply-fd'' @ ws) c
      = parse_globals ws (c\<lparr>co_ack_reply_fd := if i = -1 then co_ack_reply_fd c else i\<rparr>)"
    and "parse_globals (valued (if tid = 0 then None else Some (show_nat (unat tid))) ''-t'' @ ws) c
      = parse_globals ws (c\<lparr>co_transport_id := if tid = 0 then co_transport_id c else tid\<rparr>)"
proof -
  note scan = scan_int_digits [OF digits_show_nat, unfolded dec_value_show_nat]
  have "strtol_int (show_int i) = i" if "2 < i" "i < 2 ^ 31"
    using that by (simp add: strtol_int_def show_int_def scan to_int_def signed_take_bit_int_eq_self)
  then show "parse_globals (valued (if i = -1 then None else Some (show_int i)) ''--reply-fd'' @ ws) c
      = parse_globals ws (c\<lparr>co_ack_reply_fd := if i = -1 then co_ack_reply_fd c else i\<rparr>)"
    using assms(1) by (auto simp: valued_def Let_def is_valid_ack_reply_fd_def)
  have "uint tid < 2 ^ 63" using assms(2) by (simp add: word_less_def)
  then have clip: "max (- (2 ^ 63)) (min (2 ^ 63 - 1) (uint tid)) = uint tid"
    using uint_ge_0 [of tid] by linarith
  have "parse_transport_id (show_nat (unat tid)) = Some tid"
    unfolding parse_transport_id_def scan option.case prod.case uint_nat [symmetric] clip by simp
  then show "parse_globals (valued (if tid = 0 then None else Some (show_nat (unat tid))) ''-t'' @ ws) c
      = parse_globals ws (c\<lparr>co_transport_id := if tid = 0 then co_transport_id c else tid\<rparr>)"
    by (auto simp: valued_def Let_def opt_value_def)
qed

text \<open>C27: what the user selects is what the program gets. Options written as separate words, in a fixed order, are
  parsed back to exactly those options, for every serial, host, port, socket and every transport id below
  2 to the power 63, and the command begins at the first word that is not a global option.\<close>

theorem options_roundtrip:
  assumes "co_ack_reply_fd c = -1 \<or> 2 < co_ack_reply_fd c \<and> co_ack_reply_fd c < 2 ^ 31"
    and "co_transport_id c < 2 ^ 63" "co_transport c \<noteq> kTransportHost"
    and "cmd = [] \<or> \<not> is_global (hd cmd)"
  shows "parse_globals (option_words c @ cmd) no_opts = (c, Inr cmd)"
  unfolding option_words_def append_assoc flags_parsed values_parsed numbers_parsed [OF assms(1,2)]
    no_command [OF assms(4)]
  using assms(3) by (cases c; cases "co_transport c") (simp_all add: no_opts_def defaults)

theorem options_roundtrip_witness:
  "parse_globals [''-s'', ''-e'', ''-t'', ''7'', ''-d'', ''-P'', ''5038'', ''devices'', ''-l''] no_opts
     = (no_opts\<lparr>co_serial := Some ''-e'', co_transport_id := 7, co_transport := kTransportUsb,
         co_port := Some ''5038''\<rparr>, Inr [''devices'', ''-l''])"
proof -
  let ?c = "no_opts\<lparr>co_serial := Some ''-e'', co_transport_id := 7, co_transport := kTransportUsb,
    co_port := Some ''5038''\<rparr>"
  have "option_words ?c = [''-s'', ''-e'', ''-t'', ''7'', ''-d'', ''-P'', ''5038'']"
    by code_simp
  then show ?thesis
    using options_roundtrip [of ?c "[''devices'', ''-l'']"] by (simp add: no_opts_def is_global_def)
qed

end
