(* ===== verification/StartupProperties.thy ===== *)
theory StartupProperties
  imports Dispatch CommandProperties LifeProperties
begin

text \<open>
  Properties of the start of a server: what the forked process makes of its command line, what a failed
  start shows of the log, and what the launch inside the application does without a pipe.
\<close>

section \<open>The command line of the forked server\<close>

text \<open>C28: the server that \<^verbatim>\<open>launch_server\<close> executes gets what it was asked for. Its \<^verbatim>\<open>adb_commandline\<close> takes every
  word of its command line for an option and runs the server's main function as a daemon, on the socket of
  the client whatever the environment says, for the same device, with \<^verbatim>\<open>gListenAll\<close> as the client had it, and
  with the descriptor of the pipe to acknowledge to.\<close>

theorem forked_server_gets_the_arguments:
  assumes "2 < reply_fd" "reply_fd < 2 ^ 31"
  shows "adb_commandline T (tl (child_argv listen_all spec reply_fd device)) =
    thenp (clp (modify (\<lambda>s. s\<lparr>cl_listen_all := cl_listen_all s \<or> listen_all\<rparr>)))
      (thenp (clp (configure_client T (no_opts\<lparr>co_one_device := device\<rparr>) (c_str spec)))
        (bindp (tos (adb_server_main T True (c_str spec) device reply_fd)) (\<lambda>r.
          thenp (if r \<noteq> 0 then warn_both T True (''* could not start server *'' @ newline) else ret ()) (ret r))))"
proof -
  define opts where "opts = no_opts\<lparr>co_socket := Some (c_str spec), co_listen_all := listen_all, co_is_daemon := True,
    co_is_server := True, co_ack_reply_fd := reply_fd, co_one_device := device\<rparr>"
  note opts = this [unfolded no_opts_def]
  have fd: "strtol_int (show_int reply_fd) = reply_fd"
    using assms by (simp add: strtol_int_def show_int_def scan_int_digits [OF digits_show_nat, unfolded dec_value_show_nat]
        to_int_def signed_take_bit_int_eq_self)
  have parsed: "parse_globals (tl (child_argv listen_all spec reply_fd device)) no_opts = (opts, Inr [])"
    using assms(1) by (cases device) (simp_all add: child_argv_def Let_def fd is_valid_ack_reply_fd_def opts no_opts_def)
  have fields: "co_is_server opts" "co_is_daemon opts" "co_ack_reply_fd opts = reply_fd" "co_one_device opts = device"
    "co_listen_all opts = listen_all" "\<not> co_return_errors opts" "server_socket T opts = Inr (c_str spec)"
    by (simp_all add: opts server_socket_def first_of_def)
  have configure: "configure_client T opts (c_str spec)
      = configure_client T (no_opts\<lparr>co_one_device := device\<rparr>) (c_str spec)"
    by (simp add: configure_client_def opts no_opts_def)
  show ?thesis
    using assms(1) unfolding adb_commandline_def parsed
    by (simp add: fields thenp_def run_server_def configure bindp_assoc)
qed

theorem forked_server_gets_the_arguments_witness:
  "\<forall>T :: client_world cmd_env.
     child_argv True ''tcp:5037'' 8 (Some ''A1'') = [''adb'', ''-L'', ''tcp:5037'', ''-a'', ''fork-server'', ''server'',
       ''--reply-fd'', ''8'', ''--one-device'', ''A1''] \<and>
     adb_commandline T (tl (child_argv True ''tcp:5037'' 8 (Some ''A1''))) =
       thenp (clp (modify (\<lambda>s. s\<lparr>cl_listen_all := True\<rparr>)))
         (thenp (clp (configure_client T (no_opts\<lparr>co_one_device := Some ''A1''\<rparr>) ''tcp:5037''))
           (bindp (tos (adb_server_main T True ''tcp:5037'' (Some ''A1'') 8)) (\<lambda>r.
             thenp (if r \<noteq> 0 then warn_both T True (''* could not start server *'' @ newline) else ret ()) (ret r))))"
proof -
  have "child_argv True ''tcp:5037'' 8 (Some ''A1'') = [''adb'', ''-L'', ''tcp:5037'', ''-a'', ''fork-server'', ''server'',
       ''--reply-fd'', ''8'', ''--one-device'', ''A1'']" by code_simp
  then show ?thesis
    using forked_server_gets_the_arguments [of 8 _ True "''tcp:5037''" "Some ''A1''", where 'a = client_world and 'b = unit]
    by (simp add: c_str_def)
qed

section \<open>The report of a failed start\<close>

text \<open>What the theorem needs of the system: a message to \<^verbatim>\<open>stderr\<close> is appended to what was printed, and reading
  the log file from \<open>report_tail\<close> bytes before its end, or from its start if it is shorter, gives its tail.\<close>

definition log_tail :: "string \<Rightarrow> string" where
  "log_tail c = drop (length c - nat report_tail) c"

definition log_doc :: "('w, 'x) proc_env_scheme \<Rightarrow> ('w \<Rightarrow> string) \<Rightarrow> ('w \<Rightarrow> string) \<Rightarrow> bool" where
  "log_doc P log err \<longleftrightarrow>
     (\<forall>m w. err (snd (pr_stderr P m w)) = err w @ m \<and> log (snd (pr_stderr P m w)) = log w) \<and>
     (\<forall>w i w1 u w2 c w3. pr_open_read P (GetLogFilePath P) w = (i, w1) \<longrightarrow>
        pr_lseek_end P i (- report_tail) w1 = (u, w2) \<longrightarrow> pr_read_all P i w2 = (c, w3) \<longrightarrow>
        i \<noteq> -1 \<and> c = Some (log_tail (log w)) \<and> err w3 = err w) \<and>
     (\<forall>i w. err (snd (pr_close P i w)) = err w)"

lemma last_line_none: "n \<le> length ls \<Longrightarrow> h \<notin> set ls \<Longrightarrow> last_line h ls n = -1"
  by (induction n) (auto simp: nth_mem)

lemma last_line_skip: "h \<notin> set post \<Longrightarrow> n \<le> length post \<Longrightarrow>
    last_line h (pre @ post) (length pre + n) = last_line h (pre @ post) (length pre)"
  by (induction n) (auto simp: nth_append nth_mem)

lemma shown_none: "h \<notin> set ls \<Longrightarrow> shown_lines h ls = []"
  by (simp add: shown_lines_def last_line_none)

lemma shown_last: "h \<notin> set post \<Longrightarrow> shown_lines h (pre @ h # post) = h # post"
  using last_line_skip [of h post "length post" "pre @ [h]"] by (simp add: shown_lines_def)

definition failure_head :: "('w, 'x) proc_env_scheme \<Rightarrow> int \<Rightarrow> string" where
  "failure_head P pid = ''ADB server didn't ACK'' @ [newline_char]
     @ ''Full server startup log: '' @ c_str (GetLogFilePath P) @ [newline_char]
     @ ''Server had pid: '' @ show_int pid @ [newline_char]"

lemma report_lines:
  assumes "log_doc P log err"
  shows "\<exists>w'. fold_prog (\<lambda>l _. stderr_line P (c_str l)) ls () w = (Ok (), w') \<and>
    err w' = err w @ concat (map (\<lambda>l. c_str l @ [newline_char]) ls)"
proof (induction ls arbitrary: w)
  case Nil
  show ?case by (simp add: ret_def)
next
  case (Cons l ls)
  obtain u w1 where w1: "pr_stderr P (c_str l @ [newline_char]) w = (u, w1)" by (metis surj_pair)
  then have "err w1 = err w @ c_str l @ [newline_char]" using assms unfolding log_doc_def by (metis snd_conv)
  with Cons.IH [of w1] w1 show ?case by (auto simp: stderr_line_def syscallp_def bindp_def)
qed

lemma report_runs:
  assumes split: "Split_doc P" and doc: "log_doc P log err"
  shows "\<exists>w'. ReportServerStartupFailure P pid w = (Ok (), w') \<and> err w' = err w @ failure_head P pid @
    concat (map (\<lambda>l. c_str l @ [newline_char]) (shown_lines (startup_header pid) (split_on newline_char (log_tail (log w)))))"
proof -
  have say: "\<exists>w1. stderr_line P m w = (Ok (), w1) \<and> err w1 = err w @ m @ [newline_char] \<and> log w1 = log w" for m w
  proof -
    obtain u w1 where w1: "pr_stderr P (m @ [newline_char]) w = (u, w1)" by (metis surj_pair)
    then have "err w1 = err w @ m @ [newline_char]" "log w1 = log w" using doc unfolding log_doc_def by (metis snd_conv)+
    with w1 show ?thesis by (simp add: stderr_line_def syscallp_def)
  qed
  obtain w1 where w1: "stderr_line P ''ADB server didn't ACK'' w = (Ok (), w1)" "err w1 = err w @ ''ADB server didn't ACK'' @ [newline_char]" "log w1 = log w"
    using say by blast
  obtain w2 where w2: "stderr_line P (''Full server startup log: '' @ c_str (GetLogFilePath P)) w1 = (Ok (), w2)"
    "err w2 = err w1 @ (''Full server startup log: '' @ c_str (GetLogFilePath P)) @ [newline_char]" "log w2 = log w1"
    using say by blast
  obtain w3 where w3: "stderr_line P (''Server had pid: '' @ show_int pid) w2 = (Ok (), w3)"
    "err w3 = err w2 @ (''Server had pid: '' @ show_int pid) @ [newline_char]" "log w3 = log w2"
    using say by blast
  obtain i w4 where w4: "pr_open_read P (GetLogFilePath P) w3 = (i, w4)" by (metis surj_pair)
  obtain u w5 where w5: "pr_lseek_end P i (- report_tail) w4 = (u, w5)" by (metis surj_pair)
  obtain c w6 where w6: "pr_read_all P i w5 = (c, w6)" by (metis surj_pair)
  have read: "i \<noteq> -1" "c = Some (log_tail (log w))" "err w6 = err w3"
    using doc w4 w5 w6 w1(3) w2(3) w3(3) unfolding log_doc_def by metis+
  obtain w7 where w7: "fold_prog (\<lambda>l _. stderr_line P (c_str l))
      (shown_lines (startup_header pid) (split_on newline_char (log_tail (log w)))) () w6 = (Ok (), w7)"
    "err w7 = err w6 @ concat (map (\<lambda>l. c_str l @ [newline_char])
      (shown_lines (startup_header pid) (split_on newline_char (log_tail (log w)))))"
    using report_lines [OF doc] by blast
  obtain v w8 where w8: "pr_close P i w7 = (v, w8)" by (metis surj_pair)
  then have "err w8 = err w7" using doc unfolding log_doc_def by (metis snd_conv)
  with w1 w2 w3 w4 w5 w6 w7 w8 read split show ?thesis
    by (simp add: ReportServerStartupFailure_def thenp_def bindp_def syscallp_def failure_head_def Split_doc_def)
qed

lemma split_on_line: "split_on c (xs @ c # ys) = split_on c xs @ split_on c ys"
  by (induction xs) (auto split: list.splits)

lemma split_last:
  assumes "old = [] \<or> last old = c" "c \<notin> set h"
  shows "\<exists>pre. split_on c (old @ h @ c # rest) = pre @ h # split_on c rest"
proof (cases "old = []")
  case True
  then show ?thesis using split_on_append [OF assms(2)] by (intro exI [of _ "[]"]) simp
next
  case False
  then obtain xs where "old = xs @ [c]" using assms(1) by (metis append_butlast_last_id)
  then show ?thesis
    using split_on_line [of c xs "h @ c # rest"] split_on_append [OF assms(2)] by (intro exI [of _ "split_on c xs"]) simp
qed

lemma split_lines: "CHR 0x00 \<notin> set rest \<Longrightarrow>
    concat (map (\<lambda>l. c_str l @ [c]) (split_on c rest)) = rest @ [c]"
proof -
  assume rest: "CHR 0x00 \<notin> set rest"
  have "c_str l = l" if "l \<in> set (split_on c rest)" for l
    using split_on_chars [OF that] rest by (simp add: c_str_def takeWhile_eq_all_conv subset_iff) blast
  then have "concat (map (\<lambda>l. c_str l @ [c]) (split_on c rest)) = concat (map (\<lambda>l. l @ [c]) (split_on c rest))"
    by (metis (mono_tags, lifting) map_cong)
  also have "\<dots> = rest @ [c]" by (induction rest) (auto split: list.splits)
  finally show ?thesis .
qed

lemma header_chars: "newline_char \<notin> set (startup_header pid)" "c_str (startup_header pid) = startup_header pid"
proof -
  have "is_digit c \<or> c = CHR ''-''" if "c \<in> set (show_int pid)" for c
    using that digits_show_nat(1) by (fastforce simp: show_int_def split: if_splits)
  moreover have "\<not> is_digit newline_char" "\<not> is_digit (CHR 0x00)" by (simp_all add: is_digit_def)
  ultimately have "newline_char \<notin> set (show_int pid)" "CHR 0x00 \<notin> set (show_int pid)" by fastforce+
  then show "newline_char \<notin> set (startup_header pid)" "c_str (startup_header pid) = startup_header pid"
    by (auto simp: startup_header_def c_str_def takeWhile_eq_all_conv)
qed

text \<open>C32: a failed start shows what the server logged since it started. The three lines about the failure are
  followed by the log from the last header of that process on, whatever servers wrote before; and by
  nothing if the header is not among the last 128 KiB, as for the server inside the application, which
  never writes one.\<close>

theorem failed_start_shows_its_log:
  assumes "Split_doc P" "log_doc P log err"
  shows "\<exists>w'. ReportServerStartupFailure P pid w = (Ok (), w') \<and>
    (startup_header pid \<notin> set (split_on newline_char (log_tail (log w))) \<longrightarrow> err w' = err w @ failure_head P pid) \<and>
    (\<forall>old rest. log_tail (log w) = old @ startup_header pid @ newline_char # rest \<longrightarrow>
       old = [] \<or> last old = newline_char \<longrightarrow> startup_header pid \<notin> set (split_on newline_char rest) \<longrightarrow>
       CHR 0x00 \<notin> set rest \<longrightarrow>
       err w' = err w @ failure_head P pid @ startup_header pid @ newline_char # rest @ [newline_char])"
proof -
  let ?h = "startup_header pid"
  obtain w' where w': "ReportServerStartupFailure P pid w = (Ok (), w')" "err w' = err w @ failure_head P pid @
      concat (map (\<lambda>l. c_str l @ [newline_char]) (shown_lines ?h (split_on newline_char (log_tail (log w)))))"
    using report_runs [OF assms] by blast
  note h = header_chars [of pid]
  have last: "err w' = err w @ failure_head P pid @ ?h @ newline_char # rest @ [newline_char]"
    if tail: "log_tail (log w) = old @ ?h @ newline_char # rest" and line: "old = [] \<or> last old = newline_char"
      and new: "?h \<notin> set (split_on newline_char rest)" "CHR 0x00 \<notin> set rest" for old rest
  proof -
    obtain pre where pre: "split_on newline_char (log_tail (log w)) = pre @ ?h # split_on newline_char rest"
      unfolding tail using split_last [OF line h(1), of rest] by blast
    show ?thesis
      using w'(2) shown_last [OF new(1), of pre] split_lines [OF new(2), of newline_char] h(2) unfolding pre by simp
  qed
  have none: "err w' = err w @ failure_head P pid" if "?h \<notin> set (split_on newline_char (log_tail (log w)))"
    using w'(2) shown_none [OF that] by simp
  show ?thesis by (intro exI [of _ w'] conjI allI impI w'(1) none last) assumption+
qed

text \<open>The log of a daemon with pid 7 that failed after an earlier one with the same pid, and the in-process server.\<close>

record log_world =
  lw_log :: string
  lw_err :: string

definition log_ref :: "log_world proc_env" where
  "log_ref = proc_ref\<lparr>pr_stderr := \<lambda>m w. ((), w\<lparr>lw_err := lw_err w @ m\<rparr>), pr_open_read := \<lambda>_ w. (5, w),
     pr_read_all := \<lambda>_ w. (Some (log_tail (lw_log w)), w)\<rparr>"

lemma log_ref_doc: "Split_doc log_ref" "log_doc log_ref lw_log lw_err"
  by (simp_all add: Split_doc_def log_doc_def log_ref_def proc_ref_def proc_env.defs libbase_ref_def libbase.defs)

definition log_w :: log_world where
  "log_w = \<lparr>lw_log = startup_header 7 @ newline_char # ''old'' @ newline_char # startup_header 7 @ newline_char # ''bad'',
     lw_err = []\<rparr>"

theorem failed_start_shows_its_log_witness:
  "(\<exists>w'. ReportServerStartupFailure log_ref 7 log_w = (Ok (), w') \<and>
     lw_err w' = failure_head log_ref 7 @ startup_header 7 @ newline_char # ''bad'' @ [newline_char]) \<and>
   (\<exists>w'. ReportServerStartupFailure log_ref 0 log_w = (Ok (), w') \<and> lw_err w' = failure_head log_ref 0)"
proof -
  have tail: "log_tail (lw_log log_w) = lw_log log_w"
    by (simp add: log_tail_def report_tail_def log_w_def startup_header_def show_int_def show_nat_def show_base.simps)
  have absent: "startup_header 7 \<notin> set (split_on newline_char ''bad'')"
    "startup_header 0 \<notin> set (split_on newline_char (lw_log log_w))"
    by (simp_all add: log_w_def split_on_append [OF header_chars(1)] startup_header_def show_int_def show_nat_def
        show_base.simps hex_digit_def)
  obtain w7 where w7: "ReportServerStartupFailure log_ref 7 log_w = (Ok (), w7)"
    "\<And>old rest. lw_log log_w = old @ startup_header 7 @ newline_char # rest \<Longrightarrow>
       old = [] \<or> last old = newline_char \<Longrightarrow> startup_header 7 \<notin> set (split_on newline_char rest) \<Longrightarrow>
       CHR 0x00 \<notin> set rest \<Longrightarrow>
       lw_err w7 = lw_err log_w @ failure_head log_ref 7 @ startup_header 7 @ newline_char # rest @ [newline_char]"
    using failed_start_shows_its_log [OF log_ref_doc, of 7 log_w] unfolding tail by blast
  have "lw_err w7 = failure_head log_ref 7 @ startup_header 7 @ newline_char # ''bad'' @ [newline_char]"
    using w7(2) [of "startup_header 7 @ newline_char # ''old'' @ [newline_char]" "''bad''"] absent(1)
    by (simp add: log_w_def)
  moreover obtain w0 where "ReportServerStartupFailure log_ref 0 log_w = (Ok (), w0)"
    "lw_err w0 = lw_err log_w @ failure_head log_ref 0"
    using failed_start_shows_its_log [OF log_ref_doc, of 0 log_w] absent(2) unfolding tail by blast
  ultimately show ?thesis using w7(1) by (auto simp: log_w_def)
qed

section \<open>The server inside the application\<close>

interpretation owner: launch_frame "\<lambda>s s'. one_device s' = one_device s"
  by unfold_locales (auto simp: preorder_on_states_def)

lemma start_for_device:
  "server_start E fuel is_daemon spec (Some d)
     = thenp (transport_set_one_device (Some d)) (server_start E fuel is_daemon spec None)"
  by (simp add: server_start_def server_options_def thenp_def bindp_assoc)

lemma eat_append: "eat s (s @ x) = Some x"
  by (induction s) auto

lemma qual_match_product:
  assumes "c_str d = ''product:'' @ x" "x \<noteq> []"
  shows "qual_match (c_str d) ''product:'' x False"
proof -
  have pre: "c_str ''product:'' = ''product:''" by (simp add: c_str_def)
  have test: "c_str (c_str d) = ''product:'' @ x" by (rule trans [OF c_str_idem assms(1)])
  show ?thesis
    using assms eat_append [of "''product:''" x] eat_append [of x "[]"] unfolding qual_match_def pre test by auto
qed

text \<open>C31: the server inside the application owns every device. The process that \<^verbatim>\<open>launch_server\<close> of
  \<^verbatim>\<open>client/adb.cpp\<close> executes owns only the device it was launched for, however its start ends; the one of
  \<^verbatim>\<open>client/main.cpp\<close> takes the same argument and leaves the choice as it was, which is none. Owning is being
  called exactly by the name given, in the serial or the path, and not, as the comment on
  \<^verbatim>\<open>adb_server_main\<close> has it, matching it as \<^verbatim>\<open>MatchesTarget\<close> does: what is owned matches, but a device that
  matches by its product, for one, is not owned.\<close>

theorem launch_inside_ignores_one_device:
  assumes "launch_server E fuel spec (Some d) s = (r, s1)" "one_device s = None"
    and "server_start E fuel is_daemon spec (Some d) s = (q, s2)"
  shows "transport_server_owns_device s1 serial \<and> transport_server_owns_device_path s1 path serial \<and>
    (transport_server_owns_device s2 serial \<longleftrightarrow> serial = c_str d) \<and>
    (transport_server_owns_device_path s2 path serial \<longleftrightarrow> serial = c_str d \<or> path = c_str d) \<and>
    (t_serial t \<noteq> [] \<and> transport_server_owns_device_path s2 (t_devpath t) (t_serial t) \<longrightarrow> MatchesTarget E t (c_str d)) \<and>
    (c_str d = ''product:'' @ t_product t \<and> t_product t \<noteq> [] \<and> c_str d \<notin> {t_serial t, t_devpath t} \<longrightarrow>
      MatchesTarget E t (c_str d) \<and> \<not> transport_server_owns_device_path s2 (t_devpath t) (t_serial t))"
proof -
  have "one_device s1 = None" using keepsD [OF owner.launch_server_frame assms(1)] assms(2) by simp
  moreover have "server_start E fuel is_daemon spec None (s\<lparr>one_device := Some d\<rparr>) = (q, s2)"
    using assms(3) by (simp add: start_for_device transport_set_one_device_def thenp_def bindp_def modp_def)
  from keepsD [OF owner.services_frame this] have "one_device s2 = Some d" by simp
  ultimately have owns: "transport_server_owns_device s1 n" "transport_server_owns_device_path s1 m n"
      "transport_server_owns_device s2 n \<longleftrightarrow> n = c_str d"
      "transport_server_owns_device_path s2 m n \<longleftrightarrow> n = c_str d \<or> m = c_str d" for m n
    by (simp_all add: transport_server_owns_device_def transport_server_owns_device_path_def)
  have "MatchesTarget E t (c_str d)" if "c_str d = ''product:'' @ t_product t" "t_product t \<noteq> []"
    using qual_match_product [OF that] unfolding MatchesTarget_def by blast
  moreover have "MatchesTarget E t (c_str d)" if "t_serial t \<noteq> []" "t_serial t = c_str d \<or> t_devpath t = c_str d"
    using that unfolding MatchesTarget_def by auto
  ultimately show ?thesis by (simp only: owns simp_thms insert_iff empty_iff) metis
qed

definition fresh_ref :: "int server" where
  "fresh_ref = server_ref\<lparr>launched := False, transport_list := []\<rparr>"

lemmas start_eval = init_reconnect_handler_def adb_notify_device_scan_complete_def install_listener_def
  new_listener_def fde_set_def fdevent_Create_def install_fde_def Interrupt_def fdevent_Add_def fdevent_Set_def
  live_nodes_def free_address_Nil with_fde_def deref_def update_fde_def fde_defs server_options_def process_def syscallp_def server_start_def

lemma launch_run: "\<exists>s. launch_server main_ref 1 ''tcp:5037'' (Some ''A1'') fresh_ref = (Ok 0, s)"
  by (simp add: launch_server_def launch_cleanup_def fill_pipe_def launch_server_thread_def notify_ready_def
      await_ack_def fresh_ref_def start_eval server_eval)

lemma main_run: "\<exists>s. server_start main_ref 1 False ''tcp:5037'' (Some ''A1'') fresh_ref = (Ok (), s)"
  by (simp add: transport_set_one_device_def fresh_ref_def start_eval server_eval)

theorem launch_inside_ignores_one_device_witness:
  "\<exists>s1 s2. launch_server main_ref 1 ''tcp:5037'' (Some ''A1'') fresh_ref = (Ok 0, s1) \<and>
     server_start main_ref 1 False ''tcp:5037'' (Some ''A1'') fresh_ref = (Ok (), s2) \<and>
     transport_server_owns_device s1 ''B2'' \<and> \<not> transport_server_owns_device s2 ''B2''"
proof -
  obtain s1 s2 where run: "launch_server main_ref 1 ''tcp:5037'' (Some ''A1'') fresh_ref = (Ok 0, s1)"
    "server_start main_ref 1 False ''tcp:5037'' (Some ''A1'') fresh_ref = (Ok (), s2)"
    using launch_run main_run by blast
  have "one_device fresh_ref = None" by (simp add: fresh_ref_def server_ref_def)
  from launch_inside_ignores_one_device [OF run(1) this run(2), of "''B2''" "[]"] run show ?thesis
    by (auto simp: c_str_def)
qed

end
