(* ===== verification/Spec2Isabelle.thy ===== *)
theory Spec2Isabelle
  imports SyncProperties FdeventProperties BugreportProperties ConnectionProperties LifeProperties
    CommandProperties StartupProperties
begin

text \<open>
  \<^bold>\<open>A verification development of the adb host library of \<^verbatim>\<open>src/porting/adb\<close>\<close>

  The library runs the adb client and the adb server in one process. The \<^emph>\<open>server\<close>
  (\<^verbatim>\<open>client/main.cpp\<close>) has an event loop (\<^verbatim>\<open>fdevent/\<close>); transports, one per device
  (\<^verbatim>\<open>transport.cpp\<close>), with their connections and reader and writer threads; listeners for forwarded
  ports and for clients (\<^verbatim>\<open>adb_listeners.cpp\<close>); and the protocol that ties them together
  (\<^verbatim>\<open>client/adb.cpp\<close>): packets from devices, requests from clients. The \<^emph>\<open>client\<close> asks the server over
  sockets (\<^verbatim>\<open>client/adb_client.cpp\<close>) for a device and then speaks to a service of that device. Its
  commands are parsed and dispatched by \<^verbatim>\<open>adb_commandline\<close> (\<^verbatim>\<open>client/commandline.cpp\<close>): shell,
  sideload, backup, forwarding and others there, the file-sync commands in
  \<^verbatim>\<open>client/file_sync_client.cpp\<close>, installation in \<^verbatim>\<open>client/adb_install.cpp\<close>, which pushes files and runs
  shell commands, bug reports in \<^verbatim>\<open>client/bugreport.cpp\<close>, which run a shell command and a pull. What
  they print goes to the app through the output capture of the porting layer
  (\<^verbatim>\<open>client/adb_porting.cpp\<close>).

  \<^bold>\<open>How code is modelled.\<close> A function that changes state is a \<open>prog\<close> (theory \<open>Prelude\<close>): from a state
  to an outcome (a value, process exit, an abort, no fuel) and a new state, sequenced with \<open>bindp\<close> and
  \<open>thenp\<close>; loops over containers are \<open>fold_prog\<close> and \<open>for_each\<close>. Errors are values. \<^verbatim>\<open>LOG(FATAL)\<close>,
  failed \<^verbatim>\<open>CHECK\<close>s, uncaught exceptions and uses of deleted objects are aborts. Fixed-width integers
  are words, byte buffers and strings are lists of characters, pointers are numbers; a new fdevent gets any
  address that no live one has, as the allocator chooses (\<open>os_new_node\<close>), other objects are numbered. The operating
  system, the codecs, protobuf, TLS, USB and the headers in submodules are fields of environment
  records (\<open>libbase\<close>, \<open>proc_env\<close>, \<open>sync_env\<close>, \<open>fd_env\<close>, \<open>shell_env\<close>, \<open>bug_env\<close>, \<open>tool_env\<close>, \<open>client_env\<close>, \<open>cmd_env\<close>,
  \<open>srv_env\<close> and its extensions, \<open>conn_env\<close>) with a world as their state. The client's functions neither exit
  nor loop without bound and are in the library's state monad (\<open>cl\<close>); the world of the commands is the
  record \<open>client\<close>, and \<open>linked\<close> puts the modelled client functions in the place of the corresponding fields. What a theorem needs of them is a named hypothesis
  (\<open>Split_doc\<close>, \<open>Prefix_doc\<close>, \<open>Path_doc\<close>, \<open>Strip_doc\<close>, \<open>wire_doc\<close>, \<open>socket_doc\<close>, \<open>wire_env\<close>, \<open>stream_doc\<close>, \<open>client_fds_doc\<close>, \<open>services_doc\<close>,
  \<open>copy_doc\<close>, \<open>keyboard_doc\<close>, \<open>sideload_doc\<close> and others) that states their documented
  behaviour; the concrete environments (\<open>libbase_ref\<close>, \<open>sync_env_ref\<close>, \<open>fd_env_ref\<close>, \<open>bug_env_ref\<close>,
  \<open>tool_env_ref\<close>, \<open>client_env_ref\<close>, \<open>core_ref\<close>, \<open>main_ref\<close>, \<open>wire_ref\<close>) satisfy it, and every theorem with hypotheses is applied to one.

  \<^bold>\<open>Theories\<close>

  \<^item> \<open>Prelude\<close>, \<open>Libbase\<close>: bytes, number printing, programs with their frame rules (\<open>keeps\<close>), Hoare rules
    (\<open>returns\<close>, \<open>yields\<close>, \<open>runs\<close>), the string helpers.
  \<^item> \<open>Features\<close>, \<open>Capture\<close>: feature sets of \<^verbatim>\<open>transport.cpp\<close>; \<^verbatim>\<open>capture_printf\<close>.
  \<^item> \<open>SyncEnv\<close>, \<open>SyncConn\<close>, \<open>SyncTransfer\<close>, \<open>SyncCopy\<close>: \<^verbatim>\<open>class SyncConnection\<close> (record \<open>conn\<close>), its transfers,
    and the commands ls, push, pull and sync. \<open>SyncFrame\<close> has locales for what operations leave alone,
    \<open>SyncAcks\<close>, \<open>SyncReplies\<close>, \<open>SyncUpload\<close>, \<open>SyncDownload\<close>, \<open>SyncLocal\<close> and \<open>SyncPaths\<close> the lemmas on deferred
    acknowledgements, uploads, downloads and file lists, \<open>SyncRef\<close> the concrete world, and
    \<open>SyncProperties\<close> the properties C1 to C8, C38 and C40.
  \<^item> \<open>Fdevent\<close>: \<^verbatim>\<open>fdevent_context\<close> (record \<open>fdctx\<close>) with the poll back end; \<open>FdeventLoop\<close>: the contract of
    callbacks as locales, interpreted for callbacks that are arbitrary call sequences;
    \<open>FdeventProperties\<close>: C14, C15.
  \<^item> \<open>Shell\<close>, \<open>Bugreport\<close>: stream callbacks, \<^verbatim>\<open>read_and_dump\<close>, \<^verbatim>\<open>send_shell_command\<close>, the bugreportz
    protocol and the command. \<open>ShellProperties\<close>: C26, \<open>BugreportProperties\<close>: C16, C25.
  \<^item> \<open>AdbClient\<close>: \<^verbatim>\<open>client/adb_client.cpp\<close>, with the statics of the client process in the record \<open>client\<close>.
    \<open>ClientProperties\<close> (C9, C13, C33) puts it together with the server of \<open>HostServices\<close>.
  \<^item> \<open>Tools\<close>: what the commands share (descriptors, \<^verbatim>\<open>copy_to_file\<close>, features, \<^verbatim>\<open>abb_exec\<close>). \<open>Install\<close>,
    \<open>InstallSessions\<close>: \<^verbatim>\<open>client/adb_install.cpp\<close>. \<open>InstallProperties\<close>: C10, C34. \<open>ToolsRef\<close>: a concrete world.
  \<^item> \<open>Getopt\<close>: POSIX \<^verbatim>\<open>getopt\<close> with its static variables. \<open>ShellClient\<close>: the interactive shell and its input
    thread. \<open>DeviceCommands\<close>: sideload, rescue, logcat, backup, restore, the connections with callbacks, the
    arguments of push and pull. \<open>Commandline\<close>: the record \<open>cmd_env\<close>, the global options, the server's
    address, root. \<open>Dispatch\<close>: the other commands, the chain of \<^verbatim>\<open>adb_commandline\<close> and the function itself,
    all of \<^verbatim>\<open>client/commandline.cpp\<close>. \<open>DeviceProperties\<close>: C11, C12; \<open>CommandProperties\<close>: C27, C35 to C37.
  \<^item> \<open>ServerState\<close>: the server (record \<open>server\<close>): the loop, whose run queue holds the functions queued for
    the looper as values of \<open>server_fn\<close>, the transports by pointer and the two lists, the reconnect
    handler, the trackers, the listeners; the members of \<^verbatim>\<open>atransport\<close>. Calls into the socket layer, the
    connections and authentication are recorded in order in \<open>ext_trace\<close>.
  \<^item> \<open>Listeners\<close>: \<^verbatim>\<open>adb_listeners.cpp\<close>. \<open>Transport\<close>, \<open>TransportSelect\<close>: \<^verbatim>\<open>transport.cpp\<close>; its connections,
    \<^verbatim>\<open>FdConnection\<close> and \<^verbatim>\<open>BlockingConnectionAdapter\<close> (an inductive step relation of the threads and the
    callers), are in \<open>Connection\<close>. \<open>AdbCore\<close>, \<open>HostServices\<close>: \<^verbatim>\<open>client/adb.cpp\<close>; \<open>Process\<close>: its
    fork-and-exec \<^verbatim>\<open>launch_server\<close> and the report of a failed start, with daemon logging. \<open>ServerMain\<close>:
    \<^verbatim>\<open>client/main.cpp\<close>, with the launch inside the application.
  \<^item> \<open>ServerRef\<close>: a concrete server. \<open>ServerFrames\<close>: the locales \<open>notice_frame\<close>, \<open>server_frame\<close>,
    \<open>transport_frame\<close> and \<open>operation_frame\<close>, with the extensions \<open>start_frame\<close> and \<open>launch_frame\<close>, with what the operations leave
    alone. \<open>ConnectionProperties\<close> (C17 to C19),
    \<open>ListenerProperties\<close> and \<open>ServerProperties\<close> (C20 to C23), \<open>SelectProperties\<close> (C24, C39),
    \<open>LifeProperties\<close> (C29, C30). \<open>StartupProperties\<close> (C28, C31, C32) puts the
    launch together with \<open>adb_commandline\<close>.

  \<^bold>\<open>What the lemmas show\<close>

  \<^item> File sync: a pull stays inside its destination whatever the device lists; uploads decode at the
    receiver and downloads are exact; failures are reported for the right file and leave no partial file; the
    acknowledgement buffer is bounded, and the window of unacknowledged files after each transfer that succeeds.
  \<^item> Event loop: its tables stay consistent under every callback, whichever free address an fdevent gets; one
    event per turn.
  \<^item> Shell and bug reports: output is collected completely and processed by line however it is cut; a
    report goes to the directory of the user, under a plain name unless the device answers with one of the
    names that are let through (the two dots lead out of it).
  \<^item> Client: client and server mean the same device, whichever way the user selects it; no request leaves
    a descriptor open, besides what the launch of a server leaks; but the feature set of the first device is kept for the life of the process.
  \<^item> Installation: a session is committed only if every file was requested to be written, and is abandoned otherwise; a
    copy succeeds even if its writes fail, and an unreachable device aborts every installation but
    \<open>--no-streaming\<close>.
  \<^item> Commands: the global options parse back; every text can be typed to a shell; a sideload answers each
    request with exactly that block of the package and ends as the device says; what a command leaves behind for the next one in the
    same process: the variables of \<^verbatim>\<open>getopt\<close>, the selected transport, a timer that ends the process.
  \<^item> Connections: packets survive the wire; the adapter is first-in first-out under every interleaving, also
    when a write fails, reports one error at most, and its stop ends after a bounded number of steps.
  \<^item> Server: listeners and disconnects agree (no dangling transport) under every packet and request, except
    after a rejected authentication; the reverse table refines the map of the requests, and a device
    reaches only forwarded addresses, or what follows one after a NUL; the choice of a transport is the declared
    one; listings have a line per transport; the reconnect handler makes a bounded number of attempts for each
    transport and loses none; a relaunch switches it off.
  \<^item> Start: an executed server parses its command line to what it was launched for, the one inside the
    application owns every device whatever it was launched for, the other one what is called by the name it was
    launched for, which is not what its comment says; a failed start shows its part of the log.

  \<^bold>\<open>Fuel.\<close> Loops of the code whose end depends on the device or the world take fuel: the receive loops
  and directory walks of file sync (\<open>loop_fuel\<close>), \<open>parent_dirs\<close>, \<open>read_packets\<close>, \<open>fdevent_Loop\<close>,
  \<open>FlushRunQueue\<close>, \<open>flush_run_queue\<close>, \<open>install_smartsocket\<close>, and the loops over descriptors of the
  commands (\<open>copy_loop\<close>, \<open>read_status\<close>, \<open>serve_loop\<close>, \<open>stdin_loop\<close>, \<open>root_output\<close>, \<open>forward_both\<close>: \<open>loop_fuel\<close>;
  the blocks of a legacy sideload take one step more than there are bytes). Theorems that promise a result say how much is
  enough (one more than the number of messages, chunks or path components); the others hold for every fuel.

  \<^bold>\<open>Not modelled.\<close> Locks and condition variables (a step is what runs under a lock; the adapter's
  threads are interleaved explicitly, with its lock where a TLS handshake holds it); logging; device-side and Windows code (most of what is left of
  \<^verbatim>\<open>client/adb.cpp\<close>); signal handlers; the Linux-only re-execution of the server's binary in
  \<^verbatim>\<open>client/adb_client.cpp\<close> and the file that names it; fast deployment,
  whose macro the build does not define; the text of \<^verbatim>\<open>help\<close>. Fields of the environment, because their code is
  outside the repository: the emulator console, key generation, the incremental installer and its server. The
  threads of the client (shell input, the copies of \<^verbatim>\<open>raw\<close>) start as operations on the world; the body of the
  input thread is modelled, those of a bidirectional copy take rounds in the order of a schedule. The USB
  files of \<^verbatim>\<open>client/\<close> are stubs, the crypto headers declarations, the protobuf benchmark is vendored, the demo application and the build scripts are not C++ of the library.
\<close>

end
